(* ===== verification/SC_Prelude.thy ===== *)
theory SC_Prelude
  imports Main "HOL-Library.Char_ord" "HOL-Library.List_Lexorder"
begin

text \<open>
  Shared vocabulary of the development: the JavaScript notions every component uses
  (the nullish operator, insertion-ordered maps, the stable \<open>Array.prototype.sort\<close>,
  \<open>slice\<close>) and the lemmas the component theories share.

  Conventions.  \<open>null\<close> and \<open>undefined\<close> are both \<^const>\<open>None\<close> wherever the code treats
  them alike.  A \<^typ>\<open>string\<close> is a list of UTF-16 code units (those up to 255 are
  representable), compared lexicographically as JavaScript's \<open><\<close> compares strings.
\<close>

named_theorems js_simps \<open>unfolding rules of the JavaScript helper functions\<close>
named_theorems al_simps \<open>lookup rules of insertion-ordered maps\<close>

section \<open>Nullish values and truthiness\<close>

text \<open>\<open>a ?? b\<close> on values that may be null.\<close>

definition nullish :: "'a option \<Rightarrow> 'a option \<Rightarrow> 'a option" where
  "nullish a b = (case a of None \<Rightarrow> b | Some x \<Rightarrow> Some x)"

definition or_else :: "'a option \<Rightarrow> 'a \<Rightarrow> 'a" where
  "or_else a d = (case a of None \<Rightarrow> d | Some x \<Rightarrow> x)"

text \<open>A string that may be missing is truthy when it is there and not empty.\<close>

definition truthy :: "string option \<Rightarrow> bool" where
  "truthy s = (case s of None \<Rightarrow> False | Some t \<Rightarrow> t \<noteq> [])"

text \<open>\<open>s || null\<close> for a string that may be missing: the empty string becomes null.\<close>

definition str_or_null :: "string option \<Rightarrow> string option" where
  "str_or_null s = (if truthy s then s else None)"

lemma nullish_simps [simp, js_simps]:
  "nullish None b = b" "nullish (Some x) b = Some x" "nullish a None = a"
  by (simp_all add: nullish_def split: option.split)

lemma nullish_assoc [js_simps]: "nullish (nullish a b) c = nullish a (nullish b c)"
  by (cases a) simp_all

lemma nullish_same [simp]: "nullish a a = a"
  by (cases a) simp_all

lemma or_else_simps [simp, js_simps]:
  "or_else None d = d" "or_else (Some x) d = x"
  by (simp_all add: or_else_def)

lemma truthy_simps [simp, js_simps]:
  "truthy None = False" "truthy (Some s) = (s \<noteq> [])"
  by (simp_all add: truthy_def)

lemma str_or_null_simps [simp, js_simps]:
  "str_or_null None = None" "str_or_null (Some []) = None"
  "str_or_null (Some (c # cs)) = Some (c # cs)"
  by (simp_all add: str_or_null_def)

lemma truthy_iff: "truthy s \<longleftrightarrow> (\<exists>t. s = Some t \<and> t \<noteq> [])"
  by (cases s) simp_all

section \<open>Insertion-ordered maps\<close>

text \<open>
  A JavaScript \<open>Map\<close> (and an object used as a dictionary): setting an existing key keeps
  its place, a new key goes to the end.
\<close>

type_synonym ('k, 'v) jsmap = "('k \<times> 'v) list"

fun al_get :: "('k, 'v) jsmap \<Rightarrow> 'k \<Rightarrow> 'v option" where
  "al_get [] k = None"
| "al_get ((k', v) # m) k = (if k' = k then Some v else al_get m k)"

fun al_set :: "'k \<Rightarrow> 'v \<Rightarrow> ('k, 'v) jsmap \<Rightarrow> ('k, 'v) jsmap" where
  "al_set k v [] = [(k, v)]"
| "al_set k v ((k', v') # m) = (if k' = k then (k, v) # m else (k', v') # al_set k v m)"

definition al_del :: "'k \<Rightarrow> ('k, 'v) jsmap \<Rightarrow> ('k, 'v) jsmap" where
  "al_del k m = filter (\<lambda>p. fst p \<noteq> k) m"

definition al_has :: "('k, 'v) jsmap \<Rightarrow> 'k \<Rightarrow> bool" where
  "al_has m k = (al_get m k \<noteq> None)"

definition al_keys :: "('k, 'v) jsmap \<Rightarrow> 'k list" where
  "al_keys m = map fst m"

lemma al_get_set [simp, al_simps]: "al_get (al_set k v m) j = (if j = k then Some v else al_get m j)"
  by (induction m) auto

lemma al_get_del [simp, al_simps]: "al_get (al_del k m) j = (if j = k then None else al_get m j)"
  by (induction m) (auto simp: al_del_def)

lemma al_get_None: "al_get m k = None \<longleftrightarrow> k \<notin> fst ` set m"
  by (induction m) (auto split: if_splits)

lemma al_get_in_set: "al_get m k = Some v \<Longrightarrow> (k, v) \<in> set m"
  by (induction m) (auto split: if_splits)

lemma keys_al_set: "fst ` set (al_set k v m) = insert k (fst ` set m)"
  by (induction k v m rule: al_set.induct) (simp_all add: insert_commute)

lemma keys_al_del: "fst ` set (al_del k m) = fst ` set m - {k}"
  by (auto simp: al_del_def)

lemma distinct_al_set [simp]: "distinct (map fst m) \<Longrightarrow> distinct (map fst (al_set k v m))"
  by (induction m) (auto simp: keys_al_set image_iff)

lemma distinct_al_del [simp]: "distinct (map fst m) \<Longrightarrow> distinct (map fst (al_del k m))"
  by (induction m) (auto simp: al_del_def)

lemma set_al_set: "x \<in> set (al_set k v m) \<Longrightarrow> x = (k, v) \<or> x \<in> set m"
  by (induction m) (auto split: if_splits)

lemma al_get_eq_map_of: "al_get m = map_of m"
proof
  fix k show "al_get m k = map_of m k" by (induction m) auto
qed

text \<open>
  What a client of such a dictionary relies on.  The locale is interpreted on the
  insertion-ordered maps below; the object stores of the message database are another
  instance.
\<close>

locale dict =
  fixes get :: "'m \<Rightarrow> 'k \<Rightarrow> 'v option"
    and put :: "'k \<Rightarrow> 'v \<Rightarrow> 'm \<Rightarrow> 'm"
    and del :: "'k \<Rightarrow> 'm \<Rightarrow> 'm"
  assumes get_put: "get (put k v m) j = (if j = k then Some v else get m j)"
    and get_del: "get (del k m) j = (if j = k then None else get m j)"
begin

text \<open>A whole sequence of writes: the last write of a key wins.\<close>

definition put_all :: "('k \<times> 'v) list \<Rightarrow> 'm \<Rightarrow> 'm" where
  "put_all kvs m = fold (\<lambda>(k, v). put k v) kvs m"

lemma get_put_all: "get (put_all kvs m) k = (case map_of (rev kvs) k of None \<Rightarrow> get m k | Some v \<Rightarrow> Some v)"
  unfolding put_all_def
  by (induction kvs rule: rev_induct) (auto simp: get_put)

lemma put_all_frame: "k \<notin> fst ` set kvs \<Longrightarrow> get (put_all kvs m) k = get m k"
  unfolding put_all_def
  by (induction kvs arbitrary: m) (auto simp: get_put)

lemma del_put: "get (del k (put k v m)) j = get (del k m) j"
  by (simp add: get_put get_del)

end

interpretation al: dict al_get al_set al_del
  by unfold_locales simp_all

section \<open>Stable sorting and slices\<close>

text \<open>
  \<open>Array.prototype.sort\<close> with a comparator is stable; \<open>le a b\<close> stands for
  "the comparator of \<open>a\<close> and \<open>b\<close> is at most zero".
\<close>

fun insert_stable :: "('a \<Rightarrow> 'a \<Rightarrow> bool) \<Rightarrow> 'a \<Rightarrow> 'a list \<Rightarrow> 'a list" where
  "insert_stable le x [] = [x]"
| "insert_stable le x (y # ys) = (if le x y then x # y # ys else y # insert_stable le x ys)"

definition stable_sort :: "('a \<Rightarrow> 'a \<Rightarrow> bool) \<Rightarrow> 'a list \<Rightarrow> 'a list" where
  "stable_sort le xs = foldr (insert_stable le) xs []"

definition total_preorder :: "('a \<Rightarrow> 'a \<Rightarrow> bool) \<Rightarrow> bool" where
  "total_preorder le \<longleftrightarrow> (\<forall>x y. le x y \<or> le y x) \<and> (\<forall>x y z. le x y \<longrightarrow> le y z \<longrightarrow> le x z)"

lemma set_insert_stable [simp]: "set (insert_stable le x xs) = insert x (set xs)"
  by (induction xs) auto

lemma length_insert_stable [simp]: "length (insert_stable le x xs) = Suc (length xs)"
  by (induction xs) auto

lemma stable_sort_simps [simp]:
  "stable_sort le [] = []" "stable_sort le (x # xs) = insert_stable le x (stable_sort le xs)"
  by (simp_all add: stable_sort_def)

lemma set_stable_sort [simp]: "set (stable_sort le xs) = set xs"
  by (induction xs) auto

lemma length_stable_sort [simp]: "length (stable_sort le xs) = length xs"
  by (induction xs) auto

lemma stable_sort_eq_Nil [simp]: "stable_sort le xs = [] \<longleftrightarrow> xs = []"
  by (metis length_0_conv length_stable_sort)

lemma sorted_insert_stable:
  assumes "total_preorder le" "sorted_wrt le xs"
  shows "sorted_wrt le (insert_stable le x xs)"
  using assms(2)
proof (induction xs)
  case (Cons y ys)
  with assms(1) show ?case
    unfolding total_preorder_def by auto
qed simp

lemma sorted_stable_sort: "total_preorder le \<Longrightarrow> sorted_wrt le (stable_sort le xs)"
  by (induction xs) (auto intro: sorted_insert_stable)

lemma filter_insert_stable_neg [simp]: "\<not> P x \<Longrightarrow> filter P (insert_stable le x xs) = filter P xs"
  by (induction xs) auto

lemma distinct_insert_stable [simp]: "distinct (insert_stable le x xs) \<longleftrightarrow> x \<notin> set xs \<and> distinct xs"
  by (induction xs) auto

lemma distinct_stable_sort [simp]: "distinct (stable_sort le xs) \<longleftrightarrow> distinct xs"
  by (induction xs) auto

lemma total_preorder_le_key: "total_preorder (\<lambda>a b. f a \<le> (f b :: 'k :: linorder))"
  unfolding total_preorder_def by auto

text \<open>\<open>xs.slice(-n)\<close>: the last \<open>n\<close> elements; JavaScript's \<open>slice(-0)\<close> is the whole array.\<close>

definition slice_last :: "nat \<Rightarrow> 'a list \<Rightarrow> 'a list" where
  "slice_last n xs = (if n = 0 then xs else drop (length xs - n) xs)"

lemma length_slice_last: "n > 0 \<Longrightarrow> length (slice_last n xs) = min n (length xs)"
  by (auto simp: slice_last_def)

lemma set_slice_last: "set (slice_last n xs) \<subseteq> set xs"
  by (simp add: slice_last_def set_drop_subset)

lemma sorted_wrt_drop: "sorted_wrt le xs \<Longrightarrow> sorted_wrt le (drop n xs)"
  by (metis append_take_drop_id sorted_wrt_append)

lemma sorted_wrt_slice_last: "sorted_wrt le xs \<Longrightarrow> sorted_wrt le (slice_last n xs)"
  by (simp add: slice_last_def sorted_wrt_drop)

section \<open>The first element that fits\<close>

lemma find_append: "find P (xs @ ys) = (case find P xs of None \<Rightarrow> find P ys | Some x \<Rightarrow> Some x)"
  by (induction xs) auto

lemma find_in: "find P xs = Some y \<Longrightarrow> y \<in> set xs \<and> P y"
  by (auto simp: find_Some_iff)

lemma find_map_keep: "(\<And>z. P (f z) = P z) \<Longrightarrow> find P (map f xs) = map_option f (find P xs)"
  by (induction xs) auto

lemma find_last: "\<forall>z \<in> set xs. \<not> P z \<Longrightarrow> P y \<Longrightarrow> find P (xs @ [y]) = Some y"
  by (induction xs) auto

end
