(* ===== verification/Js_Json.thy ===== *)
theory Js_Json
  imports SC_Prelude
begin

text \<open>
  JavaScript values as the program exchanges them, and the two standard functions that
  move them through text: \<open>JSON.stringify\<close> and \<open>JSON.parse\<close>, with the round trip.

  Numbers are the integers (the documents of this program hold no others); an object is
  an insertion-ordered map of its own keys.  \<open>undefined\<close> can be a field of a published
  object, and is dropped by \<open>stringify\<close> as the language does.  The parser is a recursive
  descent over the text with fuel; \<open>p_fuel\<close> bounds it by the length of the input
  (every call that does not consume a character is followed by one that does).
\<close>

datatype jsval = JUndef | JNull | JBool bool | JNum int | JStr string
  | JArr "jsval list" | JObj "(string \<times> jsval) list"

section \<open>Characters, strings and numbers\<close>

abbreviation ccode :: "char \<Rightarrow> nat" where
  "ccode c \<equiv> of_char c"

definition hex_digit :: "nat \<Rightarrow> char" where
  "hex_digit n = (if n < 10 then char_of (48 + n) else char_of (87 + n))"

definition hex_value :: "char \<Rightarrow> nat option" where
  "hex_value c = (let n = ccode c in
     if 48 \<le> n \<and> n \<le> 57 then Some (n - 48)
     else if 97 \<le> n \<and> n \<le> 102 then Some (n - 87)
     else if 65 \<le> n \<and> n \<le> 70 then Some (n - 55) else None)"

text \<open>One character inside a JSON string: the two-character escapes, \<open>\u00xx\<close>, or itself.\<close>

definition esc_char :: "char \<Rightarrow> string" where
  "esc_char c =
     (if c = CHR 0x22 then [CHR 0x5C, CHR 0x22]
      else if c = CHR 0x5C then [CHR 0x5C, CHR 0x5C]
      else if c = CHR 0x08 then [CHR 0x5C, CHR ''b'']
      else if c = CHR 0x0C then [CHR 0x5C, CHR ''f'']
      else if c = CHR 0x0A then [CHR 0x5C, CHR ''n'']
      else if c = CHR 0x0D then [CHR 0x5C, CHR ''r'']
      else if c = CHR 0x09 then [CHR 0x5C, CHR ''t'']
      else if ccode c < 32
        then [CHR 0x5C, CHR ''u'', CHR ''0'', CHR ''0'', hex_digit (ccode c div 16), hex_digit (ccode c mod 16)]
      else [c])"

definition quote :: "string \<Rightarrow> string" where
  "quote s = CHR 0x22 # concat (map esc_char s) @ [CHR 0x22]"

fun nat_digits :: "nat \<Rightarrow> string" where
  "nat_digits n = (if n < 10 then [char_of (48 + n)] else nat_digits (n div 10) @ [char_of (48 + n mod 10)])"

declare nat_digits.simps [simp del]

definition int_text :: "int \<Rightarrow> string" where
  "int_text i = (if i < 0 then CHR ''-'' # nat_digits (nat (- i)) else nat_digits (nat i))"

fun join_with :: "string \<Rightarrow> string list \<Rightarrow> string" where
  "join_with sep [] = []"
| "join_with sep [x] = x"
| "join_with sep (x # y # ys) = x @ sep @ join_with sep (y # ys)"

section \<open>stringify\<close>

text \<open>\<open>JSON.stringify\<close>: undefined members of an object are left out, undefined array elements print as null.\<close>

fun stringify :: "jsval \<Rightarrow> string" where
  "stringify JUndef = ''null''"
| "stringify JNull = ''null''"
| "stringify (JBool b) = (if b then ''true'' else ''false'')"
| "stringify (JNum i) = int_text i"
| "stringify (JStr s) = quote s"
| "stringify (JArr xs) = ''['' @ join_with '','' (map stringify xs) @ '']''"
| "stringify (JObj kvs) = ''{'' @ join_with '','' (concat (map (\<lambda>kv.
     if snd kv = JUndef then [] else [quote (fst kv) @ '':'' @ stringify (snd kv)]) kvs)) @ ''}''"

section \<open>parse\<close>

definition is_ws :: "char \<Rightarrow> bool" where
  "is_ws c = (c = CHR 0x20 \<or> c = CHR 0x09 \<or> c = CHR 0x0A \<or> c = CHR 0x0D)"

definition skip_ws :: "string \<Rightarrow> string" where
  "skip_ws s = dropWhile is_ws s"

definition is_digit :: "char \<Rightarrow> bool" where
  "is_digit c = (48 \<le> ccode c \<and> ccode c \<le> 57)"

definition unesc :: "char \<Rightarrow> char option" where
  "unesc e =
     (if e = CHR 0x22 \<or> e = CHR 0x5C \<or> e = CHR ''/'' then Some e
      else if e = CHR ''b'' then Some (CHR 0x08) else if e = CHR ''f'' then Some (CHR 0x0C)
      else if e = CHR ''n'' then Some (CHR 0x0A) else if e = CHR ''r'' then Some (CHR 0x0D)
      else if e = CHR ''t'' then Some (CHR 0x09) else None)"

definition hex4 :: "char \<Rightarrow> char \<Rightarrow> char \<Rightarrow> char \<Rightarrow> char option" where
  "hex4 a b c d = (case (hex_value a, hex_value b, hex_value c, hex_value d) of
     (Some w, Some x, Some y, Some z) \<Rightarrow>
       (let n = 4096 * w + 256 * x + 16 * y + z in if n < 256 then Some (char_of n) else None)
   | _ \<Rightarrow> None)"

text \<open>The rest of a string literal, after its opening quote.\<close>

fun p_str :: "string \<Rightarrow> (string \<times> string) option" where
  "p_str [] = None"
| "p_str (c # cs) =
     (if c = CHR 0x22 then Some ([], cs)
      else if c = CHR 0x5C then
        (case cs of
           [] \<Rightarrow> None
         | e # ds \<Rightarrow>
             if e = CHR ''u'' then
               (case ds of
                  h1 # h2 # h3 # h4 # r \<Rightarrow>
                    (case hex4 h1 h2 h3 h4 of
                       None \<Rightarrow> None
                     | Some x \<Rightarrow> map_option (\<lambda>(s, t). (x # s, t)) (p_str r))
                | _ \<Rightarrow> None)
             else
               (case unesc e of
                  None \<Rightarrow> None
                | Some x \<Rightarrow> map_option (\<lambda>(s, t). (x # s, t)) (p_str ds)))
      else if ccode c < 32 then None
      else map_option (\<lambda>(s, t). (c # s, t)) (p_str cs))"

fun p_digits :: "nat \<Rightarrow> string \<Rightarrow> nat \<times> string" where
  "p_digits acc [] = (acc, [])"
| "p_digits acc (c # cs) = (if is_digit c then p_digits (10 * acc + (ccode c - 48)) cs else (acc, c # cs))"

text \<open>An integer literal has no leading zero: after a \<open>0\<close> the literal is over.\<close>

definition p_nat :: "string \<Rightarrow> nat \<times> string" where
  "p_nat s = (case s of c # cs \<Rightarrow> if c = CHR ''0'' then (0, cs) else p_digits 0 s | [] \<Rightarrow> (0, []))"

definition p_num :: "string \<Rightarrow> (jsval \<times> string) option" where
  "p_num s = (case s of
     [] \<Rightarrow> None
   | c # cs \<Rightarrow>
       if c = CHR ''-'' then
         (case cs of d # ds \<Rightarrow> if is_digit d then (let (n, r) = p_nat cs in Some (JNum (- int n), r)) else None
          | [] \<Rightarrow> None)
       else if is_digit c then (let (n, r) = p_nat s in Some (JNum (int n), r)) else None)"

definition p_word :: "string \<Rightarrow> jsval \<Rightarrow> string \<Rightarrow> (jsval \<times> string) option" where
  "p_word w v s = (if take (length w) s = w then Some (v, drop (length w) s) else None)"

text \<open>Members of an object read in order; a repeated key keeps its place and takes the later value.\<close>

definition obj_of :: "(string \<times> jsval) list \<Rightarrow> jsval" where
  "obj_of kvs = JObj (fold (\<lambda>(k, v). al_set k v) kvs [])"

fun p_val :: "nat \<Rightarrow> string \<Rightarrow> (jsval \<times> string) option"
and p_elems :: "nat \<Rightarrow> string \<Rightarrow> (jsval list \<times> string) option"
and p_members :: "nat \<Rightarrow> string \<Rightarrow> ((string \<times> jsval) list \<times> string) option" where
  "p_val 0 s = None"
| "p_val (Suc n) s = (case skip_ws s of
     [] \<Rightarrow> None
   | c # r \<Rightarrow>
       if c = CHR 0x22 then map_option (\<lambda>(t, u). (JStr t, u)) (p_str r)
       else if c = CHR ''['' then
         (case skip_ws r of
            d # r' \<Rightarrow> if d = CHR '']'' then Some (JArr [], r')
                      else map_option (\<lambda>(vs, u). (JArr vs, u)) (p_elems n r)
          | [] \<Rightarrow> None)
       else if c = CHR ''{'' then
         (case skip_ws r of
            d # r' \<Rightarrow> if d = CHR ''}'' then Some (JObj [], r')
                      else map_option (\<lambda>(kvs, u). (obj_of kvs, u)) (p_members n r)
          | [] \<Rightarrow> None)
       else if c = CHR ''t'' then p_word ''true'' (JBool True) (c # r)
       else if c = CHR ''f'' then p_word ''false'' (JBool False) (c # r)
       else if c = CHR ''n'' then p_word ''null'' JNull (c # r)
       else p_num (c # r))"
| "p_elems 0 s = None"
| "p_elems (Suc n) s = (case p_val n s of
     None \<Rightarrow> None
   | Some (v, r) \<Rightarrow>
       (case skip_ws r of
          d # r' \<Rightarrow> if d = CHR '']'' then Some ([v], r')
                    else if d = CHR '','' then map_option (\<lambda>(vs, u). (v # vs, u)) (p_elems n r')
                    else None
        | [] \<Rightarrow> None))"
| "p_members 0 s = None"
| "p_members (Suc n) s = (case skip_ws s of
     [] \<Rightarrow> None
   | q # r \<Rightarrow>
       if q \<noteq> CHR 0x22 then None
       else (case p_str r of
          None \<Rightarrow> None
        | Some (k, r1) \<Rightarrow>
            (case skip_ws r1 of
               [] \<Rightarrow> None
             | e # r2 \<Rightarrow>
                 if e \<noteq> CHR '':'' then None
                 else (case p_val n r2 of
                    None \<Rightarrow> None
                  | Some (v, r3) \<Rightarrow>
                      (case skip_ws r3 of
                         [] \<Rightarrow> None
                       | d # r4 \<Rightarrow>
                           if d = CHR ''}'' then Some ([(k, v)], r4)
                           else if d = CHR '','' then map_option (\<lambda>(kvs, u). ((k, v) # kvs, u)) (p_members n r4)
                           else None)))))"

definition p_fuel :: "string \<Rightarrow> nat" where
  "p_fuel s = 2 * length s + 2"

definition json_parse :: "string \<Rightarrow> jsval option" where
  "json_parse s = (case p_val (p_fuel s) s of
     None \<Rightarrow> None
   | Some (v, r) \<Rightarrow> if skip_ws r = [] then Some v else None)"

section \<open>The round trip\<close>

text \<open>What the round trip needs of a value: no undefined inside, and object keys that are distinct.\<close>

fun jclean :: "jsval \<Rightarrow> bool" where
  "jclean JUndef = False"
| "jclean (JArr xs) = (\<forall>x \<in> set xs. jclean x)"
| "jclean (JObj kvs) = (distinct (map fst kvs) \<and> (\<forall>kv \<in> set kvs. jclean (snd kv)))"
| "jclean _ = True"

lemma hex_value_digit [simp]: "n < 16 \<Longrightarrow> hex_value (hex_digit n) = Some n"
  by (auto simp: hex_value_def hex_digit_def Let_def)

lemma hex4_low [simp]: "n < 32 \<Longrightarrow> hex4 (CHR ''0'') (CHR ''0'') (hex_digit (n div 16)) (hex_digit (n mod 16)) = Some (char_of n)"
proof -
  assume n: "n < 32"
  have "hex_value (CHR ''0'') = Some 0" by (simp add: hex_value_def)
  moreover have "16 * (n div 16) + n mod 16 = n" by simp
  ultimately show ?thesis using n
    by (simp add: hex4_def Let_def mult.commute div_less_iff_less_mult)
qed

lemma p_str_esc: "p_str (esc_char c @ t) = map_option (\<lambda>(s, u). (c # s, u)) (p_str t)"
  by (auto simp: esc_char_def unesc_def)

lemma p_str_quote [simp]: "p_str (concat (map esc_char s) @ CHR 0x22 # r) = Some (s, r)"
  by (induction s) (simp_all add: p_str_esc)

definition ends_num :: "string \<Rightarrow> bool" where
  "ends_num r = (case r of [] \<Rightarrow> True | c # _ \<Rightarrow> \<not> is_digit c)"

lemma p_digits_stop [simp]: "ends_num r \<Longrightarrow> p_digits acc r = (acc, r)"
  by (cases r) (auto simp: ends_num_def)

lemma char_of_zero_digit [simp]: "char_of (48 :: nat) = CHR ''0''"
  using char_of_char [where 'a = nat, of "CHR ''0''"] by simp

lemma is_digit_char [simp]: "(n :: nat) < 10 \<Longrightarrow> is_digit (char_of (48 + n))"
  by (simp add: is_digit_def)

lemma p_digits_nat: "p_digits acc (nat_digits n @ r) = p_digits (acc * 10 ^ length (nat_digits n) + n) r"
proof (induction n arbitrary: acc r rule: nat_digits.induct)
  case (1 n)
  show ?case
  proof (cases "n < 10")
    case True
    then show ?thesis by (simp add: nat_digits.simps [of n] mult.commute)
  next
    case False
    have d: "is_digit (char_of (48 + n mod 10))" by simp
    have "10 * (n div 10) + n mod 10 = n" by simp
    then show ?thesis using 1 [OF False, of acc "char_of (48 + n mod 10) # r"] d False
      by (simp add: nat_digits.simps [of n] algebra_simps)
  qed
qed

lemma nat_digits_hd: "\<exists>c cs. nat_digits n = c # cs \<and> is_digit c \<and> (c = CHR ''0'' \<longleftrightarrow> n = 0) \<and> (n = 0 \<longrightarrow> cs = [])"
proof (induction n rule: nat_digits.induct)
  case (1 n)
  show ?case
  proof (cases "n < 10")
    case True
    have "char_of (48 + n) = CHR ''0'' \<longleftrightarrow> n = 0"
    proof
      assume "char_of (48 + n) = CHR ''0''"
      then have "ccode (char_of (48 + n)) = (48 :: nat)" by simp
      with True show "n = 0" by simp
    qed simp
    with True show ?thesis by (simp add: nat_digits.simps [of n])
  next
    case False
    with 1 show ?thesis by (auto simp: nat_digits.simps [of n])
  qed
qed

lemma p_nat_digits [simp]: "ends_num r \<Longrightarrow> p_nat (nat_digits n @ r) = (n, r)"
proof -
  assume r: "ends_num r"
  obtain c cs where c: "nat_digits n = c # cs" "c = CHR ''0'' \<longleftrightarrow> n = 0" "n = 0 \<longrightarrow> cs = []"
    using nat_digits_hd by blast
  show ?thesis
  proof (cases "n = 0")
    case True
    with c show ?thesis by (simp add: p_nat_def)
  next
    case False
    with c have "p_nat (nat_digits n @ r) = p_digits 0 (nat_digits n @ r)" by (simp add: p_nat_def)
    also have "\<dots> = (n, r)" using r by (simp add: p_digits_nat)
    finally show ?thesis .
  qed
qed

lemma p_num_int: "ends_num r \<Longrightarrow> p_num (int_text i @ r) = Some (JNum i, r)"
proof -
  assume r: "ends_num r"
  obtain c cs where c: "nat_digits (nat \<bar>i\<bar>) = c # cs" "is_digit c"
    using nat_digits_hd by blast
  have m: "c \<noteq> CHR ''-''" using c(2) by (auto simp: is_digit_def)
  have n: "p_nat (c # cs @ r) = (nat \<bar>i\<bar>, r)" using p_nat_digits [OF r, of "nat \<bar>i\<bar>"] c by simp
  show ?thesis using c m n by (cases "i < 0") (simp_all add: int_text_def p_num_def)
qed

text \<open>How a printed value begins, and what may follow it.\<close>

definition ends_val :: "string \<Rightarrow> bool" where
  "ends_val r = (case r of [] \<Rightarrow> True | c # _ \<Rightarrow> c = CHR '','' \<or> c = CHR '']'' \<or> c = CHR ''}'')"

lemma ends_val_num: "ends_val r \<Longrightarrow> ends_num r"
  by (auto simp: ends_val_def ends_num_def is_digit_def split: list.splits)

lemma ends_val_simps [simp]:
  "ends_val []" "ends_val (CHR '','' # r)" "ends_val (CHR '']'' # r)" "ends_val (CHR ''}'' # r)"
  by (simp_all add: ends_val_def)

lemma skip_ws_simps [simp]:
  "skip_ws [] = []" "skip_ws (c # s) = (if is_ws c then skip_ws s else c # s)"
  by (simp_all add: skip_ws_def)

lemma not_ws [simp]:
  "\<not> is_ws (CHR 0x22)" "\<not> is_ws (CHR '':'')" "\<not> is_ws (CHR '','')" "\<not> is_ws (CHR ''['')"
  "\<not> is_ws (CHR '']'')" "\<not> is_ws (CHR ''{'')" "\<not> is_ws (CHR ''}'')" "\<not> is_ws (CHR ''t'')"
  "\<not> is_ws (CHR ''f'')" "\<not> is_ws (CHR ''n'')" "\<not> is_ws (CHR ''-'')"
  by (simp_all add: is_ws_def)

lemma int_text_hd: "\<exists>c cs. int_text i = c # cs \<and> (is_digit c \<or> c = CHR ''-'')"
proof (cases "i < 0")
  case False
  obtain c cs where "nat_digits (nat i) = c # cs" "is_digit c" using nat_digits_hd by blast
  with False show ?thesis by (simp add: int_text_def)
qed (simp add: int_text_def)

lemma digit_not_special: "is_digit c \<or> c = CHR ''-'' \<Longrightarrow> \<not> is_ws c \<and> c \<notin> {CHR 0x22, CHR ''['', CHR ''{'', CHR '']'', CHR ''}'', CHR ''t'', CHR ''f'', CHR ''n''}"
  by (auto simp: is_ws_def is_digit_def)

lemma stringify_hd: "\<exists>c cs. stringify v = c # cs \<and> \<not> is_ws c \<and> c \<noteq> CHR '']'' \<and> c \<noteq> CHR ''}''"
proof (cases v)
  case (JNum i)
  obtain c cs where "int_text i = c # cs" "is_digit c \<or> c = CHR ''-''" using int_text_hd by blast
  with digit_not_special [of c] JNum show ?thesis by auto
qed (auto simp: quote_def is_ws_def)

lemma stringify_length: "0 < length (stringify v)"
  using stringify_hd [of v] by auto

abbreviation members_text :: "(string \<times> jsval) list \<Rightarrow> string list" where
  "members_text kvs \<equiv> map (\<lambda>kv. quote (fst kv) @ '':'' @ stringify (snd kv)) kvs"

lemma concat_members:
  "\<forall>kv \<in> set kvs. snd kv \<noteq> JUndef \<Longrightarrow>
   concat (map (\<lambda>kv. if snd kv = JUndef then [] else [quote (fst kv) @ '':'' @ stringify (snd kv)]) kvs) = members_text kvs"
  by (induction kvs) auto

lemma jclean_not_undef: "jclean v \<Longrightarrow> v \<noteq> JUndef"
  by auto

text \<open>A printed value is read back, whatever follows it, once there is fuel for its length.\<close>

definition reads :: "jsval \<Rightarrow> bool" where
  "reads v \<longleftrightarrow> (\<forall>n r. 2 * length (stringify v) < n \<longrightarrow> ends_val r \<longrightarrow> p_val n (stringify v @ r) = Some (v, r))"

lemma readsD: "reads v \<Longrightarrow> 2 * length (stringify v) < n \<Longrightarrow> ends_val r \<Longrightarrow> p_val n (stringify v @ r) = Some (v, r)"
  by (simp add: reads_def)

lemma p_elems_join:
  assumes "xs \<noteq> []" "\<forall>x \<in> set xs. reads x" "2 * length (join_with '','' (map stringify xs)) + 2 \<le> n"
  shows "p_elems n (join_with '','' (map stringify xs) @ CHR '']'' # r) = Some (xs, r)"
  using assms
proof (induction xs arbitrary: n)
  case (Cons x xs)
  from Cons.prems obtain m where m: "n = Suc m" by (cases n) auto
  show ?case
  proof (cases xs)
    case Nil
    with Cons.prems m show ?thesis by (simp add: readsD)
  next
    case (Cons y ys)
    let ?t = "join_with '','' (map stringify xs) @ CHR '']'' # r"
    from Cons.prems m Cons have "p_val m (stringify x @ CHR '','' # ?t) = Some (x, CHR '','' # ?t)"
      by (intro readsD) auto
    moreover have "p_elems m ?t = Some (xs, r)"
      using Cons.prems m Cons stringify_length [of x] by (intro Cons.IH) auto
    ultimately show ?thesis using m Cons by simp
  qed
qed simp

lemma p_members_join:
  assumes "kvs \<noteq> []" "\<forall>kv \<in> set kvs. reads (snd kv)" "2 * length (join_with '','' (members_text kvs)) + 2 \<le> n"
  shows "p_members n (join_with '','' (members_text kvs) @ CHR ''}'' # r) = Some (kvs, r)"
  using assms
proof (induction kvs arbitrary: n)
  case (Cons kv kvs)
  obtain k v where kv: "kv = (k, v)" by (cases kv)
  from Cons.prems obtain m where m: "n = Suc m" by (cases n) auto
  show ?case
  proof (cases kvs)
    case Nil
    with Cons.prems m kv show ?thesis by (simp add: readsD quote_def)
  next
    case (Cons y ys)
    let ?t = "join_with '','' (members_text kvs) @ CHR ''}'' # r"
    from Cons.prems m Cons kv have "p_val m (stringify v @ CHR '','' # ?t) = Some (v, CHR '','' # ?t)"
      by (intro readsD) auto
    moreover have "p_members m ?t = Some (kvs, r)"
      using Cons.prems m Cons kv by (intro Cons.IH) auto
    ultimately show ?thesis using m Cons kv by (simp add: quote_def)
  qed
qed simp

lemma fold_al_set_distinct:
  "distinct (map fst (acc @ kvs)) \<Longrightarrow> fold (\<lambda>(k, v). al_set k v) kvs acc = acc @ kvs"
proof (induction kvs arbitrary: acc)
  case (Cons kv kvs)
  obtain k v where kv: "kv = (k, v)" by (cases kv)
  have "k \<notin> fst ` set acc \<Longrightarrow> al_set k v acc = acc @ [(k, v)]"
    by (induction acc) auto
  with Cons kv show ?case by simp
qed simp

lemma obj_of_distinct: "distinct (map fst kvs) \<Longrightarrow> obj_of kvs = JObj kvs"
  using fold_al_set_distinct [of "[]" kvs] by (simp add: obj_of_def)

lemma fuel_Suc: "a < (n :: nat) \<Longrightarrow> \<exists>m. n = Suc m"
  by (cases n) auto

lemma reads_word: "reads JNull" "reads (JBool b)"
  unfolding reads_def by (auto simp: p_word_def dest!: fuel_Suc)

lemma reads_str: "reads (JStr t)"
  unfolding reads_def by (auto simp: quote_def dest!: fuel_Suc)

lemma reads_num: "reads (JNum i)"
proof -
  obtain c cs where c: "int_text i = c # cs" "is_digit c \<or> c = CHR ''-''" using int_text_hd by blast
  have d: "c \<noteq> CHR 0x22" "c \<noteq> CHR ''[''" "c \<noteq> CHR ''{''" "c \<noteq> CHR ''t''" "c \<noteq> CHR ''f''" "c \<noteq> CHR ''n''" "\<not> is_ws c"
    using digit_not_special [OF c(2)] by auto
  show ?thesis
    unfolding reads_def
  proof (intro allI impI)
    fix n r assume "2 * length (stringify (JNum i)) < n" and r: "ends_val r"
    then obtain m where n: "n = Suc m" by (cases n) auto
    show "p_val n (stringify (JNum i) @ r) = Some (JNum i, r)"
      using p_num_int [OF ends_val_num [OF r], of i] c d n by simp
  qed
qed

lemma join_hd: "\<exists>c cs. f x = c # cs \<and> Q c \<Longrightarrow> \<exists>c cs. join_with sep (map f (x # xs)) = c # cs \<and> Q c"
  by (cases xs) auto

lemma reads_arr: assumes "\<forall>x \<in> set xs. reads x" shows "reads (JArr xs)"
  unfolding reads_def
proof (intro allI impI)
  fix n r assume n: "2 * length (stringify (JArr xs)) < n" and r: "ends_val r"
  then obtain m where m: "n = Suc m" by (cases n) auto
  show "p_val n (stringify (JArr xs) @ r) = Some (JArr xs, r)"
  proof (cases xs)
    case Nil
    with m show ?thesis by simp
  next
    case (Cons y ys)
    let ?j = "join_with '','' (map stringify xs)"
    obtain c cs where c: "?j = c # cs" "\<not> is_ws c \<and> c \<noteq> CHR '']'' \<and> c \<noteq> CHR ''}''"
      using join_hd [of stringify y "\<lambda>c. \<not> is_ws c \<and> c \<noteq> CHR '']'' \<and> c \<noteq> CHR ''}''" "'',''" ys]
        stringify_hd [of y] Cons by auto
    have "p_elems m (?j @ CHR '']'' # r) = Some (xs, r)"
      using Cons assms n m by (intro p_elems_join) auto
    with c m show ?thesis by simp
  qed
qed

lemma reads_obj:
  assumes "\<forall>kv \<in> set kvs. reads (snd kv) \<and> snd kv \<noteq> JUndef" "distinct (map fst kvs)"
  shows "reads (JObj kvs)"
  unfolding reads_def
proof (intro allI impI)
  fix n r assume n: "2 * length (stringify (JObj kvs)) < n" and r: "ends_val r"
  then obtain m where m: "n = Suc m" by (cases n) auto
  have t: "stringify (JObj kvs) = ''{'' @ join_with '','' (members_text kvs) @ ''}''"
    using assms(1) by (simp add: concat_members)
  show "p_val n (stringify (JObj kvs) @ r) = Some (JObj kvs, r)"
  proof (cases kvs)
    case Nil
    with m show ?thesis by simp
  next
    case (Cons y ys)
    let ?j = "join_with '','' (members_text kvs)"
    obtain c cs where c: "?j = c # cs" "c = CHR 0x22"
      using join_hd [of "\<lambda>kv. quote (fst kv) @ '':'' @ stringify (snd kv)" y "\<lambda>c. c = CHR 0x22" "'',''" ys] Cons
      by (auto simp: quote_def)
    have "p_members m (?j @ CHR ''}'' # r) = Some (kvs, r)"
      using Cons assms n m t by (intro p_members_join) auto
    with c m t show ?thesis using obj_of_distinct [OF assms(2)] by simp
  qed
qed

lemma jclean_reads: "jclean v \<Longrightarrow> reads v"
proof (induction v)
  case (JObj kvs)
  have "\<forall>kv \<in> set kvs. reads (snd kv) \<and> snd kv \<noteq> JUndef"
  proof
    fix kv assume kv: "kv \<in> set kvs"
    then have "jclean (snd kv)" using JObj.prems by auto
    moreover have "snd kv \<in> Basic_BNFs.snds kv" by (cases kv) simp
    ultimately show "reads (snd kv) \<and> snd kv \<noteq> JUndef" using JObj.IH kv jclean_not_undef by blast
  qed
  then show ?case using JObj.prems by (intro reads_obj) auto
qed (auto intro: reads_word reads_str reads_num reads_arr)

lemma json_roundtrip: "jclean v \<Longrightarrow> json_parse (stringify v) = Some v"
  using readsD [OF jclean_reads, of v "p_fuel (stringify v)" "[]"]
  by (simp add: json_parse_def p_fuel_def)

end
