(* ===== verification/Chat_Sync.thy ===== *)
theory Chat_Sync
  imports Js_Json Complex_Main
begin

text \<open>
  \<open>web-portal/src/engine/chatSyncCore.js\<close>: the pure part of chat delivery and catch-up.
  A stored row and the rules that merge an incoming copy into it, what to ask peers for and
  what to answer, and the backfill bundle with its size budget.

  \<open>String.prototype.localeCompare\<close> depends on the host's collation, and \<open>Date.parse\<close> on the
  host for texts that are not ISO dates: the collation \<open>lc\<close> (\<open>a.localeCompare(b) \<le> 0\<close>) and
  the date functions are arguments.
\<close>

section \<open>Constants\<close>

definition SYNC_REPLY_MAX :: nat where "SYNC_REPLY_MAX = 200"
definition SYNC_JITTER_MS :: nat where "SYNC_JITTER_MS = 1500"
definition BUNDLE_MAX_BYTES :: nat where "BUNDLE_MAX_BYTES = 48000"
definition BUNDLE_VERSION :: int where "BUNDLE_VERSION = 1"
definition MAX_DECRYPT_ATTEMPTS :: nat where "MAX_DECRYPT_ATTEMPTS = 8"
definition TERMINAL_FAIL_REASONS :: "string list" where
  "TERMINAL_FAIL_REASONS = [''epoch_too_old'', ''corrupt'']"

section \<open>Rows\<close>

text \<open>
  The fields a channel row and a DM row share; the two kinds extend it.  An incoming message
  has the same shape with fields missing (\<^const>\<open>None\<close>); a missing id is the empty string,
  as the code only tests it for being falsy.
\<close>

record row =
  row_id :: string
  sender_id :: "string option"
  callsign :: "string option"
  encrypted_content :: "string option"
  plaintext :: "string option"
  timestamp :: "string option"
  received_at :: "string option"
  pending :: bool
  fail_reason :: "string option"
  attempts :: "nat option"
  relayed_by :: "string option"

record chan_row = row +
  channel_id :: "string option"
  global_tag :: "string option"
  image_url :: "string option"

record dm_row = row +
  conversation_id :: "string option"
  to_user_id :: "string option"

record date_lib =
  date_parse :: "string \<Rightarrow> int option"
  date_iso :: "int \<Rightarrow> string"

type_synonym collation = "string \<Rightarrow> string \<Rightarrow> bool"

definition isReadable :: "('a row_scheme) option \<Rightarrow> bool" where
  "isReadable r = (case r of None \<Rightarrow> False | Some x \<Rightarrow> plaintext x \<noteq> None)"

definition ts_key :: "'a row_scheme \<Rightarrow> string" where
  "ts_key r = or_else (timestamp r) []"

definition sortByTimestamp :: "collation \<Rightarrow> 'a row_scheme list \<Rightarrow> 'a row_scheme list" where
  "sortByTimestamp lc rows = stable_sort (\<lambda>a b. lc (ts_key a) (ts_key b)) rows"

text \<open>The common part of \<open>normalizeRow\<close> and \<open>normalizeDmRow\<close>: defaults filled, on whichever row kind.\<close>

definition normalize_common :: "string \<Rightarrow> 'a row_scheme \<Rightarrow> 'a row_scheme" where
  "normalize_common now m = m\<lparr>
     received_at := nullish (received_at m) (Some now),
     pending := (plaintext m = None),
     fail_reason := (if plaintext m \<noteq> None then None else fail_reason m),
     attempts := Some (if plaintext m \<noteq> None then 0 else or_else (attempts m) 0)\<rparr>"

definition normalizeRow :: "string \<Rightarrow> chan_row \<Rightarrow> string option \<Rightarrow> chan_row" where
  "normalizeRow now m chan = (normalize_common now m)\<lparr>channel_id := nullish chan (channel_id m)\<rparr>"

definition normalizeDmRow :: "string \<Rightarrow> dm_row \<Rightarrow> string option \<Rightarrow> dm_row" where
  "normalizeDmRow now m conv = (normalize_common now m)\<lparr>conversation_id := nullish conv (conversation_id m)\<rparr>"

definition mergeNormalized :: "'a row_scheme option \<Rightarrow> 'a row_scheme \<Rightarrow> 'a row_scheme option" where
  "mergeNormalized existing nxt = (case existing of
     None \<Rightarrow> Some nxt
   | Some ex \<Rightarrow>
       if isReadable (Some ex) then None
       else if isReadable (Some nxt) then
         Some (nxt\<lparr>encrypted_content := nullish (encrypted_content nxt) (encrypted_content ex),
                   received_at := nullish (received_at ex) (received_at nxt)\<rparr>)
       else
         let merged = ex\<lparr>pending := True,
                encrypted_content := nullish (encrypted_content ex) (encrypted_content nxt),
                fail_reason := nullish (fail_reason nxt) (fail_reason ex),
                attempts := Some (max (or_else (attempts ex) 0) (or_else (attempts nxt) 0))\<rparr>;
             same = (encrypted_content merged = encrypted_content ex
                \<and> fail_reason merged = fail_reason ex
                \<and> attempts merged = Some (or_else (attempts ex) 0)
                \<and> pending ex)
         in if same then None else Some merged)"

definition mergeChannelRow :: "string \<Rightarrow> chan_row option \<Rightarrow> chan_row \<Rightarrow> chan_row option" where
  "mergeChannelRow now existing incoming =
     mergeNormalized existing
       (normalizeRow now incoming (nullish (channel_id incoming) (Option.bind existing channel_id)))"

definition mergeDmRow :: "string \<Rightarrow> dm_row option \<Rightarrow> dm_row \<Rightarrow> dm_row option" where
  "mergeDmRow now existing incoming =
     mergeNormalized existing
       (normalizeDmRow now incoming (nullish (conversation_id incoming) (Option.bind existing conversation_id)))"

section \<open>Retrying and asking\<close>

definition isRetryable :: "nat \<Rightarrow> 'a row_scheme \<Rightarrow> bool" where
  "isRetryable maxAttempts r =
     (if isReadable (Some r) then False
      else if \<not> truthy (encrypted_content r) then False
      else if fail_reason r \<in> Some ` set TERMINAL_FAIL_REASONS then False
      else or_else (attempts r) 0 < maxAttempts)"

definition pickRetryRows :: "collation \<Rightarrow> nat \<Rightarrow> 'a row_scheme list \<Rightarrow> 'a row_scheme list" where
  "pickRetryRows lc maxAttempts rows = sortByTimestamp lc (filter (isRetryable maxAttempts) rows)"

definition computeSyncSince :: "collation \<Rightarrow> date_lib \<Rightarrow> 'a row_scheme list \<Rightarrow> string option" where
  "computeSyncSince lc D rows =
     (if rows = [] then None
      else
        let sorted = sortByTimestamp lc rows;
            newest = timestamp (last sorted)
        in case find (\<lambda>r. \<not> isReadable (Some r)) sorted of
             None \<Rightarrow> newest
           | Some first_unreadable \<Rightarrow>
               (case timestamp first_unreadable of
                  None \<Rightarrow> newest
                | Some ts \<Rightarrow>
                    if ts = [] then newest
                    else case date_parse D ts of
                           None \<Rightarrow> newest
                         | Some t \<Rightarrow> if t > 0 then Some (date_iso D (t - 1)) else None))"

text \<open>\<open>String(r.timestamp)\<close>; a row without one prints as \<open>undefined\<close>.\<close>

definition ts_text :: "'a row_scheme \<Rightarrow> string" where
  "ts_text r = or_else (timestamp r) ''undefined''"

definition selectReplyRows :: "collation \<Rightarrow> 'a row_scheme list \<Rightarrow> string option \<Rightarrow> nat \<Rightarrow> 'a row_scheme list" where
  "selectReplyRows lc rows since maxn =
     (let readable = sortByTimestamp lc (filter (\<lambda>r. isReadable (Some r)) rows)
      in if truthy since
         then take maxn (filter (\<lambda>r. ts_text r > the since) readable)
         else slice_last maxn readable)"

section \<open>Bundles\<close>

record bundle_item =
  bi_id :: string
  bi_sender_id :: "string option"
  bi_callsign :: "string option"
  bi_global_tag :: "string option"
  bi_timestamp :: "string option"
  bi_text :: "string option"
  bi_image_url :: "string option"

definition toBundleItem :: "chan_row \<Rightarrow> bundle_item" where
  "toBundleItem r = \<lparr>bi_id = row_id r, bi_sender_id = sender_id r, bi_callsign = callsign r,
     bi_global_tag = global_tag r, bi_timestamp = timestamp r, bi_text = plaintext r, bi_image_url = image_url r\<rparr>"

text \<open>\<open>toBundleItem\<close> on a DM row, which has no tag and no image.\<close>

definition toBundleItem_dm :: "dm_row \<Rightarrow> bundle_item" where
  "toBundleItem_dm r = \<lparr>bi_id = row_id r, bi_sender_id = sender_id r, bi_callsign = callsign r,
     bi_global_tag = None, bi_timestamp = timestamp r, bi_text = plaintext r, bi_image_url = None\<rparr>"

definition js_opt :: "string option \<Rightarrow> jsval" where
  "js_opt s = (case s of None \<Rightarrow> JNull | Some t \<Rightarrow> JStr t)"

text \<open>The object literal \<open>toBundleItem\<close> builds, as \<open>JSON.stringify\<close> sees it (a missing timestamp is undefined).\<close>

definition item_json :: "bundle_item \<Rightarrow> jsval" where
  "item_json it = JObj [(''id'', JStr (bi_id it)), (''sender_id'', js_opt (bi_sender_id it)),
     (''callsign'', js_opt (bi_callsign it)), (''global_tag'', js_opt (bi_global_tag it)),
     (''timestamp'', (case bi_timestamp it of None \<Rightarrow> JUndef | Some t \<Rightarrow> JStr t)),
     (''text'', js_opt (bi_text it)), (''image_url'', js_opt (bi_image_url it))]"

text \<open>\<open>byteLength\<close>: the UTF-8 length of a text.\<close>

definition byteLength :: "string \<Rightarrow> nat" where
  "byteLength s = sum_list (map (\<lambda>c. if ccode c < 128 then 1 else 2) s)"

definition wrap_bundle :: "bundle_item list \<Rightarrow> string" where
  "wrap_bundle items = stringify (JObj [(''v'', JNum BUNDLE_VERSION), (''items'', JArr (map item_json items))])"

definition item_size :: "bundle_item \<Rightarrow> nat" where
  "item_size it = byteLength (stringify (item_json it)) + 1"

definition bundle_overhead :: nat where
  "bundle_overhead = byteLength (wrap_bundle [])"

record chunk =
  chunk_json :: string
  chunk_count :: nat

definition close_chunk :: "bundle_item list \<Rightarrow> chunk list" where
  "close_chunk cur = (if cur = [] then [] else [\<lparr>chunk_json = wrap_bundle cur, chunk_count = length cur\<rparr>])"

text \<open>An item too big on its own loses its image.\<close>

definition fit_item :: "nat \<Rightarrow> bundle_item \<Rightarrow> bundle_item" where
  "fit_item maxb it = (if bundle_overhead + item_size it > maxb \<and> truthy (bi_image_url it)
     then it\<lparr>bi_image_url := None\<rparr> else it)"

fun chunk_loop :: "nat \<Rightarrow> bundle_item list \<Rightarrow> bundle_item list \<Rightarrow> nat \<Rightarrow> chunk list" where
  "chunk_loop maxb [] cur curBytes = close_chunk cur"
| "chunk_loop maxb (it0 # items) cur curBytes =
     (let it = fit_item maxb it0; size = item_size it
      in if bundle_overhead + size > maxb then chunk_loop maxb items cur curBytes
         else if curBytes + size > maxb \<and> cur \<noteq> []
           then close_chunk cur @ chunk_loop maxb items [it] (bundle_overhead + size)
         else chunk_loop maxb items (cur @ [it]) (curBytes + size))"

definition chunkBundle :: "bundle_item list \<Rightarrow> nat \<Rightarrow> chunk list" where
  "chunkBundle items maxBytes = chunk_loop maxBytes items [] bundle_overhead"

definition js_field :: "jsval \<Rightarrow> string \<Rightarrow> jsval" where
  "js_field v k = (case v of JObj kvs \<Rightarrow> or_else (al_get kvs k) JUndef | _ \<Rightarrow> JUndef)"

definition str_max :: "jsval \<Rightarrow> nat \<Rightarrow> string option" where
  "str_max v maxn = (case v of JStr s \<Rightarrow> if length s \<le> maxn then Some s else None | _ \<Rightarrow> None)"

definition parse_item :: "date_lib \<Rightarrow> string option \<Rightarrow> string option \<Rightarrow> string \<Rightarrow> jsval \<Rightarrow> chan_row option" where
  "parse_item D chan relayedBy now it =
     (let rid = str_max (js_field it ''id'') 128;
          ts = str_max (js_field it ''timestamp'') 64;
          text = str_max (js_field it ''text'') 20000
      in if \<not> truthy rid \<or> \<not> truthy ts \<or> text = None \<or> date_parse D (the ts) = None then None
         else Some \<lparr>row_id = the rid, sender_id = str_max (js_field it ''sender_id'') 128,
                callsign = str_max (js_field it ''callsign'') 128, encrypted_content = None,
                plaintext = text, timestamp = ts, received_at = Some now, pending = False,
                fail_reason = None, attempts = None, relayed_by = relayedBy,
                channel_id = chan, global_tag = str_max (js_field it ''global_tag'') 128,
                image_url = str_max (js_field it ''image_url'') 800000\<rparr>)"

definition parseBundle :: "date_lib \<Rightarrow> string \<Rightarrow> string option \<Rightarrow> string option \<Rightarrow> string \<Rightarrow> chan_row list" where
  "parseBundle D json chan relayedBy now =
     (case json_parse json of
        None \<Rightarrow> []
      | Some doc \<Rightarrow>
          if js_field doc ''v'' \<noteq> JNum BUNDLE_VERSION then []
          else case js_field doc ''items'' of
                 JArr items \<Rightarrow> List.map_filter (parse_item D chan relayedBy now) (take SYNC_REPLY_MAX items)
               | _ \<Rightarrow> [])"

section \<open>Relays, conversations, results\<close>

text \<open>The fields of a \<open>message_relay\<close> event the delivery engine reads (\<open>null\<close>/missing as \<^const>\<open>None\<close>).\<close>

record relay_msg =
  rm_id :: "string option"
  rm_conversation_id :: "string option"
  rm_sender_id :: "string option"
  rm_to_user_id :: "string option"
  rm_callsign :: "string option"
  rm_encrypted_content :: "string option"
  rm_timestamp :: "string option"

record relay =
  rl_id :: "string option"
  rl_channel_id :: "string option"
  rl_org_id :: "string option"
  rl_context :: "string option"
  rl_conversation_id :: "string option"
  rl_sender_id :: "string option"
  rl_callsign :: "string option"
  rl_global_tag :: "string option"
  rl_encrypted_content :: "string option"
  rl_image_url :: "string option"
  rl_timestamp :: "string option"
  rl_message :: "relay_msg option"

definition isChannelRelay :: "relay \<Rightarrow> bool" where
  "isChannelRelay p = (truthy (rl_channel_id p) \<and> truthy (rl_id p)
     \<and> rl_context p \<noteq> Some ''dm'' \<and> \<not> truthy (rl_conversation_id p))"

definition dmRelayMessage :: "relay \<Rightarrow> relay_msg option" where
  "dmRelayMessage p = (case rl_message p of
     None \<Rightarrow> None
   | Some m \<Rightarrow> if rl_context p = Some ''dm'' \<and> truthy (rm_id m) \<and> truthy (rm_conversation_id m) then Some m else None)"

definition dmConversationId :: "string \<Rightarrow> string \<Rightarrow> string" where
  "dmConversationId a b = (if a \<le> b then a @ ''-'' @ b else b @ ''-'' @ a)"

definition bundleRowsToDm :: "chan_row list \<Rightarrow> string \<Rightarrow> string \<Rightarrow> string \<Rightarrow> dm_row list" where
  "bundleRowsToDm rows convId me partnerId =
     map (\<lambda>r. \<lparr>row_id = row_id r, sender_id = sender_id r, callsign = callsign r,
        encrypted_content = encrypted_content r, plaintext = plaintext r, timestamp = timestamp r,
        received_at = received_at r, pending = pending r, fail_reason = fail_reason r,
        attempts = attempts r, relayed_by = relayed_by r, conversation_id = Some convId,
        to_user_id = Some (if sender_id r = Some me then partnerId else me)\<rparr>)
       (filter (\<lambda>r. sender_id r = Some me \<or> sender_id r = Some partnerId) rows)"

text \<open>\<open>rand\<close> is what \<open>Math.random()\<close> returned.\<close>

definition syncReplyDelay :: "rat \<Rightarrow> int" where
  "syncReplyDelay rand = \<lfloor>rand * of_nat SYNC_JITTER_MS\<rfloor>"

definition plural :: "nat \<Rightarrow> string \<Rightarrow> string" where
  "plural n w = nat_digits n @ '' '' @ w @ (if n = 1 then '''' else ''s'')"

definition describeHealResult :: "nat \<Rightarrow> nat \<Rightarrow> nat \<Rightarrow> bool \<times> string" where
  "describeHealResult healed failed checked =
     (if failed > 0 then
        (False, plural failed ''channel'' @ '' couldn'' @ [CHR 0x27] @ ''t be re-synced''
           @ (if healed \<noteq> 0 then '' ('' @ nat_digits healed @ '' re-synced)'' else ''''))
      else if healed > 0 then (True, plural healed ''channel'' @ '' re-synced'')
      else (True, if checked > 0 then ''Encryption is in sync ('' @ plural checked ''channel'' @ '' checked)''
                  else ''Nothing to re-sync''))"

section \<open>Merging\<close>

lemmas merge_defs = mergeNormalized_def isReadable_def Let_def

lemma isReadable_simps [simp]:
  "isReadable None = False" "isReadable (Some r) = (plaintext r \<noteq> None)"
  by (simp_all add: isReadable_def)

lemma normalize_common_simps [simp]:
  "row_id (normalize_common now m) = row_id m"
  "plaintext (normalize_common now m) = plaintext m"
  "encrypted_content (normalize_common now m) = encrypted_content m"
  "timestamp (normalize_common now m) = timestamp m"
  "pending (normalize_common now m) = (plaintext m = None)"
  by (simp_all add: normalize_common_def)

lemma normalizeRow_simps [simp]:
  "row_id (normalizeRow now m c) = row_id m"
  "plaintext (normalizeRow now m c) = plaintext m"
  "encrypted_content (normalizeRow now m c) = encrypted_content m"
  "timestamp (normalizeRow now m c) = timestamp m"
  "pending (normalizeRow now m c) = (plaintext m = None)"
  by (simp_all add: normalizeRow_def)

lemma normalizeDmRow_simps [simp]:
  "row_id (normalizeDmRow now m c) = row_id m"
  "plaintext (normalizeDmRow now m c) = plaintext m"
  "encrypted_content (normalizeDmRow now m c) = encrypted_content m"
  "timestamp (normalizeDmRow now m c) = timestamp m"
  "pending (normalizeDmRow now m c) = (plaintext m = None)"
  by (simp_all add: normalizeDmRow_def)

text \<open>
  The contract of a row merge, which the message store relies on: a readable stored row is
  final, a readable copy makes an unreadable row readable, ciphertext is never lost, and
  merging the same copy again changes nothing.
\<close>

locale row_merge =
  fixes merge :: "'r option \<Rightarrow> 'r \<Rightarrow> 'r option"
    and text_of :: "'r \<Rightarrow> string option"
    and cipher_of :: "'r \<Rightarrow> string option"
    and id_of :: "'r \<Rightarrow> string"
  assumes final: "text_of ex \<noteq> None \<Longrightarrow> merge (Some ex) inc = None"
    and fresh: "\<exists>r. merge None inc = Some r \<and> text_of r = text_of inc \<and> id_of r = id_of inc"
    and gains: "text_of ex = None \<Longrightarrow> text_of inc \<noteq> None \<Longrightarrow> \<exists>r. merge (Some ex) inc = Some r \<and> text_of r = text_of inc"
    and keeps_id: "merge (Some ex) inc = Some r \<Longrightarrow> id_of ex = id_of inc \<Longrightarrow> id_of r = id_of inc"
    and keeps_unreadable: "merge (Some ex) inc = Some r \<Longrightarrow> text_of inc = None \<Longrightarrow> text_of r = None"
    and keeps_cipher: "merge (Some ex) inc = Some r \<Longrightarrow> cipher_of r = None \<Longrightarrow> cipher_of ex = None \<and> cipher_of inc = None"
    and again: "merge old inc = Some r \<Longrightarrow> merge (Some r) inc = None"
begin

text \<open>One write of the store at a key, and a sequence of writes.\<close>

definition upd :: "'r option \<Rightarrow> 'r \<Rightarrow> 'r option" where
  "upd old inc = (case merge old inc of None \<Rightarrow> old | Some r \<Rightarrow> Some r)"

lemma upd_final: "text_of ex \<noteq> None \<Longrightarrow> upd (Some ex) inc = Some ex"
  by (simp add: upd_def final)

lemma upd_gains: "text_of inc \<noteq> None \<Longrightarrow> \<exists>r. upd old inc = Some r \<and> text_of r \<noteq> None"
proof (cases "\<exists>ex. old = Some ex \<and> text_of ex \<noteq> None")
  case False
  assume "text_of inc \<noteq> None"
  with False fresh [of inc] gains [of _ inc] have "\<exists>r. merge old inc = Some r \<and> text_of r = text_of inc"
    by (cases old) auto
  then show ?thesis using \<open>text_of inc \<noteq> None\<close> by (auto simp: upd_def)
qed (auto simp: upd_final)

lemma upd_idem: "upd (upd old inc) inc = upd old inc"
  by (auto simp: upd_def again split: option.split)

lemma upd_some: "\<exists>r. upd old inc = Some r"
  using fresh [of inc] by (cases old) (auto simp: upd_def split: option.split)

lemma upd_id: "(\<And>ex. old = Some ex \<Longrightarrow> id_of ex = id_of inc) \<Longrightarrow> upd old inc = Some r \<Longrightarrow> id_of r = id_of inc"
  using fresh [of inc] keeps_id [of _ inc]
  by (cases old) (auto simp: upd_def split: option.splits)

lemma fold_upd_final: "text_of ex \<noteq> None \<Longrightarrow> fold (\<lambda>inc old. upd old inc) incs (Some ex) = Some ex"
  by (induction incs) (simp_all add: upd_final)

text \<open>Any sequence of copies with a readable one among them leaves a readable row: the first readable copy.\<close>

lemma fold_upd_first_readable:
  assumes "\<forall>inc \<in> set before. text_of inc = None" "text_of good \<noteq> None"
    "\<And>ex. old = Some ex \<Longrightarrow> text_of ex = None"
  shows "\<exists>r. fold (\<lambda>inc old. upd old inc) (before @ good # after) old = Some r \<and> text_of r = text_of good"
  using assms
proof (induction before arbitrary: old)
  case Nil
  have "\<exists>r. merge old good = Some r \<and> text_of r = text_of good"
    using fresh [of good] gains [of _ good] Nil by (cases old) auto
  then obtain r where r: "upd old good = Some r" "text_of r = text_of good"
    by (auto simp: upd_def)
  with Nil fold_upd_final [of r after] show ?case by auto
next
  case (Cons inc before)
  have "text_of ex = None" if "upd old inc = Some ex" for ex
    using that Cons.prems(1,3) fresh [of inc] keeps_unreadable [of _ inc]
    by (cases old) (auto simp: upd_def split: option.splits)
  with Cons.IH [of "upd old inc"] Cons.prems show ?case by auto
qed

end

lemma mergeNormalized_final: "plaintext ex \<noteq> None \<Longrightarrow> mergeNormalized (Some ex) nxt = None"
  by (simp add: merge_defs)

lemma mergeNormalized_again_readable:
  "mergeNormalized old nxt = Some r \<Longrightarrow> plaintext nxt \<noteq> None \<Longrightarrow> plaintext r \<noteq> None"
  by (auto simp: merge_defs split: option.splits if_splits)

lemma mergeNormalized_again:
  assumes "mergeNormalized old nxt = Some r" "plaintext nxt = None" "pending nxt"
    "encrypted_content nxt' = encrypted_content nxt" "fail_reason nxt' = fail_reason nxt"
    "attempts nxt' = attempts nxt" "attempts nxt \<noteq> None" "plaintext nxt' = None"
  shows "mergeNormalized (Some r) nxt' = None"
proof (cases old)
  case None
  with assms show ?thesis by (auto simp: merge_defs)
next
  case (Some ex)
  show ?thesis
  proof (cases "plaintext ex")
    case None
    with assms Some show ?thesis
      by (auto simp: merge_defs nullish_def max_def split: if_splits option.splits)
  qed (use assms Some in \<open>simp add: merge_defs\<close>)
qed

lemma normalize_again:
  "plaintext m = None \<Longrightarrow> attempts (normalize_common now m) \<noteq> None"
  by (simp add: normalize_common_def)

interpretation chan: row_merge "mergeChannelRow now" plaintext encrypted_content row_id
proof unfold_locales
  fix old :: "chan_row option" and inc r :: chan_row
  assume m: "mergeChannelRow now old inc = Some r"
  show "mergeChannelRow now (Some r) inc = None"
  proof (cases "plaintext inc")
    case None
    show ?thesis
      unfolding mergeChannelRow_def
      by (rule mergeNormalized_again [OF m [unfolded mergeChannelRow_def]])
        (simp_all add: None normalizeRow_def normalize_common_def)
  next
    case (Some t)
    then have "plaintext r \<noteq> None"
      by (intro mergeNormalized_again_readable [OF m [unfolded mergeChannelRow_def]]) simp
    then show ?thesis by (simp add: mergeChannelRow_def mergeNormalized_final)
  qed
qed (auto simp: mergeChannelRow_def merge_defs nullish_def split: if_splits option.splits)

interpretation dm: row_merge "mergeDmRow now" plaintext encrypted_content row_id
proof unfold_locales
  fix old :: "dm_row option" and inc r :: dm_row
  assume m: "mergeDmRow now old inc = Some r"
  show "mergeDmRow now (Some r) inc = None"
  proof (cases "plaintext inc")
    case None
    show ?thesis
      unfolding mergeDmRow_def
      by (rule mergeNormalized_again [OF m [unfolded mergeDmRow_def]])
        (simp_all add: None normalizeDmRow_def normalize_common_def)
  next
    case (Some t)
    then have "plaintext r \<noteq> None"
      by (intro mergeNormalized_again_readable [OF m [unfolded mergeDmRow_def]]) simp
    then show ?thesis by (simp add: mergeDmRow_def mergeNormalized_final)
  qed
qed (auto simp: mergeDmRow_def merge_defs nullish_def split: if_splits option.splits)

section \<open>Bundle sizes\<close>

lemma byteLength_simps [simp]:
  "byteLength [] = 0" "byteLength (c # s) = (if ccode c < 128 then 1 else 2) + byteLength s"
  "byteLength (s @ t) = byteLength s + byteLength t"
  by (simp_all add: byteLength_def)

lemma byteLength_join:
  "xs \<noteq> [] \<Longrightarrow> byteLength (join_with '','' xs) + 1 = sum_list (map (\<lambda>x. byteLength x + 1) xs)"
  by (induction "'','' :: string" xs rule: join_with.induct) auto

lemma wrap_bundle_text:
  "wrap_bundle items = ''{'' @ quote ''v'' @ '':1,'' @ quote ''items'' @ '':['' @
     join_with '','' (map (\<lambda>it. stringify (item_json it)) items) @ '']}''"
  by (simp add: wrap_bundle_def BUNDLE_VERSION_def int_text_def nat_digits.simps quote_def comp_def
      char_of_char [where 'a = nat, of "CHR ''1''", simplified])

lemma byteLength_wrap:
  "items \<noteq> [] \<Longrightarrow> byteLength (wrap_bundle items) + 1 = bundle_overhead + sum_list (map item_size items)"
  using byteLength_join [of "map (\<lambda>it. stringify (item_json it)) items"]
  by (simp add: wrap_bundle_text bundle_overhead_def item_size_def [abs_def] comp_def)

definition bundle_bytes :: "bundle_item list \<Rightarrow> nat" where
  "bundle_bytes cur = bundle_overhead + sum_list (map item_size cur)"

text \<open>The items that fit the budget, each after the image rule.\<close>

definition kept_items :: "nat \<Rightarrow> bundle_item list \<Rightarrow> bundle_item list" where
  "kept_items maxb items = filter (\<lambda>it. bundle_overhead + item_size it \<le> maxb) (map (fit_item maxb) items)"

definition mk_chunk :: "bundle_item list \<Rightarrow> chunk" where
  "mk_chunk g = \<lparr>chunk_json = wrap_bundle g, chunk_count = length g\<rparr>"

lemma close_chunk_simps [simp]:
  "close_chunk [] = []" "g \<noteq> [] \<Longrightarrow> close_chunk g = [mk_chunk g]"
  by (simp_all add: close_chunk_def mk_chunk_def)

text \<open>The chunks are the kept items cut into non-empty groups, in order, each within the budget.\<close>

lemma chunk_loop_groups:
  assumes "cur \<noteq> [] \<Longrightarrow> bundle_bytes cur \<le> maxb"
  shows "\<exists>gs. chunk_loop maxb items cur (bundle_bytes cur) = map mk_chunk gs
      \<and> concat gs = cur @ kept_items maxb items \<and> (\<forall>g \<in> set gs. g \<noteq> [] \<and> bundle_bytes g \<le> maxb)"
  using assms
proof (induction items arbitrary: cur)
  case Nil
  show ?case
  proof (cases "cur = []")
    case True
    then show ?thesis by (intro exI [of _ "[]"]) (simp add: kept_items_def)
  next
    case False
    with Nil show ?thesis by (intro exI [of _ "[cur]"]) (simp add: kept_items_def)
  qed
next
  case (Cons it0 items)
  define it where "it = fit_item maxb it0"
  have kept: "kept_items maxb (it0 # items) =
      (if bundle_overhead + item_size it \<le> maxb then it # kept_items maxb items else kept_items maxb items)"
    by (simp add: kept_items_def it_def)
  consider (skip) "bundle_overhead + item_size it > maxb"
    | (split) "bundle_overhead + item_size it \<le> maxb" "bundle_bytes cur + item_size it > maxb" "cur \<noteq> []"
    | (add) "bundle_overhead + item_size it \<le> maxb" "\<not> (bundle_bytes cur + item_size it > maxb \<and> cur \<noteq> [])"
    by linarith
  then show ?case
  proof cases
    case skip
    with Cons.IH [OF Cons.prems] kept show ?thesis by (simp add: it_def Let_def)
  next
    case split
    have bb: "bundle_overhead + item_size it = bundle_bytes [it]" by (simp add: bundle_bytes_def)
    from Cons.IH [of "[it]"] split obtain gs where
      "chunk_loop maxb items [it] (bundle_bytes [it]) = map mk_chunk gs"
      "concat gs = it # kept_items maxb items" "\<forall>g \<in> set gs. g \<noteq> [] \<and> bundle_bytes g \<le> maxb"
      by (auto simp: bundle_bytes_def)
    with split kept bb Cons.prems show ?thesis
      by (intro exI [of _ "cur # gs"]) (simp add: it_def Let_def)
  next
    case add
    have bb: "bundle_bytes cur + item_size it = bundle_bytes (cur @ [it])" by (simp add: bundle_bytes_def)
    have "bundle_bytes (cur @ [it]) \<le> maxb"
      using add by (cases "cur = []") (auto simp: bundle_bytes_def)
    from Cons.IH [of "cur @ [it]"] this add kept bb show ?thesis
      by (auto simp: it_def Let_def)
  qed
qed

lemma chunkBundle_groups:
  obtains gs where "chunkBundle items maxb = map mk_chunk gs" "concat gs = kept_items maxb items"
    "\<forall>g \<in> set gs. g \<noteq> [] \<and> bundle_bytes g \<le> maxb"
  using chunk_loop_groups [of "[]" maxb items] by (auto simp: chunkBundle_def bundle_bytes_def)

text \<open>No chunk is empty, and no chunk's JSON text is longer in bytes than the budget it was built for.\<close>

lemma chunkBundle_bounded:
  "list_all (\<lambda>c. byteLength (chunk_json c) \<le> maxb \<and> chunk_count c > 0) (chunkBundle items maxb)"
proof -
  obtain gs where gs: "chunkBundle items maxb = map mk_chunk gs"
    "\<forall>g \<in> set gs. g \<noteq> [] \<and> bundle_bytes g \<le> maxb" using chunkBundle_groups by blast
  have "byteLength (wrap_bundle g) \<le> maxb \<and> length g > 0" if "g \<in> set gs" for g
    using gs(2) that byteLength_wrap [of g] by (auto simp: bundle_bytes_def)
  with gs(1) show ?thesis by (simp add: list_all_iff mk_chunk_def)
qed

section \<open>Bundles read back\<close>

definition opt_max :: "nat \<Rightarrow> string option \<Rightarrow> bool" where
  "opt_max n s = (case s of None \<Rightarrow> True | Some t \<Rightarrow> length t \<le> n)"

text \<open>An item the receiver accepts: the lengths and the date \<open>parseBundle\<close> checks.\<close>

definition sendable :: "date_lib \<Rightarrow> bundle_item \<Rightarrow> bool" where
  "sendable D it = (bi_id it \<noteq> [] \<and> length (bi_id it) \<le> 128
     \<and> truthy (bi_timestamp it) \<and> opt_max 64 (bi_timestamp it) \<and> date_parse D (the (bi_timestamp it)) \<noteq> None
     \<and> bi_text it \<noteq> None \<and> opt_max 20000 (bi_text it) \<and> opt_max 128 (bi_sender_id it)
     \<and> opt_max 128 (bi_callsign it) \<and> opt_max 128 (bi_global_tag it) \<and> opt_max 800000 (bi_image_url it))"

definition backfilled :: "string option \<Rightarrow> string option \<Rightarrow> string \<Rightarrow> bundle_item \<Rightarrow> chan_row" where
  "backfilled chan relayedBy now it =
     \<lparr>row_id = bi_id it, sender_id = bi_sender_id it, callsign = bi_callsign it, encrypted_content = None,
      plaintext = bi_text it, timestamp = bi_timestamp it, received_at = Some now, pending = False,
      fail_reason = None, attempts = None, relayed_by = relayedBy, channel_id = chan,
      global_tag = bi_global_tag it, image_url = bi_image_url it\<rparr>"

lemma str_max_js_opt [simp]: "opt_max n s \<Longrightarrow> str_max (js_opt s) n = s"
  by (cases s) (simp_all add: str_max_def js_opt_def opt_max_def)

lemma js_field_item [simp]:
  "js_field (item_json it) ''id'' = JStr (bi_id it)"
  "js_field (item_json it) ''sender_id'' = js_opt (bi_sender_id it)"
  "js_field (item_json it) ''callsign'' = js_opt (bi_callsign it)"
  "js_field (item_json it) ''global_tag'' = js_opt (bi_global_tag it)"
  "js_field (item_json it) ''timestamp'' = (case bi_timestamp it of None \<Rightarrow> JUndef | Some t \<Rightarrow> JStr t)"
  "js_field (item_json it) ''text'' = js_opt (bi_text it)"
  "js_field (item_json it) ''image_url'' = js_opt (bi_image_url it)"
  by (simp_all add: js_field_def item_json_def)

lemma parse_item_sendable:
  "sendable D it \<Longrightarrow> parse_item D chan rel now (item_json it) = Some (backfilled chan rel now it)"
  by (auto simp: sendable_def parse_item_def backfilled_def Let_def truthy_iff str_max_def [of "JStr _"] opt_max_def [of 64])

lemma jclean_js_opt [simp]: "jclean (js_opt s)"
  by (cases s) (simp_all add: js_opt_def)

lemma jclean_item: "sendable D it \<Longrightarrow> jclean (item_json it)"
  by (auto simp: item_json_def sendable_def truthy_iff)

lemma parseBundle_wrap:
  assumes "\<forall>it \<in> set g. sendable D it" "length g \<le> SYNC_REPLY_MAX"
  shows "parseBundle D (wrap_bundle g) chan rel now = map (backfilled chan rel now) g"
proof -
  have c: "jclean (JObj [(''v'', JNum BUNDLE_VERSION), (''items'', JArr (map item_json g))])"
    using assms(1) jclean_item by auto
  have "List.map_filter (parse_item D chan rel now) (map item_json g) = map (backfilled chan rel now) g"
    using assms(1) by (induction g) (auto simp: List.map_filter_simps parse_item_sendable)
  with assms(2) show ?thesis
    unfolding wrap_bundle_def parseBundle_def json_roundtrip [OF c] by (simp add: js_field_def)
qed

lemma sendable_fit: "sendable D it \<Longrightarrow> sendable D (fit_item maxb it)"
  by (simp add: fit_item_def sendable_def opt_max_def)

lemma length_concat_ge: "g \<in> set gs \<Longrightarrow> length g \<le> length (concat gs)"
  by (induction gs) auto

text \<open>C40: the requester of a backfill reads from the answer's chunks exactly the items that fit the byte
  budget, in the order offered, as plaintext rows of the channel marked with the responder.\<close>

theorem bundle_roundtrip:
  assumes "\<forall>it \<in> set items. sendable D it" "length items \<le> SYNC_REPLY_MAX"
  shows "concat (map (\<lambda>c. parseBundle D (chunk_json c) chan rel now) (chunkBundle items maxb)) =
    map (backfilled chan rel now) (kept_items maxb items)"
proof -
  obtain gs where gs: "chunkBundle items maxb = map mk_chunk gs" "concat gs = kept_items maxb items"
    using chunkBundle_groups by blast
  have s: "\<forall>it \<in> set (concat gs). sendable D it"
    using assms(1) sendable_fit unfolding gs(2) kept_items_def by auto
  have l: "length (concat gs) \<le> SYNC_REPLY_MAX"
    using assms(2) le_trans [OF length_filter_le] unfolding gs(2) kept_items_def by fastforce
  have "parseBundle D (wrap_bundle g) chan rel now = map (backfilled chan rel now) g" if "g \<in> set gs" for g
    using s l that length_concat_ge [OF that] by (intro parseBundle_wrap) auto
  then have "concat (map (\<lambda>c. parseBundle D (chunk_json c) chan rel now) (map mk_chunk gs)) =
      concat (map (map (backfilled chan rel now)) gs)"
    by (simp add: comp_def mk_chunk_def cong: map_cong)
  then show ?thesis by (simp add: gs map_concat flip: gs(2))
qed

definition demo_dates :: date_lib where
  "demo_dates = \<lparr>date_parse = (\<lambda>s. if s = ''t1'' then Some 1 else if s = ''t0'' then Some 0 else None),
     date_iso = (\<lambda>t. if t = 1 then ''t1'' else if t = 0 then ''t0'' else ''t2'')\<rparr>"

definition demo_item :: bundle_item where
  "demo_item = \<lparr>bi_id = ''m1'', bi_sender_id = Some ''u1'', bi_callsign = None, bi_global_tag = None,
     bi_timestamp = Some ''t1'', bi_text = Some ''hi'', bi_image_url = None\<rparr>"

lemma bundle_roundtrip_witness:
  "concat (map (\<lambda>c. parseBundle demo_dates (chunk_json c) (Some ''c1'') (Some ''u2'') ''now'') (chunkBundle [demo_item] 48000)) =
    map (backfilled (Some ''c1'') (Some ''u2'') ''now'') (kept_items 48000 [demo_item])"
  by (rule bundle_roundtrip)
    (simp_all add: demo_item_def demo_dates_def sendable_def opt_max_def SYNC_REPLY_MAX_def)

section \<open>Gaps and replies\<close>

lemma sorted_sortByTimestamp:
  "total_preorder lc \<Longrightarrow> sorted_wrt (\<lambda>a b. lc (ts_key a) (ts_key b)) (sortByTimestamp lc rows)"
  unfolding sortByTimestamp_def
  by (rule sorted_stable_sort) (auto simp: total_preorder_def)

lemma set_sortByTimestamp [simp]: "set (sortByTimestamp lc rows) = set rows"
  by (simp add: sortByTimestamp_def)

lemma find_sorted_least:
  assumes "sorted_wrt R xs" "find P xs = Some y" "x \<in> set xs" "P x" "R y y"
  shows "R y x"
  using assms by (induction xs) (auto split: if_splits)

lemma find_exists: "x \<in> set xs \<Longrightarrow> P x \<Longrightarrow> \<exists>y. find P xs = Some y \<and> y \<in> set xs \<and> P y"
  by (induction xs) auto

text \<open>A reply offers readable rows only, newer than asked for, in time order, at most \<open>maxn\<close> of them.\<close>

lemma selectReplyRows_sound:
  assumes "total_preorder lc" "0 < maxn"
  shows "set (selectReplyRows lc rows since maxn) \<subseteq> {r \<in> set rows. isReadable (Some r) \<and> (truthy since \<longrightarrow> ts_text r > the since)}"
    and "length (selectReplyRows lc rows since maxn) \<le> maxn"
    and "sorted_wrt (\<lambda>a b. lc (ts_key a) (ts_key b)) (selectReplyRows lc rows since maxn)"
proof -
  let ?s = "sortByTimestamp lc (filter (\<lambda>r. isReadable (Some r)) rows)"
  show "set (selectReplyRows lc rows since maxn) \<subseteq> {r \<in> set rows. isReadable (Some r) \<and> (truthy since \<longrightarrow> ts_text r > the since)}"
    using set_slice_last [of maxn ?s] by (auto simp: selectReplyRows_def Let_def dest!: in_set_takeD)
  show "length (selectReplyRows lc rows since maxn) \<le> maxn"
    using assms(2) by (simp add: selectReplyRows_def Let_def length_slice_last)
  have "sorted_wrt (\<lambda>a b. lc (ts_key a) (ts_key b)) ?s"
    using assms(1) by (rule sorted_sortByTimestamp)
  then show "sorted_wrt (\<lambda>a b. lc (ts_key a) (ts_key b)) (selectReplyRows lc rows since maxn)"
    by (simp add: selectReplyRows_def Let_def sorted_wrt_slice_last sorted_wrt_take sorted_wrt_filter)
qed

lemma selectReplyRows_complete:
  assumes "r \<in> set rows" "isReadable (Some r)" "truthy since \<Longrightarrow> ts_text r > the since"
    "length (filter (\<lambda>r. isReadable (Some r)) rows) \<le> maxn" "0 < maxn"
  shows "r \<in> set (selectReplyRows lc rows since maxn)"
proof -
  let ?s = "sortByTimestamp lc (filter (\<lambda>r. isReadable (Some r)) rows)"
  have l: "length ?s \<le> maxn" using assms(4) by (simp add: sortByTimestamp_def)
  then have "length (filter P ?s) \<le> maxn" for P using le_trans [OF length_filter_le] by blast
  with l assms show ?thesis by (simp add: selectReplyRows_def Let_def slice_last_def)
qed

text \<open>ISO texts of the instants \<open>T\<close> order as the instants do, in code units and in the collation.\<close>

definition iso_on :: "collation \<Rightarrow> date_lib \<Rightarrow> int set \<Rightarrow> bool" where
  "iso_on lc D T \<longleftrightarrow> (\<forall>a \<in> T. date_parse D (date_iso D a) = Some a \<and> date_iso D a \<noteq> []
     \<and> (\<forall>b \<in> T. (lc (date_iso D a) (date_iso D b) \<longleftrightarrow> a \<le> b) \<and> (date_iso D a \<le> date_iso D b \<longleftrightarrow> a \<le> b)))"

definition dated_in :: "date_lib \<Rightarrow> int set \<Rightarrow> 'a row_scheme \<Rightarrow> bool" where
  "dated_in D T r \<longleftrightarrow> (\<exists>t \<in> T. 0 < t \<and> t - 1 \<in> T \<and> timestamp r = Some (date_iso D t))"

lemma since_before_unreadable:
  assumes lc: "total_preorder lc" and iso: "iso_on lc D T" and rows: "\<forall>x \<in> set rows. dated_in D T x"
    and r: "r \<in> set rows" "\<not> isReadable (Some r)"
  shows "\<exists>s. computeSyncSince lc D rows = Some s \<and> s < ts_text r"
proof -
  let ?P = "\<lambda>x. \<not> isReadable (Some x)"
  obtain f where f: "find ?P (sortByTimestamp lc rows) = Some f" "f \<in> set rows"
    using find_exists [of r "sortByTimestamp lc rows" ?P] r by auto
  obtain t u where t: "t \<in> T" "0 < t" "t - 1 \<in> T" "timestamp f = Some (date_iso D t)"
    and u: "u \<in> T" "timestamp r = Some (date_iso D u)" using rows f(2) r(1) unfolding dated_in_def by metis
  have "lc (ts_key f) (ts_key f)" using lc unfolding total_preorder_def by blast
  then have "lc (ts_key f) (ts_key r)"
    using find_sorted_least [OF sorted_sortByTimestamp [OF lc] f(1)] r by simp
  then have "t \<le> u" using iso t u by (simp add: ts_key_def iso_on_def)
  then have "date_iso D (t - 1) < date_iso D u"
    using iso t u unfolding iso_on_def by (metis linorder_not_le zle_diff1_eq order_less_le_trans zless_imp_add1_zle diff_add_cancel)
  moreover have "computeSyncSince lc D rows = Some (date_iso D (t - 1))"
    using f t iso r(1) by (auto simp: computeSyncSince_def Let_def iso_on_def)
  ultimately show ?thesis using u by (simp add: ts_text_def)
qed

text \<open>A message this device cannot read is asked for again, and a peer that can read it offers it:
  the \<open>since\<close> sent to the peers lies before every unreadable row, so the peer's reply contains its copy
  (as long as the peer's readable rows fit one reply).\<close>

lemma gap_refilled:
  assumes "total_preorder lc" "iso_on lc D T" "\<forall>x \<in> set rows. dated_in D T x"
    and "r \<in> set rows" "\<not> isReadable (Some r)"
    and "r' \<in> set peer" "isReadable (Some r')" "timestamp r' = timestamp r"
    and "length (filter (\<lambda>x. isReadable (Some x)) peer) \<le> SYNC_REPLY_MAX"
  shows "r' \<in> set (selectReplyRows lc peer (computeSyncSince lc D rows) SYNC_REPLY_MAX)"
proof -
  obtain s where "computeSyncSince lc D rows = Some s" "s < ts_text r"
    using since_before_unreadable assms(1-5) by blast
  with assms(6-9) show ?thesis
    by (intro selectReplyRows_complete) (auto simp: ts_text_def SYNC_REPLY_MAX_def)
qed

definition demo_row :: chan_row where
  "demo_row = \<lparr>row_id = ''m1'', sender_id = Some ''u1'', callsign = None, encrypted_content = Some ''ct'',
     plaintext = None, timestamp = Some ''t1'', received_at = None, pending = True, fail_reason = None,
     attempts = Some 1, relayed_by = None, channel_id = Some ''c1'', global_tag = None, image_url = None\<rparr>"

lemma gap_refilled_witness:
  "demo_row\<lparr>plaintext := Some ''hi''\<rparr> \<in> set (selectReplyRows (\<le>) [demo_row\<lparr>plaintext := Some ''hi''\<rparr>]
     (computeSyncSince (\<le>) demo_dates [demo_row]) SYNC_REPLY_MAX)"
  by (rule gap_refilled [where T = "{0, 1}" and r = demo_row])
    (auto simp: total_preorder_def demo_row_def dated_in_def demo_dates_def SYNC_REPLY_MAX_def iso_on_def)

section \<open>The small helpers\<close>

lemma dmConversationId_commute: "dmConversationId a b = dmConversationId b a"
  by (auto simp: dmConversationId_def)

lemma syncReplyDelay_bounds: "0 \<le> r \<Longrightarrow> r < 1 \<Longrightarrow> 0 \<le> syncReplyDelay r \<and> syncReplyDelay r < 1500"
  by (auto simp: syncReplyDelay_def SYNC_JITTER_MS_def floor_less_iff)

text \<open>A retry that fails stores one more attempt: a row is retried at most \<open>MAX_DECRYPT_ATTEMPTS\<close> times.\<close>

lemma failed_retry_counts:
  assumes "mergeChannelRow now (Some ex) (ex\<lparr>fail_reason := reason, attempts := Some (or_else (attempts ex) 0 + 1)\<rparr>) = Some r"
  shows "attempts r = Some (or_else (attempts ex) 0 + 1)"
  using assms by (auto simp: mergeChannelRow_def merge_defs normalizeRow_def normalize_common_def split: if_splits)

lemma not_retryable_after_max: "MAX_DECRYPT_ATTEMPTS \<le> or_else (attempts r) 0 \<Longrightarrow> \<not> isRetryable MAX_DECRYPT_ATTEMPTS r"
  by (simp add: isRetryable_def)

end
