(* ===== verification/Message_Store.thy ===== *)
theory Message_Store
  imports Chat_Sync
begin

text \<open>
  \<open>web-portal/src/messageStore.js\<close>: the per-account message history.  One database per
  account holds an object store of channel rows and one of DM rows, keyed by message id;
  every write merges by the rules of \<^theory_text>\<open>Chat_Sync\<close>.  The pre-2.0.1 shared database is
  adopted by its owner only.

  A database handle is the account it was opened for (its name follows from it).  What the
  operating system answers (the legacy owner, whether the legacy database opens) and the
  clock are arguments.  Failing transactions of the browser's database are not modelled.
\<close>

section \<open>State\<close>

record message_db =
  channel_messages :: "(string, chan_row) jsmap"
  dm_messages :: "(string, dm_row) jsmap"

record store_state =
  ms_user :: "string option"
  ms_open :: "string option"
  databases :: "(string, message_db) jsmap"
  ls_user_id :: "string option"

datatype store_error = No_account

definition LEGACY_DB_NAME :: string where "LEGACY_DB_NAME = ''specter_messages''"
definition DB_PREFIX :: string where "DB_PREFIX = ''specter_messages_''"

definition dbNameFor :: "string \<Rightarrow> string" where
  "dbNameFor userId = DB_PREFIX @ userId"

text \<open>\<open>upgrade\<close> on a new database: both stores, empty.\<close>

definition upgrade :: message_db where
  "upgrade = \<lparr>channel_messages = [], dm_messages = []\<rparr>"

definition getMessageStoreUser :: "store_state \<Rightarrow> string option" where
  "getMessageStoreUser st = (if truthy (ms_user st) then ms_user st else str_or_null (ls_user_id st))"

definition setMessageStoreUser :: "string option \<Rightarrow> store_state \<Rightarrow> store_state" where
  "setMessageStoreUser userId st =
     (let nxt = str_or_null userId
      in if nxt = ms_user st then st
         else st\<lparr>ms_user := nxt, ms_open := (if ms_open st \<noteq> None \<and> ms_open st \<noteq> nxt then None else ms_open st)\<rparr>)"

section \<open>Merging rows into a store\<close>

text \<open>
  \<open>mergeRowsInto\<close>: one transaction.  The loop issues every \<open>get\<close> before the first success
  handler runs, and requests are served in the order they were issued, so every row is
  merged into what the store held before the transaction; the \<open>put\<close>s then follow in order.
\<close>

definition usable_msg :: "'a row_scheme \<Rightarrow> bool" where
  "usable_msg m = (row_id m \<noteq> [] \<and> truthy (timestamp m))"

definition mergeRowsInto ::
  "('a row_scheme option \<Rightarrow> 'a row_scheme \<Rightarrow> 'a row_scheme option) \<Rightarrow> (string, 'a row_scheme) jsmap \<Rightarrow>
   'a row_scheme list \<Rightarrow> (string, 'a row_scheme) jsmap \<times> 'a row_scheme list" where
  "mergeRowsInto merge store msgs =
     (let written = List.map_filter (\<lambda>m. if usable_msg m then merge (al_get store (row_id m)) m else None) msgs
      in (fold (\<lambda>r. al_set (row_id r) r) written store, written))"

definition mergeChannelRowsInto :: "string \<Rightarrow> message_db \<Rightarrow> chan_row list \<Rightarrow> string option \<Rightarrow> message_db \<times> chan_row list" where
  "mergeChannelRowsInto now db msgs chan =
     (let fixed = (if truthy chan then map (\<lambda>m. m\<lparr>channel_id := chan\<rparr>) msgs else msgs);
          (s, written) = mergeRowsInto (mergeChannelRow now) (channel_messages db) fixed
      in (db\<lparr>channel_messages := s\<rparr>, written))"

definition mergeDmRowsInto :: "string \<Rightarrow> message_db \<Rightarrow> dm_row list \<Rightarrow> string option \<Rightarrow> message_db \<times> dm_row list" where
  "mergeDmRowsInto now db msgs conv =
     (let fixed = (if conv = None then msgs else map (\<lambda>m. m\<lparr>conversation_id := conv\<rparr>) msgs);
          (s, written) = mergeRowsInto (mergeDmRow now) (dm_messages db) fixed
      in (db\<lparr>dm_messages := s\<rparr>, written))"

section \<open>Opening\<close>

text \<open>\<open>getAll\<close> on an object store: by primary key.\<close>

definition readAll :: "(string, 'a row_scheme) jsmap \<Rightarrow> 'a row_scheme list" where
  "readAll store = stable_sort (\<lambda>a b. row_id a \<le> row_id b) (map snd store)"

text \<open>\<open>owner\<close>: what \<open>legacyOwner\<close> resolved to; \<open>legacy_opens\<close>: whether the legacy database could be opened.\<close>

definition adoptLegacyIfOwner ::
  "string \<Rightarrow> string option \<Rightarrow> bool \<Rightarrow> string \<Rightarrow> (string, message_db) jsmap \<Rightarrow> (string, message_db) jsmap" where
  "adoptLegacyIfOwner now owner legacy_opens userId dbs =
     (case al_get dbs LEGACY_DB_NAME of
        None \<Rightarrow> dbs
      | Some legacy \<Rightarrow>
          if owner \<noteq> Some userId \<or> \<not> truthy owner then dbs
          else if \<not> legacy_opens then dbs
          else
            let db = or_else (al_get dbs (dbNameFor userId)) upgrade;
                db1 = fst (mergeChannelRowsInto now db (readAll (channel_messages legacy)) None);
                db2 = fst (mergeDmRowsInto now db1 (readAll (dm_messages legacy)) None)
            in al_del LEGACY_DB_NAME (al_set (dbNameFor userId) db2 dbs))"

text \<open>
  The tail of \<open>openDb\<close> for the account it began with: create or open the database, adopt
  the legacy one, and keep the handle only if the account is still the current one.
\<close>

definition openDb_finish :: "string \<Rightarrow> string option \<Rightarrow> bool \<Rightarrow> string \<Rightarrow> store_state \<Rightarrow> store_state" where
  "openDb_finish now owner legacy_opens userId st =
     (let created = (if al_has (databases st) (dbNameFor userId) then databases st
                     else al_set (dbNameFor userId) upgrade (databases st));
          dbs = adoptLegacyIfOwner now owner legacy_opens userId created
      in st\<lparr>databases := dbs,
            ms_open := (if getMessageStoreUser st = Some userId then Some userId else ms_open st)\<rparr>)"

definition openDb :: "string \<Rightarrow> string option \<Rightarrow> bool \<Rightarrow> store_state \<Rightarrow> store_error + string \<times> store_state" where
  "openDb now owner legacy_opens st =
     (case getMessageStoreUser st of
        None \<Rightarrow> Inl No_account
      | Some userId \<Rightarrow>
          if ms_open st = Some userId then Inr (userId, st)
          else Inr (userId, openDb_finish now owner legacy_opens userId st))"

text \<open>The database behind a handle.\<close>

definition db_of :: "string \<Rightarrow> store_state \<Rightarrow> message_db" where
  "db_of userId st = or_else (al_get (databases st) (dbNameFor userId)) upgrade"

definition set_db :: "string \<Rightarrow> message_db \<Rightarrow> store_state \<Rightarrow> store_state" where
  "set_db userId db st = st\<lparr>databases := al_set (dbNameFor userId) db (databases st)\<rparr>"

section \<open>Reading\<close>

text \<open>
  An index over (conversation, timestamp) lists a conversation's rows by timestamp and then
  by id; rows without a timestamp are not in it.
\<close>

definition ts_id_le :: "'a row_scheme \<Rightarrow> 'a row_scheme \<Rightarrow> bool" where
  "ts_id_le a b = (ts_key a < ts_key b \<or> (ts_key a = ts_key b \<and> row_id a \<le> row_id b))"

definition index_rows :: "('a row_scheme \<Rightarrow> string option) \<Rightarrow> (string, 'a row_scheme) jsmap \<Rightarrow> string \<Rightarrow> 'a row_scheme list" where
  "index_rows conv_of store conv =
     stable_sort ts_id_le (filter (\<lambda>r. conv_of r = Some conv \<and> timestamp r \<noteq> None) (map snd store))"

definition getChannelMessages :: "collation \<Rightarrow> message_db \<Rightarrow> string \<Rightarrow> nat \<Rightarrow> chan_row list" where
  "getChannelMessages lc db chan limit =
     slice_last limit (sortByTimestamp lc (index_rows channel_id (channel_messages db) chan))"

definition getAllChannelMessages :: "collation \<Rightarrow> message_db \<Rightarrow> string \<Rightarrow> chan_row list" where
  "getAllChannelMessages lc db chan = getChannelMessages lc db chan (2 ^ 53 - 1)"

definition getUnreadableChannelMessages :: "collation \<Rightarrow> message_db \<Rightarrow> string \<Rightarrow> chan_row list" where
  "getUnreadableChannelMessages lc db chan = filter (\<lambda>r. \<not> isReadable (Some r)) (getAllChannelMessages lc db chan)"

definition last_timestamp :: "'a row_scheme list \<Rightarrow> string option" where
  "last_timestamp rows = (if rows = [] then None else timestamp (last rows))"

definition getLatestChannelTimestamp :: "message_db \<Rightarrow> string \<Rightarrow> string option" where
  "getLatestChannelTimestamp db chan = last_timestamp (index_rows channel_id (channel_messages db) chan)"

definition rows_since :: "string option \<Rightarrow> 'a row_scheme list \<Rightarrow> 'a row_scheme list" where
  "rows_since since rows = (if truthy since then filter (\<lambda>r. the since < ts_key r) rows else rows)"

definition getChannelMessagesSince :: "collation \<Rightarrow> message_db \<Rightarrow> string \<Rightarrow> string option \<Rightarrow> nat \<Rightarrow> chan_row list" where
  "getChannelMessagesSince lc db chan since limit =
     take limit (sortByTimestamp lc (rows_since since (index_rows channel_id (channel_messages db) chan)))"

definition getDmMessages :: "collation \<Rightarrow> message_db \<Rightarrow> string \<Rightarrow> nat \<Rightarrow> dm_row list" where
  "getDmMessages lc db conv limit =
     slice_last limit (sortByTimestamp lc (index_rows conversation_id (dm_messages db) conv))"

definition getLatestDmTimestamp :: "message_db \<Rightarrow> string \<Rightarrow> string option" where
  "getLatestDmTimestamp db conv = last_timestamp (index_rows conversation_id (dm_messages db) conv)"

definition getDmMessagesSince :: "collation \<Rightarrow> message_db \<Rightarrow> string \<Rightarrow> string option \<Rightarrow> nat \<Rightarrow> dm_row list" where
  "getDmMessagesSince lc db conv since limit =
     take limit (sortByTimestamp lc (rows_since since (index_rows conversation_id (dm_messages db) conv)))"

section \<open>Writing\<close>

definition saveChannelMessage :: "string \<Rightarrow> message_db \<Rightarrow> chan_row \<Rightarrow> message_db \<times> chan_row option" where
  "saveChannelMessage now db msg =
     (let (db', written) = mergeChannelRowsInto now db [msg] None
      in (db', case written of [] \<Rightarrow> None | r # _ \<Rightarrow> Some r))"

definition saveChannelMessages :: "string \<Rightarrow> message_db \<Rightarrow> string \<Rightarrow> chan_row list \<Rightarrow> message_db \<times> chan_row list" where
  "saveChannelMessages now db chan msgs =
     (if msgs = [] then (db, []) else mergeChannelRowsInto now db msgs (Some chan))"

definition saveDmMessage :: "string \<Rightarrow> message_db \<Rightarrow> dm_row \<Rightarrow> message_db \<times> dm_row option" where
  "saveDmMessage now db msg =
     (let (db', written) = mergeDmRowsInto now db [msg] None
      in (db', case written of [] \<Rightarrow> None | r # _ \<Rightarrow> Some r))"

definition saveDmMessages :: "string \<Rightarrow> message_db \<Rightarrow> string \<Rightarrow> dm_row list \<Rightarrow> message_db \<times> dm_row list" where
  "saveDmMessages now db conv msgs =
     (if msgs = [] then (db, []) else mergeDmRowsInto now db msgs (Some conv))"

section \<open>One transaction\<close>

text \<open>Every row of a store sits under its own id.\<close>

definition keyed :: "(string, 'a row_scheme) jsmap \<Rightarrow> bool" where
  "keyed s = (distinct (map fst s) \<and> (\<forall>kr \<in> set s. row_id (snd kr) = fst kr))"

lemma keyed_get: "keyed s \<Longrightarrow> al_get s i = Some r \<Longrightarrow> row_id r = i"
  using al_get_in_set [of s i r] by (fastforce simp: keyed_def)

lemma keyed_Nil [simp]: "keyed []"
  by (simp add: keyed_def)

lemma keyed_set: "keyed s \<Longrightarrow> keyed (al_set (row_id r) r s)"
  by (auto simp: keyed_def dest!: set_al_set)

lemma keyed_fold: "keyed s \<Longrightarrow> keyed (fold (\<lambda>r. al_set (row_id r) r) rs s)"
  by (induction rs arbitrary: s) (simp_all add: keyed_set)

lemma get_fold_frame: "i \<notin> row_id ` set rs \<Longrightarrow> al_get (fold (\<lambda>r. al_set (row_id r) r) rs s) i = al_get s i"
  by (induction rs arbitrary: s) auto

lemma get_fold_mem:
  "distinct (map row_id rs) \<Longrightarrow> r \<in> set rs \<Longrightarrow> al_get (fold (\<lambda>r. al_set (row_id r) r) rs s) (row_id r) = Some r"
  by (induction rs arbitrary: s) (auto simp: get_fold_frame image_iff)

lemma set_map_filter: "x \<in> set (List.map_filter f xs) \<longleftrightarrow> (\<exists>y \<in> set xs. f y = Some x)"
  by (force simp: List.map_filter_def)

locale row_store = row_merge merge plaintext encrypted_content row_id
  for merge :: "'a row_scheme option \<Rightarrow> 'a row_scheme \<Rightarrow> 'a row_scheme option"
begin

lemma written_id:
  assumes "keyed s" "merge (al_get s (row_id m)) m = Some r"
  shows "row_id r = row_id m"
proof (cases "al_get s (row_id m)")
  case None
  with assms(2) fresh [of m] show ?thesis by auto
next
  case (Some ex)
  with assms keyed_get show ?thesis by (metis keeps_id)
qed

lemma merge_rows_keyed: "keyed s \<Longrightarrow> keyed (fst (mergeRowsInto merge s msgs))"
  by (simp add: mergeRowsInto_def Let_def keyed_fold)

text \<open>What was readable before the transaction is untouched by it, whatever the batch holds.\<close>

lemma merge_rows_final:
  assumes "keyed s" "al_get s i = Some r" "plaintext r \<noteq> None"
  shows "al_get (fst (mergeRowsInto merge s msgs)) i = Some r"
proof -
  let ?w = "List.map_filter (\<lambda>m. if usable_msg m then merge (al_get s (row_id m)) m else None) msgs"
  have "i \<notin> row_id ` set ?w"
  proof
    assume "i \<in> row_id ` set ?w"
    then obtain m w where "merge (al_get s (row_id m)) m = Some w" "row_id w = i"
      by (auto simp: set_map_filter split: if_splits)
    moreover from this have "row_id m = i" using written_id [OF assms(1)] by metis
    ultimately show False using assms(2,3) final by simp
  qed
  with assms(2) show ?thesis by (simp add: mergeRowsInto_def Let_def get_fold_frame)
qed

lemma written_distinct:
  assumes "keyed s" "distinct (map row_id msgs)"
  shows "distinct (map row_id (List.map_filter (\<lambda>m. if usable_msg m then merge (al_get s (row_id m)) m else None) msgs))"
  using assms(2)
proof (induction msgs)
  case (Cons m msgs)
  have "row_id r = row_id m'" if "merge (al_get s (row_id m')) m' = Some r" for m' r
    using written_id [OF assms(1) that] .
  with Cons show ?case
    by (auto simp: List.map_filter_simps set_map_filter split: option.split if_splits)
qed (simp add: List.map_filter_simps)

text \<open>With distinct ids, the transaction is the row-wise update.\<close>

lemma merge_rows_get:
  assumes "keyed s" "distinct (map row_id msgs)" "m \<in> set msgs" "usable_msg m"
  shows "al_get (fst (mergeRowsInto merge s msgs)) (row_id m) = upd (al_get s (row_id m)) m"
proof -
  let ?f = "\<lambda>m. if usable_msg m then merge (al_get s (row_id m)) m else None"
  show ?thesis
  proof (cases "merge (al_get s (row_id m)) m")
    case None
    have "row_id m \<notin> row_id ` set (List.map_filter ?f msgs)"
    proof
      assume "row_id m \<in> row_id ` set (List.map_filter ?f msgs)"
      then obtain m' w where w: "m' \<in> set msgs" "merge (al_get s (row_id m')) m' = Some w" "row_id w = row_id m"
        by (auto simp: set_map_filter split: if_splits)
      then have "row_id m' = row_id m" using written_id [OF assms(1)] by metis
      then have "m' = m" using w(1) assms(2,3) by (simp add: distinct_map inj_on_def)
      with w None show False by simp
    qed
    with None show ?thesis by (simp add: mergeRowsInto_def Let_def get_fold_frame upd_def)
  next
    case (Some r)
    with assms have r: "r \<in> set (List.map_filter ?f msgs)" by (auto simp: set_map_filter)
    have "row_id r = row_id m" using written_id assms(1) Some by blast
    with get_fold_mem [OF written_distinct [OF assms(1,2)] r, of s] Some show ?thesis
      by (simp add: mergeRowsInto_def Let_def upd_def)
  qed
qed

lemma merge_rows_gains:
  assumes "keyed s" "distinct (map row_id msgs)" "m \<in> set msgs" "usable_msg m" "plaintext m \<noteq> None"
  shows "\<exists>r. al_get (fst (mergeRowsInto merge s msgs)) (row_id m) = Some r \<and> plaintext r \<noteq> None"
  using merge_rows_get [OF assms(1-4)] upd_gains [OF assms(5), of "al_get s (row_id m)"] by simp

end

interpretation chan_store: row_store "mergeChannelRow now" for now
  by unfold_locales

interpretation dm_store: row_store "mergeDmRow now" for now
  by unfold_locales

section \<open>A history of saves\<close>

datatype save_op = Save_one chan_row | Save_many string "chan_row list"

definition do_save :: "string \<Rightarrow> save_op \<Rightarrow> message_db \<Rightarrow> message_db" where
  "do_save now sv db = (case sv of
     Save_one m \<Rightarrow> fst (saveChannelMessage now db m)
   | Save_many chan ms \<Rightarrow> fst (saveChannelMessages now db chan ms))"

lemma do_save_rows:
  "\<exists>ms. channel_messages (do_save now sv db) = fst (mergeRowsInto (mergeChannelRow now) (channel_messages db) ms)"
proof (cases sv)
  case (Save_one m)
  then show ?thesis
    by (intro exI [of _ "[m]"]) (simp add: do_save_def saveChannelMessage_def mergeChannelRowsInto_def Let_def case_prod_beta)
next
  case (Save_many chan ms)
  show ?thesis
  proof (cases "ms = []")
    case True
    then show ?thesis
      by (intro exI [of _ "[]"])
        (simp add: Save_many do_save_def saveChannelMessages_def mergeRowsInto_def List.map_filter_simps)
  next
    case False
    then show ?thesis
      by (simp add: Save_many do_save_def saveChannelMessages_def mergeChannelRowsInto_def Let_def case_prod_beta) blast
  qed
qed

lemma do_save_keyed: "keyed (channel_messages db) \<Longrightarrow> keyed (channel_messages (do_save now sv db))"
  using do_save_rows [of now sv db] chan_store.merge_rows_keyed by auto

lemma do_save_final:
  "keyed (channel_messages db) \<Longrightarrow> al_get (channel_messages db) i = Some r \<Longrightarrow> plaintext r \<noteq> None \<Longrightarrow>
   al_get (channel_messages (do_save now sv db)) i = Some r"
  using do_save_rows [of now sv db] chan_store.merge_rows_final by auto

text \<open>C33: a channel message this device can read is never lost or changed: whatever sequence of saves follows
  (relays, retries, peers' backfills, at any times), the stored row stays the same.\<close>

theorem readable_row_final:
  assumes "keyed (channel_messages db)" "al_get (channel_messages db) i = Some r" "plaintext r \<noteq> None"
  shows "al_get (channel_messages (fold (\<lambda>(now, sv). do_save now sv) svs db)) i = Some r"
  using assms
proof (induction svs arbitrary: db)
  case (Cons nsv svs)
  obtain now sv where "nsv = (now, sv)" by (cases nsv)
  with Cons.IH [of "do_save now sv db"] Cons.prems show ?case
    by (simp add: do_save_keyed do_save_final)
qed simp

definition demo_db :: message_db where
  "demo_db = \<lparr>channel_messages = [(''m1'', demo_row\<lparr>plaintext := Some ''hi'', pending := False\<rparr>)], dm_messages = []\<rparr>"

lemma readable_row_final_witness:
  "al_get (channel_messages (fold (\<lambda>(now, sv). do_save now sv)
     [(''n1'', Save_one demo_row), (''n2'', Save_many ''c1'' [demo_row\<lparr>plaintext := Some ''forged''\<rparr>])] demo_db)) ''m1''
   = Some (demo_row\<lparr>plaintext := Some ''hi'', pending := False\<rparr>)"
  by (rule readable_row_final) (simp_all add: demo_db_def demo_row_def keyed_def)

text \<open>A peer's backfill closes the gap: every readable row of the batch (ids distinct within it) is
  readable in the history afterwards.\<close>

lemma backfill_closes_gap:
  assumes "keyed (channel_messages db)" "distinct (map row_id msgs)" "m \<in> set msgs"
    "usable_msg m" "plaintext m \<noteq> None"
  shows "\<exists>r. al_get (channel_messages (fst (saveChannelMessages now db chan msgs))) (row_id m) = Some r
    \<and> plaintext r \<noteq> None"
proof -
  define fixed where "fixed = (if truthy (Some chan) then map (\<lambda>m. m\<lparr>channel_id := Some chan\<rparr>) msgs else msgs)"
  obtain m' where m': "m' \<in> set fixed" "row_id m' = row_id m" "usable_msg m'" "plaintext m' \<noteq> None"
  proof (cases "truthy (Some chan)")
    case True
    with assms show ?thesis by (intro that [of "m\<lparr>channel_id := Some chan\<rparr>"]) (auto simp: fixed_def usable_msg_def)
  next
    case False
    with assms show ?thesis by (intro that [of m]) (auto simp: fixed_def)
  qed
  have "distinct (map row_id fixed)" using assms(2) by (simp add: fixed_def comp_def)
  from chan_store.merge_rows_gains [OF assms(1) this m'(1,3,4), of now] m'(2) assms(3) show ?thesis
    by (auto simp: saveChannelMessages_def mergeChannelRowsInto_def fixed_def Let_def case_prod_beta)
qed

lemma backfill_closes_gap_witness:
  "\<exists>r. al_get (channel_messages (fst (saveChannelMessages ''now'' upgrade ''c1'' [demo_row\<lparr>plaintext := Some ''hi''\<rparr>])))
     (row_id (demo_row\<lparr>plaintext := Some ''hi''\<rparr>)) = Some r \<and> plaintext r \<noteq> None"
  by (rule backfill_closes_gap) (simp_all add: upgrade_def demo_row_def usable_msg_def)

text \<open>Within ONE transaction the rule does not hold: when a batch carries a message id twice, both copies
  are merged into what was stored before the transaction, and the last one is written, so an
  unreadable copy overwrites the readable one that precedes it in the batch.\<close>

lemma batch_duplicate_overwrites:
  "map_option plaintext (al_get (channel_messages (fst (saveChannelMessages ''now'' upgrade ''c1''
     [demo_row\<lparr>plaintext := Some ''hi''\<rparr>, demo_row]))) ''m1'') = Some None"
  by (simp add: saveChannelMessages_def mergeChannelRowsInto_def mergeRowsInto_def List.map_filter_simps
      usable_msg_def mergeChannelRow_def mergeNormalized_def normalizeRow_def normalize_common_def upgrade_def demo_row_def)

section \<open>Accounts\<close>

lemma dbNameFor_neq_legacy [simp]: "dbNameFor u \<noteq> LEGACY_DB_NAME"
  by (simp add: dbNameFor_def DB_PREFIX_def LEGACY_DB_NAME_def)

lemma dbNameFor_inject [simp]: "dbNameFor u = dbNameFor v \<longleftrightarrow> u = v"
  by (simp add: dbNameFor_def)

lemma adopt_frame:
  "name \<noteq> dbNameFor u \<Longrightarrow> name \<noteq> LEGACY_DB_NAME \<or> owner \<noteq> Some u \<Longrightarrow>
   al_get (adoptLegacyIfOwner now owner opens u dbs) name = al_get dbs name"
  by (auto simp: adoptLegacyIfOwner_def Let_def split: option.split)

lemma openDb_finish_frame:
  "name \<noteq> dbNameFor u \<Longrightarrow> name \<noteq> LEGACY_DB_NAME \<or> owner \<noteq> Some u \<Longrightarrow>
   al_get (databases (openDb_finish now owner opens u st)) name = al_get (databases st) name"
  by (auto simp: openDb_finish_def Let_def adopt_frame)

text \<open>An account only ever reaches its own history: opening hands out the database of the current account
  and changes no other account's database; the shared pre-2.0.1 history stays as it is unless the
  operating system names this account as its owner.\<close>

lemma open_isolates_accounts:
  assumes "openDb now owner opens st = Inr (u, st')"
  shows "getMessageStoreUser st = Some u \<and>
    {name. al_get (databases st') name \<noteq> al_get (databases st) name}
      \<subseteq> insert (dbNameFor u) (if owner = Some u then {LEGACY_DB_NAME} else {})"
proof -
  have u: "getMessageStoreUser st = Some u"
    and st': "st' = st \<or> st' = openDb_finish now owner opens u st"
    using assms by (auto simp: openDb_def split: option.splits if_splits)
  have "name = dbNameFor u \<or> (name = LEGACY_DB_NAME \<and> owner = Some u)"
    if "al_get (databases st') name \<noteq> al_get (databases st) name" for name
    using that st' openDb_finish_frame [of name u owner now opens st] by auto
  with u show ?thesis by auto
qed

definition demo_store :: store_state where
  "demo_store = \<lparr>ms_user = Some ''u1'', ms_open = None,
     databases = [(LEGACY_DB_NAME, demo_db), (dbNameFor ''u2'', upgrade)], ls_user_id = None\<rparr>"

lemma open_isolates_accounts_witness:
  "getMessageStoreUser demo_store = Some ''u1'' \<and>
    {name. al_get (databases (openDb_finish ''now'' (Some ''u2'') True ''u1'' demo_store)) name \<noteq> al_get (databases demo_store) name}
      \<subseteq> insert (dbNameFor ''u1'') (if Some ''u2'' = Some ''u1'' then {LEGACY_DB_NAME} else {})"
  by (rule open_isolates_accounts [where now = "''now''" and opens = True])
    (simp add: openDb_def demo_store_def getMessageStoreUser_def)

text \<open>The owner's adoption of the shared history loses no readable row of it: a row readable there, under
  an id the account's own history does not hold yet, is readable in the account's history.\<close>

lemma adopt_keeps_readable:
  assumes "al_get dbs LEGACY_DB_NAME = Some legacy" "keyed (channel_messages legacy)"
    and "al_get (channel_messages legacy) i = Some r" "usable_msg r" "plaintext r \<noteq> None"
    and "keyed (channel_messages (or_else (al_get dbs (dbNameFor u)) upgrade))" "u \<noteq> []"
  shows "\<exists>db r'. al_get (adoptLegacyIfOwner now (Some u) True u dbs) (dbNameFor u) = Some db
    \<and> al_get (channel_messages db) i = Some r' \<and> plaintext r' \<noteq> None"
proof -
  let ?rows = "readAll (channel_messages legacy)"
  have r: "r \<in> set ?rows" "row_id r = i"
    using assms(3) al_get_in_set [OF assms(3)] keyed_get [OF assms(2,3)] by (force simp: readAll_def)+
  have "map (\<lambda>kr. row_id (snd kr)) (channel_messages legacy) = map fst (channel_messages legacy)"
    using assms(2) by (auto simp: keyed_def)
  moreover have "distinct (map fst (channel_messages legacy))" using assms(2) by (simp add: keyed_def)
  ultimately have d0: "distinct (map row_id (map snd (channel_messages legacy)))"
    by (simp only: list.map_comp comp_def)
  have "distinct (map row_id ?rows)"
  proof -
    have "inj_on row_id (set ?rows)" using iffD1 [OF distinct_map d0] by (simp add: readAll_def)
    moreover have "distinct ?rows" using iffD1 [OF distinct_map d0] by (simp add: readAll_def)
    ultimately show ?thesis by (simp add: distinct_map)
  qed
  from chan_store.merge_rows_gains [OF assms(6) this r(1) assms(4,5), of now] r(2) assms(1,7)
  show ?thesis
    by (auto simp: adoptLegacyIfOwner_def Let_def mergeChannelRowsInto_def mergeDmRowsInto_def case_prod_beta)
qed

lemma adopt_keeps_readable_witness:
  "\<exists>db r'. al_get (adoptLegacyIfOwner ''now'' (Some ''u1'') True ''u1'' (databases demo_store)) (dbNameFor ''u1'') = Some db
    \<and> al_get (channel_messages db) ''m1'' = Some r' \<and> plaintext r' \<noteq> None"
  by (rule adopt_keeps_readable [where legacy = demo_db and r = "demo_row\<lparr>plaintext := Some ''hi'', pending := False\<rparr>"])
    (simp_all add: demo_store_def demo_db_def demo_row_def keyed_def usable_msg_def upgrade_def)

section \<open>Reading back\<close>

lemma set_index_rows: "r \<in> set (index_rows conv_of s conv) \<longleftrightarrow>
  r \<in> snd ` set s \<and> conv_of r = Some conv \<and> timestamp r \<noteq> None"
  by (auto simp: index_rows_def)

lemma getChannelMessages_sound:
  "set (getChannelMessages lc db chan n) \<subseteq> {r \<in> snd ` set (channel_messages db). channel_id r = Some chan}"
  using set_slice_last [of n] by (fastforce simp: getChannelMessages_def set_index_rows)

lemma getChannelMessages_complete:
  "r \<in> snd ` set (channel_messages db) \<Longrightarrow> channel_id r = Some chan \<Longrightarrow> timestamp r \<noteq> None \<Longrightarrow>
   length (channel_messages db) \<le> n \<Longrightarrow> 0 < n \<Longrightarrow> r \<in> set (getChannelMessages lc db chan n)"
proof -
  assume a: "r \<in> snd ` set (channel_messages db)" "channel_id r = Some chan" "timestamp r \<noteq> None"
    "length (channel_messages db) \<le> n" "0 < n"
  have "length (index_rows channel_id (channel_messages db) chan) \<le> n"
    using a(4) le_trans [OF length_filter_le] by (auto simp: index_rows_def)
  then have "slice_last n (sortByTimestamp lc (index_rows channel_id (channel_messages db) chan)) =
      sortByTimestamp lc (index_rows channel_id (channel_messages db) chan)"
    using a(5) by (simp add: slice_last_def sortByTimestamp_def)
  with a show ?thesis by (simp add: getChannelMessages_def set_index_rows)
qed

end
