(* ===== verification/Mls_State.thy ===== *)
theory Mls_State
  imports SC_Prelude "HOL-Library.Multiset"
begin

text \<open>
  The first part of \<open>web-portal/src/mlsSession.js\<close>: credentials and labels, base64, the
  session's in-memory state, the state lock, the single writer that persists the device
  state, and the account reset.

  A byte array is a list of characters (codes 0 to 255), the form \<open>String.fromCharCode\<close>
  and \<open>charCodeAt\<close> give it in \<open>toB64\<close>/\<open>fromB64\<close>.  The device state itself is opaque: a type
  variable \<open>'st\<close>, interpreted by the WASM module only.

  A JavaScript turn runs without interruption, so each turn is one function on the
  \<open>session\<close> record.  What is in progress across an \<open>await\<close> is in the record: the lock's
  queue and holder, the write in flight and the outstanding durability promises.
\<close>

type_synonym bytes = "char list"

section \<open>Credentials and labels\<close>

definition deviceIdKey :: "string \<Rightarrow> string" where
  "deviceIdKey userId = ''specter_mls_device_id:'' @ userId"

definition LEGACY_DEVICE_ID_KEY :: string where
  "LEGACY_DEVICE_ID_KEY = ''specter_mls_device_id''"

definition credentialFor :: "string \<Rightarrow> string \<Rightarrow> string" where
  "credentialFor userId deviceId = userId @ CHR '':'' # deviceId"

text \<open>\<open>lastIndexOf(':')\<close> of a string, -1 when there is none.\<close>

definition lastIndexOf :: "char \<Rightarrow> string \<Rightarrow> int" where
  "lastIndexOf c s = (if c \<in> set s
     then int (length s) - 1 - int (length (takeWhile (\<lambda>x. x \<noteq> c) (rev s))) else -1)"

text \<open>\<open>s.slice(0, i)\<close> and \<open>s.slice(i)\<close>; a negative index counts from the end.\<close>

definition slice_to :: "int \<Rightarrow> string \<Rightarrow> string" where
  "slice_to i s = take (nat (if i < 0 then int (length s) + i else i)) s"

definition slice_from :: "int \<Rightarrow> string \<Rightarrow> string" where
  "slice_from i s = drop (nat (if i < 0 then int (length s) + i else i)) s"

definition userIdOfLabel :: "string \<Rightarrow> string" where
  "userIdOfLabel label = slice_to (lastIndexOf (CHR '':'') label) label"

definition deviceIdOfLabel :: "string \<Rightarrow> string" where
  "deviceIdOfLabel label = slice_from (lastIndexOf (CHR '':'') label + 1) label"

lemma lastIndexOf_append: "c \<notin> set d \<Longrightarrow> lastIndexOf c (u @ c # d) = int (length u)"
proof -
  assume "c \<notin> set d"
  then have "takeWhile (\<lambda>x. x \<noteq> c) (rev d @ c # rev u) = rev d"
    by (subst takeWhile_append2) auto
  then show ?thesis by (simp add: lastIndexOf_def)
qed

lemma lastIndexOf_credential:
  "CHR '':'' \<notin> set d \<Longrightarrow> lastIndexOf (CHR '':'') (credentialFor u d) = int (length u)"
  unfolding credentialFor_def by (rule lastIndexOf_append)

text \<open>The label of a group member names its account and its device again: splitting a credential at its
  last colon gives back the user id and the device id it was built from, for every device id without
  a colon (a UUID has none), even when the user id holds colons itself.\<close>

lemma label_roundtrip:
  assumes "CHR '':'' \<notin> set d"
  shows "userIdOfLabel (credentialFor u d) = u \<and> deviceIdOfLabel (credentialFor u d) = d"
proof -
  have "nat (int (length u) + 1) = Suc (length u)" by simp
  then show ?thesis
    using lastIndexOf_credential [OF assms, of u]
    by (simp add: userIdOfLabel_def deviceIdOfLabel_def slice_to_def slice_from_def)
      (simp add: credentialFor_def)
qed

lemma label_roundtrip_witness:
  "userIdOfLabel (credentialFor ''org:7'' ''d1'') = ''org:7''
   \<and> deviceIdOfLabel (credentialFor ''org:7'' ''d1'') = ''d1''"
  by (rule label_roundtrip) simp

section \<open>Base64\<close>

definition b64_alphabet :: string where
  "b64_alphabet = ''ABCDEFGHIJKLMNOPQRSTUVWXYZabcdefghijklmnopqrstuvwxyz0123456789+/''"

definition b64_char :: "nat \<Rightarrow> char" where
  "b64_char n = b64_alphabet ! n"

fun index_of :: "'a \<Rightarrow> 'a list \<Rightarrow> nat" where
  "index_of x [] = 0"
| "index_of x (y # ys) = (if x = y then 0 else Suc (index_of x ys))"

definition b64_val :: "char \<Rightarrow> nat" where
  "b64_val c = index_of c b64_alphabet"

text \<open>\<open>btoa\<close>: three bytes become four digits, the last group is padded.\<close>

fun btoa :: "bytes \<Rightarrow> string" where
  "btoa (a # b # c # r) =
    (let n = of_char a * 65536 + of_char b * 256 + of_char c in
     [b64_char (n div 262144), b64_char (n div 4096 mod 64), b64_char (n div 64 mod 64), b64_char (n mod 64)]) @ btoa r"
| "btoa [a, b] =
    (let n = of_char a * 65536 + of_char b * 256 in
     [b64_char (n div 262144), b64_char (n div 4096 mod 64), b64_char (n div 64 mod 64), CHR ''=''])"
| "btoa [a] =
    (let n = of_char a * 65536 in
     [b64_char (n div 262144), b64_char (n div 4096 mod 64), CHR ''='', CHR ''=''])"
| "btoa [] = []"

fun b64_groups :: "string \<Rightarrow> bytes" where
  "b64_groups (w # x # y # z # r) =
    (let n = b64_val w * 262144 + b64_val x * 4096 + b64_val y * 64 + b64_val z in
     [char_of (n div 65536), char_of (n div 256 mod 256), char_of (n mod 256)]) @ b64_groups r"
| "b64_groups [w, x, y] =
    (let n = b64_val w * 262144 + b64_val x * 4096 + b64_val y * 64 in
     [char_of (n div 65536), char_of (n div 256 mod 256)])"
| "b64_groups [w, x] =
    (let n = b64_val w * 262144 + b64_val x * 4096 in [char_of (n div 65536)])"
| "b64_groups _ = []"

definition b64_unpad :: "string \<Rightarrow> string" where
  "b64_unpad s = (if length s mod 4 = 0 \<and> s \<noteq> [] \<and> last s = CHR ''=''
     then (let t = butlast s in if t \<noteq> [] \<and> last t = CHR ''='' then butlast t else t) else s)"

definition b64_space :: "char \<Rightarrow> bool" where
  "b64_space c \<longleftrightarrow> c \<in> {CHR '' '', CHR 0x09, CHR 0x0A, CHR 0x0C, CHR 0x0D}"

text \<open>\<open>atob\<close>; \<^const>\<open>None\<close> is the InvalidCharacterError it throws.\<close>

definition atob :: "string \<Rightarrow> bytes option" where
  "atob s = (let t = b64_unpad (filter (\<lambda>c. \<not> b64_space c) s) in
     if length t mod 4 = 1 \<or> \<not> list_all (\<lambda>c. c \<in> set b64_alphabet) t then None
     else Some (b64_groups t))"

definition toB64 :: "bytes \<Rightarrow> string" where
  "toB64 bs = btoa bs"

definition fromB64 :: "string \<Rightarrow> bytes option" where
  "fromB64 s = atob s"


lemma index_of_nth: "distinct xs \<Longrightarrow> n < length xs \<Longrightarrow> index_of (xs ! n) xs = n"
proof (induction xs arbitrary: n)
  case (Cons x xs)
  then show ?case by (cases n) auto
qed simp

lemma b64_alphabet_facts: "length b64_alphabet = 64" "distinct b64_alphabet" "CHR ''='' \<notin> set b64_alphabet"
  "list_all (\<lambda>c. \<not> b64_space c) b64_alphabet"
  by (simp_all add: b64_alphabet_def b64_space_def)

lemma b64_val_char: "n < 64 \<Longrightarrow> b64_val (b64_char n) = n"
  by (simp add: b64_val_def b64_char_def index_of_nth b64_alphabet_facts)

lemma b64_char_in: "n < 64 \<Longrightarrow> b64_char n \<in> set b64_alphabet"
  by (simp add: b64_char_def b64_alphabet_facts)

lemma char_of_of_char_nat: "char_of (of_char c :: nat) = c"
  by simp

lemma of_char_less: "(of_char c :: nat) < 256"
  by (metis mod_less_divisor of_char_mod_256 zero_less_numeral)

lemma b64_digits:
  fixes a b c :: nat
  assumes "a < 256" "b < 256" "c < 256" and "n = a * 65536 + b * 256 + c"
  shows "n div 262144 < 64" "n div 262144 * 262144 + n div 4096 mod 64 * 4096 + n div 64 mod 64 * 64 + n mod 64 = n"
    "n div 65536 = a" "n div 256 mod 256 = b" "n mod 256 = c"
proof -
  have n: "n = (a * 256 + b) * 256 + c" using assms(4) by simp
  show "n div 262144 < 64" using assms by simp
  have x: "m = m div 64 * 64 + m mod 64" for m :: nat by simp
  have y: "n div 64 div 64 = n div 4096" "n div 4096 div 64 = n div 262144"
    by (simp_all add: div_mult2_eq [symmetric])
  show "n div 262144 * 262144 + n div 4096 mod 64 * 4096 + n div 64 mod 64 * 64 + n mod 64 = n"
    using x [of n] x [of "n div 64"] x [of "n div 4096"] unfolding y by linarith
  show "n mod 256 = c" using mod_mult_self3 [of "a * 256 + b" 256 c] assms(3) unfolding n by simp
  have d: "n div 256 = a * 256 + b"
    using div_mult_self3 [of 256 "a * 256 + b" c] assms(3) unfolding n by simp
  then show "n div 256 mod 256 = b" using assms(2) by simp
  have "n div 65536 = n div 256 div 256" by (simp add: div_mult2_eq [symmetric])
  also have "\<dots> = a" using d assms(2) by simp
  finally show "n div 65536 = a" .
qed

lemma char_of_mod: "m mod 256 = of_char c \<Longrightarrow> char_of m = c"
  for m :: nat
  by (metis char_of_mod_256 char_of_char)

lemma char_of_eq: "m = of_char c \<Longrightarrow> char_of m = c"
  for m :: nat
  by simp

definition b64_form :: "bytes \<Rightarrow> string \<Rightarrow> nat \<Rightarrow> bool" where
  "b64_form bs p k \<longleftrightarrow> btoa bs = p @ replicate k (CHR ''='') \<and> k \<le> 2 \<and> set p \<subseteq> set b64_alphabet
     \<and> b64_groups p = bs \<and> length p mod 4 \<noteq> 1 \<and> (length p + k) mod 4 = 0"

lemma form_step:
  assumes "b64_form r p k" "btoa bs = q @ btoa r" "length q = 4" "set q \<subseteq> set b64_alphabet"
    and "b64_groups (q @ p) = bs"
  shows "b64_form bs (q @ p) k"
proof -
  have "\<lbrakk>l mod 4 \<noteq> 1; (l + k) mod 4 = 0\<rbrakk> \<Longrightarrow> (4 + l) mod 4 \<noteq> 1 \<and> (4 + l + k) mod 4 = 0" for l :: nat
    by presburger
  then have "length (q @ p) mod 4 \<noteq> 1" "(length (q @ p) + k) mod 4 = 0"
    using assms(1,3) by (simp_all add: b64_form_def)
  then show ?thesis using assms by (simp add: b64_form_def)
qed

lemma form_last:
  assumes "btoa bs = q @ replicate k (CHR ''='')" "length q = 4 - k" "k = 1 \<or> k = 2"
    and "set q \<subseteq> set b64_alphabet" "b64_groups q = bs"
  shows "b64_form bs q k"
  using assms by (auto simp: b64_form_def)

lemma btoa_form: "\<exists>p k. b64_form bs p k"
proof (induction bs rule: btoa.induct)
  case (1 a b c r)
  then obtain p k where IH: "b64_form r p k" by blast
  define n :: nat where "n = of_char a * 65536 + of_char b * 256 + of_char c"
  note dg = b64_digits [OF of_char_less of_char_less of_char_less n_def]
  let ?q = "[b64_char (n div 262144), b64_char (n div 4096 mod 64), b64_char (n div 64 mod 64), b64_char (n mod 64)]"
  have "b64_groups (?q @ p) = a # b # c # r"
    using IH dg(1,2) char_of_eq [OF dg(3)] char_of_mod [OF dg(4)] char_of_mod [OF dg(5)]
    by (simp add: b64_form_def b64_val_char Let_def)
  moreover have "btoa (a # b # c # r) = ?q @ btoa r" by (simp only: btoa.simps Let_def n_def)
  ultimately have "b64_form (a # b # c # r) (?q @ p) k"
    using dg(1) by (intro form_step [OF IH]) (simp_all add: b64_char_in)
  then show ?case by blast
next
  case (2 a b)
  define n :: nat where "n = of_char a * 65536 + of_char b * 256"
  have "n = of_char a * 65536 + of_char b * 256 + 0" by (simp add: n_def)
  note dg = b64_digits [OF of_char_less of_char_less _ this, simplified]
  have d0: "n mod 64 = 0" unfolding n_def by presburger
  let ?q = "[b64_char (n div 262144), b64_char (n div 4096 mod 64), b64_char (n div 64 mod 64)]"
  have "b64_groups ?q = [a, b]" using dg(1,2) d0 char_of_eq [OF dg(3)] char_of_mod [OF dg(4)]
    by (simp add: b64_val_char Let_def)
  moreover have "btoa [a, b] = ?q @ replicate 1 (CHR ''='')"
    by (simp only: btoa.simps Let_def n_def) simp
  ultimately have "b64_form [a, b] ?q 1"
    using dg(1) by (intro form_last) (simp_all add: b64_char_in)
  then show ?case by blast
next
  case (3 a)
  define n :: nat where "n = of_char a * 65536"
  have "n = of_char a * 65536 + 0 * 256 + 0" by (simp add: n_def)
  note dg = b64_digits [OF of_char_less _ _ this, simplified]
  have "n = of_char a * 16 * 64 * 64" by (simp add: n_def)
  then have d0: "n mod 64 = 0" "n div 64 mod 64 = 0" by (simp_all only: mod_mult_self2_is_0 nonzero_mult_div_cancel_right)
  let ?q = "[b64_char (n div 262144), b64_char (n div 4096 mod 64)]"
  have "b64_groups ?q = [a]" using dg(1,2) d0 char_of_eq [OF dg(3)] by (simp add: b64_val_char Let_def)
  moreover have "btoa [a] = ?q @ replicate 2 (CHR ''='')"
    by (simp only: btoa.simps Let_def n_def) (simp add: numeral_2_eq_2)
  ultimately have "b64_form [a] ?q 2"
    using dg(1) by (intro form_last) (simp_all add: b64_char_in)
  then show ?case by blast
next
  case 4
  have "b64_form [] [] 0" by (simp add: b64_form_def)
  then show ?case by blast
qed

lemma unpad_form: "b64_form bs p k \<Longrightarrow> b64_unpad (btoa bs) = p"
proof -
  assume f: "b64_form bs p k"
  then have no: "CHR ''='' \<notin> set p" and k: "k \<le> 2" and m: "(length p + k) mod 4 = 0"
    and e: "btoa bs = p @ replicate k (CHR ''='')"
    using b64_alphabet_facts(3) by (auto simp: b64_form_def)
  have last: "p = [] \<or> last p \<noteq> CHR ''=''" using no last_in_set [of p] by metis
  from k have "k = 0 \<or> k = 1 \<or> k = 2" by linarith
  then show ?thesis
    using last m unfolding e b64_unpad_def
    by (elim disjE) (auto simp: numeral_2_eq_2 butlast_append Let_def)
qed

lemma atob_btoa: "atob (btoa bs) = Some bs"
proof -
  obtain p k where f: "b64_form bs p k" using btoa_form by blast
  then have s: "set (btoa bs) \<subseteq> insert (CHR ''='') (set b64_alphabet)"
    by (auto simp: b64_form_def)
  have "\<not> b64_space c" if "c \<in> set (btoa bs)" for c
  proof -
    have "c = CHR ''='' \<or> c \<in> set b64_alphabet" using s that by blast
    then show ?thesis
      using b64_alphabet_facts(4) by (auto simp: list_all_iff b64_space_def)
  qed
  then have "filter (\<lambda>c. \<not> b64_space c) (btoa bs) = btoa bs"
    by (simp add: filter_id_conv)
  moreover have "length p mod 4 \<noteq> 1" "list_all (\<lambda>c. c \<in> set b64_alphabet) p" "b64_groups p = bs"
    using f by (auto simp: b64_form_def list_all_iff)
  ultimately show ?thesis
    by (simp add: atob_def Let_def unpad_form [OF f])
qed

text \<open>Base64 is lossless: decoding what \<open>toB64\<close> made of any bytes (a commit, a welcome, a key
  package, a ciphertext) gives back exactly those bytes.\<close>

lemma b64_roundtrip: "fromB64 (toB64 bs) = Some bs"
  by (simp add: fromB64_def toB64_def atob_btoa)

section \<open>Errors\<close>

text \<open>\<open>MlsStateUnavailableError\<close> (its code is read off the message), \<open>MlsDecryptError\<close> and any other
  \<open>Error\<close>.\<close>

datatype mls_error =
    StateUnavailable (err_message: string)
  | DecryptError (err_reason: string) (err_message: string) (err_messageEpoch: "int option") (err_localEpoch: "int option")
  | PlainError (err_message: string)

definition code_char :: "char \<Rightarrow> bool" where
  "code_char c \<longleftrightarrow> (CHR ''A'' \<le> c \<and> c \<le> CHR ''Z'') \<or> c = CHR ''_''"

text \<open>The match of \<open>/^(MLS_[A-Z_]+)/\<close>.\<close>

definition errorCode :: "string \<Rightarrow> string" where
  "errorCode message = (let rest = takeWhile code_char (drop 4 message) in
     if take 4 message = ''MLS_'' \<and> rest \<noteq> [] then ''MLS_'' @ rest else ''MLS_STATE_UNKNOWN'')"

definition accountSwitched :: mls_error where
  "accountSwitched = StateUnavailable ''MLS_ACCOUNT_SWITCHED: the signed-in account changed during this MLS operation''"

fun contains :: "string \<Rightarrow> string \<Rightarrow> bool" where
  "contains p [] = (p = [])"
| "contains p (c # s) = (take (length p) (c # s) = p \<or> contains p s)"

text \<open>The test \<open>/MLS_ACCOUNT_MISMATCH|MLS_NO_SESSION/\<close> of the writer.\<close>

definition staleAccountMessage :: "string \<Rightarrow> bool" where
  "staleAccountMessage message \<longleftrightarrow>
     contains ''MLS_ACCOUNT_MISMATCH'' message \<or> contains ''MLS_NO_SESSION'' message"

section \<open>The session\<close>

text \<open>What a group's requests need to know (\<open>groupCtx\<close>): the kind of group and the ids its routes take.\<close>

datatype group_ctx =
    ChannelCtx (ctx_org: string) (ctx_group: string)
  | EventCtx (ctx_org: string) (ctx_group: string)
  | DmCtx (ctx_other: string) (ctx_group: string)

text \<open>The identity promise: initialisation in progress, or its value.\<close>

datatype 'st ident = IdentPending | IdentResolved "'st option"

record fail_entry =
  fail_count :: nat
  fail_since :: int

text \<open>Work handed to \<open>setTimeout(.., 0)\<close>: a listener call, or a background heal.\<close>

datatype timer =
    GroupChange nat string bool
  | HealTimer string group_ctx nat string

text \<open>
  The module's variables.  \<open>durableWaiters\<close> holds (version, promise); \<open>promises\<close> the settled ones
  (\<^const>\<open>None\<close>: resolved, an error: rejected); \<open>inflight\<close> the \<open>saveState\<close> call the writer awaits:
  the version, the bytes and the durable flag it was called with.  \<open>outside\<close> is everything the module does not
  own (the server, the network, the other code of the page).
\<close>

record ('st, 'w) session =
  inTauri :: bool
  deviceStateCache :: "'st option"
  stateVersion :: nat
  ownCredential :: "string option"
  boundUserId :: "string option"
  sessionGen :: nat
  lockHolderGen :: nat
  persistedVersion :: nat
  durableVersion :: nat
  durableWanted :: nat
  writerActive :: bool
  durableWaiters :: "(nat \<times> nat) list"
  inflight :: "(nat \<times> 'st \<times> bool) option"
  promises :: "(nat, mls_error option) jsmap"
  nextPromise :: nat
  identityPromise :: "'st ident option"
  pendingSent :: "(string, string list) jsmap"
  groupCtx :: "(string, group_ctx) jsmap"
  decryptFailures :: "(string, fail_entry) jsmap"
  lastHealAt :: "(string, int) jsmap"
  inflightOrgHeals :: "(string, nat) jsmap"
  groupInfoRefreshed :: "string list"
  epochMemo :: "int \<times> (string, nat option) jsmap"
  groupListeners :: "nat list"
  timers :: "timer list"
  localStore :: "(string, string) jsmap"
  outside :: 'w

definition empty_session :: "bool \<Rightarrow> 'w \<Rightarrow> ('st, 'w) session" where
  "empty_session tauri w = \<lparr>inTauri = tauri, deviceStateCache = None, stateVersion = 0, ownCredential = None,
     boundUserId = None, sessionGen = 0, lockHolderGen = 0, persistedVersion = 0, durableVersion = 0,
     durableWanted = 0, writerActive = False, durableWaiters = [], inflight = None, promises = [],
     nextPromise = 0, identityPromise = None, pendingSent = [], groupCtx = [], decryptFailures = [],
     lastHealAt = [], inflightOrgHeals = [], groupInfoRefreshed = [], epochMemo = (-1, []),
     groupListeners = [], timers = [], localStore = [], outside = w\<rparr>"

section \<open>Reset, commit and the writer\<close>

definition settleAll :: "(nat \<times> nat) list \<Rightarrow> mls_error option \<Rightarrow> (nat, mls_error option) jsmap \<Rightarrow> (nat, mls_error option) jsmap" where
  "settleAll ws r ps = fold (\<lambda>w. al_set (snd w) r) ws ps"

definition resetForUser :: "string option \<Rightarrow> ('st, 'w, 'z) session_scheme \<Rightarrow> ('st, 'w, 'z) session_scheme" where
  "resetForUser userId s = s\<lparr>sessionGen := sessionGen s + 1, boundUserId := userId,
     deviceStateCache := None, ownCredential := None, identityPromise := None,
     pendingSent := [], groupCtx := [], decryptFailures := [], lastHealAt := [],
     inflightOrgHeals := [], groupInfoRefreshed := [], epochMemo := (-1, []),
     persistedVersion := stateVersion s, durableVersion := stateVersion s, durableWanted := stateVersion s,
     promises := settleAll (durableWaiters s) (Some accountSwitched) (promises s), durableWaiters := []\<rparr>"

text \<open>One turn of the writer's loop up to its next \<open>await saveState\<close>; leaving the loop clears \<open>writerActive\<close>.\<close>

definition writer_next :: "('st, 'w, 'z) session_scheme \<Rightarrow> (nat \<times> 'st \<times> bool) option" where
  "writer_next s = (let durable = durableWanted s > durableVersion s in
     if \<not> durable \<and> persistedVersion s \<ge> stateVersion s then None
     else case deviceStateCache s of None \<Rightarrow> None | Some st \<Rightarrow> Some (stateVersion s, st, durable))"

definition writer_turn :: "('st, 'w, 'z) session_scheme \<Rightarrow> ('st, 'w, 'z) session_scheme" where
  "writer_turn s = (case writer_next s of
       None \<Rightarrow> s\<lparr>writerActive := False, inflight := None\<rparr>
     | Some job \<Rightarrow> s\<lparr>writerActive := True, inflight := Some job\<rparr>)"

definition schedulePersist :: "('st, 'w, 'z) session_scheme \<Rightarrow> ('st, 'w, 'z) session_scheme" where
  "schedulePersist s = (if \<not> inTauri s \<or> writerActive s then s else writer_turn s)"

text \<open>\<open>saveState\<close> resolved.\<close>

definition writer_saved :: "('st, 'w, 'z) session_scheme \<Rightarrow> ('st, 'w, 'z) session_scheme" where
  "writer_saved s = (case inflight s of None \<Rightarrow> s
     | Some (version, st, durable) \<Rightarrow>
        (let s1 = s\<lparr>persistedVersion := max (persistedVersion s) version\<rparr>;
             s2 = (if durable then
                     (let dv = max (durableVersion s1) version;
                          ready = filter (\<lambda>w. fst w \<le> dv) (durableWaiters s1) in
                      s1\<lparr>durableVersion := dv,
                        durableWaiters := filter (\<lambda>w. fst w > dv) (durableWaiters s1),
                        promises := settleAll ready None (promises s1)\<rparr>)
                   else s1)
         in writer_turn s2))"

text \<open>\<open>saveState\<close> rejected with \<open>message\<close>.\<close>

definition writer_failed :: "string \<Rightarrow> ('st, 'w, 'z) session_scheme \<Rightarrow> ('st, 'w, 'z) session_scheme" where
  "writer_failed message s =
    (let s1 = s\<lparr>durableWaiters := [], durableWanted := durableVersion s,
          promises := settleAll (durableWaiters s) (Some (PlainError message)) (promises s)\<rparr>;
         s2 = (if staleAccountMessage message then resetForUser None s1 else s1)
     in s2\<lparr>writerActive := False, inflight := None\<rparr>)"

text \<open>\<open>commitState\<close>: only while holding the lock; an account switch since then is refused.\<close>

definition commitState :: "'st \<Rightarrow> ('st, 'w, 'z) session_scheme \<Rightarrow> (mls_error + nat) \<times> ('st, 'w, 'z) session_scheme" where
  "commitState newState s =
    (if lockHolderGen s \<noteq> sessionGen s then (Inl accountSwitched, s)
     else (let s1 = s\<lparr>deviceStateCache := Some newState, stateVersion := stateVersion s + 1\<rparr>
           in (Inr (stateVersion s1), schedulePersist s1)))"

text \<open>\<open>waitDurable\<close>: the promise it returns, \<^const>\<open>None\<close> when it is already resolved.\<close>

definition waitDurable :: "nat \<Rightarrow> ('st, 'w, 'z) session_scheme \<Rightarrow> nat option \<times> ('st, 'w, 'z) session_scheme" where
  "waitDurable version s =
    (if \<not> inTauri s \<or> durableVersion s \<ge> version then (None, s)
     else (Some (nextPromise s),
       schedulePersist (s\<lparr>durableWaiters := durableWaiters s @ [(version, nextPromise s)],
          nextPromise := nextPromise s + 1,
          durableWanted := (if version > durableWanted s then version else durableWanted s)\<rparr>)))"

definition currentState :: "('st, 'w, 'z) session_scheme \<Rightarrow> mls_error + 'st" where
  "currentState s = (case deviceStateCache s of None \<Rightarrow> Inl accountSwitched | Some st \<Rightarrow> Inr st)"

text \<open>\<open>initIdentity\<close>'s assignment of a state read from disk.\<close>

definition adoptLoaded :: "string \<Rightarrow> 'st \<Rightarrow> ('st, 'w, 'z) session_scheme \<Rightarrow> ('st, 'w, 'z) session_scheme" where
  "adoptLoaded credential st s = s\<lparr>ownCredential := Some credential, deviceStateCache := Some st,
     stateVersion := stateVersion s + 1, persistedVersion := stateVersion s + 1, durableVersion := stateVersion s + 1\<rparr>"

end
