(* ===== verification/Mls_Env.thy ===== *)
theory Mls_Env
  imports Mls_State
begin

text \<open>
  What \<open>mlsSession.js\<close> is built on: the actions of an \<open>async\<close> function, the WASM module and
  the server's routes, the waiting for the lock and for durable saves, the identity.

  An \<open>async\<close> function is an action: it takes the session and gives what it throws or returns
  together with the session then.  At every \<open>await\<close> other code may run: a request is a
  function of the environment that returns the response and the session as it is when
  the caller resumes (whatever the rest of the page did to it meanwhile), and
  \<open>e_others\<close> stands for the turns of the other code while a call waits for the lock.
  The WASM module (\<open>mls-crypto\<close>, Rust) and the server are arguments: nothing is assumed of
  them here.
\<close>

section \<open>Actions\<close>

type_synonym ('s, 'a) act = "'s \<Rightarrow> (mls_error + 'a) \<times> 's"

definition m_return :: "'a \<Rightarrow> ('s, 'a) act" where
  "m_return x s = (Inr x, s)"

definition m_throw :: "mls_error \<Rightarrow> ('s, 'a) act" where
  "m_throw e s = (Inl e, s)"

definition m_bind :: "('s, 'a) act \<Rightarrow> ('a \<Rightarrow> ('s, 'b) act) \<Rightarrow> ('s, 'b) act" where
  "m_bind m f s = (case m s of (Inl e, s') \<Rightarrow> (Inl e, s') | (Inr x, s') \<Rightarrow> f x s')"

definition m_try :: "('s, 'a) act \<Rightarrow> (mls_error \<Rightarrow> ('s, 'a) act) \<Rightarrow> ('s, 'a) act" where
  "m_try m h s = (case m s of (Inl e, s') \<Rightarrow> h e s' | (Inr x, s') \<Rightarrow> (Inr x, s'))"

definition m_do :: "('s \<Rightarrow> 's) \<Rightarrow> ('s, unit) act" where
  "m_do f s = (Inr (), f s)"

text \<open>Awaiting something that does not throw, a value that may be an error, and a read of the session.\<close>

definition m_await :: "('s \<Rightarrow> 'a \<times> 's) \<Rightarrow> ('s, 'a) act" where
  "m_await f s = (case f s of (x, s') \<Rightarrow> (Inr x, s'))"

definition m_get :: "('s \<Rightarrow> mls_error + 'a) \<Rightarrow> ('s, 'a) act" where
  "m_get f s = (f s, s)"

definition e_bind :: "('e + 'a) \<Rightarrow> ('a \<Rightarrow> 'e + 'b) \<Rightarrow> 'e + 'b" where
  "e_bind m f = (case m of Inl e \<Rightarrow> Inl e | Inr x \<Rightarrow> f x)"

lemma act_simps [simp]:
  "m_bind (m_return x) f s = f x s" "m_bind (m_throw e) f s = (Inl e, s)"
  "m_try (m_return x) h s = (Inr x, s)" "m_try (m_throw e) h s = h e s"
  "m_bind (m_do g) f s = f () (g s)"
  by (simp_all add: m_bind_def m_return_def m_throw_def m_try_def m_do_def)

lemma e_bind_simps [simp]: "e_bind (Inl e) f = Inl e" "e_bind (Inr x) f = f x"
  by (simp_all add: e_bind_def)

lemma e_bind_Inr: "e_bind m f = Inr y \<longleftrightarrow> (\<exists>x. m = Inr x \<and> f x = Inr y)"
  by (auto simp: e_bind_def split: sum.split)

lemma m_bind_eq: "m_bind m f s = (Inr y, s') \<longleftrightarrow> (\<exists>x s1. m s = (Inr x, s1) \<and> f x s1 = (Inr y, s'))"
  by (auto simp: m_bind_def split: prod.split sum.split)

lemma m_bind_Inr: "m s = (Inr x, s1) \<Longrightarrow> m_bind m f s = f x s1"
  by (simp add: m_bind_def)

lemma m_try_Inr: "m s = (Inr x, s1) \<Longrightarrow> m_try m h s = (Inr x, s1)"
  by (simp add: m_try_def)

lemma m_await_eq: "m_await f s = (Inr x, s') \<longleftrightarrow> f s = (x, s')"
  by (auto simp: m_await_def split: prod.splits)

lemma m_get_eq: "m_get f s = (Inr x, s') \<longleftrightarrow> f s = Inr x \<and> s' = s"
  by (auto simp: m_get_def)

lemma m_return_eq: "m_return x s = (Inr y, s') \<longleftrightarrow> x = y \<and> s' = s"
  by (auto simp: m_return_def)

lemmas act_eqs = m_bind_eq m_await_eq m_get_eq m_return_eq

lemma m_bind_assoc: "m_bind (m_bind m f) g = m_bind m (\<lambda>x. m_bind (f x) g)"
  by (rule ext) (simp add: m_bind_def split: prod.split sum.split)

section \<open>The WASM module and the routes\<close>

text \<open>What \<open>add_member\<close>, \<open>remove_member\<close>, \<open>join_external\<close> and \<open>resync_external\<close> return.\<close>

record 'st commit_res =
  cr_state :: 'st
  cr_commit :: bytes
  cr_welcome :: bytes
  cr_groupInfo :: bytes

record 'st wasm =
  w_generate_identity :: "string \<Rightarrow> string + 'st \<times> bytes"
  w_own_public_key :: "'st \<Rightarrow> string + bytes"
  w_device_credential :: "'st \<Rightarrow> string + string"
  w_group_exists :: "'st \<Rightarrow> bytes \<Rightarrow> string + bool"
  w_group_epoch :: "'st \<Rightarrow> bytes \<Rightarrow> string + nat"
  w_group_member_labels :: "'st \<Rightarrow> bytes \<Rightarrow> string + string list"
  w_create_group :: "'st \<Rightarrow> bytes \<Rightarrow> string + 'st"
  w_add_member :: "'st \<Rightarrow> bytes \<Rightarrow> bytes \<Rightarrow> string + 'st commit_res"
  w_remove_member :: "'st \<Rightarrow> bytes \<Rightarrow> string list \<Rightarrow> string + 'st commit_res"
  w_join_from_welcome :: "'st \<Rightarrow> bytes \<Rightarrow> string + 'st"
  w_process_commit :: "'st \<Rightarrow> bytes \<Rightarrow> bytes \<Rightarrow> string + 'st"
  w_encrypt :: "'st \<Rightarrow> bytes \<Rightarrow> bytes \<Rightarrow> string + 'st \<times> bytes"
  w_decrypt :: "'st \<Rightarrow> bytes \<Rightarrow> bytes \<Rightarrow> string + 'st \<times> bytes"
  w_export_secret :: "'st \<Rightarrow> bytes \<Rightarrow> string \<Rightarrow> nat \<Rightarrow> string + bytes"
  w_export_group_info :: "'st \<Rightarrow> bytes \<Rightarrow> string + bytes"
  w_frame_key_packages :: "bytes list \<Rightarrow> bytes"
  w_join_external :: "'st \<Rightarrow> bytes \<Rightarrow> string \<Rightarrow> string + 'st commit_res"
  w_resync_external :: "'st \<Rightarrow> bytes \<Rightarrow> bytes \<Rightarrow> string + 'st commit_res"
  w_message_epoch :: "bytes \<Rightarrow> string + nat"
  w_sign_bytes :: "'st \<Rightarrow> bytes \<Rightarrow> string + bytes"
  w_verify_bytes :: "bytes \<Rightarrow> bytes \<Rightarrow> bytes \<Rightarrow> bool"

text \<open>The responses: the data of the catch-up and group-info routes.\<close>

record catch_up =
  cu_welcome :: "string option"
  cu_commits :: "(int \<times> string) list"
  cu_current_epoch :: "int option"
  cu_group_info_epoch :: "int option"

record group_info =
  gi_exists :: bool
  gi_epoch :: int
  gi_info :: "string option"

record status_report =
  sr_group :: string
  sr_epoch :: "nat option"
  sr_status :: string

text \<open>
  The environment: the WASM module, the routes of \<open>api\<close> (a route is given the group's
  context, which carries the ids it is called with; a route the \<open>api\<close> object may lack is an
  option) and the browser.
\<close>

record ('st, 'w) env = "'st wasm" +
  a_catchUp :: "group_ctx \<Rightarrow> ('st, 'w) session \<Rightarrow> (catch_up option \<times> string option) \<times> ('st, 'w) session"
  a_submitMlsCommit :: "group_ctx \<Rightarrow> (int \<Rightarrow> string \<Rightarrow> string option \<Rightarrow> string list \<Rightarrow> string option
      \<Rightarrow> ('st, 'w) session \<Rightarrow> string option \<times> ('st, 'w) session) option"
  a_submitCommit :: "group_ctx \<Rightarrow> int \<Rightarrow> string \<Rightarrow> string option \<Rightarrow> string list
      \<Rightarrow> ('st, 'w) session \<Rightarrow> string option \<times> ('st, 'w) session"
  a_getGroupInfo :: "group_ctx \<Rightarrow> (('st, 'w) session \<Rightarrow> (group_info option \<times> string option) \<times> ('st, 'w) session) option"
  a_putGroupInfo :: "group_ctx \<Rightarrow> (int \<Rightarrow> string \<Rightarrow> ('st, 'w) session \<Rightarrow> string option \<times> ('st, 'w) session) option"
  a_submitExternal :: "group_ctx \<Rightarrow> (int \<Rightarrow> string \<Rightarrow> string option \<Rightarrow> ('st, 'w) session \<Rightarrow> string option \<times> ('st, 'w) session) option"
  a_channelMembers :: "(string \<Rightarrow> string \<Rightarrow> ('st, 'w) session \<Rightarrow> (string list option \<times> string option) \<times> ('st, 'w) session) option"
  a_orgMembers :: "string \<Rightarrow> ('st, 'w) session \<Rightarrow> string list option \<times> ('st, 'w) session"
  a_eventParticipants :: "string \<Rightarrow> string \<Rightarrow> ('st, 'w) session \<Rightarrow> (string list option \<times> string option) \<times> ('st, 'w) session"
  a_keyPackages :: "string \<Rightarrow> ('st, 'w) session \<Rightarrow> ((string \<times> string) list option \<times> string option) \<times> ('st, 'w) session"
  a_channels :: "string \<Rightarrow> ('st, 'w) session \<Rightarrow> (string list option \<times> string option) \<times> ('st, 'w) session"
  a_orgEvents :: "(string \<Rightarrow> ('st, 'w) session \<Rightarrow> (string \<times> bool) list option \<times> ('st, 'w) session) option"
  a_reportDeviceStatus :: "(string \<Rightarrow> status_report list \<Rightarrow> ('st, 'w) session \<Rightarrow> ('st, 'w) session) option"
  a_registerDevice :: "string \<Rightarrow> string \<Rightarrow> string \<Rightarrow> string \<Rightarrow> ('st, 'w) session \<Rightarrow> (string option \<times> string option) \<times> ('st, 'w) session"
  e_others :: "('st, 'w) session \<Rightarrow> ('st, 'w) session"
  e_settle :: "nat \<Rightarrow> ('st, 'w) session \<Rightarrow> mls_error option \<times> ('st, 'w) session"
  e_identity :: "('st, 'w) session \<Rightarrow> (mls_error + 'st option) \<times> ('st, 'w) session"
  e_loadState :: "('st, 'w) session \<Rightarrow> (string + 'st option) \<times> ('st, 'w) session"
  e_now :: "('st, 'w) session \<Rightarrow> int"
  e_randomUUID :: "('st, 'w) session \<Rightarrow> string"

type_synonym ('st, 'w, 'a) mls = "(('st, 'w) session, 'a) act"

definition wasm :: "string + 'a \<Rightarrow> mls_error + 'a" where
  "wasm r = (case r of Inl e \<Rightarrow> Inl (PlainError e) | Inr x \<Rightarrow> Inr x)"

definition from_b64 :: "string \<Rightarrow> mls_error + bytes" where
  "from_b64 s = (case fromB64 s of None \<Rightarrow> Inl (PlainError ''InvalidCharacterError'') | Some b \<Rightarrow> Inr b)"

lemma wasm_simps [simp]: "wasm (Inl e) = Inl (PlainError e)" "wasm (Inr x) = Inr x"
  by (simp_all add: wasm_def)

lemma wasm_Inr: "wasm r = Inr x \<longleftrightarrow> r = Inr x"
  by (auto simp: wasm_def split: sum.split)

lemma from_b64_toB64 [simp]: "from_b64 (toB64 b) = Inr b"
  unfolding from_b64_def by (simp add: toB64_def fromB64_def atob_btoa)

text \<open>\<open>TextEncoder.encode\<close> of a string of code units up to 255: UTF-8.\<close>

definition utf8_char :: "char \<Rightarrow> bytes" where
  "utf8_char c = (let n = of_char c :: nat in
     if n < 128 then [c] else [char_of (192 + n div 64), char_of (128 + n mod 64)])"

definition encode_text :: "string \<Rightarrow> bytes" where
  "encode_text s = concat (map utf8_char s)"

section \<open>Waiting: the lock and durable saves\<close>

text \<open>\<open>locked\<close> is a call of \<open>withStateLock\<close> up to the end of its work; \<open>withStateLock\<close> also has the turns
  of others before the caller resumes.\<close>

definition locked :: "('st, 'w) env \<Rightarrow> ('st, 'w, 'a) mls \<Rightarrow> ('st, 'w, 'a) mls" where
  "locked e fn s = (let gen = sessionGen s; s1 = e_others e s in
     if gen \<noteq> sessionGen s1 then (Inl accountSwitched, s1)
     else fn (s1\<lparr>lockHolderGen := gen\<rparr>))"

definition withStateLock :: "('st, 'w) env \<Rightarrow> ('st, 'w, 'a) mls \<Rightarrow> ('st, 'w, 'a) mls" where
  "withStateLock e fn s = (case locked e fn s of (r, s') \<Rightarrow> (r, e_others e s'))"

definition awaitDurable :: "('st, 'w) env \<Rightarrow> nat \<Rightarrow> ('st, 'w, unit) mls" where
  "awaitDurable e version s = (case waitDurable version s of
       (None, s1) \<Rightarrow> (Inr (), s1)
     | (Some promise, s1) \<Rightarrow>
         (case e_settle e promise s1 of (None, s2) \<Rightarrow> (Inr (), s2) | (Some err, s2) \<Rightarrow> (Inl err, s2)))"

definition commitDurableLocked :: "('st, 'w) env \<Rightarrow> 'st \<Rightarrow> ('st, 'w, nat) mls" where
  "commitDurableLocked e newState =
     m_bind (commitState newState) (\<lambda>version. m_bind (awaitDurable e version) (\<lambda>_. m_return version))"

section \<open>The identity\<close>

definition loadState :: "('st, 'w) env \<Rightarrow> ('st, 'w, 'st option) mls" where
  "loadState e s = (if \<not> inTauri s then (Inr None, s)
     else case e_loadState e s of
         (Inl message, s1) \<Rightarrow> (Inl (StateUnavailable message), s1)
       | (Inr st, s1) \<Rightarrow> (Inr st, s1))"

definition getOrCreateDeviceId :: "('st, 'w) env \<Rightarrow> string \<Rightarrow> ('st, 'w) session \<Rightarrow> string \<times> ('st, 'w) session" where
  "getOrCreateDeviceId e userId s =
    (let stored = al_get (localStore s) (deviceIdKey userId) in
     if truthy stored then (or_else stored [], s)
     else (let deviceId = e_randomUUID e s in
       (deviceId, s\<lparr>localStore := al_set (deviceIdKey userId) deviceId (localStore s)\<rparr>)))"

definition registerDevice :: "('st, 'w) env \<Rightarrow> string \<Rightarrow> 'st \<times> bytes \<Rightarrow> string \<Rightarrow> ('st, 'w, string option \<times> string option) mls" where
  "registerDevice e deviceId identity credential =
     m_bind (m_get (\<lambda>_. wasm (w_own_public_key e (fst identity))))
       (\<lambda>key. m_await (a_registerDevice e deviceId (toB64 (snd identity)) (toB64 (encode_text credential)) (toB64 key)))"

text \<open>The two attempts at registering a fresh device: a device id of another account is replaced once.\<close>

fun register_attempts :: "nat \<Rightarrow> ('st, 'w) env \<Rightarrow> string \<Rightarrow> ('st, 'w, 'st \<times> string) mls" where
  "register_attempts n e userId s =
    (case getOrCreateDeviceId e userId s of (deviceId, s1) \<Rightarrow>
     (let credential = credentialFor userId deviceId in
      case wasm (w_generate_identity e credential) of Inl er \<Rightarrow> (Inl er, s1) | Inr identity \<Rightarrow>
      (case registerDevice e deviceId identity credential s1 of (Inl er, s2) \<Rightarrow> (Inl er, s2)
       | (Inr (code, err), s2) \<Rightarrow>
          (case n of Suc m \<Rightarrow>
             (if code = Some ''DEVICE_ID_TAKEN''
              then register_attempts m e userId (s2\<lparr>localStore := al_del (deviceIdKey userId) (localStore s2)\<rparr>)
              else (Inr (fst identity, credential), s2))
           | 0 \<Rightarrow> (Inr (fst identity, credential), s2)))))"

declare register_attempts.simps [simp del]

text \<open>A state read from disk: its credential must be this account's.  An empty user id stands for a call
  without one.\<close>

definition adopt_existing :: "('st, 'w) env \<Rightarrow> string \<Rightarrow> 'st \<Rightarrow> ('st, 'w, 'st option) mls" where
  "adopt_existing e currentUserId st s =
    (case w_device_credential e st of
       Inl er \<Rightarrow> (Inl (StateUnavailable (''MLS_STATE_CORRUPT: '' @ er)), s)
     | Inr credential \<Rightarrow>
         (if currentUserId \<noteq> [] \<and> userIdOfLabel credential \<noteq> currentUserId
          then (Inl (StateUnavailable ''MLS_ACCOUNT_MISMATCH: the MLS state on this PC belongs to another account''), s)
          else (Inr (Some st), adoptLoaded credential st
            (if currentUserId = [] then s
             else s\<lparr>localStore := al_set (deviceIdKey currentUserId) (deviceIdOfLabel credential) (localStore s)\<rparr>))))"

definition create_identity :: "('st, 'w) env \<Rightarrow> string \<Rightarrow> nat \<Rightarrow> ('st, 'w, 'st option) mls" where
  "create_identity e currentUserId gen =
     m_bind (register_attempts 1 e currentUserId) (\<lambda>(st, credential) s.
       if gen \<noteq> sessionGen s then (Inl accountSwitched, s)
       else (case withStateLock e (commitDurableLocked e st) s of
           (Inl er, s1) \<Rightarrow> (Inl er, s1\<lparr>deviceStateCache := None\<rparr>)
         | (Inr _, s1) \<Rightarrow>
             (Inr (deviceStateCache s1), s1\<lparr>ownCredential := Some credential\<rparr>)))"

definition initIdentity :: "('st, 'w) env \<Rightarrow> string \<Rightarrow> nat \<Rightarrow> ('st, 'w, 'st option) mls" where
  "initIdentity e currentUserId gen =
     m_bind (loadState e) (\<lambda>loaded s.
       if gen \<noteq> sessionGen s then (Inl accountSwitched, s)
       else (case loaded of
           Some st \<Rightarrow> adopt_existing e currentUserId st s
         | None \<Rightarrow> create_identity e currentUserId gen s))"

text \<open>\<open>ensureIdentity\<close>: resets for another account, then the loaded state, the promise in progress, or a new
  initialisation whose failure allows a retry.\<close>

definition bind_account :: "string \<Rightarrow> ('st, 'w) session \<Rightarrow> ('st, 'w) session" where
  "bind_account u s = (case boundUserId s of
       Some b \<Rightarrow> if u \<noteq> [] \<and> b \<noteq> [] \<and> b \<noteq> u then resetForUser (Some u) s else s | None \<Rightarrow> s)"

definition start_identity :: "('st, 'w) env \<Rightarrow> string \<Rightarrow> ('st, 'w, 'st option) mls" where
  "start_identity e u s =
    (let s1 = s\<lparr>boundUserId := (if u = [] then boundUserId s else Some u), identityPromise := Some IdentPending\<rparr>; gen = sessionGen s1 in
     case initIdentity e u gen s1 of
       (Inr st, s2) \<Rightarrow> (Inr st, if gen = sessionGen s2 then s2\<lparr>identityPromise := Some (IdentResolved st)\<rparr> else s2)
     | (Inl er, s2) \<Rightarrow> (Inl er, if gen = sessionGen s2 then s2\<lparr>identityPromise := None\<rparr> else s2))"

definition ensureIdentity :: "('st, 'w) env \<Rightarrow> string \<Rightarrow> ('st, 'w, 'st option) mls" where
  "ensureIdentity e u s0 = (let s = bind_account u s0 in
     case deviceStateCache s of Some st \<Rightarrow> (Inr (Some st), s)
     | None \<Rightarrow> (case identityPromise s of
           None \<Rightarrow> start_identity e u s
         | Some IdentPending \<Rightarrow> e_identity e s
         | Some (IdentResolved st) \<Rightarrow> (Inr st, s)))"

section \<open>What the identity code guarantees\<close>

text \<open>What an initialisation leaves when the disk answered anything but "no state yet": an error and an untouched
  device state, or the loaded state adopted under its own credential, which names the account.\<close>

definition adopted :: "string \<Rightarrow> 'st \<Rightarrow> ('st, 'w) session \<Rightarrow> bool" where
  "adopted u st s \<longleftrightarrow> deviceStateCache s = Some st \<and> ownCredential s \<noteq> None
     \<and> userIdOfLabel (or_else (ownCredential s) []) = u"

text \<open>C6: an existing identity is never replaced: when the device's state cannot be read (keyring, corrupt file,
  no session), belongs to another account, or was loaded, initialisation neither generates an
  identity nor registers a device - it fails and leaves the device state as it was, or adopts the
  loaded state, whose credential names this account.\<close>

theorem existing_identity_never_replaced:
  assumes "inTauri s" "e_loadState e s = (loaded, s1)" "loaded \<noteq> Inr None" "u \<noteq> []"
    and "initIdentity e u gen s = (r, s')"
  shows "initIdentity (e\<lparr>w_generate_identity := g, a_registerDevice := reg\<rparr>) u gen s = (r, s')
    \<and> ((\<exists>er. r = Inl er) \<and> deviceStateCache s' = deviceStateCache s1
       \<or> (\<exists>st. loaded = Inr (Some st) \<and> r = Inr (Some st) \<and> adopted u st s'))"
  using assms
  by (auto simp: initIdentity_def m_bind_def loadState_def adopt_existing_def adoptLoaded_def adopted_def
      split: sum.splits option.splits if_splits)

text \<open>A concrete environment: a device state is the pair of its credential and the epochs of its groups.\<close>

type_synonym toy_state = "string \<times> (string, nat) jsmap"

definition toy_wasm :: "toy_state wasm" where
  "toy_wasm = \<lparr>
     w_generate_identity = (\<lambda>label. Inr ((label, []), ''kp'')),
     w_own_public_key = (\<lambda>st. Inr ''pk''),
     w_device_credential = (\<lambda>st. Inr (fst st)),
     w_group_exists = (\<lambda>st g. Inr (al_has (snd st) g)),
     w_group_epoch = (\<lambda>st g. case al_get (snd st) g of None \<Rightarrow> Inl ''group not found'' | Some n \<Rightarrow> Inr n),
     w_group_member_labels = (\<lambda>st g. Inr [fst st]),
     w_create_group = (\<lambda>st g. Inr (fst st, al_set g 0 (snd st))),
     w_add_member = (\<lambda>st g ks. case al_get (snd st) g of None \<Rightarrow> Inl ''group not found''
        | Some n \<Rightarrow> Inr \<lparr>cr_state = (fst st, al_set g (Suc n) (snd st)), cr_commit = ''add'', cr_welcome = ''w'', cr_groupInfo = ''gi''\<rparr>),
     w_remove_member = (\<lambda>st g ls. case al_get (snd st) g of None \<Rightarrow> Inl ''group not found''
        | Some n \<Rightarrow> Inr \<lparr>cr_state = (fst st, al_set g (Suc n) (snd st)), cr_commit = ''remove'', cr_welcome = [], cr_groupInfo = ''gi''\<rparr>),
     w_join_from_welcome = (\<lambda>st w. Inr (fst st, al_set w 1 (snd st))),
     w_process_commit = (\<lambda>st g c. case al_get (snd st) g of None \<Rightarrow> Inl ''group not found''
        | Some n \<Rightarrow> if c = [char_of (Suc n)] then Inr (fst st, al_set g (Suc n) (snd st)) else Inl ''wrong epoch''),
     w_encrypt = (\<lambda>st g p. Inr (st, p)),
     w_decrypt = (\<lambda>st g c. Inr (st, c)),
     w_export_secret = (\<lambda>st g l n. Inr (replicate n (CHR ''k''))),
     w_export_group_info = (\<lambda>st g. Inr ''gi''),
     w_frame_key_packages = concat,
     w_join_external = (\<lambda>st gi c. Inr \<lparr>cr_state = (fst st, al_set gi 9 (snd st)), cr_commit = ''ext'', cr_welcome = [], cr_groupInfo = ''gi''\<rparr>),
     w_resync_external = (\<lambda>st g gi. Inr \<lparr>cr_state = (fst st, al_set g 9 (snd st)), cr_commit = ''ext'', cr_welcome = [], cr_groupInfo = ''gi''\<rparr>),
     w_message_epoch = (\<lambda>m. case m of [] \<Rightarrow> Inl ''not an MLS message'' | c # _ \<Rightarrow> Inr (of_char c)),
     w_sign_bytes = (\<lambda>st m. Inr m),
     w_verify_bytes = (\<lambda>k m sg. m = sg)\<rparr>"

definition toy_env :: "(toy_state, unit) env" where
  "toy_env = wasm.extend toy_wasm \<lparr>
     a_catchUp = (\<lambda>c s. ((Some \<lparr>cu_welcome = None, cu_commits = [], cu_current_epoch = None, cu_group_info_epoch = None\<rparr>, None), s)),
     a_submitMlsCommit = (\<lambda>c. Some (\<lambda>ep cm w ids gi s. (None, s))),
     a_submitCommit = (\<lambda>c ep cm w ids s. (None, s)),
     a_getGroupInfo = (\<lambda>c. Some (\<lambda>s. ((Some \<lparr>gi_exists = True, gi_epoch = 8, gi_info = Some (toB64 (encode_text (ctx_group c)))\<rparr>, None), s))),
     a_putGroupInfo = (\<lambda>c. None),
     a_submitExternal = (\<lambda>c. Some (\<lambda>ep cm gi s. (None, s))),
     a_channelMembers = None,
     a_orgMembers = (\<lambda>org s. (Some [''alice'', ''bob''], s)),
     a_eventParticipants = (\<lambda>org ev s. ((None, None), s)),
     a_keyPackages = (\<lambda>u s. ((Some [(''d1'', toB64 ''kp'')], None), s)),
     a_channels = (\<lambda>org s. ((Some [''c1''], None), s)),
     a_orgEvents = None,
     a_reportDeviceStatus = None,
     a_registerDevice = (\<lambda>d k c p s. ((None, None), s)),
     e_others = (\<lambda>s. s),
     e_settle = (\<lambda>p s. (None, s)),
     e_identity = (\<lambda>s. (Inl accountSwitched, s)),
     e_loadState = (\<lambda>s. (Inr (Some (''alice:d1'', [])), s)),
     e_now = (\<lambda>s. 0),
     e_randomUUID = (\<lambda>s. ''d1'')\<rparr>"

lemmas toy_defs = toy_env_def toy_wasm_def wasm.defs env.defs

lemma toy_fields:
  "w_group_exists toy_env = (\<lambda>st g. Inr (al_has (snd st) g))"
  "w_group_epoch toy_env = (\<lambda>st g. case al_get (snd st) g of None \<Rightarrow> Inl ''group not found'' | Some n \<Rightarrow> Inr n)"
  "w_group_member_labels toy_env = (\<lambda>st g. Inr [fst st])"
  "w_encrypt toy_env = (\<lambda>st g p. Inr (st, p))" "w_decrypt toy_env = (\<lambda>st g c. Inr (st, c))"
  "w_message_epoch toy_env = (\<lambda>m. case m of [] \<Rightarrow> Inl ''not an MLS message'' | c # _ \<Rightarrow> Inr (of_char c))"
  "a_catchUp toy_env = (\<lambda>c s. ((Some \<lparr>cu_welcome = None, cu_commits = [], cu_current_epoch = None, cu_group_info_epoch = None\<rparr>, None), s))"
  "e_others toy_env = (\<lambda>s. s)" "e_settle toy_env = (\<lambda>p s. (None, s))" "e_now toy_env = (\<lambda>s. 0)"
  by (simp_all add: toy_defs)

lemma existing_identity_never_replaced_witness:
  "initIdentity (toy_env\<lparr>e_loadState := \<lambda>s. (Inl ''MLS_KEYRING'', s), w_generate_identity := \<lambda>l. Inl ''none'',
        a_registerDevice := \<lambda>d k c p s. ((None, None), s)\<rparr>) ''alice'' 0 (empty_session True ())
     = (Inl (StateUnavailable ''MLS_KEYRING''), empty_session True ())
   \<and> ((\<exists>er. Inl (StateUnavailable ''MLS_KEYRING'') = (Inl er :: mls_error + toy_state option))
        \<and> deviceStateCache (empty_session True () :: (toy_state, unit) session) = deviceStateCache (empty_session True ())
      \<or> (\<exists>st. (Inl ''MLS_KEYRING'' :: string + toy_state option) = Inr (Some st)
          \<and> (Inl (StateUnavailable ''MLS_KEYRING'') :: mls_error + toy_state option) = Inr (Some st)
          \<and> adopted ''alice'' st (empty_session True ())))"
  by (rule existing_identity_never_replaced [where e = "toy_env\<lparr>e_loadState := \<lambda>s. (Inl ''MLS_KEYRING'', s)\<rparr>"])
    (simp_all add: initIdentity_def m_bind_def loadState_def empty_session_def)

end
