(* ===== verification/Mls_Groups.thy ===== *)
theory Mls_Groups
  imports Mls_Env Js_Json
begin

text \<open>
  Group state in \<open>mlsSession.js\<close>: own commits (\<open>runOwnCommit\<close>), catch-up from the server's
  commit log, external join and resync.
\<close>

section \<open>Members and change notifications\<close>

definition labelsIn :: "('st, 'w) env \<Rightarrow> 'st \<Rightarrow> bytes \<Rightarrow> string list" where
  "labelsIn e st groupId = (case w_group_exists e st groupId of
       Inr True \<Rightarrow> (case w_group_member_labels e st groupId of Inl _ \<Rightarrow> [] | Inr ls \<Rightarrow> ls)
     | _ \<Rightarrow> [])"

text \<open>\<open>anyRemoved\<close>: count the labels of \<open>after\<close>, take those of \<open>before\<close> away one by one.\<close>

fun count_labels :: "string list \<Rightarrow> (string, nat) jsmap \<Rightarrow> (string, nat) jsmap" where
  "count_labels [] left = left"
| "count_labels (l # ls) left = count_labels ls (al_set l (or_else (al_get left l) 0 + 1) left)"

fun take_labels :: "string list \<Rightarrow> (string, nat) jsmap \<Rightarrow> bool" where
  "take_labels [] left = False"
| "take_labels (l # ls) left = (let n = or_else (al_get left l) 0 in
     if n = 0 then True else take_labels ls (al_set l (n - 1) left))"

definition anyRemoved :: "string list \<Rightarrow> string list \<Rightarrow> bool" where
  "anyRemoved before after = take_labels before (count_labels after [])"

definition left_of :: "(string, nat) jsmap \<Rightarrow> string \<Rightarrow> nat" where
  "left_of m l = or_else (al_get m l) 0"

lemma left_of_count: "left_of (count_labels ls m) l = left_of m l + count (mset ls) l"
proof (induction ls arbitrary: m)
  case (Cons x ls)
  then show ?case by (auto simp: left_of_def)
qed simp

lemma take_labels_iff:
  "take_labels ls m \<longleftrightarrow> (\<exists>l. count (mset ls) l > left_of m l)"
proof (induction ls arbitrary: m)
  case (Cons x ls)
  show ?case
  proof (cases "left_of m x = 0")
    case True
    then have "count (mset (x # ls)) x > left_of m x" by simp
    then show ?thesis using True by (auto simp: Let_def left_of_def)
  next
    case False
    let ?m = "al_set x (left_of m x - 1) m"
    have l: "left_of ?m l = (if l = x then left_of m x - 1 else left_of m l)" for l
      by (simp add: left_of_def)
    have "take_labels (x # ls) m = take_labels ls ?m" using False by (simp add: Let_def left_of_def)
    also have "\<dots> \<longleftrightarrow> (\<exists>l. count (mset ls) l > left_of ?m l)" by (rule Cons.IH)
    also have "\<dots> \<longleftrightarrow> (\<exists>l. count (mset (x # ls)) l > left_of m l)"
    proof -
      have "(count (mset ls) l > left_of ?m l) = (count (mset (x # ls)) l > left_of m l)" for l
        using False by (auto simp: left_of_def)
      then show ?thesis by (simp only:)
    qed
    finally show ?thesis .
  qed
qed simp

text \<open>The "someone was removed" flag of a group change is exact: it is set precisely when some member device
  occurs more often in the old membership than in the new one, counting a device with several leaves
  as often as it has them.\<close>

lemma anyRemoved_iff: "anyRemoved before after \<longleftrightarrow> (\<exists>label. count (mset before) label > count (mset after) label)"
  by (simp add: anyRemoved_def take_labels_iff left_of_count) (simp add: left_of_def)

definition onGroupStateChange :: "nat \<Rightarrow> ('st, 'w) session \<Rightarrow> ('st, 'w) session" where
  "onGroupStateChange cb s = s\<lparr>groupListeners := (if cb \<in> set (groupListeners s) then groupListeners s else groupListeners s @ [cb])\<rparr>"

definition offGroupStateChange :: "nat \<Rightarrow> ('st, 'w) session \<Rightarrow> ('st, 'w) session" where
  "offGroupStateChange cb s = s\<lparr>groupListeners := filter (\<lambda>c. c \<noteq> cb) (groupListeners s)\<rparr>"

definition emitGroupChange :: "string \<Rightarrow> bool \<Rightarrow> ('st, 'w) session \<Rightarrow> ('st, 'w) session" where
  "emitGroupChange groupIdStr removed s =
     s\<lparr>timers := timers s @ map (\<lambda>cb. GroupChange cb groupIdStr removed) (groupListeners s)\<rparr>"

section \<open>Own commits\<close>

definition lower :: "char \<Rightarrow> char" where
  "lower c = (if CHR ''A'' \<le> c \<and> c \<le> CHR ''Z'' then char_of (of_char c + 32 :: nat) else c)"

definition isEpochConflict :: "string option \<Rightarrow> bool" where
  "isEpochConflict error = contains ''epoch conflict'' (map lower (or_else error []))"

text \<open>What \<open>build\<close> returns: the state with the commit merged, the commit and what goes with it.  \<open>p_resync\<close> is
  the closure variable \<open>resync\<close> that the build of an external commit sets.\<close>

record 'st plan =
  p_state :: 'st
  p_commit :: bytes
  p_welcome :: "bytes option"
  p_targetEpoch :: int
  p_welcomedUserIds :: "string list"
  p_groupInfo :: "bytes option"
  p_resync :: bool

record outcome =
  oc_accepted :: bool
  oc_skipped :: bool
  oc_conflict :: bool
  oc_error :: "string option"
  oc_resync :: bool

definition oc_skip :: outcome where
  "oc_skip = \<lparr>oc_accepted = False, oc_skipped = True, oc_conflict = False, oc_error = None, oc_resync = False\<rparr>"

type_synonym ('st, 'w) submit = "int \<Rightarrow> string \<Rightarrow> string option \<Rightarrow> string list \<Rightarrow> string option
  \<Rightarrow> ('st, 'w) session \<Rightarrow> string option \<times> ('st, 'w) session"

type_synonym ('st, 'w) fetch = "('st, 'w) session \<Rightarrow> (catch_up option \<times> string option) \<times> ('st, 'w) session"

type_synonym ('st, 'w) build = "('st, 'w) session \<Rightarrow> 'st \<Rightarrow> mls_error + 'st plan option"

definition nonempty_b64 :: "bytes option \<Rightarrow> string option" where
  "nonempty_b64 b = (case b of None \<Rightarrow> None | Some bs \<Rightarrow> if bs = [] then None else Some (toB64 bs))"

text \<open>The commit log is asked up to three times; the first answer decides.\<close>

fun accepted_after :: "nat \<Rightarrow> ('st, 'w) env \<Rightarrow> ('st, 'w) fetch \<Rightarrow> int \<Rightarrow> string \<Rightarrow> ('st, 'w) session \<Rightarrow> bool \<times> ('st, 'w) session" where
  "accepted_after 0 e fetchCatchUp targetEpoch commitB64 s = (False, s)"
| "accepted_after (Suc n) e fetchCatchUp targetEpoch commitB64 s =
    (case fetchCatchUp s of ((data, error), s1) \<Rightarrow>
      (case (error, data) of
         (None, Some d) \<Rightarrow> (list_ex (\<lambda>c. fst c = targetEpoch \<and> snd c = commitB64) (cu_commits d), s1)
       | _ \<Rightarrow> accepted_after n e fetchCatchUp targetEpoch commitB64 (e_others e s1)))"

definition wasOwnCommitAccepted :: "('st, 'w) env \<Rightarrow> ('st, 'w) fetch \<Rightarrow> int \<Rightarrow> string \<Rightarrow> ('st, 'w) session \<Rightarrow> bool \<times> ('st, 'w) session" where
  "wasOwnCommitAccepted e = accepted_after 3 e"

definition invariant_violated :: mls_error where
  "invariant_violated = PlainError ''[mls] invariant violated: device state changed during own commit''"

text \<open>The submit and its answer: the acceptance, the conflict flag and the error.\<close>

definition submit_plan :: "('st, 'w) env \<Rightarrow> ('st, 'w) submit \<Rightarrow> ('st, 'w) fetch \<Rightarrow> 'st plan
    \<Rightarrow> ('st, 'w) session \<Rightarrow> (bool \<times> string option) \<times> ('st, 'w) session" where
  "submit_plan e submit fetchCatchUp plan s =
    (let commitB64 = toB64 (p_commit plan) in
     case submit (p_targetEpoch plan) commitB64 (nonempty_b64 (p_welcome plan)) (p_welcomedUserIds plan)
            (nonempty_b64 (p_groupInfo plan)) s of
       (None, s1) \<Rightarrow> ((True, None), s1)
     | (Some error, s1) \<Rightarrow>
         (if isEpochConflict (Some error) then ((False, Some error), s1)
          else (case wasOwnCommitAccepted e fetchCatchUp (p_targetEpoch plan) commitB64 s1 of
              (accepted, s2) \<Rightarrow> ((accepted, Some error), s2))))"

text \<open>The work \<open>runOwnCommit\<close> does under the lock; it also gives the change flag when it adopts the plan.\<close>

definition adopt_plan :: "('st, 'w) env \<Rightarrow> 'st \<Rightarrow> 'st plan \<Rightarrow> string option \<Rightarrow> ('st, 'w, outcome \<times> bool) mls" where
  "adopt_plan e base plan groupIdStr s =
    (if deviceStateCache s \<noteq> Some base then (Inl invariant_violated, s)
     else (let removed = (case groupIdStr of None \<Rightarrow> False
             | Some g \<Rightarrow> anyRemoved (labelsIn e base (encode_text g)) (labelsIn e (p_state plan) (encode_text g)))
       in m_bind (commitDurableLocked e (p_state plan)) (\<lambda>_. m_return
            (\<lparr>oc_accepted = True, oc_skipped = False, oc_conflict = False, oc_error = None, oc_resync = p_resync plan\<rparr>, removed)) s))"

definition own_commit_work :: "('st, 'w) env \<Rightarrow> ('st, 'w) build \<Rightarrow> ('st, 'w) submit \<Rightarrow> ('st, 'w) fetch \<Rightarrow> string option
    \<Rightarrow> ('st, 'w, outcome \<times> bool) mls" where
  "own_commit_work e build submit fetchCatchUp groupIdStr =
    m_bind (m_get currentState) (\<lambda>base. m_bind (m_get (\<lambda>s. build s base)) (\<lambda>built.
      case built of None \<Rightarrow> m_return (oc_skip, False)
      | Some plan \<Rightarrow>
         m_bind (\<lambda>s. awaitDurable e (stateVersion s) s) (\<lambda>_.
         m_bind (m_await (submit_plan e submit fetchCatchUp plan)) (\<lambda>(accepted, error).
           if \<not> accepted then m_return (\<lparr>oc_accepted = False, oc_skipped = False, oc_conflict = isEpochConflict error,
               oc_error = error, oc_resync = p_resync plan\<rparr>, False)
           else adopt_plan e base plan groupIdStr))))"

definition runOwnCommit :: "('st, 'w) env \<Rightarrow> ('st, 'w) build \<Rightarrow> ('st, 'w) submit \<Rightarrow> ('st, 'w) fetch \<Rightarrow> string option
    \<Rightarrow> ('st, 'w, outcome) mls" where
  "runOwnCommit e build submit fetchCatchUp groupIdStr =
    m_bind (withStateLock e (own_commit_work e build submit fetchCatchUp groupIdStr)) (\<lambda>(out, removed) s.
      (Inr out, if oc_accepted out then (case groupIdStr of None \<Rightarrow> s | Some g \<Rightarrow> emitGroupChange g removed s) else s))"

section \<open>Group contexts\<close>

definition js_set :: "string list \<Rightarrow> string list" where
  "js_set xs = rev (remdups (rev xs))"

definition isMissingMembersRoute :: "string option \<Rightarrow> bool" where
  "isMissingMembersRoute error = (case error of None \<Rightarrow> False | Some t \<Rightarrow>
     take 8 t = ''HTTP 404'' \<and> (case drop 8 t of [] \<Rightarrow> True | c # _ \<Rightarrow>
       \<not> (CHR ''a'' \<le> lower c \<and> lower c \<le> CHR ''z'' \<or> CHR ''0'' \<le> c \<and> c \<le> CHR ''9'' \<or> c = CHR ''_'')))"

definition orgMemberIds :: "('st, 'w) env \<Rightarrow> string \<Rightarrow> ('st, 'w, string list) mls" where
  "orgMemberIds e orgId = m_bind (m_await (a_orgMembers e orgId)) (\<lambda>ms. m_return (js_set (or_else ms [])))"

text \<open>Only a server without the route widens a channel's group to the organisation.\<close>

definition fetchChannelMemberIds :: "('st, 'w) env \<Rightarrow> string \<Rightarrow> string \<Rightarrow> ('st, 'w, string list) mls" where
  "fetchChannelMemberIds e orgId chanId = (case a_channelMembers e of
      None \<Rightarrow> orgMemberIds e orgId
    | Some get \<Rightarrow> m_bind (m_await (get orgId chanId)) (\<lambda>(ids, error).
        case ids of Some us \<Rightarrow> m_return (js_set us)
        | None \<Rightarrow> if isMissingMembersRoute error then orgMemberIds e orgId
            else m_throw (PlainError (''[mls] channel member list unavailable: '' @ or_else (str_or_null error) ''no data''))))"

definition fetchEventMemberIds :: "('st, 'w) env \<Rightarrow> string \<Rightarrow> string \<Rightarrow> ('st, 'w, string list) mls" where
  "fetchEventMemberIds e orgId eventId = m_bind (m_await (a_eventParticipants e orgId eventId)) (\<lambda>(ids, error).
      case ids of Some us \<Rightarrow> m_return (js_set us)
      | None \<Rightarrow> m_throw (PlainError (''[mls] event participant list unavailable: '' @ or_else (str_or_null error) ''no data'')))"

text \<open>\<open>ctx.fetchMemberIds\<close>: a DM has none (its two participants are fixed).\<close>

definition fetchMemberIds :: "('st, 'w) env \<Rightarrow> group_ctx \<Rightarrow> ('st, 'w, string list) mls option" where
  "fetchMemberIds e ctx = (case ctx of
      ChannelCtx org chan \<Rightarrow> Some (fetchChannelMemberIds e org chan)
    | EventCtx org ev \<Rightarrow> Some (fetchEventMemberIds e org ev)
    | DmCtx other conv \<Rightarrow> None)"

text \<open>\<open>ctx.submitCommit\<close>: the route with GroupInfo when the server has it; a DM names no welcomed users.\<close>

definition submitCommit :: "('st, 'w) env \<Rightarrow> group_ctx \<Rightarrow> ('st, 'w) submit" where
  "submitCommit e ctx epoch c w ids gi =
    (let ids' = (case ctx of DmCtx _ _ \<Rightarrow> [] | _ \<Rightarrow> ids) in
     case a_submitMlsCommit e ctx of Some f \<Rightarrow> f epoch c w ids' gi | None \<Rightarrow> a_submitCommit e ctx epoch c w ids')"

definition register_ctx :: "group_ctx \<Rightarrow> ('st, 'w) session \<Rightarrow> ('st, 'w) session" where
  "register_ctx ctx s = s\<lparr>groupCtx := al_set (ctx_group ctx) ctx (groupCtx s)\<rparr>"

definition channelContext :: "string \<Rightarrow> string \<Rightarrow> ('st, 'w) session \<Rightarrow> group_ctx \<times> ('st, 'w) session" where
  "channelContext orgId chanId s = (ChannelCtx orgId chanId, register_ctx (ChannelCtx orgId chanId) s)"

definition eventContext :: "string \<Rightarrow> string \<Rightarrow> ('st, 'w) session \<Rightarrow> group_ctx \<times> ('st, 'w) session" where
  "eventContext orgId eventId s = (EventCtx orgId eventId, register_ctx (EventCtx orgId eventId) s)"

definition dmContext :: "string \<Rightarrow> string \<Rightarrow> ('st, 'w) session \<Rightarrow> group_ctx \<times> ('st, 'w) session" where
  "dmContext otherUserId convId s = (DmCtx otherUserId convId, register_ctx (DmCtx otherUserId convId) s)"

section \<open>Catch-up\<close>

record catch_status =
  cs_ok :: bool
  cs_held :: bool
  cs_localEpoch :: "int option"
  cs_serverEpoch :: "int option"
  cs_groupInfoEpoch :: "int option"
  cs_diverged :: bool

text \<open>The variables of the loop over the logged commits.\<close>

record 'st walk =
  wk_state :: 'st
  wk_epoch :: int
  wk_changed :: bool
  wk_failedAt :: "int option"

definition epochOf :: "('st, 'w) env \<Rightarrow> 'st \<Rightarrow> bytes \<Rightarrow> mls_error + int" where
  "epochOf e st g = e_bind (wasm (w_group_epoch e st g)) (\<lambda>n. Inr (int n))"

text \<open>One logged commit: at or below our epoch it is skipped; the first failure at the very next epoch is noted.\<close>

definition apply_logged :: "('st, 'w) env \<Rightarrow> bytes \<Rightarrow> 'st walk \<Rightarrow> int \<times> string \<Rightarrow> 'st walk" where
  "apply_logged e groupId k c =
    (if fst c \<le> wk_epoch k then k
     else (let note = (\<lambda>k. if fst c = wk_epoch k + 1 \<and> wk_failedAt k = None then k\<lparr>wk_failedAt := Some (fst c)\<rparr> else k) in
       case e_bind (from_b64 (snd c)) (\<lambda>b. wasm (w_process_commit e (wk_state k) groupId b)) of
         Inl _ \<Rightarrow> note k
       | Inr st \<Rightarrow> (let k1 = k\<lparr>wk_state := st\<rparr> in
           case epochOf e st groupId of
             Inl _ \<Rightarrow> note k1
           | Inr n \<Rightarrow> k1\<lparr>wk_epoch := n, wk_changed := True\<rparr>)))"

definition sort_commits :: "(int \<times> string) list \<Rightarrow> (int \<times> string) list" where
  "sort_commits cs = stable_sort (\<lambda>a b. fst a \<le> fst b) cs"

definition walk_log :: "('st, 'w) env \<Rightarrow> bytes \<Rightarrow> (int \<times> string) list \<Rightarrow> 'st walk \<Rightarrow> 'st walk" where
  "walk_log e groupId cs k = foldl (apply_logged e groupId) k (sort_commits cs)"

text \<open>The logged welcome is tried only when the group is not held; one meant for another device is ignored.\<close>

definition try_welcome :: "('st, 'w) env \<Rightarrow> bool \<Rightarrow> catch_up \<Rightarrow> 'st \<Rightarrow> 'st \<times> bool" where
  "try_welcome e held data st = (case cu_welcome data of
       Some w \<Rightarrow> (if held then (st, False)
         else (case e_bind (from_b64 w) (\<lambda>b. wasm (w_join_from_welcome e st b)) of
             Inl _ \<Rightarrow> (st, False) | Inr st' \<Rightarrow> (st', True)))
     | None \<Rightarrow> (st, False))"

definition catchup_walk :: "('st, 'w) env \<Rightarrow> bytes \<Rightarrow> catch_up \<Rightarrow> 'st \<Rightarrow> mls_error + 'st \<times> bool \<times> int option" where
  "catchup_walk e groupId data state =
    e_bind (wasm (w_group_exists e state groupId)) (\<lambda>held0.
      case try_welcome e held0 data state of (st, changed) \<Rightarrow>
        e_bind (wasm (w_group_exists e st groupId)) (\<lambda>held.
          if \<not> held then Inr (st, changed, None)
          else e_bind (epochOf e st groupId) (\<lambda>n.
            (let k = walk_log e groupId (cu_commits data) \<lparr>wk_state = st, wk_epoch = n, wk_changed = changed, wk_failedAt = None\<rparr>
             in Inr (wk_state k, wk_changed k, Some (wk_epoch k))))))"

text \<open>The work under the lock: the walk starts at the state then, not at the one before the fetch.\<close>

definition catchup_work :: "('st, 'w) env \<Rightarrow> bytes \<Rightarrow> catch_up \<Rightarrow> ('st, 'w, bool \<times> int option \<times> bool) mls" where
  "catchup_work e groupId data =
    m_bind (m_get currentState) (\<lambda>state.
    m_bind (m_get (\<lambda>_. catchup_walk e groupId data state)) (\<lambda>(st, changed, epoch).
      if changed then m_bind (commitDurableLocked e st)
        (\<lambda>_. m_return (changed, epoch, anyRemoved (labelsIn e state groupId) (labelsIn e st groupId)))
      else m_return (changed, epoch, False)))"

definition server_epoch :: "catch_up \<Rightarrow> int option" where
  "server_epoch data = (case cu_current_epoch data of Some n \<Rightarrow> Some n
     | None \<Rightarrow> (case map fst (cu_commits data) of [] \<Rightarrow> None | ns \<Rightarrow> Some (Max (set ns))))"

definition is_diverged :: "catch_up \<Rightarrow> int option \<Rightarrow> bool" where
  "is_diverged data epoch = (case (epoch, server_epoch data) of
       (Some l, Some n) \<Rightarrow> n > 0 \<and> (if cu_current_epoch data \<noteq> None then l \<noteq> n else l < n)
     | _ \<Rightarrow> False)"

definition catchup_status :: "catch_up \<Rightarrow> int option \<Rightarrow> catch_status" where
  "catchup_status data epoch = \<lparr>cs_ok = True, cs_held = (epoch \<noteq> None), cs_localEpoch = epoch,
     cs_serverEpoch = server_epoch data, cs_groupInfoEpoch = cu_group_info_epoch data, cs_diverged = is_diverged data epoch\<rparr>"

definition digits_text :: "int \<Rightarrow> string" where
  "digits_text n = int_text n"

text \<open>A member at the server's epoch uploads the GroupInfo a pre-2.0.1 commit left stale, once per group and epoch.\<close>

definition refresh_due :: "catch_status \<Rightarrow> bool" where
  "refresh_due st \<longleftrightarrow> cs_held st \<and> cs_serverEpoch st \<noteq> None \<and> cs_serverEpoch st \<noteq> Some 0
     \<and> cs_groupInfoEpoch st \<noteq> cs_serverEpoch st \<and> cs_localEpoch st = cs_serverEpoch st"

definition upload_group_info :: "('st, 'w) env \<Rightarrow> group_ctx \<Rightarrow> int \<Rightarrow> (int \<Rightarrow> string \<Rightarrow> ('st, 'w) session \<Rightarrow> string option \<times> ('st, 'w) session)
    \<Rightarrow> ('st, 'w) session \<Rightarrow> ('st, 'w) session" where
  "upload_group_info e ctx n put s = (let groupId = encode_text (ctx_group ctx) in
     case deviceStateCache s of None \<Rightarrow> s
     | Some st \<Rightarrow> (if w_group_exists e st groupId = Inr True \<and> epochOf e st groupId = Inr n
         then (case w_export_group_info e st groupId of Inl _ \<Rightarrow> s | Inr gi \<Rightarrow> snd (put n (toB64 gi) s))
         else s))"

definition maybeRefreshGroupInfo :: "('st, 'w) env \<Rightarrow> group_ctx \<Rightarrow> catch_status \<Rightarrow> ('st, 'w) session \<Rightarrow> ('st, 'w) session" where
  "maybeRefreshGroupInfo e ctx status s = (case a_putGroupInfo e ctx of None \<Rightarrow> s
     | Some put \<Rightarrow> (if \<not> refresh_due status then s
         else (let n = or_else (cs_serverEpoch status) 0; key = ctx_group ctx @ '':'' @ digits_text n in
           if key \<in> set (groupInfoRefreshed s) then s
           else upload_group_info e ctx n put (s\<lparr>groupInfoRefreshed := groupInfoRefreshed s @ [key]\<rparr>))))"

text \<open>Without data the local epoch is reported as it is.\<close>

definition offline_status :: "('st, 'w) env \<Rightarrow> bytes \<Rightarrow> ('st, 'w) session \<Rightarrow> mls_error + catch_status" where
  "offline_status e groupId s =
    (let st0 = \<lparr>cs_ok = False, cs_held = False, cs_localEpoch = None, cs_serverEpoch = None, cs_groupInfoEpoch = None, cs_diverged = False\<rparr> in
     case deviceStateCache s of None \<Rightarrow> Inr st0
     | Some st \<Rightarrow> e_bind (wasm (w_group_exists e st groupId)) (\<lambda>held.
         if held then e_bind (epochOf e st groupId) (\<lambda>n. Inr (st0\<lparr>cs_held := True, cs_localEpoch := Some n\<rparr>)) else Inr st0))"

definition catchUpGroup :: "('st, 'w) env \<Rightarrow> group_ctx \<Rightarrow> ('st, 'w, catch_status) mls" where
  "catchUpGroup e ctx = (let groupId = encode_text (ctx_group ctx) in
    m_bind (m_await (a_catchUp e ctx)) (\<lambda>(response, error).
      case response of None \<Rightarrow> m_get (offline_status e groupId)
      | Some data \<Rightarrow>
          m_bind (withStateLock e (catchup_work e groupId data)) (\<lambda>(changed, epoch, removed) s.
            let s1 = (if changed then emitGroupChange (ctx_group ctx) removed s else s);
                status = catchup_status data epoch;
                s2 = (if \<not> cs_diverged status \<and> cu_current_epoch data \<noteq> None then maybeRefreshGroupInfo e ctx status s1 else s1)
            in (Inr status, s2))))"

section \<open>External join and resync\<close>

record heal_result =
  hr_action :: string
  hr_reason :: "string option"

definition heal :: "string \<Rightarrow> heal_result" where
  "heal action = \<lparr>hr_action = action, hr_reason = None\<rparr>"

definition heal_why :: "string \<Rightarrow> string \<Rightarrow> heal_result" where
  "heal_why action reason = \<lparr>hr_action = action, hr_reason = Some reason\<rparr>"

definition info_error :: "string \<Rightarrow> heal_result" where
  "info_error error =
    (if isMissingMembersRoute (Some error) then heal_why ''none'' ''unsupported''
     else (let t = map lower error in
       heal_why ''failed'' (if list_ex (\<lambda>p. contains p t)
           [''not a member'', ''not assigned'', ''not a participant'', ''not friends'', ''forbidden'', ''403'']
         then ''not_member'' else ''group_info_error'')))"

definition external_plan :: "'st commit_res \<Rightarrow> int \<Rightarrow> bool \<Rightarrow> 'st plan" where
  "external_plan res target resync = \<lparr>p_state = cr_state res, p_commit = cr_commit res, p_welcome = None,
     p_targetEpoch = target, p_welcomedUserIds = [], p_groupInfo = Some (cr_groupInfo res), p_resync = resync\<rparr>"

text \<open>The build of the external commit: a copy that became current meanwhile needs nothing, unless forced.\<close>

definition external_build :: "('st, 'w) env \<Rightarrow> bytes \<Rightarrow> bytes \<Rightarrow> int \<Rightarrow> bool \<Rightarrow> ('st, 'w) build" where
  "external_build e groupId groupInfo epoch force s st =
    e_bind (wasm (w_group_exists e st groupId)) (\<lambda>resync.
      if resync then
        e_bind (if force then Inr False else e_bind (epochOf e st groupId) (\<lambda>n. Inr (n = epoch))) (\<lambda>current.
          if current then Inr None
          else e_bind (wasm (w_resync_external e st groupId groupInfo)) (\<lambda>res. Inr (Some (external_plan res (epoch + 1) True))))
      else
        e_bind (case ownCredential s of Some c \<Rightarrow> Inr c | None \<Rightarrow> wasm (w_device_credential e st)) (\<lambda>cred.
          e_bind (wasm (w_join_external e st groupInfo cred)) (\<lambda>res. Inr (Some (external_plan res (epoch + 1) False)))))"

definition stale_leaf_build :: "('st, 'w) env \<Rightarrow> bytes \<Rightarrow> ('st, 'w) build" where
  "stale_leaf_build e groupId s st =
    (case ownCredential s of None \<Rightarrow> Inr None
     | Some cred \<Rightarrow> e_bind (wasm (w_group_exists e st groupId)) (\<lambda>held.
         if \<not> held then Inr None
         else e_bind (wasm (w_group_member_labels e st groupId)) (\<lambda>labels.
           if length (filter (\<lambda>l. l = cred) labels) \<le> 1 then Inr None
           else e_bind (wasm (w_remove_member e st groupId [cred])) (\<lambda>res.
             e_bind (epochOf e st groupId) (\<lambda>n. Inr (Some (external_plan res (n + 1) False)))))))"

definition removeOwnStaleLeaves :: "('st, 'w) env \<Rightarrow> group_ctx \<Rightarrow> ('st, 'w, unit) mls" where
  "removeOwnStaleLeaves e ctx =
    m_try (m_bind (runOwnCommit e (stale_leaf_build e (encode_text (ctx_group ctx))) (submitCommit e ctx)
             (a_catchUp e ctx) (Some (ctx_group ctx))) (\<lambda>_. m_return ()))
      (\<lambda>_. m_return ())"

definition is_state_unavailable :: "mls_error \<Rightarrow> bool" where
  "is_state_unavailable er = (case er of StateUnavailable _ \<Rightarrow> True | _ \<Rightarrow> False)"

text \<open>What follows the answer to an external commit; \<^const>\<open>None\<close> means the race was lost: go round again.\<close>

definition after_external :: "('st, 'w) env \<Rightarrow> group_ctx \<Rightarrow> bool \<Rightarrow> outcome \<Rightarrow> ('st, 'w, heal_result option) mls" where
  "after_external e ctx force r =
    (if oc_skipped r then m_return (Some (heal ''none''))
     else if oc_accepted r then m_bind (removeOwnStaleLeaves e ctx)
       (\<lambda>_. m_return (Some (heal (if oc_resync r then ''resynced'' else ''joined''))))
     else if \<not> oc_conflict r then m_return (Some (heal_why ''failed'' ''rejected''))
     else m_bind (catchUpGroup e ctx) (\<lambda>status.
       m_return (if cs_held status \<and> \<not> cs_diverged status \<and> \<not> force then Some (heal ''none'') else None)))"

text \<open>The commit of one round: an error of its build is a failed join, an unusable state is thrown on.\<close>

definition try_external :: "('st, 'w) env \<Rightarrow> group_ctx \<Rightarrow> bool \<Rightarrow> int \<Rightarrow> bytes
    \<Rightarrow> (int \<Rightarrow> string \<Rightarrow> string option \<Rightarrow> ('st, 'w) session \<Rightarrow> string option \<times> ('st, 'w) session)
    \<Rightarrow> ('st, 'w, heal_result + outcome) mls" where
  "try_external e ctx force epoch groupInfo submitExternal =
    m_try (m_bind (runOwnCommit e (external_build e (encode_text (ctx_group ctx)) groupInfo epoch force)
          (\<lambda>epoch c w ids gi. submitExternal epoch c gi) (a_catchUp e ctx) (Some (ctx_group ctx)))
        (\<lambda>r. m_return (Inr r)))
      (\<lambda>er. if is_state_unavailable er then m_throw er else m_return (Inl (heal_why ''failed'' ''join_failed'')))"

definition external_round :: "('st, 'w) env \<Rightarrow> group_ctx \<Rightarrow> bool
    \<Rightarrow> (('st, 'w) session \<Rightarrow> (group_info option \<times> string option) \<times> ('st, 'w) session)
    \<Rightarrow> (int \<Rightarrow> string \<Rightarrow> string option \<Rightarrow> ('st, 'w) session \<Rightarrow> string option \<times> ('st, 'w) session)
    \<Rightarrow> ('st, 'w, heal_result option) mls" where
  "external_round e ctx force getGroupInfo submitExternal =
    m_bind (m_await getGroupInfo) (\<lambda>(data, error).
      case error of Some er \<Rightarrow> m_return (Some (info_error er))
      | None \<Rightarrow> (case data of
          None \<Rightarrow> m_return (Some (heal ''absent''))
        | Some d \<Rightarrow> (if \<not> gi_exists d then m_return (Some (heal ''absent''))
            else (case gi_info d of
                None \<Rightarrow> m_return (Some (heal_why ''failed'' ''group_info_unavailable''))
              | Some info \<Rightarrow> m_bind (m_get (\<lambda>_. from_b64 info)) (\<lambda>groupInfo.
                  m_bind (try_external e ctx force (gi_epoch d) groupInfo submitExternal)
                    (\<lambda>tried. case tried of Inl h \<Rightarrow> m_return (Some h) | Inr r \<Rightarrow> after_external e ctx force r))))))"

fun external_attempts :: "nat \<Rightarrow> ('st, 'w) env \<Rightarrow> group_ctx \<Rightarrow> bool
    \<Rightarrow> (('st, 'w) session \<Rightarrow> (group_info option \<times> string option) \<times> ('st, 'w) session)
    \<Rightarrow> (int \<Rightarrow> string \<Rightarrow> string option \<Rightarrow> ('st, 'w) session \<Rightarrow> string option \<times> ('st, 'w) session)
    \<Rightarrow> ('st, 'w, heal_result) mls" where
  "external_attempts 0 e ctx force getGroupInfo submitExternal = m_return (heal_why ''failed'' ''epoch_conflict'')"
| "external_attempts (Suc n) e ctx force getGroupInfo submitExternal =
    m_bind (external_round e ctx force getGroupInfo submitExternal) (\<lambda>r.
      case r of Some h \<Rightarrow> m_return h | None \<Rightarrow> external_attempts n e ctx force getGroupInfo submitExternal)"

definition externalJoinOrResync :: "('st, 'w) env \<Rightarrow> group_ctx \<Rightarrow> bool \<Rightarrow> ('st, 'w, heal_result) mls" where
  "externalJoinOrResync e ctx force =
    (case (a_getGroupInfo e ctx, a_submitExternal e ctx) of
       (Some g, Some sub) \<Rightarrow> external_attempts 3 e ctx force g sub
     | _ \<Rightarrow> m_return (heal_why ''none'' ''unsupported''))"

section \<open>Setting a group up and reconciling it\<close>

text \<open>The devices of some users: (user, device, key package).\<close>

fun decode_devices :: "string \<Rightarrow> (string \<times> string) list \<Rightarrow> mls_error + (string \<times> string \<times> bytes) list" where
  "decode_devices u [] = Inr []"
| "decode_devices u ((d, kp) # ds) =
    e_bind (from_b64 kp) (\<lambda>b. e_bind (decode_devices u ds) (\<lambda>rest. Inr ((u, d, b) # rest)))"

fun fetchDevicesOf :: "('st, 'w) env \<Rightarrow> string list \<Rightarrow> ('st, 'w, (string \<times> string \<times> bytes) list) mls" where
  "fetchDevicesOf e [] = m_return []"
| "fetchDevicesOf e (u # us) =
    m_bind (m_await (a_keyPackages e u)) (\<lambda>(data, error).
    m_bind (m_get (\<lambda>_. decode_devices u (or_else data []))) (\<lambda>ds.
    m_bind (fetchDevicesOf e us) (\<lambda>rest. m_return (ds @ rest))))"

definition add_plan :: "'st commit_res \<Rightarrow> int \<Rightarrow> string list \<Rightarrow> 'st plan" where
  "add_plan res target welcomed = \<lparr>p_state = cr_state res, p_commit = cr_commit res, p_welcome = Some (cr_welcome res),
     p_targetEpoch = target, p_welcomedUserIds = welcomed, p_groupInfo = Some (cr_groupInfo res), p_resync = False\<rparr>"

definition key_packages :: "(string \<times> string \<times> bytes) list \<Rightarrow> bytes list" where
  "key_packages ds = map (\<lambda>(u, d, kp). kp) ds"

text \<open>A new group with the given devices, from nothing: the solo group's epoch plus one.\<close>

definition create_plan :: "('st, 'w) env \<Rightarrow> bytes \<Rightarrow> (string \<times> string \<times> bytes) list \<Rightarrow> string list \<Rightarrow> 'st \<Rightarrow> mls_error + 'st plan option" where
  "create_plan e groupId devices welcomed st =
    e_bind (wasm (w_create_group e st groupId)) (\<lambda>solo.
    e_bind (wasm (w_add_member e solo groupId (w_frame_key_packages e (key_packages devices)))) (\<lambda>res.
    e_bind (epochOf e solo groupId) (\<lambda>n. Inr (Some (add_plan res (n + 1) welcomed)))))"

definition add_missing_plan :: "('st, 'w) env \<Rightarrow> bytes \<Rightarrow> (string \<times> string \<times> bytes) list \<Rightarrow> string list \<Rightarrow> 'st \<Rightarrow> mls_error + 'st plan option" where
  "add_missing_plan e groupId missing welcomed st =
    (if missing = [] then Inr None
     else e_bind (wasm (w_add_member e st groupId (w_frame_key_packages e (key_packages missing)))) (\<lambda>res.
       e_bind (epochOf e st groupId) (\<lambda>n. Inr (Some (add_plan res (n + 1) welcomed)))))"

definition genesis_build :: "('st, 'w) env \<Rightarrow> bytes \<Rightarrow> (string \<times> string \<times> bytes) list \<Rightarrow> string list \<Rightarrow> ('st, 'w) build" where
  "genesis_build e groupId devices others s st =
    e_bind (wasm (w_group_exists e st groupId)) (\<lambda>held.
      if held then Inr None else create_plan e groupId devices others st)"

definition attemptGroupGenesis :: "('st, 'w) env \<Rightarrow> group_ctx \<Rightarrow> string list \<Rightarrow> ('st, 'w, outcome) mls" where
  "attemptGroupGenesis e ctx otherMemberIds =
    m_bind (fetchDevicesOf e otherMemberIds) (\<lambda>devices.
      if devices = [] then m_return oc_skip
      else runOwnCommit e (genesis_build e (encode_text (ctx_group ctx)) devices otherMemberIds)
        (submitCommit e ctx) (a_catchUp e ctx) (Some (ctx_group ctx)))"

text \<open>The two commits of a reconcile: members whose account is no longer on the list leave, missing devices join.\<close>

definition staleLabels :: "string list \<Rightarrow> string list \<Rightarrow> string list" where
  "staleLabels currentMemberIds labels = js_set (filter (\<lambda>l. userIdOfLabel l \<notin> set currentMemberIds) labels)"

definition missingDevices :: "string list \<Rightarrow> (string \<times> string \<times> bytes) list \<Rightarrow> (string \<times> string \<times> bytes) list" where
  "missingDevices labels devices = filter (\<lambda>(u, d, kp). credentialFor u d \<notin> set labels) devices"

definition remove_stale_build :: "('st, 'w) env \<Rightarrow> bytes \<Rightarrow> string list \<Rightarrow> ('st, 'w) build" where
  "remove_stale_build e groupId memberIds s st =
    e_bind (wasm (w_group_exists e st groupId)) (\<lambda>held.
      if \<not> held then Inr None
      else e_bind (wasm (w_group_member_labels e st groupId)) (\<lambda>labels.
        if staleLabels memberIds labels = [] then Inr None
        else e_bind (wasm (w_remove_member e st groupId (staleLabels memberIds labels))) (\<lambda>res.
          e_bind (epochOf e st groupId) (\<lambda>n. Inr (Some (external_plan res (n + 1) False))))))"

definition add_missing_build :: "('st, 'w) env \<Rightarrow> bytes \<Rightarrow> (string \<times> string \<times> bytes) list \<Rightarrow> ('st, 'w) build" where
  "add_missing_build e groupId devices s st =
    e_bind (wasm (w_group_exists e st groupId)) (\<lambda>held.
      if \<not> held then Inr None
      else e_bind (wasm (w_group_member_labels e st groupId)) (\<lambda>labels.
        add_missing_plan e groupId (missingDevices labels devices)
          (js_set (map fst (missingDevices labels devices))) st))"

definition reconcileGroupDevices :: "('st, 'w) env \<Rightarrow> string \<Rightarrow> group_ctx \<Rightarrow> string list \<Rightarrow> ('st, 'w, unit) mls" where
  "reconcileGroupDevices e currentUserId ctx currentMemberIds = (let groupId = encode_text (ctx_group ctx) in
    m_bind (runOwnCommit e (remove_stale_build e groupId currentMemberIds) (submitCommit e ctx) (a_catchUp e ctx) (Some (ctx_group ctx))) (\<lambda>_.
    m_bind (fetchDevicesOf e (filter (\<lambda>u. u \<noteq> currentUserId) currentMemberIds)) (\<lambda>devices.
      if devices = [] then m_return ()
      else m_bind (runOwnCommit e (add_missing_build e groupId devices) (submitCommit e ctx) (a_catchUp e ctx) (Some (ctx_group ctx)))
        (\<lambda>_. m_return ()))))"

text \<open>\<open>group_exists(deviceStateCache, ..)\<close> outside the lock; without a state the module throws.\<close>

definition cache_holds :: "('st, 'w) env \<Rightarrow> bytes \<Rightarrow> ('st, 'w, bool) mls" where
  "cache_holds e groupId = m_get (\<lambda>s. case deviceStateCache s of
      None \<Rightarrow> Inl (PlainError ''TypeError'') | Some st \<Rightarrow> wasm (w_group_exists e st groupId))"

definition dm_build :: "('st, 'w) env \<Rightarrow> bytes \<Rightarrow> (string \<times> string \<times> bytes) list \<Rightarrow> string \<Rightarrow> bool \<Rightarrow> ('st, 'w) build" where
  "dm_build e groupId devices otherUserId mayCreate s st =
    e_bind (wasm (w_group_exists e st groupId)) (\<lambda>held.
      if \<not> held then (if mayCreate then create_plan e groupId devices [] st else Inr None)
      else e_bind (wasm (w_group_member_labels e st groupId)) (\<lambda>labels.
        add_missing_plan e groupId (filter (\<lambda>(u, d, kp). credentialFor otherUserId d \<notin> set labels) devices) [] st))"

definition may_create :: "heal_result \<Rightarrow> bool" where
  "may_create h \<longleftrightarrow> hr_action h = ''absent'' \<or> hr_reason h = Some ''unsupported''"

text \<open>The heal before a direct-message group is created: its answer decides whether creating is allowed.\<close>

definition dm_join :: "('st, 'w) env \<Rightarrow> group_ctx \<Rightarrow> catch_status \<Rightarrow> ('st, 'w, bool) mls" where
  "dm_join e ctx status =
    m_bind (cache_holds e (encode_text (ctx_group ctx))) (\<lambda>held.
      if \<not> held \<or> cs_diverged status
      then m_bind (externalJoinOrResync e ctx False) (\<lambda>h. m_return (may_create h))
      else m_return True)"

definition dm_after_conflict :: "('st, 'w) env \<Rightarrow> group_ctx \<Rightarrow> outcome \<Rightarrow> ('st, 'w, unit) mls" where
  "dm_after_conflict e ctx r = (let groupId = encode_text (ctx_group ctx) in
     if \<not> oc_conflict r then m_return ()
     else m_bind (cache_holds e groupId) (\<lambda>held. if held then m_return ()
       else m_bind (catchUpGroup e ctx) (\<lambda>_. m_bind (cache_holds e groupId) (\<lambda>held. if held then m_return ()
         else m_bind (externalJoinOrResync e ctx False) (\<lambda>_. m_return ())))))"

definition ensureGroupWithMember :: "('st, 'w) env \<Rightarrow> string \<Rightarrow> group_ctx \<Rightarrow> ('st, 'w, unit) mls" where
  "ensureGroupWithMember e currentUserId ctx = (let groupId = encode_text (ctx_group ctx) in
    m_bind (ensureIdentity e currentUserId) (\<lambda>_.
    m_bind (catchUpGroup e ctx) (\<lambda>status.
    m_bind (dm_join e ctx status) (\<lambda>mayCreate.
    m_bind (fetchDevicesOf e [ctx_other ctx]) (\<lambda>devices.
      if devices = [] then m_return ()
      else m_bind (runOwnCommit e (dm_build e groupId devices (ctx_other ctx) mayCreate) (submitCommit e ctx)
          (a_catchUp e ctx) (Some (ctx_group ctx))) (dm_after_conflict e ctx))))))"

text \<open>One round of joining or creating; the result says whether to go round again.\<close>

definition join_round :: "('st, 'w) env \<Rightarrow> string \<Rightarrow> group_ctx \<Rightarrow> string list \<Rightarrow> bool \<Rightarrow> ('st, 'w, bool) mls" where
  "join_round e currentUserId ctx memberIds diverged = (let groupId = encode_text (ctx_group ctx) in
    m_bind (cache_holds e groupId) (\<lambda>held.
      if held \<and> \<not> diverged then m_return False
      else m_bind (externalJoinOrResync e ctx False) (\<lambda>h.
        m_bind (cache_holds e groupId) (\<lambda>now_held.
          if now_held \<or> held then m_return False
          else if \<not> may_create h then m_return False
          else m_bind (attemptGroupGenesis e ctx (filter (\<lambda>u. u \<noteq> currentUserId) memberIds)) (\<lambda>g.
            if \<not> oc_conflict g then m_return False
            else m_bind (catchUpGroup e ctx) (\<lambda>_. m_return (hr_reason h \<noteq> Some ''unsupported'')))))))"

definition reconcile_if_held :: "('st, 'w) env \<Rightarrow> string \<Rightarrow> group_ctx \<Rightarrow> string list \<Rightarrow> ('st, 'w, unit) mls" where
  "reconcile_if_held e currentUserId ctx memberIds =
    m_bind (cache_holds e (encode_text (ctx_group ctx))) (\<lambda>held.
      m_bind (if held then reconcileGroupDevices e currentUserId ctx memberIds else m_return ())
        (\<lambda>_. m_bind (catchUpGroup e ctx) (\<lambda>_. m_return ())))"

definition ensureReconciledGroup :: "('st, 'w) env \<Rightarrow> string \<Rightarrow> group_ctx \<Rightarrow> ('st, 'w, string list) mls \<Rightarrow> ('st, 'w, unit) mls" where
  "ensureReconciledGroup e currentUserId ctx members =
    m_bind (ensureIdentity e currentUserId) (\<lambda>_.
    m_bind (catchUpGroup e ctx) (\<lambda>status.
    m_bind members (\<lambda>memberIds.
      if currentUserId \<notin> set memberIds then m_return ()
      else m_bind (join_round e currentUserId ctx memberIds (cs_diverged status)) (\<lambda>again.
        m_bind (if again then join_round e currentUserId ctx memberIds False else m_return False) (\<lambda>_.
          reconcile_if_held e currentUserId ctx memberIds)))))"

definition ensureDmGroup :: "('st, 'w) env \<Rightarrow> string \<Rightarrow> string \<Rightarrow> string \<Rightarrow> ('st, 'w, unit) mls" where
  "ensureDmGroup e currentUserId otherUserId convId s =
    (case dmContext otherUserId convId s of (ctx, s1) \<Rightarrow> ensureGroupWithMember e currentUserId ctx s1)"

definition ensureChannelGroup :: "('st, 'w) env \<Rightarrow> string \<Rightarrow> string \<Rightarrow> string \<Rightarrow> ('st, 'w, unit) mls" where
  "ensureChannelGroup e currentUserId orgId chanId s =
    (case channelContext orgId chanId s of (ctx, s1) \<Rightarrow>
       ensureReconciledGroup e currentUserId ctx (fetchChannelMemberIds e orgId chanId) s1)"

definition ensureEventGroup :: "('st, 'w) env \<Rightarrow> string \<Rightarrow> string \<Rightarrow> string \<Rightarrow> ('st, 'w, unit) mls" where
  "ensureEventGroup e currentUserId orgId eventId s =
    (case eventContext orgId eventId s of (ctx, s1) \<Rightarrow>
       ensureReconciledGroup e currentUserId ctx (fetchEventMemberIds e orgId eventId) s1)"

end
