(* ===== verification/Mls_Messages.thy ===== *)
theory Mls_Messages
  imports Mls_Groups
begin

text \<open>
  The rest of \<open>mlsSession.js\<close>: healing, the local epoch, application messages (encrypt, decrypt,
  recall of own messages), live welcomes and commits, the epoch syncs and the log.
\<close>

section \<open>Healing\<close>

definition HEAL_MIN_INTERVAL_MS :: int where
  "HEAL_MIN_INTERVAL_MS = 60000"

definition healGroup :: "('st, 'w) env \<Rightarrow> string \<Rightarrow> group_ctx \<Rightarrow> bool \<Rightarrow> ('st, 'w, heal_result) mls" where
  "healGroup e currentUserId ctx force =
    m_bind (m_do (\<lambda>s. s\<lparr>lastHealAt := al_set (ctx_group ctx) (e_now e s) (lastHealAt s)\<rparr>)) (\<lambda>_.
    m_bind (catchUpGroup e ctx) (\<lambda>status.
    m_bind (case fetchMemberIds e ctx of None \<Rightarrow> m_return True
        | Some members \<Rightarrow> m_bind members (\<lambda>ids. m_return (currentUserId \<in> set ids))) (\<lambda>listed.
      if \<not> listed then m_return (heal_why ''skipped'' ''not_on_list'')
      else m_bind (cache_holds e (encode_text (ctx_group ctx))) (\<lambda>held.
        if held \<and> \<not> cs_diverged status \<and> \<not> force then m_return (heal ''none'')
        else externalJoinOrResync e ctx force))))"

text \<open>At most one background heal per group and minute; without a known context or account none.\<close>

definition scheduleHeal :: "('st, 'w) env \<Rightarrow> string \<Rightarrow> string \<Rightarrow> ('st, 'w) session \<Rightarrow> ('st, 'w) session" where
  "scheduleHeal e groupIdStr why s =
    (case al_get (groupCtx s) groupIdStr of None \<Rightarrow> s
     | Some ctx \<Rightarrow> (if \<not> truthy (boundUserId s) then s
         else if e_now e s - or_else (al_get (lastHealAt s) groupIdStr) 0 < HEAL_MIN_INTERVAL_MS then s
         else s\<lparr>lastHealAt := al_set groupIdStr (e_now e s) (lastHealAt s),
                timers := timers s @ [HealTimer (or_else (boundUserId s) []) ctx (sessionGen s) why]\<rparr>))"

definition healStatus :: "heal_result \<Rightarrow> string" where
  "healStatus r = (if hr_action r = ''failed'' then take 120 (hr_action r @ '':'' @ or_else (hr_reason r) ''unknown'')
     else if truthy (hr_reason r) then hr_action r @ '':'' @ or_else (hr_reason r) []
     else hr_action r)"

section \<open>Local epoch\<close>

text \<open>The memo is dropped whenever the committed version changed.\<close>

definition epoch_now :: "('st, 'w) env \<Rightarrow> 'st \<Rightarrow> string \<Rightarrow> nat option" where
  "epoch_now e st groupIdStr = (case w_group_exists e st (encode_text groupIdStr) of
       Inr True \<Rightarrow> (case w_group_epoch e st (encode_text groupIdStr) of Inl _ \<Rightarrow> None | Inr n \<Rightarrow> Some n)
     | _ \<Rightarrow> None)"

definition groupEpoch :: "('st, 'w) env \<Rightarrow> string \<Rightarrow> ('st, 'w) session \<Rightarrow> nat option \<times> ('st, 'w) session" where
  "groupEpoch e groupIdStr s = (case deviceStateCache s of None \<Rightarrow> (None, s)
     | Some st \<Rightarrow> (let memo = (if fst (epochMemo s) \<noteq> int (stateVersion s) then [] else snd (epochMemo s)) in
         case al_get memo groupIdStr of
           Some ep \<Rightarrow> (ep, s\<lparr>epochMemo := (int (stateVersion s), memo)\<rparr>)
         | None \<Rightarrow> (let ep = epoch_now e st groupIdStr in
             (ep, s\<lparr>epochMemo := (int (stateVersion s), al_set groupIdStr ep memo)\<rparr>))))"

fun status_entries :: "('st, 'w) env \<Rightarrow> (string \<times> string) list \<Rightarrow> ('st, 'w) session \<Rightarrow> status_report list \<times> ('st, 'w) session" where
  "status_entries e [] s = ([], s)"
| "status_entries e ((g, status) # es) s = (case groupEpoch e g s of (ep, s1) \<Rightarrow>
     (case status_entries e es s1 of (rs, s2) \<Rightarrow> (\<lparr>sr_group = g, sr_epoch = ep, sr_status = status\<rparr> # rs, s2)))"

definition reportDeviceStatus :: "('st, 'w) env \<Rightarrow> (string \<times> string) list \<Rightarrow> ('st, 'w) session \<Rightarrow> ('st, 'w) session" where
  "reportDeviceStatus e entries s = (case (a_reportDeviceStatus e, ownCredential s) of
       (Some report, Some cred) \<Rightarrow> (if entries = [] then s
         else (case status_entries e (take 500 entries) s of (groups, s1) \<Rightarrow> report (deviceIdOfLabel cred) groups s1))
     | _ \<Rightarrow> s)"

text \<open>The callback of a scheduled heal: nothing after an account switch.\<close>

definition run_heal_timer :: "('st, 'w) env \<Rightarrow> string \<Rightarrow> group_ctx \<Rightarrow> nat \<Rightarrow> ('st, 'w) session \<Rightarrow> ('st, 'w) session" where
  "run_heal_timer e userId ctx gen s = (if gen \<noteq> sessionGen s then s
     else (case healGroup e userId ctx False s of
         (Inl _, s1) \<Rightarrow> s1
       | (Inr r, s1) \<Rightarrow> reportDeviceStatus e [(ctx_group ctx, healStatus r)] s1))"

record org_heal =
  oh_healed :: "string list"
  oh_failed :: "(string \<times> string) list"
  oh_checked :: nat

text \<open>The contexts of an organisation: every channel, every launched event.\<close>

definition channel_contexts :: "('st, 'w) env \<Rightarrow> string \<Rightarrow> ('st, 'w) session \<Rightarrow> (group_ctx list \<times> (string \<times> string) list) \<times> ('st, 'w) session" where
  "channel_contexts e orgId s = (case a_channels e orgId s of ((chans, error), s1) \<Rightarrow>
     (case chans of
        Some ids \<Rightarrow> (let ctxs = map (ChannelCtx orgId) (filter (\<lambda>i. i \<noteq> []) ids) in ((ctxs, []), fold register_ctx ctxs s1))
      | None \<Rightarrow> (([], [(orgId, ''channel_list_unavailable'')]), s1)))"

definition event_contexts :: "('st, 'w) env \<Rightarrow> string \<Rightarrow> ('st, 'w) session \<Rightarrow> group_ctx list \<times> ('st, 'w) session" where
  "event_contexts e orgId s = (case a_orgEvents e of None \<Rightarrow> ([], s)
     | Some get \<Rightarrow> (case get orgId s of (events, s1) \<Rightarrow>
         (let ctxs = map (\<lambda>ev. EventCtx orgId (fst ev)) (filter (\<lambda>ev. fst ev \<noteq> [] \<and> snd ev) (or_else events []))
          in (ctxs, fold register_ctx ctxs s1))))"

text \<open>The loop over the contexts; an unusable state ends it.\<close>

definition note_heal :: "group_ctx \<Rightarrow> heal_result \<Rightarrow> org_heal \<Rightarrow> org_heal" where
  "note_heal ctx r result = (let res1 = result\<lparr>oh_checked := oh_checked result + 1\<rparr> in
     if hr_action r = ''joined'' \<or> hr_action r = ''resynced'' then res1\<lparr>oh_healed := oh_healed res1 @ [ctx_group ctx]\<rparr>
     else if hr_action r = ''failed'' then res1\<lparr>oh_failed := oh_failed res1 @ [(ctx_group ctx, or_else (hr_reason r) ''unknown'')]\<rparr>
     else res1)"

fun heal_all :: "('st, 'w) env \<Rightarrow> string \<Rightarrow> bool \<Rightarrow> group_ctx list \<Rightarrow> org_heal \<times> (string \<times> string) list
    \<Rightarrow> ('st, 'w) session \<Rightarrow> (org_heal \<times> (string \<times> string) list) \<times> ('st, 'w) session" where
  "heal_all e userId force [] (result, report) s = ((result, report), s)"
| "heal_all e userId force (ctx # ctxs) (result, report) s =
    (case healGroup e userId ctx force s of
       (Inr r, s1) \<Rightarrow>
         (if hr_action r = ''skipped'' then heal_all e userId force ctxs (result, report) s1
          else heal_all e userId force ctxs (note_heal ctx r result, report @ [(ctx_group ctx, healStatus r)]) s1)
     | (Inl er, s1) \<Rightarrow>
         (if is_state_unavailable er
          then ((result\<lparr>oh_failed := oh_failed result @ [(ctx_group ctx, ''state_unavailable'')]\<rparr>, report), s1)
          else heal_all e userId force ctxs
            (result\<lparr>oh_checked := oh_checked result + 1,
               oh_failed := oh_failed result @ [(ctx_group ctx, take 120 (err_message er))]\<rparr>, report) s1))"

definition healOrgImpl :: "('st, 'w) env \<Rightarrow> string \<Rightarrow> string \<Rightarrow> bool \<Rightarrow> ('st, 'w) session \<Rightarrow> org_heal \<times> ('st, 'w) session" where
  "healOrgImpl e userId orgId force s = (case ensureIdentity e userId s of
       (Inl _, s1) \<Rightarrow> (\<lparr>oh_healed = [], oh_failed = [(orgId, ''state_unavailable'')], oh_checked = 0\<rparr>, s1)
     | (Inr _, s1) \<Rightarrow>
         (case channel_contexts e orgId s1 of ((chans, failed), s2) \<Rightarrow>
          (case event_contexts e orgId s2 of (events, s3) \<Rightarrow>
           (case heal_all e userId force (chans @ events) (\<lparr>oh_healed = [], oh_failed = failed, oh_checked = 0\<rparr>, []) s3 of
              ((result, report), s4) \<Rightarrow> (result, reportDeviceStatus e report s4)))))"

text \<open>\<open>healOrgEncryption\<close>: a run in progress for the same organisation and force flag is joined (its number is
  returned), otherwise run number \<open>n\<close> starts; its end only removes its own entry.\<close>

definition heal_key :: "string \<Rightarrow> bool \<Rightarrow> string" where
  "heal_key orgId force = orgId @ '':'' @ (if force then ''true'' else ''false'')"

definition healOrgEncryption :: "nat \<Rightarrow> string \<Rightarrow> bool \<Rightarrow> ('st, 'w) session \<Rightarrow> nat \<times> ('st, 'w) session" where
  "healOrgEncryption n orgId force s = (case al_get (inflightOrgHeals s) (heal_key orgId force) of
       Some existing \<Rightarrow> (existing, s)
     | None \<Rightarrow> (n, s\<lparr>inflightOrgHeals := al_set (heal_key orgId force) n (inflightOrgHeals s)\<rparr>))"

definition org_heal_finished :: "nat \<Rightarrow> string \<Rightarrow> bool \<Rightarrow> ('st, 'w) session \<Rightarrow> ('st, 'w) session" where
  "org_heal_finished n orgId force s =
    (if al_get (inflightOrgHeals s) (heal_key orgId force) = Some n
     then s\<lparr>inflightOrgHeals := al_del (heal_key orgId force) (inflightOrgHeals s)\<rparr> else s)"

section \<open>Application messages\<close>

definition encryptGroup :: "('st, 'w) env \<Rightarrow> string \<Rightarrow> string \<Rightarrow> string \<Rightarrow> ('st, 'w, string) mls" where
  "encryptGroup e currentUserId groupIdStr plaintext =
    m_bind (ensureIdentity e currentUserId) (\<lambda>_.
    m_bind (withStateLock e
      (m_bind (m_get currentState) (\<lambda>st.
       m_bind (m_get (\<lambda>_. wasm (w_encrypt e st (encode_text groupIdStr) (encode_text plaintext)))) (\<lambda>(st', ciphertext).
       m_bind (commitDurableLocked e st') (\<lambda>_. m_return ciphertext))))) (\<lambda>ciphertext.
    m_return (toB64 ciphertext)))"

definition DIVERGENCE_FAILURES :: nat where
  "DIVERGENCE_FAILURES = 3"

definition DIVERGENCE_WINDOW_MS :: int where
  "DIVERGENCE_WINDOW_MS = 120000"

definition noteCurrentEpochFailure :: "('st, 'w) env \<Rightarrow> string \<Rightarrow> ('st, 'w) session \<Rightarrow> ('st, 'w) session" where
  "noteCurrentEpochFailure e groupIdStr s =
    (let now = e_now e s;
         entry = (case al_get (decryptFailures s) groupIdStr of
             Some f \<Rightarrow> if now - fail_since f < DIVERGENCE_WINDOW_MS then f\<lparr>fail_count := fail_count f + 1\<rparr>
               else \<lparr>fail_count = 1, fail_since = now\<rparr>
           | None \<Rightarrow> \<lparr>fail_count = 1, fail_since = now\<rparr>);
         s1 = s\<lparr>decryptFailures := al_set groupIdStr entry (decryptFailures s)\<rparr>
     in if fail_count entry \<ge> DIVERGENCE_FAILURES
        then scheduleHeal e groupIdStr ''current_epoch_decrypt_failures''
          (s1\<lparr>decryptFailures := al_del groupIdStr (decryptFailures s1)\<rparr>)
        else s1)"

text \<open>One locked attempt: the plaintext, or the error; and the epoch of our copy.\<close>

definition decrypt_work :: "('st, 'w) env \<Rightarrow> bytes \<Rightarrow> bytes \<Rightarrow> ('st, 'w, (string + bytes) \<times> int option) mls" where
  "decrypt_work e groupId ciphertext =
    m_bind (m_get currentState) (\<lambda>st.
    m_bind (m_get (\<lambda>_. wasm (w_group_exists e st groupId))) (\<lambda>held.
      if \<not> held then m_return (Inl ''group not held'', None)
      else m_bind (m_get (\<lambda>_. epochOf e st groupId)) (\<lambda>localEpoch s.
        case w_decrypt e st groupId ciphertext of
          Inl er \<Rightarrow> (Inr (Inl er, Some localEpoch), s)
        | Inr (st', plaintext) \<Rightarrow> (case commitState st' s of
              (Inl er, s1) \<Rightarrow> (Inr (Inl (err_message er), Some localEpoch), s1)
            | (Inr _, s1) \<Rightarrow> (Inr (Inr plaintext, Some localEpoch), s1)))))"

definition tryDecryptLocked :: "('st, 'w) env \<Rightarrow> bytes \<Rightarrow> bytes \<Rightarrow> ('st, 'w, (string + bytes) \<times> int option) mls" where
  "tryDecryptLocked e groupId ciphertext = withStateLock e (decrypt_work e groupId ciphertext)"

definition state_unavailable :: "mls_error \<Rightarrow> mls_error" where
  "state_unavailable er = DecryptError ''state_unavailable'' (err_message er) None None"

definition needs_catch_up :: "int \<Rightarrow> int option \<Rightarrow> bool" where
  "needs_catch_up msgEpoch localEpoch = (case localEpoch of None \<Rightarrow> True | Some l \<Rightarrow> msgEpoch > l)"

text \<open>Why a message stays unreadable, from its epoch and ours.\<close>

definition decrypt_reason :: "int \<Rightarrow> int option \<Rightarrow> string" where
  "decrypt_reason msgEpoch localEpoch = (case localEpoch of None \<Rightarrow> ''not_member''
     | Some l \<Rightarrow> if msgEpoch > l then ''epoch_ahead_unresolved''
        else if msgEpoch < l then ''epoch_too_old'' else ''corrupt'')"

definition decrypt_failure :: "int \<Rightarrow> string \<Rightarrow> int option \<Rightarrow> mls_error" where
  "decrypt_failure msgEpoch er localEpoch =
    DecryptError (decrypt_reason msgEpoch localEpoch)
      (if decrypt_reason msgEpoch localEpoch = ''corrupt'' then er
       else if decrypt_reason msgEpoch localEpoch = ''not_member'' then ''this device does not hold the group''
       else if decrypt_reason msgEpoch localEpoch = ''epoch_too_old'' then ''message epoch secrets are no longer held''
       else ''message is from an epoch this device has not reached'')
      (Some msgEpoch) localEpoch"

definition clear_failures :: "string \<Rightarrow> ('st, 'w) session \<Rightarrow> ('st, 'w) session" where
  "clear_failures groupIdStr s = s\<lparr>decryptFailures := al_del groupIdStr (decryptFailures s)\<rparr>"

text \<open>The catch-up before a retry; its own failure is swallowed.\<close>

definition catch_up_for_retry :: "('st, 'w) env \<Rightarrow> string \<Rightarrow> group_ctx \<Rightarrow> ('st, 'w) session \<Rightarrow> ('st, 'w) session" where
  "catch_up_for_retry e groupIdStr ctx s = (case catchUpGroup e ctx s of
       (Inl _, s1) \<Rightarrow> s1
     | (Inr status, s1) \<Rightarrow>
         (if cs_diverged status then scheduleHeal e groupIdStr ''catch_up_cannot_reach_server_epoch'' s1
          else if \<not> cs_held status then scheduleHeal e groupIdStr ''not_member'' s1 else s1))"

definition attempt :: "('st, 'w) env \<Rightarrow> string \<Rightarrow> bytes \<Rightarrow> ('st, 'w, (string + bytes) \<times> int option) mls" where
  "attempt e groupIdStr ciphertext =
    m_try (tryDecryptLocked e (encode_text groupIdStr) ciphertext) (\<lambda>er. m_throw (state_unavailable er))"

text \<open>The end of a decrypt: the plaintext clears the failure count, an error is thrown with its reason.\<close>

definition conclude :: "string \<Rightarrow> int \<Rightarrow> (string + bytes) \<times> int option \<Rightarrow> ('st, 'w, bytes) mls" where
  "conclude groupIdStr msgEpoch result s = (case fst result of
       Inr plaintext \<Rightarrow> (Inr plaintext, clear_failures groupIdStr s)
     | Inl er \<Rightarrow> (Inl (decrypt_failure msgEpoch er (snd result)), s))"

definition decryptGroupTyped :: "('st, 'w) env \<Rightarrow> string \<Rightarrow> string \<Rightarrow> string \<Rightarrow> ('st, 'w, bytes) mls" where
  "decryptGroupTyped e currentUserId groupIdStr ciphertextB64 =
    m_bind (m_try (ensureIdentity e currentUserId) (\<lambda>er. m_throw (state_unavailable er))) (\<lambda>_.
    (case e_bind (from_b64 ciphertextB64) (\<lambda>c. e_bind (wasm (w_message_epoch e c)) (\<lambda>n. Inr (c, int n))) of
       Inl _ \<Rightarrow> m_throw (DecryptError ''corrupt'' ''not an MLS message'' None None)
     | Inr (ciphertext, msgEpoch) \<Rightarrow>
         m_bind (attempt e groupIdStr ciphertext) (\<lambda>result s.
           if \<not> isl (fst result) \<or> \<not> needs_catch_up msgEpoch (snd result) then conclude groupIdStr msgEpoch result s
           else (case al_get (groupCtx s) groupIdStr of
               None \<Rightarrow> conclude groupIdStr msgEpoch result s
             | Some ctx \<Rightarrow> m_bind (attempt e groupIdStr ciphertext) (conclude groupIdStr msgEpoch)
                 (catch_up_for_retry e groupIdStr ctx s)))))"

section \<open>A device's own echoed messages\<close>

definition notePendingSent :: "string \<Rightarrow> string \<Rightarrow> ('st, 'w) session \<Rightarrow> ('st, 'w) session" where
  "notePendingSent groupIdStr plaintext s =
    s\<lparr>pendingSent := al_set groupIdStr (or_else (al_get (pendingSent s) groupIdStr) [] @ [plaintext]) (pendingSent s)\<rparr>"

definition takePendingSent :: "string \<Rightarrow> ('st, 'w) session \<Rightarrow> string option \<times> ('st, 'w) session" where
  "takePendingSent groupIdStr s = (case al_get (pendingSent s) groupIdStr of
       Some (p # ps) \<Rightarrow> (Some p, s\<lparr>pendingSent := al_set groupIdStr ps (pendingSent s)\<rparr>)
     | _ \<Rightarrow> (None, s))"

definition note_failure :: "('st, 'w) env \<Rightarrow> string \<Rightarrow> bool \<Rightarrow> mls_error \<Rightarrow> ('st, 'w) session \<Rightarrow> ('st, 'w) session" where
  "note_failure e groupIdStr isOwnAccount er s = (case er of
       DecryptError reason m msgEpoch localEpoch \<Rightarrow>
         (if reason = ''corrupt'' \<and> \<not> isOwnAccount \<and> localEpoch \<noteq> None then noteCurrentEpochFailure e groupIdStr s else s)
     | _ \<Rightarrow> s)"

definition decryptGroupOrRecallOwn :: "('st, 'w) env \<Rightarrow> string \<Rightarrow> string \<Rightarrow> string \<Rightarrow> bool \<Rightarrow> ('st, 'w, bytes) mls" where
  "decryptGroupOrRecallOwn e currentUserId groupIdStr ciphertextB64 isOwnAccount =
    m_try (decryptGroupTyped e currentUserId groupIdStr ciphertextB64) (\<lambda>er s.
      case (if isOwnAccount then takePendingSent groupIdStr s else (None, s)) of
        (Some recalled, s1) \<Rightarrow> (Inr recalled, s1)
      | (None, s1) \<Rightarrow> (Inl er, note_failure e groupIdStr isOwnAccount er s1))"

section \<open>Live welcomes and commits\<close>

definition welcome_work :: "('st, 'w) env \<Rightarrow> bytes \<Rightarrow> bytes \<Rightarrow> ('st, 'w, bool) mls" where
  "welcome_work e groupId welcome =
    m_bind (m_get currentState) (\<lambda>st.
    m_bind (m_get (\<lambda>_. wasm (w_group_exists e st groupId))) (\<lambda>held.
      if held then m_return False
      else (case w_join_from_welcome e st welcome of
          Inl _ \<Rightarrow> m_return False
        | Inr st' \<Rightarrow> m_bind (commitDurableLocked e st') (\<lambda>_. m_return True))))"

definition handleGroupWelcome :: "('st, 'w) env \<Rightarrow> string \<Rightarrow> string \<Rightarrow> string \<Rightarrow> ('st, 'w, unit) mls" where
  "handleGroupWelcome e currentUserId groupIdStr welcomeB64 =
    m_bind (ensureIdentity e currentUserId) (\<lambda>_.
    m_bind (m_get (\<lambda>_. from_b64 welcomeB64)) (\<lambda>welcome.
    m_bind (withStateLock e (welcome_work e (encode_text groupIdStr) welcome)) (\<lambda>joined.
      m_do (\<lambda>s. if joined then emitGroupChange groupIdStr False s else s))))"

datatype commit_outcome = Not_held | Stale | Behind | Unappliable | Applied bool

text \<open>A live commit that cannot be processed is classified by its own epoch.\<close>

definition failed_commit :: "('st, 'w) env \<Rightarrow> bytes \<Rightarrow> int \<Rightarrow> commit_outcome" where
  "failed_commit e commit localEpoch = (case w_message_epoch e commit of
       Inl _ \<Rightarrow> Unappliable
     | Inr n \<Rightarrow> if int n < localEpoch then Stale else if int n > localEpoch then Behind else Unappliable)"

definition commit_work :: "('st, 'w) env \<Rightarrow> bytes \<Rightarrow> bytes \<Rightarrow> ('st, 'w, commit_outcome) mls" where
  "commit_work e groupId commit =
    m_bind (m_get currentState) (\<lambda>st.
    m_bind (m_get (\<lambda>_. wasm (w_group_exists e st groupId))) (\<lambda>held.
      if \<not> held then m_return Not_held
      else m_bind (m_get (\<lambda>_. epochOf e st groupId)) (\<lambda>localEpoch.
        case w_process_commit e st groupId commit of
          Inl _ \<Rightarrow> m_return (failed_commit e commit localEpoch)
        | Inr st' \<Rightarrow> m_bind (commitDurableLocked e st')
            (\<lambda>_. m_return (Applied (anyRemoved (labelsIn e st groupId) (labelsIn e st' groupId)))))))"

definition after_missed_commit :: "('st, 'w) env \<Rightarrow> string \<Rightarrow> commit_outcome \<Rightarrow> ('st, 'w) session \<Rightarrow> ('st, 'w) session" where
  "after_missed_commit e groupIdStr out s = (case al_get (groupCtx s) groupIdStr of
       None \<Rightarrow> scheduleHeal e groupIdStr ''live_commit_unappliable'' s
     | Some ctx \<Rightarrow> (case catchUpGroup e ctx s of
           (Inl _, s1) \<Rightarrow> s1
         | (Inr status, s1) \<Rightarrow> (if cs_diverged status \<or> out = Unappliable
             then scheduleHeal e groupIdStr ''live_commit_unappliable'' s1 else s1)))"

definition handleGroupCommit :: "('st, 'w) env \<Rightarrow> string \<Rightarrow> string \<Rightarrow> string \<Rightarrow> ('st, 'w, unit) mls" where
  "handleGroupCommit e currentUserId groupIdStr commitB64 =
    m_bind (ensureIdentity e currentUserId) (\<lambda>_.
    m_bind (m_get (\<lambda>_. from_b64 commitB64)) (\<lambda>commit.
    m_bind (withStateLock e (commit_work e (encode_text groupIdStr) commit)) (\<lambda>out.
      m_do (\<lambda>s. case out of Applied removed \<Rightarrow> emitGroupChange groupIdStr removed s
        | Not_held \<Rightarrow> s | Stale \<Rightarrow> s | _ \<Rightarrow> after_missed_commit e groupIdStr out s))))"

section \<open>Epoch sync, exported secrets and signatures\<close>

definition sync_group_epoch :: "('st, 'w) env \<Rightarrow> string \<Rightarrow> group_ctx \<Rightarrow> ('st, 'w, unit) mls" where
  "sync_group_epoch e currentUserId ctx =
    m_bind (ensureIdentity e currentUserId) (\<lambda>_.
    m_bind (\<lambda>s. catchUpGroup e ctx (register_ctx ctx s)) (\<lambda>status.
      m_do (\<lambda>s. if cs_diverged status then scheduleHeal e (ctx_group ctx) ''catch_up_cannot_reach_server_epoch'' s else s)))"

definition syncChannelGroupEpoch :: "('st, 'w) env \<Rightarrow> string \<Rightarrow> string \<Rightarrow> string \<Rightarrow> ('st, 'w, unit) mls" where
  "syncChannelGroupEpoch e currentUserId orgId chanId = sync_group_epoch e currentUserId (ChannelCtx orgId chanId)"

definition syncEventGroupEpoch :: "('st, 'w) env \<Rightarrow> string \<Rightarrow> string \<Rightarrow> string \<Rightarrow> ('st, 'w, unit) mls" where
  "syncEventGroupEpoch e currentUserId orgId eventId = sync_group_epoch e currentUserId (EventCtx orgId eventId)"

text \<open>Read-only uses of the latest committed state (I4).\<close>

definition with_cache :: "('st \<Rightarrow> string + 'a) \<Rightarrow> ('st, 'w, 'a) mls" where
  "with_cache f = m_get (\<lambda>s. case deviceStateCache s of None \<Rightarrow> Inl (PlainError ''TypeError'') | Some st \<Rightarrow> wasm (f st))"

definition exportGroupSecret :: "('st, 'w) env \<Rightarrow> string \<Rightarrow> string \<Rightarrow> string \<Rightarrow> nat \<Rightarrow> ('st, 'w, bytes) mls" where
  "exportGroupSecret e currentUserId groupIdStr label len =
    m_bind (ensureIdentity e currentUserId) (\<lambda>_. with_cache (\<lambda>st. w_export_secret e st (encode_text groupIdStr) label len))"

definition signBytes :: "('st, 'w) env \<Rightarrow> string \<Rightarrow> bytes \<Rightarrow> ('st, 'w, bytes) mls" where
  "signBytes e currentUserId messageBytes =
    m_bind (ensureIdentity e currentUserId) (\<lambda>_. with_cache (\<lambda>st. w_sign_bytes e st messageBytes))"

definition verifySignature :: "('st, 'w) env \<Rightarrow> bytes \<Rightarrow> bytes \<Rightarrow> bytes \<Rightarrow> bool" where
  "verifySignature e publicKeyBytes messageBytes signatureBytes = w_verify_bytes e publicKeyBytes messageBytes signatureBytes"

section \<open>The log\<close>

definition LOG_DEDUPE_MS :: int where
  "LOG_DEDUPE_MS = 30000"

text \<open>Field values of a log line: null, numbers and booleans as they are, a bigint as a number, texts and error
  messages cut at 200.\<close>

datatype log_field = LNull | LNum int | LBig int | LBool bool | LText string | LError string

definition logValue :: "log_field \<Rightarrow> jsval" where
  "logValue v = (case v of LNull \<Rightarrow> JNull | LNum i \<Rightarrow> JNum i | LBig i \<Rightarrow> JNum i | LBool b \<Rightarrow> JBool b
     | LText t \<Rightarrow> JStr (take 200 t) | LError m \<Rightarrow> JStr (take 200 m))"

definition log_line :: "string \<Rightarrow> string \<Rightarrow> (string \<times> log_field) list \<Rightarrow> string" where
  "log_line level msg flds =
    ''[mls] '' @ level @ '' '' @ msg @ '' '' @ stringify (JObj (map (\<lambda>(k, v). (k, logValue v)) flds))"

text \<open>The table of recent lines is pruned once it holds more than 500.\<close>

definition remember_line :: "string \<Rightarrow> int \<Rightarrow> (string, int) jsmap \<Rightarrow> (string, int) jsmap" where
  "remember_line line now recentLogs = (let logs = al_set line now recentLogs in
     if length logs > 500 then filter (\<lambda>kt. now - snd kt < LOG_DEDUPE_MS) logs else logs)"

text \<open>\<open>mlsLog\<close>: whether the line goes to the log file, and the new table.\<close>

definition mlsLog :: "bool \<Rightarrow> int \<Rightarrow> string \<Rightarrow> string \<Rightarrow> (string \<times> log_field) list \<Rightarrow> (string, int) jsmap \<Rightarrow> bool \<times> (string, int) jsmap" where
  "mlsLog tauri now level msg flds recentLogs = (let line = log_line level msg flds in
     if level = ''debug'' \<or> \<not> tauri then (False, recentLogs)
     else (case al_get recentLogs line of
         Some t \<Rightarrow> if t \<noteq> 0 \<and> now - t < LOG_DEDUPE_MS then (False, recentLogs)
           else (True, remember_line line now recentLogs)
       | None \<Rightarrow> (True, remember_line line now recentLogs)))"

end
