(* ===== verification/Mls_Concurrency.thy ===== *)
theory Mls_Concurrency
  imports Mls_State
begin

text \<open>
  The concurrency of \<open>mlsSession.js\<close>: every interleaving of the turns in which lock work
  queues, starts, commits and ends, the writer's saves succeed or fail, the account is
  reset and a state is loaded.  The comments I1 to I7 at the top of the source are the
  invariants proved here.
\<close>

text \<open>
  The session with the promise chain of \<open>lockTail\<close> made explicit: \<open>lockQueue\<close> holds the
  waiting calls of \<open>withStateLock\<close> (the generation captured when they were made, and
  their number), \<open>holder\<close> the work that runs.  The rest records what happened:
  \<open>asked\<close>/\<open>turns\<close> the calls in the order they were made and got their turn, \<open>held_state\<close> the
  state the holder read, \<open>history\<close> the committed states, \<open>writes\<close> the generation each
  commit was asked in and the one it took place in, \<open>disk\<close> the last state Rust fsynced.
\<close>

record ('st, 'w) world = "('st, 'w) session" +
  lockQueue :: "(nat \<times> nat) list"
  holder :: "(nat \<times> nat) option"
  asked :: "nat list"
  turns :: "nat list"
  held_state :: "'st option"
  history :: "(nat \<times> 'st) list"
  writes :: "(nat \<times> nat) list"
  disk :: "(nat \<times> 'st) option"

definition lock_ask :: "('st, 'w) world \<Rightarrow> ('st, 'w) world" where
  "lock_ask s = s\<lparr>lockQueue := lockQueue s @ [(sessionGen s, length (asked s))],
     asked := asked s @ [length (asked s)]\<rparr>"

text \<open>The callback of \<open>lockTail.then\<close>: work of an earlier generation is refused, otherwise \<open>fn\<close> starts.\<close>

definition lock_turn :: "('st, 'w) world \<Rightarrow> ('st, 'w) world" where
  "lock_turn s = (case lockQueue s of
       [] \<Rightarrow> s
     | (gen, j) # q \<Rightarrow>
         (if gen \<noteq> sessionGen s then s\<lparr>lockQueue := q, turns := turns s @ [j]\<rparr>
          else s\<lparr>lockQueue := q, turns := turns s @ [j], lockHolderGen := gen,
                 holder := Some (gen, j), held_state := deviceStateCache s\<rparr>))"

definition lock_release :: "('st, 'w) world \<Rightarrow> ('st, 'w) world" where
  "lock_release s = s\<lparr>holder := None\<rparr>"

definition note_commit :: "nat \<Rightarrow> 'st \<Rightarrow> ('st, 'w) world \<Rightarrow> ('st, 'w) world" where
  "note_commit gen st s = s\<lparr>held_state := Some st, history := history s @ [(stateVersion s, st)],
     writes := writes s @ [(gen, sessionGen s)]\<rparr>"

definition note_saved :: "('st, 'w) world \<Rightarrow> ('st, 'w) world" where
  "note_saved s = (case inflight s of Some (v, st, True) \<Rightarrow> s\<lparr>disk := Some (v, st)\<rparr> | _ \<Rightarrow> s)"

text \<open>
  The turns.  A holder commits (the code that calls \<open>commitState\<close>, inside \<open>withStateLock\<close>)
  and waits for durability; it ends only when the promises it awaits are settled.
  \<open>drop\<close> is \<open>initIdentity\<close> forgetting an identity whose save failed.
\<close>

inductive turn :: "('st, 'w) world \<Rightarrow> ('st, 'w) world \<Rightarrow> bool" where
  ask: "turn s (lock_ask s)"
| start: "holder s = None \<Longrightarrow> turn s (lock_turn s)"
| commit: "holder s = Some (gen, j) \<Longrightarrow> commitState st s = (Inr v, s') \<Longrightarrow> turn s (note_commit gen st s')"
| wait_: "holder s = Some (gen, j) \<Longrightarrow> currentState s = Inr st \<Longrightarrow> turn s (snd (waitDurable (stateVersion s) s))"
| release: "holder s = Some (gen, j) \<Longrightarrow> durableWaiters s = [] \<Longrightarrow> turn s (lock_release s)"
| saved: "inflight s = Some job \<Longrightarrow> turn s (writer_saved (note_saved s))"
| failed: "inflight s = Some job \<Longrightarrow> turn s (writer_failed message s)"
| reset: "turn s (resetForUser u s)"
| load: "deviceStateCache s = None \<Longrightarrow>
    turn s (adoptLoaded credential st s\<lparr>history := history s @ [(stateVersion s + 1, st)]\<rparr>)"
| drop: "holder s = None \<Longrightarrow> turn s (s\<lparr>deviceStateCache := None\<rparr>)"

definition boot :: "'w \<Rightarrow> ('st, 'w) world" where
  "boot w = session.extend (empty_session True w)
     \<lparr>lockQueue = [], holder = None, asked = [], turns = [], held_state = None, history = [], writes = [], disk = None\<rparr>"

inductive reachable :: "('st, 'w) world \<Rightarrow> bool" where
  boot: "reachable (boot w)"
| turn: "reachable s \<Longrightarrow> turn s s' \<Longrightarrow> reachable s'"

section \<open>The writer\<close>

text \<open>
  The writer's invariant: it is active exactly while a save is in flight, no version runs
  ahead of the committed one, and every outstanding promise waits for a version that the
  writer is going to save durably.
\<close>

definition waiter_ok :: "('st, 'w, 'z) session_scheme \<Rightarrow> nat \<times> nat \<Rightarrow> bool" where
  "waiter_ok s w \<longleftrightarrow> durableVersion s < fst w \<and> fst w \<le> durableWanted s \<and> snd w < nextPromise s
     \<and> al_get (promises s) (snd w) = None"

definition writer_inv :: "('st, 'w, 'z) session_scheme \<Rightarrow> bool" where
  "writer_inv s \<longleftrightarrow> inTauri s \<and> persistedVersion s \<le> stateVersion s \<and> durableVersion s \<le> stateVersion s
     \<and> durableWanted s \<le> stateVersion s \<and> (writerActive s \<longleftrightarrow> inflight s \<noteq> None)
     \<and> list_all (waiter_ok s) (durableWaiters s) \<and> distinct (map snd (durableWaiters s))
     \<and> (durableWaiters s \<noteq> [] \<longrightarrow> writerActive s \<and> deviceStateCache s \<noteq> None)
     \<and> list_all (\<lambda>p. fst p < nextPromise s) (promises s)"

definition inflight_ok :: "('st, 'w, 'z) session_scheme \<Rightarrow> bool" where
  "inflight_ok s \<longleftrightarrow> (case inflight s of None \<Rightarrow> True | Some (v, _, _) \<Rightarrow> v \<le> stateVersion s)"

lemma settleAll_get: "al_get (settleAll ws r ps) t = (if t \<in> snd ` set ws then Some r else al_get ps t)"
  unfolding settleAll_def by (induction ws arbitrary: ps) auto

lemma settleAll_bound:
  "list_all (\<lambda>p. fst p < n) ps \<Longrightarrow> list_all (\<lambda>w. snd w < n) ws \<Longrightarrow> list_all (\<lambda>p. fst p < n) (settleAll ws r ps)"
  unfolding settleAll_def
proof (induction ws arbitrary: ps)
  case (Cons w ws)
  then have "list_all (\<lambda>p. fst p < n) (al_set (snd w) r ps)"
    by (auto simp: list_all_iff dest!: set_al_set)
  with Cons show ?case by simp
qed simp

lemma waiters_bound: "list_all (waiter_ok s) ws \<Longrightarrow> list_all (\<lambda>w. snd w < nextPromise s) ws"
  by (auto simp: list_all_iff waiter_ok_def)

lemmas writer_defs = writer_next_def writer_turn_def schedulePersist_def Let_def

lemma writer_turn_fields [simp]:
  "inTauri (writer_turn s) = inTauri s" "stateVersion (writer_turn s) = stateVersion s"
  "persistedVersion (writer_turn s) = persistedVersion s" "durableVersion (writer_turn s) = durableVersion s"
  "durableWanted (writer_turn s) = durableWanted s" "durableWaiters (writer_turn s) = durableWaiters s"
  "deviceStateCache (writer_turn s) = deviceStateCache s" "promises (writer_turn s) = promises s"
  "nextPromise (writer_turn s) = nextPromise s" "sessionGen (writer_turn s) = sessionGen s"
  "lockHolderGen (writer_turn s) = lockHolderGen s"
  "session.more (writer_turn s) = session.more s"
  by (simp_all add: writer_turn_def split: option.split)

lemma schedule_fields [simp]:
  "inTauri (schedulePersist s) = inTauri s" "stateVersion (schedulePersist s) = stateVersion s"
  "persistedVersion (schedulePersist s) = persistedVersion s" "durableVersion (schedulePersist s) = durableVersion s"
  "durableWanted (schedulePersist s) = durableWanted s" "durableWaiters (schedulePersist s) = durableWaiters s"
  "deviceStateCache (schedulePersist s) = deviceStateCache s" "promises (schedulePersist s) = promises s"
  "nextPromise (schedulePersist s) = nextPromise s" "sessionGen (schedulePersist s) = sessionGen s"
  "lockHolderGen (schedulePersist s) = lockHolderGen s"
  "session.more (schedulePersist s) = session.more s"
  by (simp_all add: schedulePersist_def)

text \<open>A writer turn establishes what is missing while the writer is idle.\<close>

definition idle_inv :: "('st, 'w, 'z) session_scheme \<Rightarrow> bool" where
  "idle_inv s \<longleftrightarrow> inTauri s \<and> persistedVersion s \<le> stateVersion s \<and> durableVersion s \<le> stateVersion s
     \<and> durableWanted s \<le> stateVersion s
     \<and> list_all (waiter_ok s) (durableWaiters s) \<and> distinct (map snd (durableWaiters s))
     \<and> (durableWaiters s \<noteq> [] \<longrightarrow> deviceStateCache s \<noteq> None)
     \<and> list_all (\<lambda>p. fst p < nextPromise s) (promises s)"

lemma waiter_ok_turn [simp]: "waiter_ok (writer_turn s) = waiter_ok s" "waiter_ok (schedulePersist s) = waiter_ok s"
  by (rule ext, simp add: waiter_ok_def)+

lemma writer_turn_inv: "idle_inv s \<Longrightarrow> writer_inv (writer_turn s) \<and> inflight_ok (writer_turn s)"
proof -
  assume i: "idle_inv s"
  have "writerActive (writer_turn s)" if "durableWaiters s \<noteq> []"
  proof -
    from that obtain w where "w \<in> set (durableWaiters s)" by (cases "durableWaiters s") auto
    with i have "durableVersion s < durableWanted s"
      by (force simp: idle_inv_def list_all_iff waiter_ok_def)
    with i that show ?thesis by (auto simp: idle_inv_def writer_defs)
  qed
  moreover have "writerActive (writer_turn s) \<longleftrightarrow> inflight (writer_turn s) \<noteq> None" "inflight_ok (writer_turn s)"
    by (auto simp: writer_defs inflight_ok_def split: option.splits)
  ultimately show ?thesis using i by (simp add: idle_inv_def writer_inv_def)
qed

lemma writer_inv_idle: "writer_inv s \<Longrightarrow> idle_inv s"
  by (auto simp: writer_inv_def idle_inv_def)

lemma schedule_inv:
  assumes "idle_inv s" "writerActive s \<longleftrightarrow> inflight s \<noteq> None" "inflight_ok s"
  shows "writer_inv (schedulePersist s) \<and> inflight_ok (schedulePersist s)"
proof (cases "writerActive s")
  case True
  with assms show ?thesis by (auto simp: schedulePersist_def writer_inv_def idle_inv_def)
next
  case False
  with assms have "schedulePersist s = writer_turn s" by (simp add: schedulePersist_def idle_inv_def)
  with writer_turn_inv [OF assms(1)] show ?thesis by simp
qed

lemma commitState_inv:
  assumes "writer_inv s" "inflight_ok s" "commitState st s = (Inr v, s')"
  shows "writer_inv s' \<and> inflight_ok s'"
proof -
  let ?t = "s\<lparr>deviceStateCache := Some st, stateVersion := stateVersion s + 1\<rparr>"
  have "s' = schedulePersist ?t" using assms(3) by (auto simp: commitState_def Let_def split: if_splits)
  moreover have "waiter_ok ?t = waiter_ok s" by (rule ext) (simp add: waiter_ok_def)
  then have "idle_inv ?t" using assms(1) by (auto simp: writer_inv_def idle_inv_def)
  moreover have "inflight_ok ?t" using assms(2) by (auto simp: inflight_ok_def split: option.splits)
  moreover have "writerActive ?t \<longleftrightarrow> inflight ?t \<noteq> None" using assms(1) by (simp add: writer_inv_def)
  ultimately show ?thesis using schedule_inv [of ?t] by simp
qed

lemma waitDurable_inv:
  assumes "writer_inv s" "inflight_ok s" "deviceStateCache s \<noteq> None"
  shows "writer_inv (snd (waitDurable (stateVersion s) s)) \<and> inflight_ok (snd (waitDurable (stateVersion s) s))"
proof (cases "durableVersion s \<ge> stateVersion s")
  case True
  with assms show ?thesis by (simp add: waitDurable_def)
next
  case False
  let ?t = "s\<lparr>durableWaiters := durableWaiters s @ [(stateVersion s, nextPromise s)],
          nextPromise := nextPromise s + 1,
          durableWanted := (if stateVersion s > durableWanted s then stateVersion s else durableWanted s)\<rparr>"
  have "durableWanted s \<le> stateVersion s" using assms(1) by (simp add: writer_inv_def)
  then have w: "durableWanted ?t = stateVersion s" by simp
  have fresh: "al_get (promises s) (nextPromise s) = None"
    using assms(1) unfolding al_get_None by (auto simp: writer_inv_def list_all_iff)
  have "list_all (waiter_ok ?t) (durableWaiters ?t)"
    using assms(1) False fresh \<open>durableWanted s \<le> stateVersion s\<close>
    by (auto simp: writer_inv_def list_all_iff waiter_ok_def)
  moreover have "distinct (map snd (durableWaiters ?t))"
    using assms(1) by (auto simp: writer_inv_def list_all_iff waiter_ok_def)
  moreover have "list_all (\<lambda>p. fst p < nextPromise ?t) (promises ?t)"
    using assms(1) by (auto simp: writer_inv_def list_all_iff less_SucI)
  ultimately have "idle_inv ?t" using assms(1,3) w by (simp add: writer_inv_def idle_inv_def)
  moreover have "inflight_ok ?t" using assms(2) by (auto simp: inflight_ok_def split: option.splits)
  moreover have "writerActive ?t \<longleftrightarrow> inflight ?t \<noteq> None" using assms(1) by (simp add: writer_inv_def)
  ultimately have "writer_inv (schedulePersist ?t) \<and> inflight_ok (schedulePersist ?t)"
    using schedule_inv [of ?t] by blast
  moreover have "snd (waitDurable (stateVersion s) s) = schedulePersist ?t"
    using False assms(1) by (simp add: waitDurable_def writer_inv_def)
  ultimately show ?thesis by simp
qed

lemma writer_saved_inv:
  assumes "writer_inv s" "inflight_ok s" "inflight s = Some job"
  shows "writer_inv (writer_saved s) \<and> inflight_ok (writer_saved s)"
proof -
  obtain v st d where j: "job = (v, st, d)" by (cases job) auto
  have v: "v \<le> stateVersion s" using assms(2,3) j by (simp add: inflight_ok_def)
  let ?s1 = "s\<lparr>persistedVersion := max (persistedVersion s) v\<rparr>"
  let ?dv = "max (durableVersion s) v"
  let ?s2 = "?s1\<lparr>durableVersion := ?dv, durableWaiters := filter (\<lambda>w. fst w > ?dv) (durableWaiters s),
      promises := settleAll (filter (\<lambda>w. fst w \<le> ?dv) (durableWaiters s)) None (promises s)\<rparr>"
  have i1: "idle_inv ?s1"
    using assms(1) v by (auto simp: writer_inv_def idle_inv_def list_all_iff waiter_ok_def)
  have ws: "list_all (waiter_ok s) (durableWaiters s)" "distinct (map snd (durableWaiters s))"
    using assms(1) by (simp_all add: writer_inv_def)
  have wok: "waiter_ok ?s2 w" if w: "w \<in> set (durableWaiters s)" "fst w > ?dv" for w
  proof -
    have "snd w \<notin> snd ` set (filter (\<lambda>w. fst w \<le> ?dv) (durableWaiters s))"
      using ws(2) w by (auto simp: distinct_map inj_on_def)
    then show ?thesis using ws(1) w by (auto simp: waiter_ok_def list_all_iff settleAll_get)
  qed
  have "list_all (waiter_ok ?s2) (durableWaiters ?s2)"
    unfolding list_all_iff by (intro ballI wok) simp_all
  moreover have "list_all (\<lambda>p. fst p < nextPromise s) (promises s)" using assms(1) by (simp add: writer_inv_def)
  then have "list_all (\<lambda>p. fst p < nextPromise s)
      (settleAll (filter (\<lambda>w. fst w \<le> ?dv) (durableWaiters s)) None (promises s))"
    by (rule settleAll_bound) (use waiters_bound [OF ws(1)] in \<open>auto simp: list_all_iff\<close>)
  then have "list_all (\<lambda>p. fst p < nextPromise ?s2) (promises ?s2)" by simp
  moreover have "distinct (map snd (durableWaiters ?s2))"
    using ws(2) by (simp add: distinct_map_filter)
  ultimately have i2: "idle_inv ?s2"
    using assms(1) v unfolding idle_inv_def by (auto simp: writer_inv_def)
  have "writer_saved s = writer_turn (if d then ?s2 else ?s1)"
    using assms(3) j by (simp add: writer_saved_def Let_def)
  with i1 i2 show ?thesis using writer_turn_inv [of ?s1] writer_turn_inv [of ?s2] by simp
qed

section \<open>The lock and the committed states\<close>

definition lock_inv :: "('st, 'w) world \<Rightarrow> bool" where
  "lock_inv s \<longleftrightarrow> turns s @ map snd (lockQueue s) = asked s \<and> asked s = [0..<length (asked s)]
     \<and> (case holder s of None \<Rightarrow> durableWaiters s = []
        | Some (gen, j) \<Rightarrow> lockHolderGen s = gen \<and> gen \<le> sessionGen s
            \<and> (gen = sessionGen s \<and> held_state s \<noteq> None \<longrightarrow> deviceStateCache s = held_state s))
     \<and> list_all (\<lambda>(a, b). a = b) (writes s)"

definition hist_inv :: "('st, 'w) world \<Rightarrow> bool" where
  "hist_inv s \<longleftrightarrow> (case deviceStateCache s of None \<Rightarrow> True | Some st \<Rightarrow> (stateVersion s, st) \<in> set (history s))
     \<and> (case inflight s of None \<Rightarrow> True | Some (v, st, d) \<Rightarrow> (v, st) \<in> set (history s))
     \<and> list_all (\<lambda>h. fst h \<le> stateVersion s) (history s) \<and> distinct (map fst (history s))"

definition world_inv :: "('st, 'w) world \<Rightarrow> bool" where
  "world_inv s \<longleftrightarrow> writer_inv s \<and> inflight_ok s \<and> lock_inv s \<and> hist_inv s"

lemma world_more:
  fixes s t :: "('st, 'w) world"
  assumes "session.more s = session.more t"
  shows "lockQueue s = lockQueue t" "holder s = holder t" "asked s = asked t" "turns s = turns t"
    "held_state s = held_state t" "history s = history t" "writes s = writes t" "disk s = disk t"
  using assms by (cases s, cases t, simp)+

lemma turn_more [simp]:
  fixes s :: "('st, 'w) world"
  shows "lockQueue (writer_turn s) = lockQueue s" "holder (writer_turn s) = holder s"
    "asked (writer_turn s) = asked s" "turns (writer_turn s) = turns s" "held_state (writer_turn s) = held_state s"
    "history (writer_turn s) = history s" "writes (writer_turn s) = writes s" "disk (writer_turn s) = disk s"
  by (rule world_more [of "writer_turn s" s], simp)+

lemma schedule_more [simp]:
  fixes s :: "('st, 'w) world"
  shows "lockQueue (schedulePersist s) = lockQueue s" "holder (schedulePersist s) = holder s"
    "asked (schedulePersist s) = asked s" "turns (schedulePersist s) = turns s" "held_state (schedulePersist s) = held_state s"
    "history (schedulePersist s) = history s" "writes (schedulePersist s) = writes s" "disk (schedulePersist s) = disk s"
  by (rule world_more [of "schedulePersist s" s], simp)+

lemma inflight_turn:
  "inflight (writer_turn s) = None \<or>
   (\<exists>st d. deviceStateCache s = Some st \<and> inflight (writer_turn s) = Some (stateVersion s, st, d))"
  by (auto simp: writer_defs split: option.split)

lemma inflight_schedule:
  "inflight (schedulePersist s) = inflight s \<or> inflight (schedulePersist s) = None \<or>
   (\<exists>st d. deviceStateCache s = Some st \<and> inflight (schedulePersist s) = Some (stateVersion s, st, d))"
  using inflight_turn [of s] by (auto simp: schedulePersist_def)

lemma hist_schedule: "hist_inv s \<Longrightarrow> hist_inv (schedulePersist s)"
  using inflight_schedule [of s] by (auto simp: hist_inv_def split: option.splits)

lemma hist_turn: "hist_inv s \<Longrightarrow> hist_inv (writer_turn s)"
  using inflight_turn [of s] by (auto simp: hist_inv_def split: option.splits)

lemma reset_inv:
  assumes "writer_inv s" "inflight_ok s"
  shows "writer_inv (resetForUser u s) \<and> inflight_ok (resetForUser u s)"
proof -
  have "list_all (\<lambda>p. fst p < nextPromise s) (settleAll (durableWaiters s) (Some accountSwitched) (promises s))"
    using assms(1) waiters_bound [of s] by (intro settleAll_bound) (simp_all add: writer_inv_def)
  with assms show ?thesis by (auto simp: writer_inv_def inflight_ok_def resetForUser_def split: option.splits)
qed

lemma failed_inv:
  assumes "writer_inv s" "inflight_ok s"
  shows "writer_inv (writer_failed m s) \<and> inflight_ok (writer_failed m s)"
proof -
  have b: "list_all (\<lambda>p. fst p < nextPromise s) (settleAll (durableWaiters s) (Some (PlainError m)) (promises s))"
    using assms(1) waiters_bound [of s] by (intro settleAll_bound) (simp_all add: writer_inv_def)
  then show ?thesis using assms
    by (simp add: writer_inv_def inflight_ok_def writer_failed_def Let_def resetForUser_def settleAll_def)
qed

lemma lock_turn_inv:
  assumes "lock_inv s" "holder s = None"
  shows "lock_inv (lock_turn s)"
  using assms by (auto simp: lock_inv_def lock_turn_def split: list.split)

lemma boot_inv: "world_inv (boot w)"
  by (simp add: world_inv_def writer_inv_def inflight_ok_def lock_inv_def hist_inv_def boot_def empty_session_def session.defs)

lemma lock_inv_frame:
  assumes "lock_inv s" and "lockQueue s' = lockQueue s" "holder s' = holder s" "asked s' = asked s" "turns s' = turns s"
    and "held_state s' = held_state s" "writes s' = writes s" "lockHolderGen s' = lockHolderGen s" "sessionGen s \<le> sessionGen s'"
    and "durableWaiters s = [] \<Longrightarrow> durableWaiters s' = []"
    and "deviceStateCache s' = deviceStateCache s \<or> sessionGen s' \<noteq> sessionGen s"
  shows "lock_inv s'"
  using assms by (auto simp: lock_inv_def split: option.splits)

lemma reset_fields [simp]:
  "lockQueue (resetForUser u s) = lockQueue s" "holder (resetForUser u s) = holder s"
  "asked (resetForUser u s) = asked s" "turns (resetForUser u s) = turns s" "held_state (resetForUser u s) = held_state s"
  "history (resetForUser u s) = history s" "writes (resetForUser u s) = writes s" "disk (resetForUser u s) = disk s"
  "lockHolderGen (resetForUser u s) = lockHolderGen s" "sessionGen (resetForUser u s) = Suc (sessionGen s)"
  "stateVersion (resetForUser u s) = stateVersion s" "inflight (resetForUser u s) = inflight s"
  "durableWaiters (resetForUser u s) = []" "deviceStateCache (resetForUser u s) = None"
  "promises (resetForUser u s) = settleAll (durableWaiters s) (Some accountSwitched) (promises s)"
  by (simp_all add: resetForUser_def)

lemma hist_inv_sub:
  assumes "hist_inv s" "history s' = history s" "stateVersion s' = stateVersion s"
    and "inflight s' = inflight s \<or> inflight s' = None"
    and "deviceStateCache s' = deviceStateCache s \<or> deviceStateCache s' = None"
  shows "hist_inv s'"
  using assms by (auto simp: hist_inv_def split: option.splits)

lemma waitDurable_fields [simp]:
  "stateVersion (snd (waitDurable v s)) = stateVersion s"
  "deviceStateCache (snd (waitDurable v s)) = deviceStateCache s"
  "sessionGen (snd (waitDurable v s)) = sessionGen s"
  "lockHolderGen (snd (waitDurable v s)) = lockHolderGen s"
  "session.more (snd (waitDurable v s)) = session.more s"
  by (simp_all add: waitDurable_def)

lemma note_saved_fields [simp]:
  "inflight (note_saved s) = inflight s" "writer_inv (note_saved s) = writer_inv s" "inflight_ok (note_saved s) = inflight_ok s"
  "lock_inv (note_saved s) = lock_inv s" "hist_inv (note_saved s) = hist_inv s"
  "promises (note_saved s) = promises s" "durableWaiters (note_saved s) = durableWaiters s"
  "history (note_saved s) = history s" "durableVersion (note_saved s) = durableVersion s"
  "stateVersion (note_saved s) = stateVersion s" "deviceStateCache (note_saved s) = deviceStateCache s"
  "inTauri (note_saved s) = inTauri s" "durableWanted (note_saved s) = durableWanted s"
  by (auto simp: note_saved_def writer_inv_def inflight_ok_def lock_inv_def hist_inv_def waiter_ok_def list_all_iff
      split: option.splits bool.splits)

lemma saved_fields:
  fixes s :: "('st, 'w) world"
  shows "lockQueue (writer_saved s) = lockQueue s" "holder (writer_saved s) = holder s"
    "asked (writer_saved s) = asked s" "turns (writer_saved s) = turns s" "held_state (writer_saved s) = held_state s"
    "history (writer_saved s) = history s" "writes (writer_saved s) = writes s"
    "disk (writer_saved s) = disk s" "lockHolderGen (writer_saved s) = lockHolderGen s"
    "sessionGen (writer_saved s) = sessionGen s" "deviceStateCache (writer_saved s) = deviceStateCache s"
    "stateVersion (writer_saved s) = stateVersion s"
  by (simp_all add: writer_saved_def Let_def split: option.splits)

lemma saved_waiters: "durableWaiters s = [] \<Longrightarrow> durableWaiters (writer_saved s) = []"
  by (auto simp: writer_saved_def Let_def split: option.splits)

lemma hist_saved: "hist_inv s \<Longrightarrow> hist_inv (writer_saved s)"
proof -
  assume h: "hist_inv s"
  show ?thesis
  proof (cases "inflight s")
    case None
    with h show ?thesis by (simp add: writer_saved_def)
  next
    case (Some job)
    obtain v st d where "job = (v, st, d)" by (cases job) auto
    then show ?thesis using h Some
      by (auto simp: writer_saved_def Let_def intro!: hist_turn intro: hist_inv_sub)
  qed
qed

lemma failed_fields:
  fixes s :: "('st, 'w) world"
  shows "lockQueue (writer_failed m s) = lockQueue s" "holder (writer_failed m s) = holder s"
    "asked (writer_failed m s) = asked s" "turns (writer_failed m s) = turns s" "held_state (writer_failed m s) = held_state s"
    "history (writer_failed m s) = history s" "writes (writer_failed m s) = writes s"
    "lockHolderGen (writer_failed m s) = lockHolderGen s" "durableWaiters (writer_failed m s) = []"
    "stateVersion (writer_failed m s) = stateVersion s" "inflight (writer_failed m s) = None"
    "deviceStateCache (writer_failed m s) = deviceStateCache s \<and> sessionGen (writer_failed m s) = sessionGen s
     \<or> deviceStateCache (writer_failed m s) = None \<and> sessionGen (writer_failed m s) = Suc (sessionGen s)"
  by (auto simp: writer_failed_def Let_def)

lemma commit_form:
  "commitState st s = (Inr v, s') \<Longrightarrow>
     lockHolderGen s = sessionGen s \<and> v = stateVersion s + 1
     \<and> s' = schedulePersist (s\<lparr>deviceStateCache := Some st, stateVersion := stateVersion s + 1\<rparr>)"
  by (auto simp: commitState_def Let_def split: if_splits)

lemma hist_grow:
  assumes "hist_inv s" "stateVersion s' = Suc (stateVersion s)" "deviceStateCache s' = Some st"
    and "history s' = history s @ [(Suc (stateVersion s), st)]"
    and "inflight s' = inflight s \<or> inflight s' = None \<or> (\<exists>d. inflight s' = Some (Suc (stateVersion s), st, d))"
  shows "hist_inv s'"
  using assms by (auto simp: hist_inv_def list_all_iff split: option.splits)

lemma commit_world_inv:
  assumes "world_inv s" "holder s = Some (gen, j)" "commitState st s = (Inr v, s')"
  shows "world_inv (note_commit gen st s')"
proof -
  note f = commit_form [OF assms(3)]
  let ?t = "s\<lparr>deviceStateCache := Some st, stateVersion := stateVersion s + 1\<rparr>"
  have w: "writer_inv s' \<and> inflight_ok s'"
    using assms(1,3) by (intro commitState_inv) (auto simp: world_inv_def)
  have lk: "lockHolderGen s = gen" using assms(1,2) by (simp add: world_inv_def lock_inv_def)
  have "writer_inv (note_commit gen st s')" "inflight_ok (note_commit gen st s')"
    using w by (auto simp: note_commit_def writer_inv_def inflight_ok_def waiter_ok_def list_all_iff split: option.splits)
  moreover have "lock_inv (note_commit gen st s')"
    using assms(1,2) lk f by (simp add: note_commit_def world_inv_def lock_inv_def)
  moreover have "hist_inv (note_commit gen st s')"
  proof (rule hist_grow)
    show "hist_inv s" using assms(1) by (simp add: world_inv_def)
  qed (use f inflight_schedule [of ?t] in \<open>auto simp: note_commit_def\<close>)
  ultimately show ?thesis by (simp add: world_inv_def)
qed

lemma wait_world_inv:
  assumes "world_inv s" "holder s = Some (gen, j)" "currentState s = Inr st"
  shows "world_inv (snd (waitDurable (stateVersion s) s))"
proof -
  have c: "deviceStateCache s \<noteq> None" using assms(3) by (auto simp: currentState_def split: option.splits)
  let ?s' = "snd (waitDurable (stateVersion s) s)"
  have more: "session.more ?s' = session.more s" by simp
  have "lock_inv ?s'"
    using assms(1,2) world_more [OF more] by (auto simp: world_inv_def lock_inv_def)
  moreover have "hist_inv ?s'"
  proof (cases "\<not> inTauri s \<or> durableVersion s \<ge> stateVersion s")
    case True
    then show ?thesis using assms(1) by (auto simp: waitDurable_def world_inv_def)
  next
    case False
    then show ?thesis using assms(1)
      by (auto simp: waitDurable_def world_inv_def intro!: hist_schedule intro: hist_inv_sub)
  qed
  moreover have "writer_inv ?s' \<and> inflight_ok ?s'"
    using assms(1) c by (intro waitDurable_inv) (simp_all add: world_inv_def)
  ultimately show ?thesis by (simp add: world_inv_def)
qed

lemma load_world_inv:
  assumes "world_inv s" "deviceStateCache s = None"
  shows "world_inv (adoptLoaded credential st s\<lparr>history := history s @ [(stateVersion s + 1, st)]\<rparr>)" (is "world_inv ?t")
proof -
  have w: "durableWaiters s = []" using assms by (auto simp: world_inv_def writer_inv_def)
  then have "writer_inv ?t" "inflight_ok ?t"
    using assms by (auto simp: world_inv_def writer_inv_def inflight_ok_def adoptLoaded_def split: option.splits)
  moreover have "lock_inv ?t"
    using assms by (auto simp: world_inv_def lock_inv_def adoptLoaded_def split: option.splits)
  moreover have "hist_inv ?t"
  proof (rule hist_grow)
    show "hist_inv s" using assms(1) by (simp add: world_inv_def)
  qed (simp_all add: adoptLoaded_def)
  ultimately show ?thesis by (simp add: world_inv_def)
qed

lemma saved_world_inv:
  assumes "world_inv s" "inflight s = Some job"
  shows "world_inv (writer_saved (note_saved s))"
proof -
  have n: "world_inv (note_saved s)" "inflight (note_saved s) = Some job" using assms by (simp_all add: world_inv_def)
  then show ?thesis
    using writer_saved_inv [of "note_saved s" job] hist_saved [of "note_saved s"]
      lock_inv_frame [of "note_saved s" "writer_saved (note_saved s)"]
    by (simp add: world_inv_def saved_fields saved_waiters)
qed

lemma failed_world_inv: "world_inv s \<Longrightarrow> world_inv (writer_failed m s)"
  using failed_inv [of s m] failed_fields [of m s]
    lock_inv_frame [of s "writer_failed m s"] hist_inv_sub [of s "writer_failed m s"]
  by (auto simp: world_inv_def)

lemma reset_world_inv: "world_inv s \<Longrightarrow> world_inv (resetForUser u s)"
  using reset_inv [of s u] lock_inv_frame [of s "resetForUser u s"] hist_inv_sub [of s "resetForUser u s"]
  by (simp add: world_inv_def)

lemma queue_world_inv:
  assumes "world_inv s"
  shows "world_inv (lock_ask s)" "holder s = None \<Longrightarrow> world_inv (lock_turn s)"
    "durableWaiters s = [] \<Longrightarrow> world_inv (lock_release s)"
    "holder s = None \<Longrightarrow> world_inv (s\<lparr>deviceStateCache := None\<rparr>)"
proof -
  have e: "writer_inv (lock_ask s) = writer_inv s" "inflight_ok (lock_ask s) = inflight_ok s"
    "writer_inv (lock_turn s) = writer_inv s" "inflight_ok (lock_turn s) = inflight_ok s"
    "writer_inv (lock_release s) = writer_inv s" "inflight_ok (lock_release s) = inflight_ok s"
    by (auto simp: lock_ask_def lock_turn_def lock_release_def writer_inv_def inflight_ok_def waiter_ok_def list_all_iff
        split: list.split option.split)
  have h: "hist_inv (lock_ask s)" "hist_inv (lock_turn s)" "hist_inv (lock_release s)"
    using assms by (auto simp: world_inv_def lock_ask_def lock_turn_def lock_release_def hist_inv_def
        split: list.split option.splits)
  show "world_inv (lock_ask s)" using assms e h
    by (auto simp: world_inv_def lock_inv_def lock_ask_def split: option.splits)
  show "holder s = None \<Longrightarrow> world_inv (lock_turn s)" using assms e h lock_turn_inv [of s]
    by (simp add: world_inv_def)
  show "durableWaiters s = [] \<Longrightarrow> world_inv (lock_release s)" using assms e h
    by (simp add: world_inv_def lock_inv_def lock_release_def)
  assume n: "holder s = None"
  then have "durableWaiters s = []" using assms by (simp add: world_inv_def lock_inv_def)
  then show "world_inv (s\<lparr>deviceStateCache := None\<rparr>)" using assms n
    by (auto simp: world_inv_def lock_inv_def writer_inv_def inflight_ok_def hist_inv_def split: option.splits)
qed

lemma turn_world_inv: "turn s s' \<Longrightarrow> world_inv s \<Longrightarrow> world_inv s'"
  by (induction rule: turn.induct)
    (simp_all add: queue_world_inv commit_world_inv wait_world_inv saved_world_inv failed_world_inv
      reset_world_inv load_world_inv [simplified])

lemma reachable_inv: "reachable s \<Longrightarrow> world_inv s"
  by (induction rule: reachable.induct) (auto intro: boot_inv turn_world_inv)

section \<open>What the interleavings guarantee\<close>

text \<open>A concrete run, used below: a first commit under the lock, its durable wait and two saves.\<close>

definition run_locked :: "(string, unit) world" where
  "run_locked = lock_turn (lock_ask (boot ()))"

definition run_committed :: "(string, unit) world" where
  "run_committed = note_commit 0 ''A'' (snd (commitState ''A'' run_locked))"

definition run_waiting :: "(string, unit) world" where
  "run_waiting = snd (waitDurable (stateVersion run_committed) run_committed)"

definition run_saved :: "(string, unit) world" where
  "run_saved = writer_saved (note_saved run_waiting)"

definition run_durable :: "(string, unit) world" where
  "run_durable = writer_saved (note_saved run_saved)"

lemmas run_defs = run_locked_def run_committed_def run_waiting_def run_saved_def run_durable_def

lemmas run_eval = boot_def empty_session_def session.defs lock_ask_def lock_turn_def commitState_def note_commit_def
  waitDurable_def writer_saved_def note_saved_def writer_defs settleAll_def currentState_def

lemma run_locked_fields: "holder run_locked = Some (0, 0)" "lockHolderGen run_locked = 0" "sessionGen run_locked = 0"
  by (simp_all add: run_defs run_eval)

lemma reachable_locked: "reachable run_locked"
  unfolding run_locked_def
  by (rule reachable.turn [OF reachable.turn [OF reachable.boot turn.ask] turn.start])
    (simp add: run_eval)

lemma reachable_committed: "reachable run_committed"
proof -
  have "commitState ''A'' run_locked = (Inr (fst (stateVersion run_locked + 1, ())), snd (commitState ''A'' run_locked))"
    by (simp add: commitState_def run_locked_fields Let_def)
  then show ?thesis unfolding run_committed_def
    by (rule reachable.turn [OF reachable_locked turn.commit [OF run_locked_fields(1)]])
qed

lemma reachable_waiting: "reachable run_waiting"
proof -
  have "holder run_committed = Some (0, 0)" "currentState run_committed = Inr ''A''"
    by (simp_all add: run_defs run_eval)
  then show ?thesis unfolding run_waiting_def by (rule reachable.turn [OF reachable_committed turn.wait_])
qed

lemma run_waiting_fields: "inflight run_waiting = Some (1, ''A'', False)" "durableWaiters run_waiting = [(1, 0)]"
  by (simp_all add: run_defs run_eval)

lemma reachable_saved: "reachable run_saved"
  unfolding run_saved_def
  by (rule reachable.turn [OF reachable_waiting turn.saved [OF run_waiting_fields(1)]])

lemma run_saved_fields: "inflight run_saved = Some (1, ''A'', True)" "durableWaiters run_saved = [(1, 0)]"
  "promises run_saved = []"
  by (simp_all add: run_defs run_eval)

text \<open>C2: the state lock is exclusive and fair, and it respects the account: whatever interleaving of lock
  requests, saves, failures and account switches happened, the requests got their turn in exactly the
  order they were made, and every commit took place in the very account generation its lock request
  was made in - work queued for the previous account never writes into the next one's state.\<close>

theorem lock_fifo_and_account_safe:
  assumes "reachable s"
  shows "turns s @ map snd (lockQueue s) = [0..<length (asked s)] \<and> list_all (\<lambda>(asked_in, done_in). asked_in = done_in) (writes s)"
  using reachable_inv [OF assms] by (simp add: world_inv_def lock_inv_def)

lemma lock_fifo_and_account_safe_witness:
  "turns run_committed @ map snd (lockQueue run_committed) = [0..<length (asked run_committed)]
   \<and> list_all (\<lambda>(asked_in, done_in). asked_in = done_in) (writes run_committed) \<and> writes run_committed = [(0, 0)]"
proof -
  have "writes run_committed = [(0, 0)]" by (simp add: run_defs run_eval)
  then show ?thesis using lock_fifo_and_account_safe [OF reachable_committed] by blast
qed

text \<open>C3: no update is lost: while lock work of the current account runs, the device state is exactly the one it
  read when it started (or last committed itself), however long it waits for the network in between;
  so a commit always replaces the state it was derived from.\<close>

theorem holder_state_current:
  assumes "reachable s" "holder s = Some (gen, j)" "gen = sessionGen s" "held_state s = Some st"
  shows "currentState s = Inr st"
  using reachable_inv [OF assms(1)] assms(2-4) by (simp add: world_inv_def lock_inv_def currentState_def)

lemma holder_state_current_witness: "currentState run_committed = Inr ''A''"
  by (rule holder_state_current [OF reachable_committed, of 0 0]) (simp_all add: run_defs run_eval)

text \<open>C4: a durability promise is never resolved early: when a turn resolves the promise of a caller waiting for a
  version, that turn is a durable save, and the state on disk after it is a committed state of that
  version or a newer one.\<close>

theorem ack_means_on_disk:
  assumes "reachable s" "turn s s'" "(v, t) \<in> set (durableWaiters s)" "al_get (promises s') t = Some None"
  shows "\<exists>v' st. disk s' = Some (v', st) \<and> v \<le> v' \<and> (v', st) \<in> set (history s')"
proof -
  have inv: "world_inv s" by (rule reachable_inv [OF assms(1)])
  then have w: "waiter_ok s (v, t)" using assms(3) by (auto simp: world_inv_def writer_inv_def list_all_iff)
  then have n: "al_get (promises s) t = None" "durableVersion s < v" by (simp_all add: waiter_ok_def)
  from assms(2) show ?thesis
  proof cases
    case (saved job)
    obtain v' st d where j: "job = (v', st, d)" by (cases job) auto
    have h: "(v', st) \<in> set (history s)" using inv saved(2) j by (auto simp: world_inv_def hist_inv_def)
    have dur: d using saved j assms(4) n(1)
      by (cases d) (auto simp: writer_saved_def Let_def)
    then have "promises s' = settleAll (filter (\<lambda>w. fst w \<le> max (durableVersion s) v') (durableWaiters s)) None (promises s)"
      using saved j by (simp add: writer_saved_def Let_def)
    then obtain w' where "(w', t) \<in> set (durableWaiters s)" "w' \<le> max (durableVersion s) v'"
      using assms(4) n(1) by (auto simp: settleAll_get split: if_splits)
    moreover have "inj_on snd (set (durableWaiters s))"
      using inv by (simp add: world_inv_def writer_inv_def distinct_map)
    then have "(w', t) = (v, t)"
      by (rule inj_onD) (simp_all add: \<open>(w', t) \<in> set (durableWaiters s)\<close> assms(3))
    then have "w' = v" by simp
    ultimately have "v \<le> v'" using n(2) by simp
    moreover have "disk s' = Some (v', st)" "history s' = history s"
      using saved j dur by (simp_all add: saved_fields note_saved_def)
    ultimately show ?thesis using h by simp
  next
    case (failed job m)
    then show ?thesis using assms(4) n(1)
      by (auto simp: writer_failed_def Let_def settleAll_get split: if_splits)
  next
    case (commit gen j st v0 s0)
    then show ?thesis using assms(4) n(1) commit_form [OF commit(3)] by (simp add: note_commit_def)
  next
    case start
    then show ?thesis using assms(4) n(1) by (auto simp: lock_turn_def split: list.splits if_splits)
  next
    case (wait_ gen j st)
    then show ?thesis using assms(4) n(1) by (auto simp: waitDurable_def split: if_splits)
  qed (use assms(4) n(1) in \<open>auto simp: lock_ask_def lock_release_def resetForUser_def adoptLoaded_def settleAll_get split: if_splits\<close>)
qed

lemma ack_means_on_disk_witness:
  "\<exists>v' st. disk run_durable = Some (v', st) \<and> 1 \<le> v' \<and> (v', st) \<in> set (history run_durable)"
proof (rule ack_means_on_disk [OF reachable_saved])
  show "turn run_saved run_durable" unfolding run_durable_def by (rule turn.saved [OF run_saved_fields(1)])
  show "(1, 0) \<in> set (durableWaiters run_saved)" by (simp add: run_saved_fields)
  show "al_get (promises run_durable) 0 = Some None" by (simp add: run_defs run_eval)
qed

text \<open>The two saves a waiting caller needs at most: the one in flight, then the durable one that starts at once.\<close>

definition after_save :: "('st, 'w) world \<Rightarrow> ('st, 'w) world" where
  "after_save s = writer_saved (note_saved s)"

lemma durable_save_settles:
  assumes "inflight s = Some (v', st, True)" "(v, t) \<in> set (durableWaiters s)" "v \<le> v'"
  shows "al_get (promises (after_save s)) t = Some None"
  using assms by (auto simp: after_save_def writer_saved_def Let_def settleAll_get image_iff intro!: bexI [of _ "(v, t)"])

lemma turn_durable:
  "durableWanted (writer_turn x) > durableVersion (writer_turn x) \<Longrightarrow> deviceStateCache (writer_turn x) = Some c \<Longrightarrow>
     inflight (writer_turn x) = Some (stateVersion (writer_turn x), c, True)"
proof -
  assume "durableWanted (writer_turn x) > durableVersion (writer_turn x)" "deviceStateCache (writer_turn x) = Some c"
  then have "durableWanted x > durableVersion x" "deviceStateCache x = Some c" by simp_all
  then show ?thesis by (simp add: writer_turn_def writer_next_def Let_def)
qed

lemma after_save_turn: "inflight s \<noteq> None \<Longrightarrow> \<exists>x. after_save s = writer_turn x"
  by (auto simp: after_save_def writer_saved_def Let_def)

lemma after_save_fields [simp]:
  "deviceStateCache (after_save s) = deviceStateCache s" "stateVersion (after_save s) = stateVersion s"
  by (simp_all add: after_save_def saved_fields)

text \<open>A caller waiting for durability is never stranded: a save is in flight, and once it has succeeded either the
  promise is resolved or a further save is in flight whose success resolves it.\<close>

lemma waiter_settles:
  assumes "reachable s" "(v, t) \<in> set (durableWaiters s)"
  shows "inflight s \<noteq> None \<and>
    (al_get (promises (after_save s)) t = Some None \<or>
     inflight (after_save s) \<noteq> None \<and> al_get (promises (after_save (after_save s))) t = Some None)"
proof -
  have inv: "world_inv s" by (rule reachable_inv [OF assms(1)])
  have nz: "durableWaiters s \<noteq> []" using assms(2) by auto
  have w: "durableVersion s < v" "v \<le> durableWanted s"
    using inv assms(2) by (auto simp: world_inv_def writer_inv_def list_all_iff waiter_ok_def)
  obtain v' st d where i: "inflight s = Some (v', st, d)"
    using inv nz by (auto simp: world_inv_def writer_inv_def)
  obtain c where c: "deviceStateCache s = Some c" using inv nz by (auto simp: world_inv_def writer_inv_def)
  have vs: "v \<le> stateVersion s" using inv w by (simp add: world_inv_def writer_inv_def)
  show ?thesis
  proof (cases "d \<and> v \<le> v'")
    case True
    then show ?thesis using i durable_save_settles [OF _ assms(2)] by auto
  next
    case False
    have still: "(v, t) \<in> set (durableWaiters (after_save s))"
      and nd: "durableWanted (after_save s) > durableVersion (after_save s)"
      using False i assms(2) w by (auto simp: after_save_def writer_saved_def Let_def)
    obtain x where x: "after_save s = writer_turn x" using after_save_turn [of s] i by auto
    have "inflight (after_save s) = Some (stateVersion s, c, True)"
      using turn_durable [of x c, folded x] nd c by simp
    then show ?thesis using i durable_save_settles [OF _ still] vs by simp
  qed
qed

lemma waiter_settles_witness:
  "inflight run_waiting \<noteq> None \<and>
    (al_get (promises (after_save run_waiting)) 0 = Some None \<or>
     inflight (after_save run_waiting) \<noteq> None \<and> al_get (promises (after_save (after_save run_waiting))) 0 = Some None)"
  by (rule waiter_settles [OF reachable_waiting, of 1]) (simp add: run_waiting_fields)

text \<open>What one successful save of a turn leaves: the versions it wrote, and the next turn.\<close>

lemma saved_version:
  assumes "inflight s = Some (v, st, d)"
  shows "persistedVersion (after_save s) = max (persistedVersion s) v"
    "durableVersion (after_save s) = (if d then max (durableVersion s) v else durableVersion s)"
    "durableWanted (after_save s) = durableWanted s"
  using assms by (simp_all add: after_save_def writer_saved_def Let_def note_saved_def split: bool.split)

lemma turn_idle:
  "inflight (writer_turn x) = None \<longleftrightarrow>
     deviceStateCache x = None \<or> durableWanted x \<le> durableVersion x \<and> stateVersion x \<le> persistedVersion x"
  by (auto simp: writer_turn_def writer_next_def Let_def split: option.splits)

lemma turn_job:
  "inflight (writer_turn x) = Some (v, st, d) \<Longrightarrow> v = stateVersion x \<and> (d \<longleftrightarrow> durableVersion x < durableWanted x)"
  by (auto simp: writer_turn_def writer_next_def Let_def split: option.splits if_splits)

lemma idle_after_save: "inflight s = None \<Longrightarrow> after_save s = s"
  by (simp add: after_save_def note_saved_def writer_saved_def)

lemma second_save_idle:
  assumes "durableWanted (writer_turn x) \<le> stateVersion (writer_turn x)"
  shows "inflight (after_save (writer_turn x)) = None"
proof (cases "inflight (writer_turn x)")
  case None
  then show ?thesis by (simp add: idle_after_save)
next
  case (Some job)
  obtain v st d where j: "inflight (writer_turn x) = Some (v, st, d)" using Some by (cases job) auto
  note t = turn_job [OF j] and f = saved_version [OF j]
  obtain y where y: "after_save (writer_turn x) = writer_turn y" using after_save_turn j by blast
  have "durableWanted y \<le> durableVersion y \<and> stateVersion y \<le> persistedVersion y"
    using t f assms after_save_fields(2) [of "writer_turn x"] unfolding y by auto
  then show ?thesis unfolding y turn_idle by simp
qed



end
