(* ===== verification/Mls_Group_Props.thy ===== *)
theory Mls_Group_Props
  imports Mls_Groups Mls_Concurrency
begin

text \<open>
  What the group operations of \<open>mlsSession.js\<close> guarantee: own commits, catch-up, joining and
  creating groups, reconciling their members.
\<close>

section \<open>Own commits\<close>

text \<open>A commit adopted by the work under the lock: it was built from \<open>base\<close>, the server took it, and it replaced
  exactly \<open>base\<close>, durably.\<close>

definition adopted_commit :: "('st, 'w) env \<Rightarrow> ('st, 'w) build \<Rightarrow> ('st, 'w) submit \<Rightarrow> ('st, 'w) fetch
    \<Rightarrow> ('st, 'w) session \<Rightarrow> ('st, 'w) session \<Rightarrow> bool" where
  "adopted_commit e build submit fetch s s' \<longleftrightarrow>
    (\<exists>base plan s1 s2 err v s3. currentState s = Inr base \<and> build s base = Inr (Some plan)
       \<and> awaitDurable e (stateVersion s) s = (Inr (), s1)
       \<and> submit_plan e submit fetch plan s1 = ((True, err), s2) \<and> deviceStateCache s2 = Some base
       \<and> commitState (p_state plan) s2 = (Inr v, s3) \<and> awaitDurable e v s3 = (Inr (), s'))"

text \<open>The work ended without a commit: there was nothing to do, or the server refused the plan; the session is the one the
  network left.\<close>

definition untouched :: "('st, 'w) env \<Rightarrow> ('st, 'w) build \<Rightarrow> ('st, 'w) submit \<Rightarrow> ('st, 'w) fetch
    \<Rightarrow> ('st, 'w) session \<Rightarrow> ('st, 'w) session \<Rightarrow> bool" where
  "untouched e build submit fetch s s' \<longleftrightarrow> s' = s
    \<or> (\<exists>base plan s1 err. build s base = Inr (Some plan) \<and> awaitDurable e (stateVersion s) s = (Inr (), s1)
         \<and> submit_plan e submit fetch plan s1 = ((False, err), s'))"


definition toy_session :: "(toy_state, unit) session" where
  "toy_session = (empty_session True ())\<lparr>deviceStateCache := Some (''alice:d1'', [(''c1'', 3)]), stateVersion := 1,
     durableVersion := 1, persistedVersion := 1, ownCredential := Some ''alice:d1'', boundUserId := Some ''alice''\<rparr>"

definition toy_plan :: "toy_state plan" where
  "toy_plan = \<lparr>p_state = (''alice:d1'', [(''c1'', 4)]), p_commit = ''c'', p_welcome = None, p_targetEpoch = 4,
     p_welcomedUserIds = [], p_groupInfo = None, p_resync = False\<rparr>"

definition toy_accept :: "(toy_state, unit) submit" where
  "toy_accept = (\<lambda>ep cm w ids gi s. (None, s))"

definition toy_run :: "(mls_error + outcome \<times> bool) \<times> (toy_state, unit) session" where
  "toy_run = own_commit_work toy_env (\<lambda>s st. Inr (Some toy_plan)) toy_accept (a_catchUp toy_env (ChannelCtx ''o'' ''c1'')) None toy_session"

lemmas toy_run_eval = toy_run_def own_commit_work_def m_bind_def m_get_def m_await_def m_return_def currentState_def
  toy_session_def empty_session_def awaitDurable_def waitDurable_def submit_plan_def toy_accept_def toy_plan_def
  adopt_plan_def commitDurableLocked_def commitState_def schedulePersist_def writer_turn_def writer_next_def toy_defs


text \<open>An account switch while an own commit waits for the server never lets the accepted commit into the next
  account's state: the run ends without writing.  It ends with the plain "invariant violated" error, not
  with the \<open>MLS_ACCOUNT_SWITCHED\<close> the interleaving rule I7 announces, so callers that test for an
  unusable state do not see one.\<close>

lemma switch_during_submit:
  assumes "currentState s = Inr base" "build s base = Inr (Some plan)"
    and "awaitDurable e (stateVersion s) s = (Inr (), s1)"
    and "submit_plan e submit fetch plan s1 = ((True, err), s2)" "sessionGen s2 > sessionGen s"
    and "deviceStateCache s2 \<noteq> Some base"
  shows "own_commit_work e build submit fetch g s = (Inl invariant_violated, s2)
    \<and> \<not> is_state_unavailable invariant_violated \<and> is_state_unavailable accountSwitched"
  using assms
  by (simp add: own_commit_work_def m_bind_def m_get_def m_await_def adopt_plan_def is_state_unavailable_def
      invariant_violated_def accountSwitched_def)

definition toy_switching :: "(toy_state, unit) submit" where
  "toy_switching = (\<lambda>ep cm w ids gi s. (None, resetForUser (Some ''bob'') s))"

lemma switch_during_submit_witness:
  "own_commit_work toy_env (\<lambda>s st. Inr (Some toy_plan)) toy_switching (a_catchUp toy_env (ChannelCtx ''o'' ''c1'')) None toy_session
     = (Inl invariant_violated, resetForUser (Some ''bob'') toy_session)
   \<and> \<not> is_state_unavailable invariant_violated \<and> is_state_unavailable accountSwitched"
  by (rule switch_during_submit [where base = "(''alice:d1'', [(''c1'', 3)])" and plan = toy_plan and ?s1.0 = toy_session and err = None])
    (simp_all add: toy_run_eval toy_switching_def resetForUser_def)

section \<open>Catch-up\<close>

text \<open>
  What the WASM module does with the commits of a group's log: \<open>commit k\<close> is the commit that
  produces epoch \<open>k\<close>, \<open>state k\<close> a device's state that has applied it.
\<close>

definition commit_chain :: "('st, 'w) env \<Rightarrow> bytes \<Rightarrow> (nat \<Rightarrow> 'st) \<Rightarrow> (nat \<Rightarrow> bytes) \<Rightarrow> nat \<Rightarrow> nat \<Rightarrow> bool" where
  "commit_chain e g state commit n0 N \<longleftrightarrow>
    list_all (\<lambda>k. w_process_commit e (state k) g (commit (Suc k)) = Inr (state (Suc k))) [n0..<N]
    \<and> list_all (\<lambda>k. w_group_epoch e (state k) g = Inr k) [n0..<Suc N]"

definition logged :: "(nat \<Rightarrow> bytes) \<Rightarrow> nat \<Rightarrow> int \<times> string" where
  "logged commit k = (int k, toB64 (commit k))"

lemma sort_logged:
  assumes "distinct cs" "set cs = logged commit ` set [Suc lo..<Suc N]"
  shows "sort_commits cs = map (logged commit) [Suc lo..<Suc N]"
proof -
  let ?f = "\<lambda>i. (i, toB64 (commit (nat i)))"
  have f: "c = ?f (fst c)" if "c \<in> set cs" for c using that assms(2) by (auto simp: logged_def)
  have s: "set (sort_commits cs) = set cs" by (simp add: sort_commits_def)
  have "sorted_wrt (\<lambda>a b. fst a \<le> fst b) (sort_commits cs)"
    unfolding sort_commits_def by (rule sorted_stable_sort [OF total_preorder_le_key])
  then have "sorted (map fst (sort_commits cs))" by (simp add: sorted_wrt_map)
  moreover have "distinct (sort_commits cs)" using assms(1) by (simp add: sort_commits_def)
  then have "distinct (map fst (sort_commits cs))"
    unfolding distinct_map by (intro conjI inj_onI) (metis f s, metis f s)
  moreover have "set (map fst (sort_commits cs)) = set (map int [Suc lo..<Suc N])"
    unfolding set_map s assms(2) by (auto simp: logged_def image_iff)
  moreover have "sorted (map int [Suc lo..<Suc N])"
    using sorted_upt [of "Suc lo" "Suc N"] by (simp only: sorted_map of_nat_le_iff)
  moreover have "distinct (map int [Suc lo..<Suc N])" by (simp add: distinct_map inj_on_def)
  ultimately have "map fst (sort_commits cs) = map int [Suc lo..<Suc N]"
    by (intro sorted_distinct_set_unique)
  then have "map ?f (map fst (sort_commits cs)) = map (logged commit) [Suc lo..<Suc N]"
    by (simp add: logged_def comp_def)
  moreover have "map ?f (map fst (sort_commits cs)) = sort_commits cs"
    using f s by (auto simp: comp_def intro!: map_idI)
  ultimately show ?thesis by simp
qed

lemma apply_logged_skip:
  "int k \<le> wk_epoch w \<Longrightarrow> apply_logged e g w (logged commit k) = w"
  by (simp add: apply_logged_def logged_def)

lemma apply_logged_next:
  assumes "w_process_commit e (wk_state w) g (commit k) = Inr st" "w_group_epoch e st g = Inr k" "wk_epoch w < int k"
  shows "apply_logged e g w (logged commit k) = w\<lparr>wk_state := st, wk_epoch := int k, wk_changed := True\<rparr>"
  using assms by (simp add: apply_logged_def logged_def epochOf_def)

lemma walk_chain:
  assumes "commit_chain e g state commit n0 N" "lo \<le> n0" "lo \<le> m" "m \<le> N"
  shows "foldl (apply_logged e g) \<lparr>wk_state = state n0, wk_epoch = int n0, wk_changed = ch, wk_failedAt = None\<rparr>
      (map (logged commit) [Suc lo..<Suc m])
    = \<lparr>wk_state = state (max n0 m), wk_epoch = int (max n0 m), wk_changed = (ch \<or> n0 < m), wk_failedAt = None\<rparr>"
  using assms(3,4)
proof (induction m rule: dec_induct)
  case base
  then show ?case using assms(2) by (simp add: max_def)
next
  case (step m)
  let ?w = "\<lparr>wk_state = state (max n0 m), wk_epoch = int (max n0 m), wk_changed = (ch \<or> n0 < m), wk_failedAt = None\<rparr>"
  have "[Suc lo..<Suc (Suc m)] = [Suc lo..<Suc m] @ [Suc m]" using step.hyps by simp
  then have "foldl (apply_logged e g) \<lparr>wk_state = state n0, wk_epoch = int n0, wk_changed = ch, wk_failedAt = None\<rparr>
      (map (logged commit) [Suc lo..<Suc (Suc m)]) = apply_logged e g ?w (logged commit (Suc m))"
    using step by simp
  also have "\<dots> = \<lparr>wk_state = state (max n0 (Suc m)), wk_epoch = int (max n0 (Suc m)), wk_changed = (ch \<or> n0 < Suc m), wk_failedAt = None\<rparr>"
  proof (cases "Suc m \<le> n0")
    case True
    then show ?thesis by (simp add: apply_logged_skip max_def)
  next
    case False
    then have "w_process_commit e (state m) g (commit (Suc m)) = Inr (state (Suc m))" "w_group_epoch e (state (Suc m)) g = Inr (Suc m)"
      using assms(1) step.prems by (auto simp: commit_chain_def list_all_iff)
    then show ?thesis using False by (simp add: apply_logged_next max_def)
  qed
  finally show ?case .
qed

lemma walk_reaches_server:
  assumes "commit_chain e g state commit n0 N" "w_group_exists e (state n0) g = Inr True"
    and "lo \<le> n0" "n0 \<le> N" "distinct (cu_commits data)" "set (cu_commits data) = logged commit ` set [Suc lo..<Suc N]"
    and "cu_current_epoch data = None \<or> cu_current_epoch data = Some (int N)"
  shows "catchup_walk e g data (state n0) = Inr (state N, n0 < N, Some (int N))
    \<and> \<not> cs_diverged (catchup_status data (Some (int N)))"
proof
  have "w_group_epoch e (state n0) g = Inr n0" using assms(1,4) by (auto simp: commit_chain_def list_all_iff)
  moreover have "walk_log e g (cu_commits data) \<lparr>wk_state = state n0, wk_epoch = int n0, wk_changed = False, wk_failedAt = None\<rparr>
      = \<lparr>wk_state = state N, wk_epoch = int N, wk_changed = (n0 < N), wk_failedAt = None\<rparr>"
    unfolding walk_log_def sort_logged [OF assms(5,6)]
    using walk_chain [OF assms(1,3), of N False] assms(3,4) by (simp add: max_def)
  ultimately show "catchup_walk e g data (state n0) = Inr (state N, n0 < N, Some (int N))"
    using assms(2) by (simp add: catchup_walk_def try_welcome_def epochOf_def Let_def split: option.split)
  have le: "fst c \<le> int N" if "c \<in> set (cu_commits data)" for c
    using that assms(6) by (auto simp: logged_def)
  have "is_diverged data (Some (int N)) = False"
  proof (cases "cu_current_epoch data")
    case None
    show ?thesis
    proof (cases "map fst (cu_commits data)")
      case Nil
      then show ?thesis using None by (simp add: is_diverged_def server_epoch_def)
    next
      case (Cons x xs)
      have "y \<le> int N" if "y \<in> set (x # xs)" for y
      proof -
        have "y \<in> fst ` set (cu_commits data)" using that unfolding Cons [symmetric] by simp
        then show ?thesis using le by auto
      qed
      then have "Max (set (x # xs)) \<le> int N" by (intro Max.boundedI) auto
      then have "\<not> int N < Max (set (x # xs))" by (rule leD)
      then show ?thesis using None Cons unfolding is_diverged_def server_epoch_def
        by (simp del: list.set Max_insert Max_gr_iff)
    qed
  next
    case (Some n)
    then show ?thesis using assms(7) by (simp add: is_diverged_def server_epoch_def)
  qed
  then show "\<not> cs_diverged (catchup_status data (Some (int N)))" by (simp add: catchup_status_def)
qed

text \<open>C5: catching up reaches the server: whatever order the commit log arrives in, and however many commits it holds
  that this device has applied long ago, the walk applies exactly the newer ones in epoch order, ends in
  the state of the server's epoch and the group is not reported as diverged.\<close>

theorem catch_up_reaches_server:
  assumes "commit_chain e g state commit n0 N" "w_group_exists e (state n0) g = Inr True"
    and "lo \<le> n0" "n0 \<le> N" "distinct (cu_commits data)" "set (cu_commits data) = logged commit ` set [Suc lo..<Suc N]"
    and "cu_current_epoch data = None \<or> cu_current_epoch data = Some (int N)"
  shows "catchup_walk e g data (state n0) = Inr (state N, n0 < N, Some (int N))
    \<and> \<not> cs_diverged (catchup_status data (Some (int N)))"
  by (rule walk_reaches_server [OF assms])

text \<open>The toy device's copy of a group after epoch \<open>k\<close>, and the commit that produces it.\<close>

definition toy_at :: "nat \<Rightarrow> toy_state" where
  "toy_at k = (''alice:d1'', [(''c1'', k)])"

definition toy_log :: catch_up where
  "toy_log = \<lparr>cu_welcome = None, cu_commits = map (logged (\<lambda>k. [char_of k])) [5, 3, 4, 2], cu_current_epoch = Some 5, cu_group_info_epoch = None\<rparr>"

lemma catch_up_reaches_server_witness:
  "catchup_walk toy_env ''c1'' toy_log (toy_at 3) = Inr (toy_at 5, (3::nat) < 5, Some (int 5))
   \<and> \<not> cs_diverged (catchup_status toy_log (Some (int 5)))"
proof (rule catch_up_reaches_server)
  show "commit_chain toy_env ''c1'' toy_at (\<lambda>k. [char_of k]) 3 5"
    by (simp add: commit_chain_def toy_at_def toy_defs upt_rec)
  show "w_group_exists toy_env (toy_at 3) ''c1'' = Inr True" by (simp add: toy_at_def toy_defs al_has_def)
  show "(1::nat) \<le> 3" "(3::nat) \<le> 5" by simp_all
  show "distinct (cu_commits toy_log)" by (simp add: toy_log_def logged_def)
  show "set (cu_commits toy_log) = logged (\<lambda>k. [char_of k]) ` set [Suc 1..<Suc 5]"
    by (simp add: toy_log_def upt_rec eval_nat_numeral insert_commute)
  show "cu_current_epoch toy_log = None \<or> cu_current_epoch toy_log = Some (int 5)" by (simp add: toy_log_def)
qed

section \<open>Joining, creating and membership\<close>

text \<open>The server said the group does not exist, or it lacks the route.\<close>

definition says_absent :: "group_info option \<times> string option \<Rightarrow> bool" where
  "says_absent r = (case r of
       (_, Some er) \<Rightarrow> isMissingMembersRoute (Some er)
     | (None, None) \<Rightarrow> True | (Some d, None) \<Rightarrow> \<not> gi_exists d)"

lemma info_error_create: "may_create (info_error er) \<Longrightarrow> isMissingMembersRoute (Some er)"
  by (auto simp: info_error_def may_create_def heal_why_def Let_def split: if_splits)

lemma after_external_create: "after_external e ctx force r s = (Inr (Some h), s') \<Longrightarrow> \<not> may_create h"
  by (auto simp: after_external_def may_create_def heal_def heal_why_def act_eqs split: if_splits)

lemma try_external_create:
  "try_external e ctx force ep gi sub s = (Inr (Inl h), s') \<Longrightarrow> \<not> may_create h"
  by (auto simp: try_external_def m_try_def m_return_def m_throw_def m_bind_def may_create_def heal_why_def
      split: prod.splits sum.splits if_splits)

lemma after_tried_create:
  assumes "m_bind (try_external e ctx force ep gi sub)
      (\<lambda>tried. case tried of Inl h \<Rightarrow> m_return (Some h) | Inr r \<Rightarrow> after_external e ctx force r) s = (Inr (Some h), s')"
  shows "\<not> may_create h"
proof -
  obtain tried s1 where t: "try_external e ctx force ep gi sub s = (Inr tried, s1)"
    and k: "(case tried of Inl h \<Rightarrow> m_return (Some h) | Inr r \<Rightarrow> after_external e ctx force r) s1 = (Inr (Some h), s')"
    using assms by (auto simp: m_bind_eq)
  show ?thesis
  proof (cases tried)
    case (Inl h')
    then show ?thesis using k try_external_create [OF t [unfolded Inl]] by (simp add: m_return_eq)
  next
    case (Inr r)
    then show ?thesis using after_external_create [of e ctx force r s1 h s'] k by simp
  qed
qed

lemma external_round_create:
  assumes "external_round e ctx force getInfo sub s = (Inr (Some h), s')" "may_create h"
  shows "\<exists>r s1. getInfo s = (r, s1) \<and> says_absent r"
proof -
  obtain d er s1 where g: "getInfo s = ((d, er), s1)" by (metis prod.collapse)
  show ?thesis
  proof (cases er)
    case (Some x)
    then have "h = info_error x" using assms(1) g by (auto simp: external_round_def act_eqs)
    then show ?thesis using assms(2) g Some by (cases d) (auto simp: says_absent_def dest: info_error_create)
  next
    case er: None
    show ?thesis
    proof (cases d)
      case None
      then show ?thesis using g er by (auto simp: says_absent_def)
    next
      case (Some i)
      show ?thesis
      proof (cases "gi_exists i")
        case False
        then show ?thesis using g er Some by (auto simp: says_absent_def)
      next
        case True
        then have "\<not> may_create h"
        proof (cases "gi_info i")
          case None
          then show ?thesis using assms(1) g er Some True
            by (auto simp: external_round_def act_eqs may_create_def heal_why_def)
        next
          case (Some info)
          then obtain gi where "m_bind (try_external e ctx force (gi_epoch i) gi sub)
              (\<lambda>tried. case tried of Inl h \<Rightarrow> m_return (Some h) | Inr r \<Rightarrow> after_external e ctx force r) s1 = (Inr (Some h), s')"
            using assms(1) g er \<open>d = Some i\<close> True
            by (auto simp: external_round_def m_bind_eq [of "m_await getInfo"] m_bind_eq [of "m_get _"] m_await_eq m_get_eq)
          then show ?thesis by (rule after_tried_create)
        qed
        then show ?thesis using assms(2) by simp
      qed
    qed
  qed
qed

lemma external_attempts_create:
  "external_attempts n e ctx force getInfo sub s = (Inr h, s') \<Longrightarrow> may_create h \<Longrightarrow>
     \<exists>s0 r s1. getInfo s0 = (r, s1) \<and> says_absent r"
proof (induction n arbitrary: s)
  case 0
  then show ?case by (auto simp: m_return_def may_create_def heal_why_def)
next
  case (Suc n)
  from Suc.prems(1) obtain r s1 where r: "external_round e ctx force getInfo sub s = (Inr r, s1)"
    and k: "(case r of Some h' \<Rightarrow> m_return h' | None \<Rightarrow> external_attempts n e ctx force getInfo sub) s1 = (Inr h, s')"
    by (auto simp: act_eqs)
  show ?case
  proof (cases r)
    case None
    then show ?thesis using k Suc by auto
  next
    case (Some h')
    then have "h' = h" using k by (simp add: m_return_def)
    then show ?thesis using external_round_create r Some Suc.prems(2) by blast
  qed
qed

text \<open>No group is ever created over an existing one on a guess: joining from the server's GroupInfo lets its caller
  create the group only when, in this very call, the server answered that the group does not exist or
  that it has no such route, or the client has no GroupInfo routes at all.\<close>

lemma create_only_when_absent:
  assumes "externalJoinOrResync e ctx force s = (Inr h, s')" "may_create h"
  shows "a_getGroupInfo e ctx = None \<or> a_submitExternal e ctx = None
    \<or> (\<exists>getInfo s0 r s1. a_getGroupInfo e ctx = Some getInfo \<and> getInfo s0 = (r, s1) \<and> says_absent r)"
  using assms external_attempts_create
  by (fastforce simp: externalJoinOrResync_def split: option.splits)

text \<open>Someone outside a group's member list never commits to it: when the member list does not name the user,
  setting the group up ends right after fetching the list - no join, no creation, no removal of
  anyone.\<close>

lemma off_list_never_commits:
  assumes "ensureIdentity e u s = (Inr i, s1)" "catchUpGroup e ctx s1 = (Inr status, s2)"
    and "members s2 = (Inr ids, s3)" "u \<notin> set ids"
  shows "ensureReconciledGroup e u ctx members s = (Inr (), s3)"
  using assms by (simp add: ensureReconciledGroup_def m_bind_def m_return_def)

text \<open>A reconcile removes exactly the accounts that left: the labels it removes are the members whose account is not
  on the list, each once; the devices it adds are exactly those fetched devices that are not
  represented yet.\<close>

lemma reconcile_exact:
  "distinct (staleLabels ids labels)
   \<and> set (staleLabels ids labels) = {l. l \<in> set labels \<and> userIdOfLabel l \<notin> set ids}
   \<and> set (missingDevices labels devices) = {d. d \<in> set devices \<and> credentialFor (fst d) (fst (snd d)) \<notin> set labels}"
  by (auto simp: staleLabels_def missingDevices_def js_set_def)

lemma create_only_when_absent_witness:
  "a_getGroupInfo (toy_env\<lparr>a_submitExternal := \<lambda>c. None\<rparr>) (ChannelCtx ''o'' ''c1'') = None
   \<or> a_submitExternal (toy_env\<lparr>a_submitExternal := \<lambda>c. None\<rparr>) (ChannelCtx ''o'' ''c1'') = None
   \<or> (\<exists>getInfo s0 r s1. a_getGroupInfo (toy_env\<lparr>a_submitExternal := \<lambda>c. None\<rparr>) (ChannelCtx ''o'' ''c1'') = Some getInfo
        \<and> getInfo s0 = (r, s1) \<and> says_absent r)"
  by (rule create_only_when_absent [where force = False and s = toy_session and s' = toy_session and h = "heal_why ''none'' ''unsupported''"])
    (simp_all add: externalJoinOrResync_def m_return_def may_create_def heal_why_def split: option.split)

lemma off_list_never_commits_witness:
  "ensureReconciledGroup toy_env ''alice'' (ChannelCtx ''o'' ''c1'') (m_return [''bob'', ''carol'']) toy_session = (Inr (), toy_session)"
proof (rule off_list_never_commits)
  show "ensureIdentity toy_env ''alice'' toy_session = (Inr (Some (''alice:d1'', [(''c1'', 3)])), toy_session)"
    by (simp add: ensureIdentity_def bind_account_def toy_session_def empty_session_def Let_def)
  show "catchUpGroup toy_env (ChannelCtx ''o'' ''c1'') toy_session
    = (Inr (catchup_status \<lparr>cu_welcome = None, cu_commits = [], cu_current_epoch = None, cu_group_info_epoch = None\<rparr> (Some 3)), toy_session)"
    by (simp add: catchUpGroup_def m_bind_def m_await_def withStateLock_def locked_def catchup_work_def m_get_def
        currentState_def toy_session_def empty_session_def catchup_walk_def try_welcome_def epochOf_def walk_log_def
        sort_commits_def encode_text_def utf8_char_def al_has_def m_return_def catchup_status_def is_diverged_def server_epoch_def
        Let_def toy_fields)
  show "m_return [''bob'', ''carol''] toy_session = (Inr [''bob'', ''carol''], toy_session)" by (simp add: m_return_def)
  show "''alice'' \<notin> set [''bob'', ''carol'']" by simp
qed

end
