(* ===== verification/Mls_Message_Props.thy ===== *)
theory Mls_Message_Props
  imports Mls_Messages Mls_Group_Props
begin

text \<open>
  What the message paths of \<open>mlsSession.js\<close> guarantee: encryption, decryption, the recall of a
  device's own echoes, the epoch memo and the heal throttle; and a wedge of the identity code.
\<close>

section \<open>Own echoes: a queue per group\<close>

text \<open>What \<open>decryptGroupOrRecallOwn\<close> relies on of the pending messages: a first-in first-out queue.\<close>

locale fifo =
  fixes put :: "'x \<Rightarrow> 's \<Rightarrow> 's" and take_one :: "'s \<Rightarrow> 'x option \<times> 's" and items :: "'s \<Rightarrow> 'x list"
  assumes items_put: "items (put x s) = items s @ [x]"
    and take_empty: "items s = [] \<Longrightarrow> fst (take_one s) = None \<and> items (snd (take_one s)) = []"
    and take_items: "items s = x # xs \<Longrightarrow> fst (take_one s) = Some x \<and> items (snd (take_one s)) = xs"
begin

fun take_many :: "nat \<Rightarrow> 's \<Rightarrow> 'x option list \<times> 's" where
  "take_many 0 s = ([], s)"
| "take_many (Suc n) s = (let (x, s1) = take_one s; (xs, s2) = take_many n s1 in (x # xs, s2))"

lemma items_put_all: "items (fold put xs s) = items s @ xs"
  by (induction xs arbitrary: s) (simp_all add: items_put)

lemma take_many_items:
  "fst (take_many n s) = map Some (take n (items s)) @ replicate (n - length (items s)) None"
proof (induction n arbitrary: s)
  case (Suc n)
  obtain y s1 where t: "take_one s = (y, s1)" by (cases "take_one s") auto
  obtain ys s2 where m: "take_many n s1 = (ys, s2)" by (cases "take_many n s1") auto
  have ys: "ys = map Some (take n (items s1)) @ replicate (n - length (items s1)) None"
    using Suc.IH [of s1] m by simp
  show ?case
  proof (cases "items s")
    case Nil
    then show ?thesis using take_empty [OF Nil] t m ys by simp
  next
    case (Cons x xs)
    then show ?thesis using take_items [OF Cons] t m ys by simp
  qed
qed simp

lemma recalled_in_order: "items s = [] \<Longrightarrow> fst (take_many (length xs) (fold put xs s)) = map Some xs"
  by (simp add: take_many_items items_put_all)

end

definition pending_of :: "string \<Rightarrow> ('st, 'w) session \<Rightarrow> string list" where
  "pending_of g s = or_else (al_get (pendingSent s) g) []"

interpretation pend: fifo "notePendingSent g" "takePendingSent g" "pending_of g" for g
  by unfold_locales
    (auto simp: notePendingSent_def takePendingSent_def pending_of_def or_else_def split: option.splits list.splits)

lemma pending_frame:
  "h \<noteq> g \<Longrightarrow> pending_of h (notePendingSent g p s) = pending_of h s"
  "h \<noteq> g \<Longrightarrow> pending_of h (snd (takePendingSent g s)) = pending_of h s"
  by (auto simp: notePendingSent_def takePendingSent_def pending_of_def split: option.splits list.splits)

text \<open>The echoes of a group's own messages, one failed decrypt after the other.\<close>

fun recall_many :: "nat \<Rightarrow> string \<Rightarrow> ('st, 'w) session \<Rightarrow> string option list \<times> ('st, 'w) session" where
  "recall_many 0 g s = ([], s)"
| "recall_many (Suc n) g s = (let (x, s1) = takePendingSent g s; (xs, s2) = recall_many n g s1 in (x # xs, s2))"

lemma recall_many_pend: "recall_many n g s = pend.take_many g n s"
  by (induction n arbitrary: s) (simp_all split: prod.split)

lemma recall_frame: "h \<noteq> g \<Longrightarrow> pending_of h (snd (recall_many n g s)) = pending_of h s"
proof (induction n arbitrary: s)
  case (Suc n)
  obtain x s1 where t: "takePendingSent g s = (x, s1)" by (cases "takePendingSent g s") auto
  have "pending_of h s1 = pending_of h s" using pending_frame(2) [OF Suc.prems, of s] t by simp
  then show ?case using Suc.IH [OF Suc.prems, of s1] t by (simp split: prod.splits) (metis snd_conv)
qed simp

lemma note_all_frame: "h \<noteq> g \<Longrightarrow> pending_of h (fold (notePendingSent g) ps s) = pending_of h s"
  by (induction ps arbitrary: s) (simp_all add: pending_frame)

text \<open>A device recognises its own echoes in the order it sent them: after sending some messages to a group with
  nothing pending, the echoes that come back are recalled as exactly those messages, in that order, and
  no other group's pending messages are touched.\<close>

lemma own_echoes_in_order:
  assumes "pending_of g s = []"
  shows "fst (recall_many (length ps) g (fold (notePendingSent g) ps s)) = map Some ps
    \<and> {h. pending_of h (snd (recall_many (length ps) g (fold (notePendingSent g) ps s))) \<noteq> pending_of h s} \<subseteq> {g}"
proof
  show "fst (recall_many (length ps) g (fold (notePendingSent g) ps s)) = map Some ps"
    unfolding recall_many_pend by (rule pend.recalled_in_order [OF assms])
  show "{h. pending_of h (snd (recall_many (length ps) g (fold (notePendingSent g) ps s))) \<noteq> pending_of h s} \<subseteq> {g}"
  proof
    fix h assume "h \<in> {h. pending_of h (snd (recall_many (length ps) g (fold (notePendingSent g) ps s))) \<noteq> pending_of h s}"
    moreover have "h \<noteq> g \<Longrightarrow> pending_of h (snd (recall_many (length ps) g (fold (notePendingSent g) ps s))) = pending_of h s"
      by (simp add: recall_frame note_all_frame)
    ultimately show "h \<in> {g}" by auto
  qed
qed

lemma own_echoes_in_order_witness:
  "fst (recall_many (length [''hi'', ''there'']) ''c1'' (fold (notePendingSent ''c1'') [''hi'', ''there''] toy_session))
     = map Some [''hi'', ''there'']
   \<and> {h. pending_of h (snd (recall_many (length [''hi'', ''there'']) ''c1'' (fold (notePendingSent ''c1'') [''hi'', ''there''] toy_session)))
        \<noteq> pending_of h toy_session} \<subseteq> {''c1''}"
  by (rule own_echoes_in_order) (simp add: pending_of_def toy_session_def empty_session_def)

section \<open>Encryption\<close>



section \<open>Decryption\<close>

text \<open>A message that outran its commit is never given up at once: when this device knows the group's context and
  decryption reports the message as ahead of its epoch or the group as not held, it has caught up
  with the server's log and tried the message again after that.\<close>

lemma ahead_only_after_catch_up:
  assumes "decryptGroupTyped e u g ciphertextB64 s = (Inl er, s')"
    and "ensureIdentity e u s = (Inr i, s1)" "from_b64 ciphertextB64 = Inr c" "w_message_epoch e c = Inr n"
    and "attempt e g c s1 = (Inr result, s2)" "al_get (groupCtx s2) g = Some ctx"
    and "err_reason er = ''epoch_ahead_unresolved'' \<or> err_reason er = ''not_member''"
  shows "\<exists>result2. attempt e g c (catch_up_for_retry e g ctx s2) = (Inr result2, s') \<and> needs_catch_up (int n) (snd result2)"
proof -
  have r: "(if \<not> isl (fst result) \<or> \<not> needs_catch_up (int n) (snd result) then conclude g (int n) result s2
           else m_bind (attempt e g c) (conclude g (int n)) (catch_up_for_retry e g ctx s2)) = (Inl er, s')"
    using assms(1) unfolding decryptGroupTyped_def
    by (auto simp: m_bind_Inr [where m = "m_try (ensureIdentity e u) (\<lambda>er. m_throw (state_unavailable er))", OF m_try_Inr [where m = "ensureIdentity e u", OF assms(2)]]
        assms(3,4,6) m_bind_Inr [where m = "attempt e g c", OF assms(5)] split: if_split_asm)
  have reason: "needs_catch_up (int n) (snd x)" if "conclude g (int n) x sx = (Inl er, s')" for x sx
    using that assms(7)
    by (auto simp: conclude_def decrypt_failure_def decrypt_reason_def needs_catch_up_def split: sum.splits option.splits if_splits)
  have "isl (fst result) \<and> needs_catch_up (int n) (snd result)"
  proof (rule ccontr)
    assume "\<not> ?thesis"
    then show False using r reason [of result s2] by (auto simp: conclude_def split: sum.splits if_splits)
  qed
  then have m: "m_bind (attempt e g c) (conclude g (int n)) (catch_up_for_retry e g ctx s2) = (Inl er, s')"
    using r by simp
  obtain r2 s3 where a: "attempt e g c (catch_up_for_retry e g ctx s2) = (r2, s3)"
    by (cases "attempt e g c (catch_up_for_retry e g ctx s2)") auto
  show ?thesis
  proof (cases r2)
    case (Inl er2)
    then have "er = er2" using m a by (simp add: m_bind_def)
    moreover have "err_reason er2 = ''state_unavailable''"
      using a Inl by (auto simp: attempt_def m_try_def m_throw_def state_unavailable_def split: prod.splits sum.splits)
    ultimately show ?thesis using assms(7) by simp
  next
    case (Inr result2)
    then have cc: "conclude g (int n) result2 s3 = (Inl er, s')" using m a by (simp add: m_bind_def)
    then have "s3 = s'" by (auto simp: conclude_def split: sum.splits)
    then show ?thesis using a Inr reason [OF cc] by simp
  qed
qed

text \<open>A message of epoch 9 for a group the toy device holds at epoch 3, which its module cannot decrypt.\<close>

definition deaf_env :: "(toy_state, unit) env" where
  "deaf_env = toy_env\<lparr>w_decrypt := \<lambda>st g c. Inl ''no key''\<rparr>"

definition known_session :: "(toy_state, unit) session" where
  "known_session = register_ctx (ChannelCtx ''o'' ''c1'') toy_session"

lemmas deaf_eval = deaf_env_def known_session_def register_ctx_def m_bind_def m_get_def m_await_def m_return_def m_try_def
  m_throw_def ensureIdentity_def bind_account_def Let_def withStateLock_def locked_def currentState_def epochOf_def
  attempt_def tryDecryptLocked_def decrypt_work_def toy_session_def empty_session_def encode_text_def utf8_char_def al_has_def toy_fields

lemma deaf_attempt: "attempt deaf_env ''c1'' [char_of (9::nat)] known_session = (Inr (Inl ''no key'', Some 3), known_session)"
  by (simp add: deaf_eval)

lemma deaf_retry: "catch_up_for_retry deaf_env ''c1'' (ChannelCtx ''o'' ''c1'') known_session = known_session"
  by (simp add: catch_up_for_retry_def catchUpGroup_def catchup_work_def catchup_walk_def try_welcome_def walk_log_def
      sort_commits_def catchup_status_def is_diverged_def server_epoch_def deaf_eval)

lemma ahead_only_after_catch_up_witness:
  "\<exists>result2. attempt deaf_env ''c1'' [char_of (9::nat)] (catch_up_for_retry deaf_env ''c1'' (ChannelCtx ''o'' ''c1'') known_session)
      = (Inr result2, known_session) \<and> needs_catch_up (int 9) (snd result2)"
proof (rule ahead_only_after_catch_up)
  show i: "ensureIdentity deaf_env ''alice'' known_session = (Inr (Some (''alice:d1'', [(''c1'', 3)])), known_session)"
    by (simp add: deaf_eval)
  show b: "from_b64 (toB64 [char_of (9::nat)]) = Inr [char_of (9::nat)]" by simp
  show n: "w_message_epoch deaf_env [char_of (9::nat)] = Inr 9" by (simp add: deaf_env_def toy_fields)
  show a: "attempt deaf_env ''c1'' [char_of (9::nat)] known_session = (Inr (Inl ''no key'', Some 3), known_session)"
    by (rule deaf_attempt)
  show c: "al_get (groupCtx known_session) ''c1'' = Some (ChannelCtx ''o'' ''c1'')" by (simp add: deaf_eval)
  show "decryptGroupTyped deaf_env ''alice'' ''c1'' (toB64 [char_of (9::nat)]) known_session
      = (Inl (decrypt_failure 9 ''no key'' (Some 3)), known_session)"
    by (simp add: decryptGroupTyped_def m_bind_Inr [where m = "m_try (ensureIdentity deaf_env ''alice'') (\<lambda>er. m_throw (state_unavailable er))",
          OF m_try_Inr [where m = "ensureIdentity deaf_env ''alice''", OF i]] n m_bind_Inr [where m = "attempt deaf_env ''c1'' [char_of (9::nat)]", OF a]
        c deaf_retry needs_catch_up_def conclude_def)
  show "err_reason (decrypt_failure 9 ''no key'' (Some 3)) = ''epoch_ahead_unresolved'' \<or>
      err_reason (decrypt_failure 9 ''no key'' (Some 3)) = ''not_member''"
    by (simp add: decrypt_failure_def decrypt_reason_def)
qed

section \<open>The epoch memo and the heal throttle\<close>

text \<open>The memo only holds what the module would answer for the committed state.\<close>

definition memo_ok :: "('st, 'w) env \<Rightarrow> ('st, 'w) session \<Rightarrow> bool" where
  "memo_ok e s \<longleftrightarrow> (case deviceStateCache s of None \<Rightarrow> True
     | Some st \<Rightarrow> fst (epochMemo s) \<noteq> int (stateVersion s) \<or> list_all (\<lambda>(g, ep). ep = epoch_now e st g) (snd (epochMemo s)))
     \<and> fst (epochMemo s) \<le> int (stateVersion s)"

lemma schedule_memo [simp]: "epochMemo (schedulePersist x) = epochMemo x"
  by (simp add: schedulePersist_def writer_turn_def split: option.split)

lemma memo_get: "list_all (\<lambda>(g, ep). ep = f g) m \<Longrightarrow> al_get m g = Some ep \<Longrightarrow> ep = f g"
  by (auto simp: list_all_iff dest!: al_get_in_set)

lemma memo_set: "list_all (\<lambda>(g, ep). ep = f g) m \<Longrightarrow> list_all (\<lambda>(g, ep). ep = f g) (al_set g (f g) m)"
  by (auto simp: list_all_iff dest!: set_al_set)

text \<open>The cached epoch is never stale: whatever lookups, commits and account resets came before, the local epoch
  reported for a group is the one the committed device state holds now.\<close>

lemma epoch_memo_coherent:
  assumes "memo_ok e s" "deviceStateCache s = Some st"
  shows "fst (groupEpoch e g s) = epoch_now e st g \<and> memo_ok e (snd (groupEpoch e g s))
    \<and> memo_ok e (snd (commitState st' s)) \<and> memo_ok e (resetForUser u s)"
proof -
  define memo where "memo = (if fst (epochMemo s) \<noteq> int (stateVersion s) then [] else snd (epochMemo s))"
  have m: "list_all (\<lambda>(g, ep). ep = epoch_now e st g) memo"
    using assms by (auto simp: memo_ok_def memo_def)
  have "fst (groupEpoch e g s) = epoch_now e st g \<and> memo_ok e (snd (groupEpoch e g s))"
  proof (cases "al_get memo g")
    case None
    then show ?thesis using assms m memo_set [OF m]
      by (auto simp: groupEpoch_def Let_def memo_def [symmetric] memo_ok_def)
  next
    case (Some ep)
    then show ?thesis using assms m memo_get [OF m Some]
      by (auto simp: groupEpoch_def Let_def memo_def [symmetric] memo_ok_def)
  qed
  moreover have "memo_ok e (snd (commitState st' s))"
    using assms by (auto simp: commitState_def memo_ok_def Let_def)
  moreover have "memo_ok e (resetForUser u s)" by (simp add: memo_ok_def resetForUser_def)
  ultimately show ?thesis by blast
qed

lemma epoch_memo_coherent_witness:
  "fst (groupEpoch toy_env ''c1'' toy_session) = epoch_now toy_env (''alice:d1'', [(''c1'', 3)]) ''c1''
   \<and> memo_ok toy_env (snd (groupEpoch toy_env ''c1'' toy_session))
   \<and> memo_ok toy_env (snd (commitState (''alice:d1'', []) toy_session)) \<and> memo_ok toy_env (resetForUser None toy_session)"
  by (rule epoch_memo_coherent) (simp_all add: memo_ok_def toy_session_def empty_session_def)

text \<open>How many heals of a group are scheduled.\<close>

definition heals_of :: "string \<Rightarrow> ('st, 'w) session \<Rightarrow> nat" where
  "heals_of g s = length (filter (\<lambda>t. case t of HealTimer u ctx gen why \<Rightarrow> ctx_group ctx = g | _ \<Rightarrow> False) (timers s))"

text \<open>Any number of reasons to heal a group, one after the other.\<close>

definition heal_requests :: "('st, 'w) env \<Rightarrow> string \<Rightarrow> string list \<Rightarrow> ('st, 'w) session \<Rightarrow> ('st, 'w) session" where
  "heal_requests e g whys s = fold (scheduleHeal e g) whys s"

lemma schedule_once:
  assumes "e_now e = (\<lambda>s. t)" "al_get (lastHealAt s) g = Some l" "t - l < HEAL_MIN_INTERVAL_MS"
  shows "scheduleHeal e g why s = s"
  using assms by (simp add: scheduleHeal_def split: option.split)

lemma schedule_settles:
  assumes "e_now e = (\<lambda>s. t)"
  shows "scheduleHeal e g w (scheduleHeal e g why s) = scheduleHeal e g why s"
proof (cases "al_get (groupCtx s) g = None \<or> \<not> truthy (boundUserId s)
    \<or> t - or_else (al_get (lastHealAt s) g) 0 < HEAL_MIN_INTERVAL_MS")
  case True
  then have "scheduleHeal e g v s = s" for v
    using assms by (auto simp: scheduleHeal_def split: option.split)
  then show ?thesis by simp
next
  case False
  then have "al_get (lastHealAt (scheduleHeal e g why s)) g = Some t"
    using assms by (auto simp: scheduleHeal_def split: option.split)
  then show ?thesis by (rule schedule_once [where l = t, OF assms]) (simp add: HEAL_MIN_INTERVAL_MS_def)
qed

text \<open>Failures do not storm the server: however many reasons to heal a group come up within one heal interval,
  at most one background heal of it is scheduled.\<close>

lemma one_heal_per_interval:
  assumes "e_now e = (\<lambda>s. t)"
  shows "heals_of g (heal_requests e g whys s) \<le> heals_of g s + 1"
proof (cases whys)
  case (Cons why rest)
  have rest: "fold (scheduleHeal e g) rest s1 = s1"
    if "\<And>w. scheduleHeal e g w s1 = s1" for s1 using that by (induction rest) simp_all
  have one: "heals_of g (scheduleHeal e g why s) \<le> heals_of g s + 1"
    by (auto simp: scheduleHeal_def heals_of_def split: option.splits)
  have "scheduleHeal e g w (scheduleHeal e g why s) = scheduleHeal e g why s" for w
    by (rule schedule_settles [OF assms])
  then show ?thesis using one rest [of "scheduleHeal e g why s"] Cons by (simp add: heal_requests_def)
qed (simp add: heal_requests_def)

lemma one_heal_per_interval_witness:
  "heals_of ''c1'' (heal_requests toy_env ''c1'' [''a'', ''b'', ''c''] known_session) \<le> heals_of ''c1'' known_session + 1"
  by (rule one_heal_per_interval [where t = 0]) (simp_all add: deaf_eval)

section \<open>A wedge of the identity code\<close>

text \<open>
  The state the other code of the page leaves while an initialisation for a fresh device waits for the lock: the account
  was switched and the next account's identity is loaded.
\<close>

definition switched_to :: "string \<Rightarrow> 'st \<Rightarrow> ('st, 'w) session \<Rightarrow> bool" where
  "switched_to u st s \<longleftrightarrow> boundUserId s = Some u \<and> deviceStateCache s = Some st
     \<and> identityPromise s = Some (IdentResolved (Some st)) \<and> ownCredential s \<noteq> None"

text \<open>An initialisation that waited for the lock across an account switch wedges the next account: its error path
  forgets the device state that account had loaded, and because that account's identity promise is
  already resolved, every later call for it succeeds at \<open>ensureIdentity\<close> without loading anything and
  then fails at the state itself, until the account is switched or the page is reloaded.\<close>

lemma stale_init_wedges_next_account:
  assumes "register_attempts 1 e a s = (Inr (fresh, cred), s0)" "gen = sessionGen s0"
    and "e_others e s0 = s1" "sessionGen s1 \<noteq> gen" "e_others e s1 = s1" "switched_to b st s1" "b \<noteq> []"
  shows "create_identity e a gen s = (Inl accountSwitched, s1\<lparr>deviceStateCache := None\<rparr>)
    \<and> ensureIdentity e b (s1\<lparr>deviceStateCache := None\<rparr>) = (Inr (Some st), s1\<lparr>deviceStateCache := None\<rparr>)
    \<and> currentState (s1\<lparr>deviceStateCache := None\<rparr>) = Inl accountSwitched"
proof -
  have "withStateLock e (commitDurableLocked e fresh) s0 = (Inl accountSwitched, s1)"
    using assms by (auto simp: withStateLock_def locked_def Let_def)
  then show ?thesis using assms
    by (auto simp: create_identity_def m_bind_def ensureIdentity_def bind_account_def switched_to_def currentState_def Let_def)
qed

definition bob_session :: "(toy_state, unit) session" where
  "bob_session = (empty_session True ())\<lparr>sessionGen := 1, boundUserId := Some ''bob'', deviceStateCache := Some (''bob:d2'', []),
     stateVersion := 1, ownCredential := Some ''bob:d2'', identityPromise := Some (IdentResolved (Some (''bob:d2'', [])))\<rparr>"

definition switching_env :: "(toy_state, unit) env" where
  "switching_env = toy_env\<lparr>e_others := \<lambda>s. bob_session\<rparr>"

lemma stale_init_wedges_next_account_witness:
  "create_identity switching_env ''alice'' 0 (empty_session True ()) = (Inl accountSwitched, bob_session\<lparr>deviceStateCache := None\<rparr>)
    \<and> ensureIdentity switching_env ''bob'' (bob_session\<lparr>deviceStateCache := None\<rparr>)
        = (Inr (Some (''bob:d2'', [])), bob_session\<lparr>deviceStateCache := None\<rparr>)
    \<and> currentState (bob_session\<lparr>deviceStateCache := None\<rparr>) = Inl accountSwitched"
proof (rule stale_init_wedges_next_account)
  show "register_attempts 1 switching_env ''alice'' (empty_session True ())
    = (Inr ((''alice:d1'', []), ''alice:d1''), (empty_session True ())\<lparr>localStore := [(''specter_mls_device_id:alice'', ''d1'')]\<rparr>)"
    by (simp add: register_attempts.simps getOrCreateDeviceId_def empty_session_def Let_def deviceIdKey_def credentialFor_def
        registerDevice_def m_bind_def m_get_def m_await_def switching_env_def toy_defs)
qed (simp_all add: switching_env_def bob_session_def switched_to_def empty_session_def)

end
