(* ===== verification/Chat_Engine.thy ===== *)
theory Chat_Engine
  imports Message_Store
begin

text \<open>
  The delivery engine of \<open>web-portal/src/engine/useChannelChat.js\<close>: live relays, retries of
  unreadable rows, asking peers for what is missing, answering them, merging their answers,
  and the send of the open channel.

  The three promise chains of the module (\<open>decryptChain\<close>, \<open>answerChain\<close>, \<open>startupChain\<close>)
  are queues of jobs in the engine's state; a handler is a function on the state that
  queues its job, and \<open>run_decrypt\<close>, \<open>run_answer\<close> and \<open>run_startup\<close> run the oldest one.
  A job awaits decryption, encryption and the server's routes: these are arguments that
  give their answer and the engine's state when the job resumes, so whatever other code did
  meanwhile (an account switch included) is covered.  Store calls are one turn.
\<close>

section \<open>State\<close>

record chat_user =
  cu_id :: string
  cu_callsign :: "string option"
  cu_global_tag :: "string option"

text \<open>A peer's answer: a bundle (one ciphertext), or the legacy batch of original ciphertexts.\<close>

record sync_response =
  sy_channel_id :: "string option"
  sy_conversation_id :: "string option"
  sy_org_id :: "string option"
  sy_relayed_by :: "string option"
  sy_bundle :: "string option"
  sy_messages :: "chan_row list"

record sync_request =
  rq_org_id :: "string option"
  rq_requester_id :: "string option"
  rq_channel_id :: "string option"
  rq_conversation_id :: "string option"
  rq_since :: "string option"
  rq_channels :: "(string \<times> string option) list"

datatype kind = Channel_kind | Dm_kind

text \<open>The work queued on the decrypt chain; every job carries the account it was queued for.\<close>

datatype decrypt_job =
    RelayJob string relay
  | DmRelayJob string relay_msg
  | RetryJob string kind string nat
  | BundleJob string string bool sync_response
  | DmBundleJob string string string bool sync_response
  | LegacyJob string string sync_response

datatype answer_job =
    AnswerOrg string string string "(string \<times> string option) list"
  | AnswerDm string string string "string option"

text \<open>Promises started and not awaited, and requests of the running code to other parts.\<close>

datatype background =
    CatchUp string "string list"
  | CatchUpOrg string
  | DmCatchUp string
  | LegacyAnswer string string string "chan_row list"

record 'w engine =
  eng_user :: "chat_user option"
  ownSentIds :: "string list"
  channelOrg :: "(string, string) jsmap"
  orgPhase :: "(string, bool) jsmap"
  chatListeners :: "(string, nat list) jsmap"
  failedBundles :: "(string, sync_response list) jsmap"
  recentAnswers :: "(string, int) jsmap"
  followUps :: "(string, int) jsmap"
  retrying :: "(string, nat) jsmap"
  retryAgain :: "nat list"
  nextRetry :: nat
  decryptChain :: "decrypt_job list"
  answerChain :: "answer_job list"
  startupChain :: "(string \<times> string) list"
  started :: "background list"
  history_store :: store_state
  notified :: "string list"
  page :: 'w

text \<open>
  What the engine calls: decryption and encryption (\<open>mlsSession.js\<close>; \<^const>\<open>Inl\<close> the failure
  reason), the routes, the clock and the browser's collation.  \<open>x_legacy\<close> is what the
  operating system answers when the store opens.
\<close>

record 'w chat_env =
  x_decrypt :: "kind \<Rightarrow> string \<Rightarrow> string \<Rightarrow> string option \<Rightarrow> bool \<Rightarrow> 'w engine \<Rightarrow> (string + string) \<times> 'w engine"
  x_encrypt :: "kind \<Rightarrow> string \<Rightarrow> string \<Rightarrow> string \<Rightarrow> 'w engine \<Rightarrow> string option \<times> 'w engine"
  x_groupEpoch :: "'w engine \<Rightarrow> string \<Rightarrow> nat option"
  x_ensure :: "string option \<Rightarrow> string \<Rightarrow> string \<Rightarrow> 'w engine \<Rightarrow> bool \<times> 'w engine"
  x_notePendingSent :: "string \<Rightarrow> string \<Rightarrow> 'w engine \<Rightarrow> 'w engine"
  x_heal :: "string \<Rightarrow> string \<Rightarrow> bool \<Rightarrow> 'w engine \<Rightarrow> (string + nat \<times> (string \<times> string) list \<times> nat) \<times> 'w engine"
  x_channels :: "string \<Rightarrow> 'w engine \<Rightarrow> string list option \<times> 'w engine"
  x_requestOrgSync :: "string \<Rightarrow> (string \<times> string option) list \<Rightarrow> 'w engine \<Rightarrow> 'w engine"
  x_requestDmSync :: "string \<Rightarrow> string option \<Rightarrow> 'w engine \<Rightarrow> 'w engine"
  x_respondOrgSync :: "string \<Rightarrow> string \<Rightarrow> string \<Rightarrow> string \<Rightarrow> nat \<Rightarrow> 'w engine \<Rightarrow> bool \<times> 'w engine"
  x_respondDm :: "string \<Rightarrow> string \<Rightarrow> nat \<Rightarrow> 'w engine \<Rightarrow> bool \<times> 'w engine"
  x_sendMessage :: "string \<Rightarrow> string \<Rightarrow> string \<Rightarrow> 'w engine \<Rightarrow> (string + string \<times> string) \<times> 'w engine"
  x_now :: "'w engine \<Rightarrow> int"
  x_nowIso :: "'w engine \<Rightarrow> string"
  x_legacy :: "'w engine \<Rightarrow> string option \<times> bool"
  x_lc :: collation
  x_dates :: date_lib

definition STORE_WINDOW :: nat where "STORE_WINDOW = 500"
definition ANSWER_DEDUPE_MS :: int where "ANSWER_DEDUPE_MS = 10000"
definition FOLLOW_UP_MIN_MS :: int where "FOLLOW_UP_MIN_MS = 30000"
definition MAX_FAILED_BUNDLES :: nat where "MAX_FAILED_BUNDLES = 5"

definition userId :: "'w engine \<Rightarrow> string option" where
  "userId s = Option.bind (eng_user s) (\<lambda>u. str_or_null (Some (cu_id u)))"

definition notifyChannel :: "string \<Rightarrow> 'w engine \<Rightarrow> 'w engine" where
  "notifyChannel chan s = s\<lparr>notified := notified s @ (if or_else (al_get (chatListeners s) chan) [] = [] then [] else [chan])\<rparr>"

definition subscribeChannel :: "string \<Rightarrow> nat \<Rightarrow> 'w engine \<Rightarrow> 'w engine" where
  "subscribeChannel chan cb s = (let cbs = or_else (al_get (chatListeners s) chan) [] in
     s\<lparr>chatListeners := al_set chan (if cb \<in> set cbs then cbs else cbs @ [cb]) (chatListeners s)\<rparr>)"

definition unsubscribeChannel :: "string \<Rightarrow> nat \<Rightarrow> 'w engine \<Rightarrow> 'w engine" where
  "unsubscribeChannel chan cb s = (case al_get (chatListeners s) chan of None \<Rightarrow> s
     | Some cbs \<Rightarrow> s\<lparr>chatListeners := al_set chan (filter (\<lambda>c. c \<noteq> cb) cbs) (chatListeners s)\<rparr>)"

definition resetEngine :: "chat_user option \<Rightarrow> 'w engine \<Rightarrow> 'w engine" where
  "resetEngine user s = s\<lparr>eng_user := user, ownSentIds := [], channelOrg := [], orgPhase := [], failedBundles := [],
     recentAnswers := [], followUps := [], retrying := []\<rparr>"

section \<open>The store behind the engine\<close>

text \<open>Every store call opens the current account's database; without one it fails, which the engine treats as
  nothing read or written.\<close>

definition with_store :: "'w chat_env \<Rightarrow> 'a \<Rightarrow> (message_db \<Rightarrow> message_db \<times> 'a) \<Rightarrow> 'w engine \<Rightarrow> 'a \<times> 'w engine" where
  "with_store e failed f s =
    (case openDb (x_nowIso e s) (fst (x_legacy e s)) (snd (x_legacy e s)) (history_store s) of
       Inl _ \<Rightarrow> (failed, s)
     | Inr (u, st) \<Rightarrow> (case f (db_of u st) of (db, r) \<Rightarrow> (r, s\<lparr>history_store := set_db u db st\<rparr>)))"

definition save_row :: "'w chat_env \<Rightarrow> chan_row \<Rightarrow> 'w engine \<Rightarrow> chan_row option \<times> 'w engine" where
  "save_row e r s = with_store e None (\<lambda>db. saveChannelMessage (x_nowIso e s) db r) s"

definition save_rows :: "'w chat_env \<Rightarrow> string \<Rightarrow> chan_row list \<Rightarrow> 'w engine \<Rightarrow> chan_row list \<times> 'w engine" where
  "save_rows e chan rs s = with_store e [] (\<lambda>db. saveChannelMessages (x_nowIso e s) db chan rs) s"

definition save_dm :: "'w chat_env \<Rightarrow> dm_row \<Rightarrow> 'w engine \<Rightarrow> dm_row option \<times> 'w engine" where
  "save_dm e r s = with_store e None (\<lambda>db. saveDmMessage (x_nowIso e s) db r) s"

definition save_dms :: "'w chat_env \<Rightarrow> string \<Rightarrow> dm_row list \<Rightarrow> 'w engine \<Rightarrow> dm_row list \<times> 'w engine" where
  "save_dms e conv rs s = with_store e [] (\<lambda>db. saveDmMessages (x_nowIso e s) db conv rs) s"

definition read_rows :: "'w chat_env \<Rightarrow> string \<Rightarrow> nat \<Rightarrow> 'w engine \<Rightarrow> chan_row list \<times> 'w engine" where
  "read_rows e chan n s = with_store e [] (\<lambda>db. (db, getChannelMessages (x_lc e) db chan n)) s"

definition read_dms :: "'w chat_env \<Rightarrow> string \<Rightarrow> nat \<Rightarrow> 'w engine \<Rightarrow> dm_row list \<times> 'w engine" where
  "read_dms e conv n s = with_store e [] (\<lambda>db. (db, getDmMessages (x_lc e) db conv n)) s"

section \<open>Live relays\<close>

definition handleRelay :: "relay \<Rightarrow> 'w engine \<Rightarrow> 'w engine" where
  "handleRelay p s = (case (isChannelRelay p, userId s) of
       (True, Some me) \<Rightarrow>
         (let s1 = (if truthy (rl_org_id p) then s\<lparr>channelOrg := al_set (or_else (rl_channel_id p) []) (or_else (rl_org_id p) []) (channelOrg s)\<rparr> else s)
          in s1\<lparr>decryptChain := decryptChain s1 @ [RelayJob me p]\<rparr>)
     | _ \<Rightarrow> s)"

definition plain_of :: "string + string \<Rightarrow> string option" where
  "plain_of r = (case r of Inl _ \<Rightarrow> None | Inr t \<Rightarrow> Some t)"

definition reason_of :: "string + string \<Rightarrow> string option" where
  "reason_of r = (case r of Inl why \<Rightarrow> Some why | Inr _ \<Rightarrow> None)"

definition relay_row :: "relay \<Rightarrow> string + string \<Rightarrow> chan_row" where
  "relay_row p r = \<lparr>row_id = or_else (rl_id p) [], sender_id = rl_sender_id p, callsign = rl_callsign p,
     encrypted_content = rl_encrypted_content p, plaintext = plain_of r, timestamp = rl_timestamp p, received_at = None,
     pending = False, fail_reason = reason_of r, attempts = Some (if plain_of r = None then 1 else 0), relayed_by = None,
     channel_id = rl_channel_id p, global_tag = rl_global_tag p, image_url = rl_image_url p\<rparr>"

definition run_relay :: "'w chat_env \<Rightarrow> string \<Rightarrow> relay \<Rightarrow> 'w engine \<Rightarrow> 'w engine" where
  "run_relay e me p s =
    (if userId s \<noteq> Some me then s
     else (let own = (rl_sender_id p = Some me); chan = or_else (rl_channel_id p) [] in
       case x_decrypt e Channel_kind me chan (rl_encrypted_content p) own s of (r, s1) \<Rightarrow>
         (if own \<and> or_else (rl_id p) [] \<in> set (ownSentIds s1) then s1
          else (case save_row e (relay_row p r) s1 of
              (None, s2) \<Rightarrow> s2 | (Some _, s2) \<Rightarrow> notifyChannel chan s2))))"

section \<open>Retries\<close>

definition dmPartnerOf :: "string option \<Rightarrow> 'w engine \<Rightarrow> string option" where
  "dmPartnerOf conv s = (case (userId s, conv) of
       (Some me, Some c) \<Rightarrow>
         (if length c \<noteq> length me * 2 + 1 then None
          else (let other = (if take (length me + 1) c = me @ ''-'' then Some (drop (length me + 1) c)
                  else if drop (length c - (length me + 1)) c = ''-'' @ me then Some (take (length c - length me - 1) c)
                  else None) in
            case other of Some p \<Rightarrow> if p \<noteq> [] \<and> dmConversationId me p = c then Some p else None | None \<Rightarrow> None))
     | _ \<Rightarrow> None)"

definition kind_key :: "kind \<Rightarrow> string \<Rightarrow> string" where
  "kind_key k i = (case k of Channel_kind \<Rightarrow> ''channel:'' | Dm_kind \<Rightarrow> ''dm:'') @ i"

text \<open>A retry of a conversation that is already under way only asks for one more pass.\<close>

definition retryPending :: "kind \<Rightarrow> string \<Rightarrow> 'w engine \<Rightarrow> 'w engine" where
  "retryPending k i s = (case userId s of None \<Rightarrow> s
     | Some me \<Rightarrow> (if i = [] then s
         else (case al_get (retrying s) (kind_key k i) of
             Some n \<Rightarrow> s\<lparr>retryAgain := n # retryAgain s\<rparr>
           | None \<Rightarrow> s\<lparr>retrying := al_set (kind_key k i) (nextRetry s) (retrying s), nextRetry := nextRetry s + 1,
               decryptChain := decryptChain s @ [RetryJob me k i (nextRetry s)]\<rparr>)))"

definition retryPendingChannel :: "string \<Rightarrow> 'w engine \<Rightarrow> 'w engine" where
  "retryPendingChannel chan s = retryPending Channel_kind chan s"

text \<open>What a retry writes for one row: the text, or one more failed attempt.\<close>

definition retried :: "'a row_scheme \<Rightarrow> string + string \<Rightarrow> 'a row_scheme" where
  "retried r res = (case res of Inr t \<Rightarrow> r\<lparr>plaintext := Some t\<rparr>
     | Inl why \<Rightarrow> r\<lparr>fail_reason := Some why, attempts := Some (or_else (attempts r) 0 + 1)\<rparr>)"

text \<open>The rows of the pass, oldest first: \<^const>\<open>None\<close> when the account switched and the pass stops at once.\<close>

fun retry_rows :: "'w chat_env \<Rightarrow> (string option \<Rightarrow> 'w engine \<Rightarrow> (string + string) \<times> 'w engine)
    \<Rightarrow> ('a row_scheme \<Rightarrow> 'w engine \<Rightarrow> 'a row_scheme option \<times> 'w engine) \<Rightarrow> string \<Rightarrow> 'a row_scheme list \<Rightarrow> bool
    \<Rightarrow> 'w engine \<Rightarrow> bool option \<times> 'w engine" where
  "retry_rows e dec save me [] changed s = (Some changed, s)"
| "retry_rows e dec save me (r # rs) changed s =
    (if userId s \<noteq> Some me then (None, s)
     else (case dec (encrypted_content r) s of (res, s1) \<Rightarrow>
       (case save (retried r res) s1 of (w, s2) \<Rightarrow> retry_rows e dec save me rs (changed \<or> w \<noteq> None) s2)))"

definition follow_up_due :: "'w chat_env \<Rightarrow> string \<Rightarrow> 'w engine \<Rightarrow> bool" where
  "follow_up_due e i s \<longleftrightarrow> \<not> x_now e s - or_else (al_get (followUps s) i) 0 < FOLLOW_UP_MIN_MS"

definition followUpCatchUp :: "'w chat_env \<Rightarrow> string \<Rightarrow> 'w engine \<Rightarrow> 'w engine" where
  "followUpCatchUp e chan s = (case al_get (channelOrg s) chan of None \<Rightarrow> s
     | Some org \<Rightarrow> (if org = [] \<or> al_get (orgPhase s) org \<noteq> Some True \<or> \<not> follow_up_due e chan s then s
         else s\<lparr>followUps := al_set chan (x_now e s) (followUps s), started := started s @ [CatchUp org [chan]]\<rparr>))"

definition followUpDmCatchUp :: "'w chat_env \<Rightarrow> string \<Rightarrow> 'w engine \<Rightarrow> 'w engine" where
  "followUpDmCatchUp e conv s = (case dmPartnerOf (Some conv) s of None \<Rightarrow> s
     | Some partner \<Rightarrow> (if \<not> follow_up_due e conv s then s
         else s\<lparr>followUps := al_set conv (x_now e s) (followUps s), started := started s @ [DmCatchUp partner]\<rparr>))"

text \<open>One pass over a conversation; \<open>read\<close>, \<open>dec\<close>, \<open>save\<close> and \<open>follow\<close> are the row of the \<open>KIND\<close> table.\<close>

definition retry_pass :: "'w chat_env \<Rightarrow> (nat \<Rightarrow> 'w engine \<Rightarrow> 'a row_scheme list \<times> 'w engine)
    \<Rightarrow> (string option \<Rightarrow> 'w engine \<Rightarrow> (string + string) \<times> 'w engine)
    \<Rightarrow> ('a row_scheme \<Rightarrow> 'w engine \<Rightarrow> 'a row_scheme option \<times> 'w engine)
    \<Rightarrow> ('w engine \<Rightarrow> 'w engine) \<Rightarrow> string \<Rightarrow> string \<Rightarrow> 'w engine \<Rightarrow> 'w engine" where
  "retry_pass e read dec save follow me i s =
    (case read STORE_WINDOW s of (rows, s1) \<Rightarrow>
     (case retry_rows e dec save me (pickRetryRows (x_lc e) MAX_DECRYPT_ATTEMPTS rows) False s1 of
        (None, s2) \<Rightarrow> s2
      | (Some changed, s2) \<Rightarrow>
         (let s3 = (if changed then notifyChannel i s2 else s2) in
          case read STORE_WINDOW s3 of (rows', s4) \<Rightarrow>
            (if list_ex (\<lambda>r. \<not> isReadable (Some r)) rows' then follow s4 else s4))))"

definition retry_kind :: "'w chat_env \<Rightarrow> string \<Rightarrow> kind \<Rightarrow> string \<Rightarrow> 'w engine \<Rightarrow> 'w engine" where
  "retry_kind e me k i = (case k of
      Channel_kind \<Rightarrow> retry_pass e (read_rows e i) (\<lambda>ct. x_decrypt e Channel_kind me i ct False) (save_row e) (followUpCatchUp e i) me i
    | Dm_kind \<Rightarrow> retry_pass e (read_dms e i) (\<lambda>ct. x_decrypt e Dm_kind me i ct False) (save_dm e) (followUpDmCatchUp e i) me i)"

text \<open>The \<open>finally\<close> of a retry: its entry goes, and a change that came meanwhile starts one more pass.\<close>

definition retry_finally :: "string \<Rightarrow> kind \<Rightarrow> string \<Rightarrow> nat \<Rightarrow> 'w engine \<Rightarrow> 'w engine" where
  "retry_finally me k i n s =
    (let s1 = (if al_get (retrying s) (kind_key k i) = Some n then s\<lparr>retrying := al_del (kind_key k i) (retrying s)\<rparr> else s)
     in if n \<in> set (retryAgain s1) \<and> userId s1 = Some me then retryPending k i s1 else s1)"

definition run_retry :: "'w chat_env \<Rightarrow> string \<Rightarrow> kind \<Rightarrow> string \<Rightarrow> nat \<Rightarrow> 'w engine \<Rightarrow> 'w engine" where
  "run_retry e me k i n s = retry_finally me k i n (retry_kind e me k i s)"

section \<open>Asking peers\<close>

fun since_list :: "'w chat_env \<Rightarrow> string \<Rightarrow> string list \<Rightarrow> 'w engine \<Rightarrow> (string \<times> string option) list \<times> 'w engine" where
  "since_list e org [] s = ([], s)"
| "since_list e org (c # cs) s =
    (case read_rows e c STORE_WINDOW (s\<lparr>channelOrg := al_set c org (channelOrg s)\<rparr>) of (rows, s1) \<Rightarrow>
     (case since_list e org cs s1 of (rest, s2) \<Rightarrow> ((c, computeSyncSince (x_lc e) (x_dates e) rows) # rest, s2)))"

text \<open>The request goes out in batches of 500 channels.\<close>

fun batches :: "nat \<Rightarrow> 'a list \<Rightarrow> 'a list list" where
  "batches 0 xs = []"
| "batches (Suc fuel) xs = (if xs = [] then [] else take 500 xs # batches fuel (drop 500 xs))"

definition request_batches :: "'w chat_env \<Rightarrow> string \<Rightarrow> (string \<times> string option) list \<Rightarrow> 'w engine \<Rightarrow> 'w engine" where
  "request_batches e org channels s = fold (x_requestOrgSync e org) (batches (length channels) channels) s"

definition requestCatchUp :: "'w chat_env \<Rightarrow> string \<Rightarrow> string list \<Rightarrow> 'w engine \<Rightarrow> 'w engine" where
  "requestCatchUp e org chans s =
    (if org = [] \<or> chans = [] \<or> userId s = None then s
     else (case since_list e org chans s of (channels, s1) \<Rightarrow> request_batches e org channels s1))"

definition orgChannelIds :: "'w chat_env \<Rightarrow> string \<Rightarrow> 'w engine \<Rightarrow> string list option \<times> 'w engine" where
  "orgChannelIds e org s = (case x_channels e org s of
      (None, s1) \<Rightarrow> (None, s1) | (Some ids, s1) \<Rightarrow> (Some (filter (\<lambda>i. i \<noteq> []) ids), s1))"

definition catchUpOrg :: "'w chat_env \<Rightarrow> string \<Rightarrow> 'w engine \<Rightarrow> 'w engine" where
  "catchUpOrg e org s = (case orgChannelIds e org s of (None, s1) \<Rightarrow> s1 | (Some ids, s1) \<Rightarrow> requestCatchUp e org ids s1)"

definition requestDmCatchUp :: "'w chat_env \<Rightarrow> string \<Rightarrow> 'w engine \<Rightarrow> 'w engine" where
  "requestDmCatchUp e partner s = (case userId s of None \<Rightarrow> s
     | Some me \<Rightarrow> (if partner = [] then s
         else (case read_dms e (dmConversationId me partner) STORE_WINDOW s of (rows, s1) \<Rightarrow>
            x_requestDmSync e partner (computeSyncSince (x_lc e) (x_dates e) rows) s1)))"

text \<open>Start of the engine, or a joined server: each server not seen yet is queued once.\<close>

definition startOrgSync :: "string list \<Rightarrow> 'w engine \<Rightarrow> 'w engine" where
  "startOrgSync orgs s = (case userId s of None \<Rightarrow> s
     | Some me \<Rightarrow> fold (\<lambda>org s. if org = [] \<or> al_has (orgPhase s) org then s
         else s\<lparr>orgPhase := al_set org False (orgPhase s), startupChain := startupChain s @ [(me, org)]\<rparr>) orgs s)"

text \<open>A server's startup up to its retries, and, once those have run, its catch-up.\<close>

definition startup_begin :: "'w chat_env \<Rightarrow> string \<Rightarrow> string \<Rightarrow> 'w engine \<Rightarrow> string list \<times> 'w engine" where
  "startup_begin e me org s =
    (case orgChannelIds e org s of (found, s1) \<Rightarrow>
      (let ids = or_else found [];
           s2 = s1\<lparr>channelOrg := fold (\<lambda>i m. al_set i org m) ids (channelOrg s1)\<rparr> in
       case x_heal e me org False s2 of (_, s3) \<Rightarrow> (ids, s3)))"

definition startup_end :: "'w chat_env \<Rightarrow> string \<Rightarrow> string \<Rightarrow> string list \<Rightarrow> 'w engine \<Rightarrow> 'w engine" where
  "startup_end e me org ids s =
    (if userId s \<noteq> Some me then s
     else (let s1 = s\<lparr>orgPhase := al_set org True (orgPhase s)\<rparr> in
       if ids \<noteq> [] then requestCatchUp e org ids s1 else catchUpOrg e org s1))"

definition catchUpReadyOrgs :: "'w engine \<Rightarrow> 'w engine" where
  "catchUpReadyOrgs s = s\<lparr>started := started s @ map (\<lambda>p. CatchUpOrg (fst p)) (filter snd (orgPhase s))\<rparr>"

definition forgetOrgs :: "string list \<Rightarrow> 'w engine \<Rightarrow> 'w engine" where
  "forgetOrgs keep s = s\<lparr>orgPhase := filter (\<lambda>p. fst p \<in> set keep) (orgPhase s)\<rparr>"

record resync_result =
  rr_healed :: nat
  rr_failed :: nat
  rr_checked :: nat
  rr_failures :: "(string \<times> string) list"
  rr_ok :: bool
  rr_message :: string

definition resyncOrgEncryption :: "'w chat_env \<Rightarrow> string \<Rightarrow> 'w engine \<Rightarrow> (string + resync_result) \<times> 'w engine" where
  "resyncOrgEncryption e org s = (case userId s of None \<Rightarrow> (Inl ''Not logged in'', s)
     | Some me \<Rightarrow> (if org = [] then (Inl ''No server selected'', s)
         else (case x_heal e me org True s of
             (Inl err, s1) \<Rightarrow> (Inl err, s1)
           | (Inr (healed, failures, checked), s1) \<Rightarrow>
              (let (ok, message) = describeHealResult healed (length failures) checked in
               (Inr \<lparr>rr_healed = healed, rr_failed = length failures, rr_checked = checked, rr_failures = take 5 failures,
                  rr_ok = ok, rr_message = message\<rparr>,
                s1\<lparr>orgPhase := al_set org True (orgPhase s1), started := started s1 @ [CatchUpOrg org]\<rparr>)))))"

section \<open>Answering peers\<close>

definition opt_text :: "string option \<Rightarrow> string" where
  "opt_text t = or_else t []"

definition answer_key :: "string \<Rightarrow> string \<Rightarrow> string option \<Rightarrow> string" where
  "answer_key requester chan since = requester @ ''|'' @ chan @ ''|'' @ opt_text since"

text \<open>The channels of a request this device answers: it holds their group and has not just answered the same.\<close>

fun claim_answers :: "'w chat_env \<Rightarrow> 'w engine \<Rightarrow> int \<Rightarrow> string \<Rightarrow> (string \<times> string option) list \<Rightarrow> (string, int) jsmap
    \<Rightarrow> (string \<times> string option) list \<times> (string, int) jsmap" where
  "claim_answers e s now requester [] recent = ([], recent)"
| "claim_answers e s now requester ((chan, since) # cs) recent =
    (if chan = [] \<or> x_groupEpoch e s chan = None \<or> al_has recent (answer_key requester chan since)
     then claim_answers e s now requester cs recent
     else (case claim_answers e s now requester cs (al_set (answer_key requester chan since) now recent) of
         (todo, recent') \<Rightarrow> ((chan, since) # todo, recent')))"

definition handleOrgSyncRequest :: "'w chat_env \<Rightarrow> sync_request \<Rightarrow> 'w engine \<Rightarrow> 'w engine" where
  "handleOrgSyncRequest e rq s = (case userId s of None \<Rightarrow> s
     | Some me \<Rightarrow> (if \<not> truthy (rq_org_id rq) \<or> \<not> truthy (rq_requester_id rq) \<or> rq_requester_id rq = Some me \<or> rq_channels rq = [] then s
         else (let now = x_now e s; requester = opt_text (rq_requester_id rq);
                   fresh = filter (\<lambda>kt. \<not> now - snd kt > ANSWER_DEDUPE_MS) (recentAnswers s);
                   (todo, recent) = claim_answers e s now requester (rq_channels rq) fresh;
                   s1 = s\<lparr>recentAnswers := recent\<rparr>
               in if todo = [] then s1
                  else s1\<lparr>answerChain := answerChain s1 @ [AnswerOrg me (opt_text (rq_org_id rq)) requester todo]\<rparr>)))"

text \<open>The chunks of one channel's answer, until one cannot be encrypted or sent.\<close>

fun send_chunks :: "(string \<Rightarrow> 'w engine \<Rightarrow> string option \<times> 'w engine) \<Rightarrow> (string \<Rightarrow> nat \<Rightarrow> 'w engine \<Rightarrow> bool \<times> 'w engine)
    \<Rightarrow> chunk list \<Rightarrow> 'w engine \<Rightarrow> bool \<times> 'w engine" where
  "send_chunks enc send [] s = (True, s)"
| "send_chunks enc send (c # cs) s = (case enc (chunk_json c) s of
      (None, s1) \<Rightarrow> (False, s1)
    | (Some bundle, s1) \<Rightarrow> (case send bundle (chunk_count c) s1 of
        (ok, s2) \<Rightarrow> if ok then send_chunks enc send cs s2 else (False, s2)))"

definition answer_rows :: "'w chat_env \<Rightarrow> string \<Rightarrow> string option \<Rightarrow> 'w engine \<Rightarrow> chan_row list \<times> 'w engine" where
  "answer_rows e chan since s =
    (if truthy since then with_store e [] (\<lambda>db. (db, getChannelMessagesSince (x_lc e) db chan since (SYNC_REPLY_MAX * 3))) s
     else read_rows e chan (SYNC_REPLY_MAX * 2) s)"

fun answerOrgSync :: "'w chat_env \<Rightarrow> string \<Rightarrow> string \<Rightarrow> string \<Rightarrow> (string \<times> string option) list \<Rightarrow> 'w engine \<Rightarrow> 'w engine" where
  "answerOrgSync e me org requester [] s = s"
| "answerOrgSync e me org requester ((chan, since) # cs) s =
    (if userId s \<noteq> Some me then s
     else (case answer_rows e chan since s of (rows, s1) \<Rightarrow>
       (let reply = selectReplyRows (x_lc e) rows since SYNC_REPLY_MAX in
        answerOrgSync e me org requester cs
          (if reply = [] then s1
           else snd (send_chunks (x_encrypt e Channel_kind me chan) (x_respondOrgSync e org requester chan)
             (chunkBundle (map toBundleItem reply) BUNDLE_MAX_BYTES) s1)))))"

definition handleLegacySyncRequest :: "'w chat_env \<Rightarrow> sync_request \<Rightarrow> 'w engine \<Rightarrow> 'w engine" where
  "handleLegacySyncRequest e rq s = (case userId s of None \<Rightarrow> s
     | Some me \<Rightarrow> (if \<not> truthy (rq_channel_id rq) \<or> \<not> truthy (rq_org_id rq) \<or> rq_requester_id rq = Some me then s
         else (let chan = opt_text (rq_channel_id rq) in
           case with_store e [] (\<lambda>db. (db, getChannelMessagesSince (x_lc e) db chan (rq_since rq) (2 ^ 53 - 1))) s of
             (rows, s1) \<Rightarrow> (let out = filter (\<lambda>r. truthy (encrypted_content r)) rows in
               if out = [] then s1
               else s1\<lparr>started := started s1 @ [LegacyAnswer (opt_text (rq_org_id rq)) chan (opt_text (rq_requester_id rq)) out]\<rparr>))))"

definition dm_answer_rows :: "'w chat_env \<Rightarrow> string \<Rightarrow> string option \<Rightarrow> 'w engine \<Rightarrow> dm_row list \<times> 'w engine" where
  "dm_answer_rows e conv since s =
    (if truthy since then with_store e [] (\<lambda>db. (db, getDmMessagesSince (x_lc e) db conv since (SYNC_REPLY_MAX * 3))) s
     else read_dms e conv (SYNC_REPLY_MAX * 2) s)"

definition handleDmSyncRequest :: "'w chat_env \<Rightarrow> sync_request \<Rightarrow> 'w engine \<Rightarrow> 'w engine" where
  "handleDmSyncRequest e rq s = (case userId s of None \<Rightarrow> s
     | Some me \<Rightarrow> (let requester = rq_requester_id rq; conv = opt_text (rq_conversation_id rq);
           key = answer_key (opt_text requester) conv (rq_since rq); now = x_now e s in
         if \<not> truthy requester \<or> requester = Some me \<or> dmPartnerOf (rq_conversation_id rq) s \<noteq> requester then s
         else if x_groupEpoch e s conv = None then s
         else if al_has (recentAnswers s) key \<and> now - or_else (al_get (recentAnswers s) key) 0 < ANSWER_DEDUPE_MS then s
         else s\<lparr>recentAnswers := al_set key now (recentAnswers s),
                answerChain := answerChain s @ [AnswerDm me (opt_text requester) conv (rq_since rq)]\<rparr>))"

definition run_dm_answer :: "'w chat_env \<Rightarrow> string \<Rightarrow> string \<Rightarrow> string \<Rightarrow> string option \<Rightarrow> 'w engine \<Rightarrow> 'w engine" where
  "run_dm_answer e me requester conv since s =
    (if userId s \<noteq> Some me then s
     else (case dm_answer_rows e conv since s of (rows, s1) \<Rightarrow>
       snd (send_chunks (x_encrypt e Dm_kind me conv) (x_respondDm e requester)
         (chunkBundle (map toBundleItem_dm (selectReplyRows (x_lc e) rows since SYNC_REPLY_MAX)) BUNDLE_MAX_BYTES) s1)))"

section \<open>Merging a peer's answer\<close>

definition handleSyncResponse :: "bool \<Rightarrow> sync_response \<Rightarrow> 'w engine \<Rightarrow> 'w engine" where
  "handleSyncResponse isRetry p s = (case userId s of None \<Rightarrow> s
     | Some me \<Rightarrow> (if \<not> truthy (sy_channel_id p) then s
         else (let chan = opt_text (sy_channel_id p);
                   s1 = (if truthy (sy_org_id p) then s\<lparr>channelOrg := al_set chan (opt_text (sy_org_id p)) (channelOrg s)\<rparr> else s) in
           if sy_bundle p \<noteq> None then s1\<lparr>decryptChain := decryptChain s1 @ [BundleJob me chan isRetry p]\<rparr>
           else if sy_messages p = [] then s1
           else s1\<lparr>decryptChain := decryptChain s1 @ [LegacyJob me chan p]\<rparr>)))"

text \<open>A bundle that cannot be read yet is kept for one retry; at most five per conversation.\<close>

definition keep_bundle :: "string \<Rightarrow> bool \<Rightarrow> string \<Rightarrow> sync_response \<Rightarrow> 'w engine \<Rightarrow> 'w engine" where
  "keep_bundle i isRetry reason p s =
    (if \<not> isRetry \<and> reason \<noteq> ''corrupt'' \<and> reason \<noteq> ''epoch_too_old''
     then (let kept = or_else (al_get (failedBundles s) i) [] in
       if length kept < MAX_FAILED_BUNDLES then s\<lparr>failedBundles := al_set i (kept @ [p]) (failedBundles s)\<rparr> else s)
     else s)"

definition run_bundle :: "'w chat_env \<Rightarrow> string \<Rightarrow> string \<Rightarrow> bool \<Rightarrow> sync_response \<Rightarrow> 'w engine \<Rightarrow> 'w engine" where
  "run_bundle e me chan isRetry p s =
    (if userId s \<noteq> Some me then s
     else (case x_decrypt e Channel_kind me chan (sy_bundle p) False s of
         (Inl reason, s1) \<Rightarrow> keep_bundle chan isRetry reason p s1
       | (Inr json, s1) \<Rightarrow>
           (case save_rows e chan (parseBundle (x_dates e) json (Some chan) (sy_relayed_by p) (x_nowIso e s1)) s1 of
              (written, s2) \<Rightarrow> if written = [] then s2 else notifyChannel chan s2)))"

text \<open>The legacy batch: each message once, oldest first; one already readable here is not decrypted again.\<close>

fun legacy_rows :: "'w chat_env \<Rightarrow> string \<Rightarrow> string \<Rightarrow> string option \<Rightarrow> (string, chan_row) jsmap \<Rightarrow> chan_row list
    \<Rightarrow> 'w engine \<Rightarrow> chan_row list \<times> 'w engine" where
  "legacy_rows e me chan relayedBy known [] s = ([], s)"
| "legacy_rows e me chan relayedBy known (m # ms) s =
    (if row_id m = [] \<or> \<not> truthy (timestamp m) \<or> isReadable (al_get known (row_id m))
     then legacy_rows e me chan relayedBy known ms s
     else (case x_decrypt e Channel_kind me chan (encrypted_content m) False s of (res, s1) \<Rightarrow>
       (case legacy_rows e me chan relayedBy known ms s1 of (out, s2) \<Rightarrow>
         (m\<lparr>channel_id := Some chan, plaintext := plain_of res, fail_reason := reason_of res,
            attempts := Some (if plain_of res = None then 1 else 0), relayed_by := relayedBy\<rparr> # out, s2))))"

definition run_legacy :: "'w chat_env \<Rightarrow> string \<Rightarrow> string \<Rightarrow> sync_response \<Rightarrow> 'w engine \<Rightarrow> 'w engine" where
  "run_legacy e me chan p s =
    (if userId s \<noteq> Some me then s
     else (case read_rows e chan (2 ^ 53 - 1) s of (stored, s1) \<Rightarrow>
       (let known = fold (\<lambda>r. al_set (row_id r) r) stored [] in
        case legacy_rows e me chan (sy_relayed_by p) known (sortByTimestamp (x_lc e) (sy_messages p)) s1 of (out, s2) \<Rightarrow>
          (case save_rows e chan out s2 of (written, s3) \<Rightarrow> if written = [] then s3 else notifyChannel chan s3))))"

section \<open>Direct messages\<close>

definition handleDmRelay :: "relay \<Rightarrow> 'w engine \<Rightarrow> 'w engine" where
  "handleDmRelay p s = (case (dmRelayMessage p, userId s) of
       (Some m, Some me) \<Rightarrow> (if dmPartnerOf (rm_conversation_id m) s = None then s
          else s\<lparr>decryptChain := decryptChain s @ [DmRelayJob me m]\<rparr>)
     | _ \<Rightarrow> s)"

definition dm_relay_row :: "relay_msg \<Rightarrow> string + string \<Rightarrow> dm_row" where
  "dm_relay_row m r = \<lparr>row_id = opt_text (rm_id m), sender_id = rm_sender_id m, callsign = rm_callsign m,
     encrypted_content = rm_encrypted_content m, plaintext = plain_of r, timestamp = rm_timestamp m, received_at = None,
     pending = False, fail_reason = reason_of r, attempts = Some (if plain_of r = None then 1 else 0), relayed_by = None,
     conversation_id = rm_conversation_id m, to_user_id = rm_to_user_id m\<rparr>"

definition run_dm_relay :: "'w chat_env \<Rightarrow> string \<Rightarrow> relay_msg \<Rightarrow> 'w engine \<Rightarrow> 'w engine" where
  "run_dm_relay e me m s =
    (if userId s \<noteq> Some me then s
     else (let conv = opt_text (rm_conversation_id m) in
       case x_decrypt e Dm_kind me conv (rm_encrypted_content m) (rm_sender_id m = Some me) s of (r, s1) \<Rightarrow>
         (case save_dm e (dm_relay_row m r) s1 of
            (None, s2) \<Rightarrow> s2 | (Some _, s2) \<Rightarrow> notifyChannel conv s2)))"

definition handleDmSyncResponse :: "bool \<Rightarrow> sync_response \<Rightarrow> 'w engine \<Rightarrow> 'w engine" where
  "handleDmSyncResponse isRetry p s = (case (userId s, dmPartnerOf (sy_conversation_id p) s) of
       (Some me, Some partner) \<Rightarrow>
         (if sy_relayed_by p \<noteq> Some partner \<or> sy_bundle p = None then s
          else s\<lparr>decryptChain := decryptChain s @ [DmBundleJob me partner (opt_text (sy_conversation_id p)) isRetry p]\<rparr>)
     | _ \<Rightarrow> s)"

definition run_dm_bundle :: "'w chat_env \<Rightarrow> string \<Rightarrow> string \<Rightarrow> string \<Rightarrow> bool \<Rightarrow> sync_response \<Rightarrow> 'w engine \<Rightarrow> 'w engine" where
  "run_dm_bundle e me partner conv isRetry p s =
    (if userId s \<noteq> Some me then s
     else (case x_decrypt e Dm_kind me conv (sy_bundle p) False s of
         (Inl reason, s1) \<Rightarrow> keep_bundle conv isRetry reason p s1
       | (Inr json, s1) \<Rightarrow>
           (case save_dms e conv (bundleRowsToDm (parseBundle (x_dates e) json None (Some partner) (x_nowIso e s1)) conv me partner) s1 of
              (written, s2) \<Rightarrow> if written = [] then s2 else notifyChannel conv s2)))"

text \<open>A group changed: its waiting rows are retried and the bundles kept for it handled once more.\<close>

definition onGroupChanged :: "string \<Rightarrow> 'w engine \<Rightarrow> 'w engine" where
  "onGroupChanged g s =
    (if g = [] \<or> userId s = None then s
     else (let isDm = (dmPartnerOf (Some g) s \<noteq> None);
               s1 = retryPending (if isDm then Dm_kind else Channel_kind) g s;
               bundles = or_else (al_get (failedBundles s1) g) [] in
       if bundles = [] then s1
       else fold (if isDm then handleDmSyncResponse True else handleSyncResponse True) bundles
         (s1\<lparr>failedBundles := al_del g (failedBundles s1)\<rparr>)))"

section \<open>The chains\<close>

definition job_account :: "decrypt_job \<Rightarrow> string" where
  "job_account j = (case j of RelayJob me _ \<Rightarrow> me | DmRelayJob me _ \<Rightarrow> me | RetryJob me _ _ _ \<Rightarrow> me
     | BundleJob me _ _ _ \<Rightarrow> me | DmBundleJob me _ _ _ _ \<Rightarrow> me | LegacyJob me _ _ \<Rightarrow> me)"

definition run_job :: "'w chat_env \<Rightarrow> decrypt_job \<Rightarrow> 'w engine \<Rightarrow> 'w engine" where
  "run_job e j = (case j of
      RelayJob me p \<Rightarrow> run_relay e me p
    | DmRelayJob me m \<Rightarrow> run_dm_relay e me m
    | RetryJob me k i n \<Rightarrow> run_retry e me k i n
    | BundleJob me chan isRetry p \<Rightarrow> run_bundle e me chan isRetry p
    | DmBundleJob me partner conv isRetry p \<Rightarrow> run_dm_bundle e me partner conv isRetry p
    | LegacyJob me chan p \<Rightarrow> run_legacy e me chan p)"

definition run_decrypt :: "'w chat_env \<Rightarrow> 'w engine \<Rightarrow> 'w engine" where
  "run_decrypt e s = (case decryptChain s of [] \<Rightarrow> s | j # js \<Rightarrow> run_job e j (s\<lparr>decryptChain := js\<rparr>))"

definition run_answer :: "'w chat_env \<Rightarrow> 'w engine \<Rightarrow> 'w engine" where
  "run_answer e s = (case answerChain s of [] \<Rightarrow> s
     | AnswerOrg me org requester todo # js \<Rightarrow> answerOrgSync e me org requester todo (s\<lparr>answerChain := js\<rparr>)
     | AnswerDm me requester conv since # js \<Rightarrow> run_dm_answer e me requester conv since (s\<lparr>answerChain := js\<rparr>))"

text \<open>A server's startup awaits each retry: the jobs queued up to it run first.\<close>

fun retry_and_wait :: "'w chat_env \<Rightarrow> string list \<Rightarrow> 'w engine \<Rightarrow> 'w engine" where
  "retry_and_wait e [] s = s"
| "retry_and_wait e (i # is) s = (let s1 = retryPendingChannel i s in
     retry_and_wait e is ((run_decrypt e ^^ length (decryptChain s1)) s1))"

definition run_startup :: "'w chat_env \<Rightarrow> 'w engine \<Rightarrow> 'w engine" where
  "run_startup e s = (case startupChain s of [] \<Rightarrow> s
     | (me, org) # js \<Rightarrow> (let s1 = s\<lparr>startupChain := js\<rparr> in
         if userId s1 \<noteq> Some me then s1
         else (case startup_begin e me org s1 of (ids, s2) \<Rightarrow> startup_end e me org ids (retry_and_wait e ids s2))))"

section \<open>The hook: account and send\<close>

definition enter_account :: "chat_user \<Rightarrow> 'w engine \<Rightarrow> 'w engine" where
  "enter_account u s =
    (let s1 = (if Option.bind (eng_user s) (\<lambda>v. Some (cu_id v)) \<noteq> Some (cu_id u) then resetEngine (Some u) s else s\<lparr>eng_user := Some u\<rparr>)
     in s1\<lparr>history_store := setMessageStoreUser (Some (cu_id u)) (history_store s1)\<rparr>)"

definition leave_account :: "'w engine \<Rightarrow> 'w engine" where
  "leave_account s = (let s1 = resetEngine None s in s1\<lparr>history_store := setMessageStoreUser None (history_store s1)\<rparr>)"

definition sent_row :: "string \<Rightarrow> chat_user option \<Rightarrow> string \<Rightarrow> string \<Rightarrow> string \<Rightarrow> string \<Rightarrow> string \<Rightarrow> chan_row" where
  "sent_row i u chan ciphertext text ts now = \<lparr>row_id = i, sender_id = Option.bind u (\<lambda>v. Some (cu_id v)),
     callsign = Option.bind u cu_callsign, encrypted_content = Some ciphertext, plaintext = Some text, timestamp = Some ts,
     received_at = Some now, pending = False, fail_reason = None, attempts = None, relayed_by = None,
     channel_id = Some chan, global_tag = Option.bind u cu_global_tag, image_url = None\<rparr>"

definition js_space :: "char \<Rightarrow> bool" where
  "js_space c \<longleftrightarrow> c \<in> set (map char_of [9::nat, 10, 11, 12, 13, 32, 160])"

definition trim :: "string \<Rightarrow> string" where
  "trim t = rev (dropWhile js_space (rev (dropWhile js_space t)))"

text \<open>\<open>send\<close>: the text is queued for the echo recall and stored only once the server took the message.\<close>

definition send :: "'w chat_env \<Rightarrow> string option \<Rightarrow> string option \<Rightarrow> chat_user option \<Rightarrow> string \<Rightarrow> 'w engine
    \<Rightarrow> (string + chan_row) \<times> 'w engine" where
  "send e org chan u rawText s = (let text = trim rawText in
     if text = [] then (Inl ''Nothing to send'', s)
     else if \<not> truthy org \<or> \<not> truthy chan then (Inl ''No channel selected'', s)
     else (let og = opt_text org; ch = opt_text chan; me = Option.bind u (\<lambda>v. Some (cu_id v)) in
       case x_ensure e me og ch s of
         (False, s1) \<Rightarrow> (Inl ''MLS error'', s1)
       | (True, s1) \<Rightarrow>
          (case x_encrypt e Channel_kind (opt_text me) ch text s1 of
             (None, s2) \<Rightarrow> (Inl ''MLS error'', s2)
           | (Some ciphertext, s2) \<Rightarrow>
              (case x_sendMessage e og ch ciphertext s2 of
                 (Inl err, s3) \<Rightarrow> (Inl err, s3)
               | (Inr (i, ts), s3) \<Rightarrow>
                  (let s4 = x_notePendingSent e ch text s3;
                       msg = sent_row i u ch ciphertext text ts (x_nowIso e s4);
                       s5 = s4\<lparr>ownSentIds := i # ownSentIds s4, channelOrg := al_set ch og (channelOrg s4)\<rparr>
                   in (Inr msg, notifyChannel ch (snd (save_row e msg s5))))))))"

end
