(* ===== verification/Chat_Engine_Props.thy ===== *)
theory Chat_Engine_Props
  imports Chat_Engine
begin

text \<open>
  What the delivery engine guarantees: received messages are kept, stale work is dropped,
  peers are asked for every channel and answered once, a conversation id names its partner.
\<close>

section \<open>The store behind a job\<close>

lemma db_of_set [simp]: "db_of u (set_db u db st) = db"
  by (simp add: db_of_def set_db_def)

text \<open>The account and database a store call of the current state works on.\<close>

definition opens_to :: "'w chat_env \<Rightarrow> 'w engine \<Rightarrow> string \<Rightarrow> store_state \<Rightarrow> bool" where
  "opens_to e s u st \<longleftrightarrow> openDb (x_nowIso e s) (fst (x_legacy e s)) (snd (x_legacy e s)) (history_store s) = Inr (u, st)"

lemma with_store_opens:
  "opens_to e s u st \<Longrightarrow> f (db_of u st) = (db, r) \<Longrightarrow> with_store e d f s = (r, s\<lparr>history_store := set_db u db st\<rparr>)"
  by (simp add: with_store_def opens_to_def)

lemma notify_store [simp]: "history_store (notifyChannel c s) = history_store s"
  by (simp add: notifyChannel_def)

lemma save_row_db:
  assumes "opens_to e s u st"
  shows "db_of u (history_store (snd (save_row e r s))) = fst (saveChannelMessage (x_nowIso e s) (db_of u st) r)"
  using with_store_opens [OF assms, of "\<lambda>db. saveChannelMessage (x_nowIso e s) db r"]
  by (cases "saveChannelMessage (x_nowIso e s) (db_of u st) r") (simp add: save_row_def)

lemma save_one_rows:
  "channel_messages (fst (saveChannelMessage now db m)) = fst (mergeRowsInto (mergeChannelRow now) (channel_messages db) [m])"
  by (simp add: saveChannelMessage_def mergeChannelRowsInto_def Let_def case_prod_beta)

lemma save_one_kept:
  assumes "keyed (channel_messages db)" "usable_msg m"
  shows "\<exists>r. al_get (channel_messages (fst (saveChannelMessage now db m))) (row_id m) = Some r
    \<and> (plaintext m = None \<or> plaintext r \<noteq> None)"
proof -
  have "al_get (channel_messages (fst (saveChannelMessage now db m))) (row_id m)
      = chan.upd now (al_get (channel_messages db) (row_id m)) m"
    unfolding save_one_rows by (rule chan_store.merge_rows_get) (use assms in simp_all)
  moreover have "\<exists>r. chan.upd now old m = Some r \<and> (plaintext m = None \<or> plaintext r \<noteq> None)" for old
  proof (cases "plaintext m")
    case None
    then show ?thesis using chan.fresh [of now m]
      by (cases old) (auto simp: chan.upd_def split: option.split)
  next
    case (Some t)
    then show ?thesis using chan.upd_gains [of m now old] by auto
  qed
  ultimately show ?thesis by metis
qed

section \<open>Live relays\<close>

lemma relay_kept:
  assumes "userId s = Some me" "x_decrypt e Channel_kind me (or_else (rl_channel_id p) []) (rl_encrypted_content p) (rl_sender_id p = Some me) s = (r, s1)"
    and "rl_sender_id p \<noteq> Some me \<or> or_else (rl_id p) [] \<notin> set (ownSentIds s1)"
    and "opens_to e s1 u st" "keyed (channel_messages (db_of u st))" "truthy (rl_id p)" "truthy (rl_timestamp p)"
  shows "\<exists>row. al_get (channel_messages (db_of u (history_store (run_relay e me p s)))) (or_else (rl_id p) []) = Some row
    \<and> (plain_of r = None \<or> plaintext row \<noteq> None)"
proof -
  have "history_store (run_relay e me p s) = history_store (snd (save_row e (relay_row p r) s1))"
    using assms(1,2,3) by (auto simp: run_relay_def Let_def split: prod.split option.split)
  moreover have "usable_msg (relay_row p r)" "row_id (relay_row p r) = or_else (rl_id p) []"
    "plaintext (relay_row p r) = plain_of r"
    using assms(6,7) by (auto simp: usable_msg_def relay_row_def truthy_iff)
  ultimately show ?thesis
    using save_one_kept [OF assms(5), of "relay_row p r" "x_nowIso e s1"]
    by (simp add: save_row_db [OF assms(4)])
qed

text \<open>No permanent loss: a relayed channel message is in the history once its job has run, readable when it was
  decrypted and waiting for its key (with the ciphertext) when not; only this device's own sends,
  which are stored already, are skipped.\<close>

lemma relayed_message_kept:
  assumes "userId s = Some me" "x_decrypt e Channel_kind me (or_else (rl_channel_id p) []) (rl_encrypted_content p) (rl_sender_id p = Some me) s = (r, s1)"
    and "rl_sender_id p \<noteq> Some me \<or> or_else (rl_id p) [] \<notin> set (ownSentIds s1)"
    and "opens_to e s1 u st" "keyed (channel_messages (db_of u st))" "truthy (rl_id p)" "truthy (rl_timestamp p)"
  shows "\<exists>row. al_get (channel_messages (db_of u (history_store (run_relay e me p s)))) (or_else (rl_id p) []) = Some row
    \<and> (plain_of r = None \<or> plaintext row \<noteq> None)"
  by (rule relay_kept [OF assms])

text \<open>A concrete engine: the decryption of one message, a store without history.\<close>

definition toy_chat :: "unit chat_env" where
  "toy_chat = \<lparr>
     x_decrypt = (\<lambda>k me i ct own s. (case ct of Some c \<Rightarrow> if c = ''ct'' then Inr ''hello'' else Inl ''epoch_ahead_unresolved'' | None \<Rightarrow> Inl ''corrupt'', s)),
     x_encrypt = (\<lambda>k me i t s. (Some t, s)), x_groupEpoch = (\<lambda>s i. Some 3), x_ensure = (\<lambda>u og c s. (True, s)),
     x_notePendingSent = (\<lambda>i t s. s), x_heal = (\<lambda>me og f s. (Inr (0, [], 0), s)), x_channels = (\<lambda>og s. (Some [''c1''], s)),
     x_requestOrgSync = (\<lambda>og cs s. s), x_requestDmSync = (\<lambda>p t s. s), x_respondOrgSync = (\<lambda>og r c b n s. (True, s)),
     x_respondDm = (\<lambda>r b n s. (True, s)), x_sendMessage = (\<lambda>og c ct s. (Inr (''m9'', ''t1''), s)), x_now = (\<lambda>s. 100000),
     x_nowIso = (\<lambda>s. ''t1''), x_legacy = (\<lambda>s. (None, False)), x_lc = (\<lambda>a b. a \<le> b), x_dates = demo_dates\<rparr>"

definition alice :: chat_user where
  "alice = \<lparr>cu_id = ''alice'', cu_callsign = None, cu_global_tag = None\<rparr>"

definition bob :: chat_user where
  "bob = \<lparr>cu_id = ''bob'', cu_callsign = None, cu_global_tag = None\<rparr>"

definition toy_engine :: "unit engine" where
  "toy_engine = \<lparr>eng_user = Some alice, ownSentIds = [], channelOrg = [], orgPhase = [(''o1'', True)], chatListeners = [],
     failedBundles = [], recentAnswers = [], followUps = [], retrying = [], retryAgain = [], nextRetry = 0, decryptChain = [],
     answerChain = [], startupChain = [], started = [],
     history_store = \<lparr>ms_user = Some ''alice'', ms_open = Some ''alice'', databases = [], ls_user_id = None\<rparr>,
     notified = [], page = ()\<rparr>"

definition toy_relay :: relay where
  "toy_relay = \<lparr>rl_id = Some ''m1'', rl_channel_id = Some ''c1'', rl_org_id = Some ''o1'', rl_context = None,
     rl_conversation_id = None, rl_sender_id = Some ''carol'', rl_callsign = None, rl_global_tag = None,
     rl_encrypted_content = Some ''ct'', rl_image_url = None, rl_timestamp = Some ''t1'', rl_message = None\<rparr>"

lemmas toy_chat_defs = toy_chat_def toy_engine_def alice_def bob_def toy_relay_def userId_def

lemma toy_opens: "opens_to toy_chat toy_engine ''alice'' (history_store toy_engine)"
  by (simp add: opens_to_def openDb_def getMessageStoreUser_def toy_chat_defs)

lemma relayed_message_kept_witness:
  "\<exists>row. al_get (channel_messages (db_of ''alice'' (history_store (run_relay toy_chat ''alice'' toy_relay toy_engine)))) ''m1'' = Some row
    \<and> plaintext row \<noteq> None"
  using relayed_message_kept [where e = toy_chat and s = toy_engine and me = "''alice''" and p = toy_relay and r = "Inr ''hello''"
      and ?s1.0 = toy_engine and u = "''alice''", OF _ _ _ toy_opens]
  by (simp add: toy_chat_defs plain_of_def db_of_def upgrade_def)

section \<open>Account switches\<close>

text \<open>Work queued for an account that is no longer signed in does nothing: a relay, a bundle or a legacy batch whose
  turn comes after the switch leaves the engine and every history as they are.\<close>

lemma stale_job_is_dropped:
  assumes "userId s \<noteq> Some (job_account j)" "\<nexists>me k i n. j = RetryJob me k i n"
  shows "run_job e j s = s"
  using assms
  by (cases j) (simp_all add: run_job_def job_account_def run_relay_def run_dm_relay_def run_bundle_def run_dm_bundle_def run_legacy_def)

lemma stale_job_is_dropped_witness:
  "run_job toy_chat (RelayJob ''bob'' toy_relay) toy_engine = toy_engine"
  by (rule stale_job_is_dropped) (simp_all add: job_account_def toy_chat_defs)

text \<open>A message decrypted for one account can land in the next account's history: the relay job checks the account
  before it decrypts but not after, and the store writes to whoever is signed in by then.\<close>

lemma relay_in_flight_crosses_accounts:
  assumes "userId s = Some me" "x_decrypt e Channel_kind me (or_else (rl_channel_id p) []) (rl_encrypted_content p) (rl_sender_id p = Some me) s = (Inr text, s1)"
    and "s1 = enter_account v s2" "cu_id v \<noteq> me" "cu_id v \<noteq> []" "rl_sender_id p \<noteq> Some me"
    and "opens_to e s1 (cu_id v) st" "al_get (channel_messages (db_of (cu_id v) st)) (or_else (rl_id p) []) = None"
    and "truthy (rl_id p)" "truthy (rl_timestamp p)"
  shows "\<exists>row. al_get (channel_messages (db_of (cu_id v) (history_store (run_relay e me p s)))) (or_else (rl_id p) []) = Some row
    \<and> plaintext row = Some text \<and> getMessageStoreUser (history_store s1) = Some (cu_id v) \<and> cu_id v \<noteq> me"
proof -
  have h: "history_store (run_relay e me p s) = history_store (snd (save_row e (relay_row p (Inr text)) s1))"
    using assms(1,2,6) by (auto simp: run_relay_def Let_def split: prod.split option.split)
  have m: "usable_msg (relay_row p (Inr text))" "row_id (relay_row p (Inr text)) = or_else (rl_id p) []"
    "plaintext (relay_row p (Inr text)) = Some text"
    using assms(9,10) by (auto simp: usable_msg_def relay_row_def truthy_iff plain_of_def)
  obtain r where r: "mergeChannelRow (x_nowIso e s1) None (relay_row p (Inr text)) = Some r" "plaintext r = Some text"
      "row_id r = row_id (relay_row p (Inr text))"
    using chan.fresh [of "x_nowIso e s1" "relay_row p (Inr text)"] m(3) by auto
  have "al_get (channel_messages (fst (saveChannelMessage (x_nowIso e s1) (db_of (cu_id v) st) (relay_row p (Inr text))))) (or_else (rl_id p) []) = Some r"
    unfolding save_one_rows using assms(8) m r by (simp add: mergeRowsInto_def List.map_filter_simps Let_def)
  moreover have "getMessageStoreUser (history_store s1) = Some (cu_id v)"
    using assms(7) by (auto simp: opens_to_def openDb_def split: option.splits if_splits)
  ultimately show ?thesis using h r assms(4) by (simp add: save_row_db [OF assms(7)])
qed

definition slow_chat :: "unit chat_env" where
  "slow_chat = toy_chat\<lparr>x_decrypt := \<lambda>k me i ct own s. (Inr ''secret'', enter_account bob (leave_account s))\<rparr>"

definition switched :: "unit engine" where
  "switched = enter_account bob (leave_account toy_engine)"

lemma switched_store:
  "history_store switched = \<lparr>ms_user = Some ''bob'', ms_open = None, databases = [], ls_user_id = None\<rparr>"
  by (simp add: switched_def enter_account_def leave_account_def resetEngine_def setMessageStoreUser_def Let_def toy_chat_defs)

lemma slow_chat_fields [simp]:
  "x_decrypt slow_chat k me i ct own s = (Inr ''secret'', enter_account bob (leave_account s))"
  "x_nowIso slow_chat s' = ''t1''" "x_legacy slow_chat s' = (None, False)"
  by (simp_all add: slow_chat_def toy_chat_def)

lemma switched_opens: "opens_to slow_chat switched ''bob'' (openDb_finish ''t1'' None False ''bob'' (history_store switched))"
  by (simp add: opens_to_def openDb_def getMessageStoreUser_def switched_store)

lemma switched_empty: "channel_messages (db_of ''bob'' (openDb_finish ''t1'' None False ''bob'' (history_store switched))) = []"
  by (simp add: openDb_finish_def adoptLegacyIfOwner_def db_of_def upgrade_def switched_store al_has_def Let_def)

lemma relay_in_flight_crosses_accounts_witness:
  "\<exists>row. al_get (channel_messages (db_of (cu_id bob) (history_store (run_relay slow_chat ''alice'' toy_relay toy_engine)))) (or_else (rl_id toy_relay) []) = Some row
    \<and> plaintext row = Some ''secret'' \<and> getMessageStoreUser (history_store switched) = Some (cu_id bob) \<and> cu_id bob \<noteq> ''alice''"
proof -
  have b: "cu_id bob = ''bob''" by (simp add: bob_def)
  show ?thesis
  proof (rule relay_in_flight_crosses_accounts [where ?s2.0 = "leave_account toy_engine" and st = "openDb_finish ''t1'' None False ''bob'' (history_store switched)"])
    show "userId toy_engine = Some ''alice''" by (simp add: toy_chat_defs)
    show "x_decrypt slow_chat Channel_kind ''alice'' (or_else (rl_channel_id toy_relay) []) (rl_encrypted_content toy_relay)
      (rl_sender_id toy_relay = Some ''alice'') toy_engine = (Inr ''secret'', switched)" by (simp add: switched_def)
    show "switched = enter_account bob (leave_account toy_engine)" by (rule switched_def)
    show "opens_to slow_chat switched (cu_id bob) (openDb_finish ''t1'' None False ''bob'' (history_store switched))"
      unfolding b by (rule switched_opens)
    show "al_get (channel_messages (db_of (cu_id bob) (openDb_finish ''t1'' None False ''bob'' (history_store switched)))) (or_else (rl_id toy_relay) []) = None"
      unfolding b by (simp add: switched_empty)
    show "cu_id bob \<noteq> ''alice''" unfolding b by simp
    show "cu_id bob \<noteq> []" unfolding b by simp
    show "rl_sender_id toy_relay \<noteq> Some ''alice''" by (simp add: toy_relay_def)
    show "truthy (rl_id toy_relay)" by (simp add: toy_relay_def)
    show "truthy (rl_timestamp toy_relay)" by (simp add: toy_relay_def)
  qed
qed

section \<open>Asking and answering\<close>

text \<open>A catch-up asks for every channel exactly once and in order, in requests of at most 500 channels, none of them
  empty; the number of channels is fuel enough.\<close>

lemma catch_up_batches_exact:
  "concat (batches (length channels) channels) = channels
   \<and> set (map length (batches (length channels) channels)) \<subseteq> {1..500}"
proof -
  have "length channels \<le> n \<Longrightarrow> concat (batches n channels) = channels
    \<and> set (map length (batches n channels)) \<subseteq> {1..500}" for n
  proof (induction n arbitrary: channels)
    case (Suc n)
    show ?case
    proof (cases "channels = []")
      case False
      then have "length (drop 500 channels) \<le> n" using Suc.prems by (cases channels) auto
      then show ?thesis using Suc.IH [of "drop 500 channels"] False by (cases channels) auto
    qed simp
  qed simp
  then show ?thesis by simp
qed

lemma claim_step:
  "claim_answers e s now rq ((c, since) # cs) recent =
     (if c = [] \<or> x_groupEpoch e s c = None \<or> al_has recent (answer_key rq c since) then claim_answers e s now rq cs recent
      else ((c, since) # fst (claim_answers e s now rq cs (al_set (answer_key rq c since) now recent)),
            snd (claim_answers e s now rq cs (al_set (answer_key rq c since) now recent))))"
  by (simp add: case_prod_beta)

lemma claim_grows: "al_has recent k \<Longrightarrow> al_has (snd (claim_answers e s now rq cs recent)) k"
proof (induction cs arbitrary: recent)
  case (Cons x cs)
  obtain c since where x: "x = (c, since)" by (cases x)
  have "al_has (al_set (answer_key rq c since) now recent) k" using Cons.prems by (simp add: al_has_def)
  then show ?case unfolding x claim_step using Cons by simp
qed simp

lemma claim_claims:
  "list_all (\<lambda>(c, since). c = [] \<or> x_groupEpoch e s c = None \<or>
     al_has (snd (claim_answers e s now rq cs recent)) (answer_key rq c since)) cs"
proof (induction cs arbitrary: recent)
  case (Cons x cs)
  obtain c since where x: "x = (c, since)" by (cases x)
  have "al_has (al_set (answer_key rq c since) now recent) (answer_key rq c since)" by (simp add: al_has_def)
  from claim_grows [OF this, of e s now rq cs] show ?case
    unfolding x claim_step using Cons [of recent] Cons [of "al_set (answer_key rq c since) now recent"]
    by (auto intro: claim_grows)
qed simp

lemma claim_times:
  "list_all (\<lambda>kt. P (snd kt)) recent \<Longrightarrow> P now \<Longrightarrow> list_all (\<lambda>kt. P (snd kt)) (snd (claim_answers e s now rq cs recent))"
proof (induction cs arbitrary: recent)
  case (Cons x cs)
  obtain c since where x: "x = (c, since)" by (cases x)
  have "list_all (\<lambda>kt. P (snd kt)) (al_set (answer_key rq c since) now recent)"
    using Cons.prems by (auto simp: list_all_iff dest!: set_al_set)
  then show ?case unfolding x claim_step using Cons by simp
qed simp

lemma claim_nothing:
  "list_all (\<lambda>(c, since). c = [] \<or> x_groupEpoch e s c = None \<or> al_has recent (answer_key rq c since)) cs \<Longrightarrow>
     claim_answers e s now rq cs recent = ([], recent)"
  by (induction cs) auto

text \<open>One request is answered once: when the same catch-up request arrives again within the dedupe time (the peer asks
  on every reconnect, and the server fans it out), no further answer is queued.\<close>

lemma answered_once:
  assumes "x_now e = (\<lambda>s. t)" "x_groupEpoch e = (\<lambda>s. held)"
  shows "answerChain (handleOrgSyncRequest e rq (handleOrgSyncRequest e rq s)) = answerChain (handleOrgSyncRequest e rq s)"
proof (cases "userId s = None \<or> \<not> truthy (rq_org_id rq) \<or> \<not> truthy (rq_requester_id rq) \<or> rq_requester_id rq = userId s \<or> rq_channels rq = []")
  case True
  then have "handleOrgSyncRequest e rq s = s" by (auto simp: handleOrgSyncRequest_def split: option.split)
  then show ?thesis by simp
next
  case False
  let ?rq = "opt_text (rq_requester_id rq)"
  let ?fresh = "filter (\<lambda>kt. \<not> t - snd kt > ANSWER_DEDUPE_MS) (recentAnswers s)"
  obtain me where me: "userId s = Some me" using False by auto
  obtain todo recent where c: "claim_answers e s t ?rq (rq_channels rq) ?fresh = (todo, recent)"
    by (cases "claim_answers e s t ?rq (rq_channels rq) ?fresh") auto
  let ?s1 = "handleOrgSyncRequest e rq s"
  have s1: "recentAnswers ?s1 = recent" "userId ?s1 = Some me"
    using False me c assms(1) by (auto simp: handleOrgSyncRequest_def Let_def userId_def)
  have "list_all (\<lambda>kt. \<not> t - snd kt > ANSWER_DEDUPE_MS) ?fresh" by (simp add: list_all_iff)
  then have "list_all (\<lambda>kt. \<not> t - snd kt > ANSWER_DEDUPE_MS) recent"
    using claim_times [of "\<lambda>v. \<not> t - v > ANSWER_DEDUPE_MS" ?fresh t e s ?rq "rq_channels rq"] c by (simp add: ANSWER_DEDUPE_MS_def)
  then have keep: "filter (\<lambda>kt. \<not> t - snd kt > ANSWER_DEDUPE_MS) recent = recent"
    by (simp add: filter_id_conv list_all_iff)
  have "claim_answers e ?s1 t ?rq (rq_channels rq) recent = ([], recent)"
    using claim_claims [of e s t ?rq "rq_channels rq" ?fresh] c assms(2) by (intro claim_nothing) simp
  then show ?thesis
    using s1 keep False assms(1)
    by (subst handleOrgSyncRequest_def) (simp add: Let_def)
qed

definition toy_request :: sync_request where
  "toy_request = \<lparr>rq_org_id = Some ''o1'', rq_requester_id = Some ''carol'', rq_channel_id = None, rq_conversation_id = None,
     rq_since = None, rq_channels = [(''c1'', Some ''t0'')]\<rparr>"

lemma answered_once_witness:
  "answerChain (handleOrgSyncRequest toy_chat toy_request (handleOrgSyncRequest toy_chat toy_request toy_engine))
     = answerChain (handleOrgSyncRequest toy_chat toy_request toy_engine)"
  by (rule answered_once [where t = 100000 and held = "\<lambda>i. Some 3"]) (simp_all add: toy_chat_def)

section \<open>Conversations\<close>

text \<open>A direct-message conversation names its partner: the engine reads the partner back from the conversation id
  that either side builds, whichever of the two ids comes first.\<close>

lemma dm_partner_roundtrip:
  assumes "userId s = Some me" "length p = length me" "p \<noteq> []"
  shows "dmPartnerOf (Some (dmConversationId me p)) s = Some p \<and> dmConversationId p me = dmConversationId me p"
proof -
  have len: "length (dmConversationId me p) = length me * 2 + 1" using assms(2) by (simp add: dmConversationId_def)
  have sym: "dmConversationId p me = dmConversationId me p" by (auto simp: dmConversationId_def)
  show ?thesis
  proof (cases "me \<le> p")
    case True
    then show ?thesis using assms len sym by (simp add: dmPartnerOf_def dmConversationId_def)
  next
    case False
    then have c: "dmConversationId me p = p @ ''-'' @ me" by (simp add: dmConversationId_def)
    have "take (length me + 1) (p @ ''-'' @ me) = p @ ''-''" using assms(2) by simp
    moreover have "p @ ''-'' \<noteq> me @ ''-''" using False by auto
    moreover have "drop (length p) (p @ ''-'' @ me) = ''-'' @ me" by simp
    ultimately show ?thesis using assms len sym c by (simp add: dmPartnerOf_def)
  qed
qed

lemma dm_partner_roundtrip_witness:
  "dmPartnerOf (Some (dmConversationId ''alice'' ''carol'')) toy_engine = Some ''carol''
   \<and> dmConversationId ''carol'' ''alice'' = dmConversationId ''alice'' ''carol''"
  by (rule dm_partner_roundtrip) (simp_all add: toy_chat_defs)

end
