(* ===== verification/Event_Access.thy ===== *)
theory Event_Access
  imports SC_Prelude
begin

text \<open>
  Who may use an event channel (\<open>services/identity-node/src/utils/eventChannelAccess.ts\<close>): the
  rule shared by media tickets, presence, sends and the MLS membership list.  The tables are
  lists of rows; a query is the comprehension its SQL text says.  A query without an
  ORDER BY returns its rows in an order the database chooses: the model takes the order of
  the table, and no theorem depends on it.
\<close>

section \<open>Tables\<close>

record channel_row =
  ch_org :: string
  ch_event :: "string option"
  ch_frequency :: "bool option"

record event_row =
  ev_org :: string
  ev_commander :: "string option"
  ev_creator :: "string option"
  ev_command_channel :: "string option"

record event_group_row =
  eg_event :: string
  eg_channel :: "string option"

record member_row =
  gm_group :: string
  gm_user :: "string option"
  gm_role :: "string option"
  gm_status :: string

record access_tables =
  t_org_members :: "(string \<times> string) list"
  t_channels :: "(string, channel_row) jsmap"
  t_events :: "(string, event_row) jsmap"
  t_event_groups :: "(string, event_group_row) jsmap"
  t_group_members :: "member_row list"
  t_frequencies :: "(string, string option) jsmap"
  t_frequency_roles :: "(string \<times> string) list"
  t_planners :: "(string \<times> string) list"

section \<open>Channel scopes\<close>

datatype event_kind = Command_kind | Group_kind | Frequency_kind | Other_kind

datatype channel_scope =
    Org_scope string string
  | Event_scope string string string event_kind "string option" "string option"

text \<open>A subselect with LIMIT 1: the id of a row with the property, or NULL.\<close>

definition limit_one :: "('b \<Rightarrow> bool) \<Rightarrow> (string, 'b) jsmap \<Rightarrow> string option" where
  "limit_one P rows = (case filter (\<lambda>r. P (snd r)) rows of [] \<Rightarrow> None | r # _ \<Rightarrow> Some (fst r))"

definition event_kind_of :: "string \<Rightarrow> string option \<Rightarrow> bool \<Rightarrow> string option \<Rightarrow> event_kind" where
  "event_kind_of channelId command is_frequency group_id =
     (if truthy command \<and> command = Some channelId then Command_kind
      else if is_frequency then Frequency_kind
      else if truthy group_id then Group_kind else Other_kind)"

definition getChannelScope :: "'a access_tables_scheme \<Rightarrow> string \<Rightarrow> string \<Rightarrow> channel_scope option" where
  "getChannelScope t channelId orgId = (case al_get (t_channels t) channelId of None \<Rightarrow> None
     | Some c \<Rightarrow>
         if ch_org c \<noteq> orgId then None
         else (let command = Option.bind (ch_event c) (\<lambda>ev. Option.bind (al_get (t_events t) ev) ev_command_channel);
                   group_id = limit_one (\<lambda>g. eg_channel g = Some channelId) (t_event_groups t);
                   frequency_id = limit_one (\<lambda>f. f = Some channelId) (t_frequencies t)
               in if \<not> truthy (ch_event c) then Some (Org_scope orgId channelId)
                  else Some (Event_scope orgId channelId (or_else (ch_event c) [])
                    (event_kind_of channelId command (or_else (ch_frequency c) False) group_id) group_id frequency_id)))"

section \<open>Audiences\<close>

definition accepted :: "member_row \<Rightarrow> bool" where
  "accepted m \<longleftrightarrow> gm_status m = ''accepted''"

text \<open>\<open>STAFF_SQL\<close>: the commander, the creator and the planners.\<close>

definition staff_rows :: "'a access_tables_scheme \<Rightarrow> string \<Rightarrow> string option list" where
  "staff_rows t ev =
     (case al_get (t_events t) ev of None \<Rightarrow> []
      | Some e \<Rightarrow> filter (\<lambda>u. u \<noteq> None) [ev_commander e, ev_creator e])
     @ map (\<lambda>p. Some (snd p)) (filter (\<lambda>p. fst p = ev) (t_planners t))"

definition group_of_event :: "'a access_tables_scheme \<Rightarrow> string \<Rightarrow> string \<Rightarrow> bool" where
  "group_of_event t ev g \<longleftrightarrow> list_ex (\<lambda>r. fst r = g \<and> eg_event (snd r) = ev) (t_event_groups t)"

text \<open>\<open>eventParticipantsSql\<close>: everyone with an accepted place in one of the event's groups.\<close>

definition participant_rows :: "'a access_tables_scheme \<Rightarrow> string \<Rightarrow> string option list" where
  "participant_rows t ev =
     map gm_user (filter (\<lambda>m. group_of_event t ev (gm_group m) \<and> accepted m) (t_group_members t))"

definition group_rows :: "'a access_tables_scheme \<Rightarrow> string option \<Rightarrow> string option list" where
  "group_rows t g = map gm_user (filter (\<lambda>m. Some (gm_group m) = g \<and> accepted m) (t_group_members t))"

definition frequency_rows :: "'a access_tables_scheme \<Rightarrow> string \<Rightarrow> string option \<Rightarrow> string option list" where
  "frequency_rows t ev f =
     map gm_user (filter (\<lambda>m. list_ex (\<lambda>r. Some (fst r) = f \<and> Some (snd r) = gm_role m) (t_frequency_roles t)
       \<and> accepted m \<and> group_of_event t ev (gm_group m)) (t_group_members t))"

text \<open>\<open>[...new Set(rows.filter(Boolean))]\<close>\<close>

definition user_set :: "string option list \<Rightarrow> string list" where
  "user_set rows = remdups (map (\<lambda>u. or_else u []) (filter truthy rows))"

definition channelMemberUserIds :: "'a access_tables_scheme \<Rightarrow> channel_scope \<Rightarrow> string list" where
  "channelMemberUserIds t scope = (case scope of
       Org_scope org _ \<Rightarrow> map snd (filter (\<lambda>p. fst p = org) (t_org_members t))
     | Event_scope org chan ev kind g f \<Rightarrow>
         user_set (case kind of
             Group_kind \<Rightarrow> group_rows t g
           | Frequency_kind \<Rightarrow> frequency_rows t ev f @ staff_rows t ev
           | _ \<Rightarrow> participant_rows t ev @ staff_rows t ev))"

definition eventCascadeMemberUserIds :: "'a access_tables_scheme \<Rightarrow> string \<Rightarrow> string list" where
  "eventCascadeMemberUserIds t ev = user_set (participant_rows t ev @ staff_rows t ev)"

definition canUseChannel :: "'a access_tables_scheme \<Rightarrow> channel_scope \<Rightarrow> string \<Rightarrow> bool" where
  "canUseChannel t scope userId = (case scope of Org_scope _ _ \<Rightarrow> True
     | Event_scope _ _ _ _ _ _ \<Rightarrow> userId \<in> set (channelMemberUserIds t scope))"

section \<open>Lemmas\<close>

lemma set_user_set: "u \<in> set (user_set rows) \<longleftrightarrow> Some u \<in> set rows \<and> u \<noteq> []"
  by (force simp: user_set_def truthy_iff)

lemma distinct_user_set [simp]: "distinct (user_set rows)"
  by (simp add: user_set_def)

lemma user_set_mono: "set rows \<subseteq> set rows' \<Longrightarrow> set (user_set rows) \<subseteq> set (user_set rows')"
  by (auto simp: set_user_set)

lemma frequency_rows_participants: "set (frequency_rows t ev f) \<subseteq> set (participant_rows t ev)"
  by (auto simp: frequency_rows_def participant_rows_def)

lemma group_rows_participants:
  "group_of_event t ev g \<Longrightarrow> set (group_rows t (Some g)) \<subseteq> set (participant_rows t ev)"
  by (auto simp: group_rows_def participant_rows_def)

lemma limit_one_in: "limit_one P rows = Some k \<Longrightarrow> \<exists>v. (k, v) \<in> set rows \<and> P v"
  by (force simp: limit_one_def dest: filter_eq_ConsD split: list.splits)

text \<open>The groups a channel belongs to are groups of the channel's event.\<close>

definition groups_match :: "'a access_tables_scheme \<Rightarrow> bool" where
  "groups_match t \<longleftrightarrow> list_all (\<lambda>(g, r). case eg_channel r of None \<Rightarrow> True
     | Some c \<Rightarrow> (case al_get (t_channels t) c of None \<Rightarrow> True | Some ch \<Rightarrow> ch_event ch = Some (eg_event r))) (t_event_groups t)"

text \<open>The cascade group covers every event channel: whoever may use any channel of an event is among the members the
  event's cascade key is for, so a priority speaker is readable in every channel of the tree.\<close>

lemma cascade_covers_channels:
  assumes "groups_match t" "getChannelScope t chan org = Some (Event_scope org chan ev k g f)"
  shows "set (channelMemberUserIds t (Event_scope org chan ev k g f)) \<subseteq> set (eventCascadeMemberUserIds t ev)"
proof -
  obtain c where c: "al_get (t_channels t) chan = Some c" "ch_event c = Some ev"
      "g = limit_one (\<lambda>g. eg_channel g = Some chan) (t_event_groups t)"
      "k = Group_kind \<Longrightarrow> truthy g"
    using assms(2) by (auto simp: getChannelScope_def Let_def event_kind_of_def truthy_iff split: option.splits if_splits)
  have "set (group_rows t g) \<subseteq> set (participant_rows t ev)" if kg: "k = Group_kind"
  proof -
    obtain g' where g': "g = Some g'" using c(4) [OF kg] by (auto simp: truthy_iff)
    obtain r where "(g', r) \<in> set (t_event_groups t)" "eg_channel r = Some chan"
      using limit_one_in [of "\<lambda>g. eg_channel g = Some chan" "t_event_groups t" g'] c(3) g' by auto
    moreover from this have "eg_event r = ev"
      using assms(1) c(1,2) unfolding groups_match_def list_all_iff by (auto dest!: bspec)
    ultimately have "group_of_event t ev g'" by (auto simp: group_of_event_def list_ex_iff intro!: bexI [of _ "(g', r)"])
    then show ?thesis unfolding g' by (rule group_rows_participants)
  qed
  then show ?thesis
    using frequency_rows_participants [of t ev f] unfolding channelMemberUserIds_def eventCascadeMemberUserIds_def
    by (cases k) (simp_all only: channel_scope.case event_kind.case, (intro user_set_mono; auto)+)
qed

definition toy_access :: access_tables where
  "toy_access = \<lparr>t_org_members = [(''o1'', ''alice''), (''o1'', ''bob''), (''o1'', ''carol'')],
     t_channels = [(''c1'', \<lparr>ch_org = ''o1'', ch_event = None, ch_frequency = None\<rparr>),
                   (''g1'', \<lparr>ch_org = ''o1'', ch_event = Some ''e1'', ch_frequency = Some False\<rparr>)],
     t_events = [(''e1'', \<lparr>ev_org = ''o1'', ev_commander = Some ''alice'', ev_creator = None, ev_command_channel = Some ''k1''\<rparr>)],
     t_event_groups = [(''gr1'', \<lparr>eg_event = ''e1'', eg_channel = Some ''g1''\<rparr>)],
     t_group_members = [\<lparr>gm_group = ''gr1'', gm_user = Some ''bob'', gm_role = None, gm_status = ''accepted''\<rparr>,
                        \<lparr>gm_group = ''gr1'', gm_user = Some ''carol'', gm_role = None, gm_status = ''pending''\<rparr>],
     t_frequencies = [], t_frequency_roles = [], t_planners = []\<rparr>"

lemmas access_defs = toy_access_def getChannelScope_def event_kind_of_def limit_one_def channelMemberUserIds_def
  eventCascadeMemberUserIds_def user_set_def group_rows_def participant_rows_def staff_rows_def group_of_event_def accepted_def

lemma toy_group_scope:
  "getChannelScope toy_access ''g1'' ''o1'' = Some (Event_scope ''o1'' ''g1'' ''e1'' Group_kind (Some ''gr1'') None)"
  by (simp add: access_defs)

lemma toy_group_audience:
  "channelMemberUserIds toy_access (Event_scope ''o1'' ''g1'' ''e1'' Group_kind (Some ''gr1'') None) = [''bob'']"
  by (simp add: access_defs)

lemma cascade_covers_channels_witness:
  "set (channelMemberUserIds toy_access (Event_scope ''o1'' ''g1'' ''e1'' Group_kind (Some ''gr1'') None))
     \<subseteq> set (eventCascadeMemberUserIds toy_access ''e1'')"
  by (rule cascade_covers_channels [OF _ toy_group_scope]) (simp add: groups_match_def toy_access_def)

end
