(* ===== verification/Mls_Server.thy ===== *)
theory Mls_Server
  imports Event_Access Mls_Env
begin

text \<open>
  The delivery service of the MLS groups (\<open>services/identity-node/src/controllers/mlsGroupController.ts\<close>):
  one row per group with its epoch and GroupInfo, the commit log, and the routes that submit
  commits, read the log back, serve GroupInfos and take external commits.

  A handler takes the tables and answers a status with a body, and the tables after it.
  \<open>t_down\<close> says the database does not answer: every handler that reaches it then answers
  500 and the transaction is rolled back.  Events published on NATS are appended to
  \<open>t_published\<close> in their order.  \<open>buf\<close> is what \<open>Buffer.from(x, 'base64').toString('base64')\<close> makes
  of the text of an upload.  Messages are written in ASCII (a dash for the source's em dash).
\<close>

section \<open>Tables, requests and answers\<close>

record group_row =
  gr_epoch :: int
  gr_info :: "string option"
  gr_info_epoch :: "int option"

record log_row =
  lr_epoch :: int
  lr_commit :: string
  lr_welcome :: "string option"
  lr_welcomed :: "string list option"

datatype group_ref = Conversation_ref string | Channel_ref string | Event_ref string

datatype mls_event = Commit_event group_ref string | Welcome_event group_ref string

record server = access_tables +
  t_friendships :: "(string \<times> string \<times> nat) list"
  t_groups :: "(string, group_row) jsmap"
  t_log :: "(string \<times> log_row) list"
  t_devices :: "(string \<times> string \<times> string, int option \<times> string option) jsmap"
  t_published :: "(string \<times> mls_event) list"
  t_down :: bool

datatype 'a response = Refused nat string "string option" | Reply nat 'a

definition unauthorized :: "'a response" where "unauthorized = Refused 401 ''Unauthorized'' None"
definition invalid :: "'a response" where "invalid = Refused 400 ''Validation failed'' None"
definition internal_error :: "'a response" where "internal_error = Refused 500 ''Internal server error'' None"

definition epoch_conflict :: "'a response" where
  "epoch_conflict = Refused 409 ''Epoch conflict - this commit no longer targets the current epoch'' None"

text \<open>Bodies as the schemas leave them; \<^const>\<open>None\<close> for a body whose fields have other types.\<close>

record commit_body =
  cb_epoch :: int
  cb_commit :: string
  cb_welcome :: "string option"
  cb_welcomed :: "string list option"
  cb_group_info :: "string option"

definition is_hex :: "char \<Rightarrow> bool" where
  "is_hex c = (c \<in> set ''0123456789abcdefABCDEF'')"

definition UUID_RE :: "string \<Rightarrow> bool" where
  "UUID_RE s \<longleftrightarrow> length s = 36 \<and>
     list_all (\<lambda>i. if i \<in> set [8, 13, 18, 23] then s ! i = CHR ''-'' else is_hex (s ! i)) [0..<36]"

definition group_info_ok :: "string option \<Rightarrow> bool" where
  "group_info_ok g \<longleftrightarrow> length (or_else g []) \<le> 4000000"

definition submitDmCommitSchema :: "commit_body \<Rightarrow> bool" where
  "submitDmCommitSchema b \<longleftrightarrow> cb_epoch b > 0 \<and> length (cb_commit b) \<le> 200000
     \<and> length (or_else (cb_welcome b) []) \<le> 500000 \<and> group_info_ok (cb_group_info b)"

definition welcomed_ok :: "nat \<Rightarrow> commit_body \<Rightarrow> bool" where
  "welcomed_ok n b \<longleftrightarrow> length (or_else (cb_welcomed b) []) \<le> n \<and> list_all UUID_RE (or_else (cb_welcomed b) [])"

definition submitChannelCommitSchema :: "commit_body \<Rightarrow> bool" where
  "submitChannelCommitSchema b \<longleftrightarrow> cb_epoch b > 0 \<and> length (cb_commit b) \<le> 500000
     \<and> length (or_else (cb_welcome b) []) \<le> 2000000 \<and> welcomed_ok 50 b \<and> group_info_ok (cb_group_info b)"

definition submitEventGroupCommitSchema :: "commit_body \<Rightarrow> bool" where
  "submitEventGroupCommitSchema b \<longleftrightarrow> cb_epoch b > 0 \<and> length (cb_commit b) \<le> 500000
     \<and> length (or_else (cb_welcome b) []) \<le> 2000000 \<and> welcomed_ok 200 b \<and> group_info_ok (cb_group_info b)"

definition externalCommitSchema :: "commit_body \<Rightarrow> bool" where
  "externalCommitSchema b \<longleftrightarrow> cb_epoch b > 0 \<and> length (cb_commit b) \<le> 500000 \<and> group_info_ok (cb_group_info b)"

definition putGroupInfoSchema :: "int \<times> string \<Rightarrow> bool" where
  "putGroupInfoSchema b \<longleftrightarrow> fst b > 0 \<and> 1 \<le> length (snd b) \<and> length (snd b) \<le> 4000000"

definition safeParse :: "('b \<Rightarrow> bool) \<Rightarrow> 'b option \<Rightarrow> 'b option" where
  "safeParse schema b = (case b of None \<Rightarrow> None | Some x \<Rightarrow> if schema x then Some x else None)"

section \<open>The epoch bump\<close>

definition new_group :: group_row where
  "new_group = \<lparr>gr_epoch = 0, gr_info = None, gr_info_epoch = None\<rparr>"

text \<open>INSERT ... ON CONFLICT DO NOTHING, then the row.\<close>

definition group_of :: "'a server_scheme \<Rightarrow> string \<Rightarrow> group_row" where
  "group_of t g = or_else (al_get (t_groups t) g) new_group"

definition logged_row :: "(string \<Rightarrow> string) \<Rightarrow> int \<Rightarrow> string \<Rightarrow> string option \<Rightarrow> string list option \<Rightarrow> log_row" where
  "logged_row buf epoch commit welcome welcomed =
     \<lparr>lr_epoch = epoch, lr_commit = buf commit,
      lr_welcome = (if truthy welcome then Some (buf (or_else welcome [])) else None),
      lr_welcomed = (if or_else welcomed [] \<noteq> [] then welcomed else None)\<rparr>"

definition bumped :: "(string \<Rightarrow> string) \<Rightarrow> int \<Rightarrow> string option \<Rightarrow> group_row \<Rightarrow> group_row" where
  "bumped buf epoch groupInfo r =
     (if truthy groupInfo then \<lparr>gr_epoch = epoch, gr_info = Some (buf (or_else groupInfo [])), gr_info_epoch = Some epoch\<rparr>
      else r\<lparr>gr_epoch := epoch\<rparr>)"

definition log_has :: "'a server_scheme \<Rightarrow> string \<Rightarrow> int \<Rightarrow> bool" where
  "log_has t g epoch \<longleftrightarrow> list_ex (\<lambda>r. fst r = g \<and> lr_epoch (snd r) = epoch) (t_log t)"

text \<open>One transaction: the bump is conditional on the epoch, a failed bump rolls the insert of the row back.\<close>

definition bumpGroupEpoch :: "(string \<Rightarrow> string) \<Rightarrow> string \<Rightarrow> int \<Rightarrow> string \<Rightarrow> string option \<Rightarrow> string list option
    \<Rightarrow> string option \<Rightarrow> 'a server_scheme \<Rightarrow> bool \<times> 'a server_scheme" where
  "bumpGroupEpoch buf g epoch commit welcome welcomed groupInfo t =
     (if gr_epoch (group_of t g) \<noteq> epoch - 1 then (False, t)
      else (True, t\<lparr>t_groups := al_set g (bumped buf epoch groupInfo (group_of t g)) (t_groups t),
                    t_log := (if log_has t g epoch then t_log t
                              else t_log t @ [(g, logged_row buf epoch commit welcome welcomed)])\<rparr>))"

section \<open>Reading the log back\<close>

definition group_log :: "'a server_scheme \<Rightarrow> string \<Rightarrow> log_row list" where
  "group_log t g = stable_sort (\<lambda>a b. lr_epoch a \<le> lr_epoch b) (map snd (filter (\<lambda>r. fst r = g) (t_log t)))"

definition welcomes :: "string \<Rightarrow> log_row \<Rightarrow> bool" where
  "welcomes userId r \<longleftrightarrow> lr_welcome r \<noteq> None \<and> userId \<in> set (or_else (lr_welcomed r) [])"

text \<open>
  The log and the group row are read by two queries without a transaction: \<open>t1\<close> are the
  tables of the first, \<open>t2\<close> those of the second.
\<close>

definition fetchGroupCatchUp :: "string \<Rightarrow> string \<Rightarrow> 'a server_scheme \<Rightarrow> 'a server_scheme \<Rightarrow> catch_up" where
  "fetchGroupCatchUp g userId t1 t2 =
     (let rows = group_log t1 g in
      \<lparr>cu_welcome = (case filter (welcomes userId) rows of [] \<Rightarrow> None | r # _ \<Rightarrow> lr_welcome r),
       cu_commits = map (\<lambda>r. (lr_epoch r, lr_commit r)) rows,
       cu_current_epoch = Some (case al_get (t_groups t2) g of None \<Rightarrow> 0 | Some r \<Rightarrow> gr_epoch r),
       cu_group_info_epoch = Option.bind (al_get (t_groups t2) g) gr_info_epoch\<rparr>)"

section \<open>Who may reach a group\<close>

text \<open>User ids in a friendship are of type uuid: PostgreSQL compares them whatever the case of the text.\<close>

definition lower :: "char \<Rightarrow> char" where
  "lower c = (if c \<in> set ''ABCDEFGHIJKLMNOPQRSTUVWXYZ'' then char_of (of_char c + 32 :: nat) else c)"

definition same_uuid :: "string \<Rightarrow> string \<Rightarrow> bool" where
  "same_uuid a b \<longleftrightarrow> map lower a = map lower b"

definition friends :: "'a server_scheme \<Rightarrow> string \<Rightarrow> string \<Rightarrow> bool" where
  "friends t a b \<longleftrightarrow> list_ex (\<lambda>(x, y, status). status = 1
     \<and> (same_uuid x a \<and> same_uuid y b \<or> same_uuid x b \<and> same_uuid y a)) (t_friendships t)"

definition convId :: "string \<Rightarrow> string \<Rightarrow> string" where
  "convId me other = (let ids = stable_sort (\<le>) [me, other] in ids ! 0 @ ''-'' @ ids ! 1)"

definition is_org_member :: "'a server_scheme \<Rightarrow> string \<Rightarrow> string \<Rightarrow> bool" where
  "is_org_member t org u \<longleftrightarrow> (org, u) \<in> set (t_org_members t)"

definition event_in_org :: "'a server_scheme \<Rightarrow> string \<Rightarrow> string \<Rightarrow> bool" where
  "event_in_org t ev org \<longleftrightarrow> (case al_get (t_events t) ev of None \<Rightarrow> False | Some e \<Rightarrow> ev_org e = org)"

text \<open>\<open>GroupAccess\<close>: the group and the subjects an accepted commit is relayed to.\<close>

record group_access =
  ga_group :: string
  ga_ref :: group_ref
  ga_subjects :: "string list"

definition user_subject :: "string \<Rightarrow> string" where
  "user_subject u = ''specter.event.user.'' @ u"

definition channel_subject :: "string \<Rightarrow> string" where
  "channel_subject c = ''specter.msg.channel.'' @ c"

text \<open>The caller of a DM route, checked against its parameter.\<close>

definition dm_params :: "string option \<Rightarrow> string \<Rightarrow> 'b response + string" where
  "dm_params user other =
     (if \<not> truthy user then Inl unauthorized
      else if \<not> UUID_RE other then Inl (Refused 400 ''Invalid userId'' None)
      else if user = Some other then Inl (Refused 400 ''Cannot MLS-commit with yourself'' None)
      else Inr (or_else user []))"

definition not_friends :: "'b response" where "not_friends = Refused 403 ''Not friends'' None"

definition resolveDmGroup :: "string option \<Rightarrow> string \<Rightarrow> 'a server_scheme \<Rightarrow> 'b response + group_access" where
  "resolveDmGroup user other t = (case dm_params user other of Inl r \<Rightarrow> Inl r
     | Inr me \<Rightarrow>
         if t_down t then Inl internal_error
         else if \<not> friends t me other then Inl not_friends
         else Inr \<lparr>ga_group = convId me other, ga_ref = Conversation_ref (convId me other),
                   ga_subjects = map user_subject [me, other]\<rparr>)"

text \<open>Audience checks shared by the channel routes: the scope of the channel, for an event channel the audience.\<close>

definition resolve_channel :: "string option \<Rightarrow> string \<Rightarrow> string \<Rightarrow> 'a server_scheme \<Rightarrow> 'b response + channel_scope" where
  "resolve_channel user org chan t = (case user of None \<Rightarrow> Inl unauthorized
     | Some me \<Rightarrow>
         if me = [] then Inl unauthorized
         else if t_down t then Inl internal_error
         else if \<not> is_org_member t org me then Inl (Refused 403 ''Not a member of this organization'' None)
         else (case getChannelScope t chan org of
             None \<Rightarrow> Inl (Refused 404 ''Channel not found'' (Some ''CHANNEL_NOT_FOUND''))
           | Some scope \<Rightarrow>
               if \<not> canUseChannel t scope me then Inl (Refused 403 ''Not assigned to this event channel'' None)
               else Inr scope))"

definition resolveChannelGroup :: "string option \<Rightarrow> string \<Rightarrow> string \<Rightarrow> 'a server_scheme \<Rightarrow> 'b response + group_access" where
  "resolveChannelGroup user org chan t = (case resolve_channel user org chan t of Inl r \<Rightarrow> Inl r
     | Inr _ \<Rightarrow> Inr \<lparr>ga_group = chan, ga_ref = Channel_ref chan, ga_subjects = [channel_subject chan]\<rparr>)"

definition resolveEventGroup :: "string option \<Rightarrow> string \<Rightarrow> string \<Rightarrow> 'a server_scheme \<Rightarrow> 'b response + group_access" where
  "resolveEventGroup user org ev t = (case user of None \<Rightarrow> Inl unauthorized
     | Some me \<Rightarrow>
         if me = [] then Inl unauthorized
         else if t_down t then Inl internal_error
         else if \<not> event_in_org t ev org then Inl (Refused 404 ''Event not found'' None)
         else if me \<notin> set (eventCascadeMemberUserIds t ev) then Inl (Refused 403 ''Not a participant of this event'' None)
         else Inr \<lparr>ga_group = ev, ga_ref = Event_ref ev,
                   ga_subjects = map user_subject (eventCascadeMemberUserIds t ev)\<rparr>)"

section \<open>Submitting commits\<close>

text \<open>The bump and what follows it: 409 and nothing else, or the events in their order and 202.\<close>

definition commit_and_publish :: "(string \<Rightarrow> string) \<Rightarrow> string \<Rightarrow> commit_body \<Rightarrow> string option \<Rightarrow> string list option
    \<Rightarrow> (string \<times> mls_event) list \<Rightarrow> 'a server_scheme \<Rightarrow> int response \<times> 'a server_scheme" where
  "commit_and_publish buf g b welcome welcomed published t =
     (if t_down t then (internal_error, t)
      else (case bumpGroupEpoch buf g (cb_epoch b) (cb_commit b) welcome welcomed (cb_group_info b) t of
          (False, t1) \<Rightarrow> (epoch_conflict, t1)
        | (True, t1) \<Rightarrow> (Reply 202 (cb_epoch b), t1\<lparr>t_published := t_published t1 @ published\<rparr>)))"

definition dm_events :: "string \<Rightarrow> string list \<Rightarrow> commit_body \<Rightarrow> (string \<times> mls_event) list" where
  "dm_events conv recipients b =
     concat (map (\<lambda>u. (user_subject u, Commit_event (Conversation_ref conv) (cb_commit b))
       # (if truthy (cb_welcome b) then [(user_subject u, Welcome_event (Conversation_ref conv) (or_else (cb_welcome b) []))] else [])) recipients)"

definition welcome_events :: "group_ref \<Rightarrow> commit_body \<Rightarrow> (string \<times> mls_event) list" where
  "welcome_events ref b = (if truthy (cb_welcome b)
     then map (\<lambda>u. (user_subject u, Welcome_event ref (or_else (cb_welcome b) []))) (or_else (cb_welcomed b) []) else [])"

definition submitDmCommit :: "(string \<Rightarrow> string) \<Rightarrow> string option \<Rightarrow> string \<Rightarrow> commit_body option \<Rightarrow> 'a server_scheme
    \<Rightarrow> int response \<times> 'a server_scheme" where
  "submitDmCommit buf user other body t = (case dm_params user other of Inl r \<Rightarrow> (r, t)
     | Inr me \<Rightarrow> (case safeParse submitDmCommitSchema body of None \<Rightarrow> (invalid, t)
         | Some b \<Rightarrow>
             if t_down t then (internal_error, t)
             else if \<not> friends t me other then (not_friends, t)
             else commit_and_publish buf (convId me other) b (cb_welcome b)
                    (if truthy (cb_welcome b) then Some [me, other] else None) (dm_events (convId me other) [me, other] b) t))"

text \<open>
  The checks of a channel or event commit end at a list of events to publish; the tables may
  have changed when the bump runs, which is why the two are separate functions.
\<close>

definition channel_commit_gate :: "string option \<Rightarrow> string \<Rightarrow> string \<Rightarrow> commit_body option \<Rightarrow> 'a server_scheme
    \<Rightarrow> int response + commit_body" where
  "channel_commit_gate user org chan body t = (if \<not> truthy user then Inl unauthorized
     else (case safeParse submitChannelCommitSchema body of None \<Rightarrow> Inl invalid
         | Some b \<Rightarrow>
             if t_down t then Inl internal_error
             else if \<not> is_org_member t org (or_else user []) then Inl (Refused 403 ''Not a member of this organization'' None)
             else (case getChannelScope t chan org of None \<Rightarrow> Inl (Refused 404 ''Channel not found'' None)
               | Some (Org_scope _ _) \<Rightarrow> Inr b
               | Some scope \<Rightarrow>
                   if or_else user [] \<notin> set (channelMemberUserIds t scope) then Inl (Refused 403 ''Not assigned to this event channel'' None)
                   else if \<not> set (or_else (cb_welcomed b) []) \<subseteq> set (channelMemberUserIds t scope)
                     then Inl (Refused 403 ''Cannot add someone without access to this event channel'' None)
                   else Inr b)))"

definition channel_events :: "string \<Rightarrow> commit_body \<Rightarrow> (string \<times> mls_event) list" where
  "channel_events chan b = (channel_subject chan, Commit_event (Channel_ref chan) (cb_commit b)) # welcome_events (Channel_ref chan) b"

definition submitChannelCommit :: "(string \<Rightarrow> string) \<Rightarrow> string option \<Rightarrow> string \<Rightarrow> string \<Rightarrow> commit_body option
    \<Rightarrow> 'a server_scheme \<Rightarrow> int response \<times> 'a server_scheme" where
  "submitChannelCommit buf user org chan body t = (case channel_commit_gate user org chan body t of Inl r \<Rightarrow> (r, t)
     | Inr b \<Rightarrow> commit_and_publish buf chan b (cb_welcome b) (cb_welcomed b) (channel_events chan b) t)"

definition event_commit_gate :: "string option \<Rightarrow> string \<Rightarrow> string \<Rightarrow> commit_body option \<Rightarrow> 'a server_scheme
    \<Rightarrow> int response + string list \<times> commit_body" where
  "event_commit_gate user org ev body t = (if \<not> truthy user then Inl unauthorized
     else (case safeParse submitEventGroupCommitSchema body of None \<Rightarrow> Inl invalid
         | Some b \<Rightarrow>
             if t_down t then Inl internal_error
             else if \<not> event_in_org t ev org then Inl (Refused 404 ''Event not found'' None)
             else (let members = eventCascadeMemberUserIds t ev in
               if or_else user [] \<notin> set members then Inl (Refused 403 ''Not a participant of this event'' None)
               else if \<not> set (or_else (cb_welcomed b) []) \<subseteq> set members
                 then Inl (Refused 403 ''Cannot add someone who is not signed up to this event'' None)
               else Inr (members, b))))"

definition event_events :: "string \<Rightarrow> string list \<Rightarrow> commit_body \<Rightarrow> (string \<times> mls_event) list" where
  "event_events ev members b =
     map (\<lambda>u. (user_subject u, Commit_event (Event_ref ev) (cb_commit b))) members @ welcome_events (Event_ref ev) b"

definition submitEventGroupCommit :: "(string \<Rightarrow> string) \<Rightarrow> string option \<Rightarrow> string \<Rightarrow> string \<Rightarrow> commit_body option
    \<Rightarrow> 'a server_scheme \<Rightarrow> int response \<times> 'a server_scheme" where
  "submitEventGroupCommit buf user org ev body t = (case event_commit_gate user org ev body t of Inl r \<Rightarrow> (r, t)
     | Inr (members, b) \<Rightarrow> commit_and_publish buf ev b (cb_welcome b) (cb_welcomed b) (event_events ev members b) t)"

section \<open>Catch-up and members\<close>

definition getDmMlsCatchUp :: "string option \<Rightarrow> string \<Rightarrow> 'a server_scheme \<Rightarrow> 'a server_scheme \<Rightarrow> catch_up response" where
  "getDmMlsCatchUp user other t1 t2 = (case dm_params user other of Inl r \<Rightarrow> r
     | Inr me \<Rightarrow> if t_down t1 then internal_error else if \<not> friends t1 me other then not_friends
         else if t_down t2 then internal_error else Reply 200 (fetchGroupCatchUp (convId me other) me t1 t2))"

definition getEventGroupMlsCatchUp :: "string option \<Rightarrow> string \<Rightarrow> string \<Rightarrow> 'a server_scheme \<Rightarrow> 'a server_scheme \<Rightarrow> catch_up response" where
  "getEventGroupMlsCatchUp user org ev t1 t2 = (if \<not> truthy user then unauthorized
     else if t_down t1 then internal_error
     else if \<not> event_in_org t1 ev org then Refused 404 ''Event not found'' None
     else if or_else user [] \<notin> set (eventCascadeMemberUserIds t1 ev) then Refused 403 ''Not a participant of this event'' None
     else if t_down t2 then internal_error
     else Reply 200 (fetchGroupCatchUp ev (or_else user []) t1 t2))"

definition channel_in_org :: "'a server_scheme \<Rightarrow> string \<Rightarrow> string \<Rightarrow> bool" where
  "channel_in_org t chan org \<longleftrightarrow> (case al_get (t_channels t) chan of None \<Rightarrow> False | Some c \<Rightarrow> ch_org c = org)"

definition getChannelMlsCatchUp :: "string option \<Rightarrow> string \<Rightarrow> string \<Rightarrow> 'a server_scheme \<Rightarrow> 'a server_scheme \<Rightarrow> catch_up response" where
  "getChannelMlsCatchUp user org chan t1 t2 = (if \<not> truthy user then unauthorized
     else if t_down t1 then internal_error
     else if \<not> is_org_member t1 org (or_else user []) then Refused 403 ''Not a member of this organization'' None
     else if \<not> channel_in_org t1 chan org then Refused 404 ''Channel not found'' None
     else if t_down t2 then internal_error
     else Reply 200 (fetchGroupCatchUp chan (or_else user []) t1 t2))"

definition getChannelMlsMembers :: "string option \<Rightarrow> string \<Rightarrow> string \<Rightarrow> 'a server_scheme \<Rightarrow> (channel_scope \<times> string list) response" where
  "getChannelMlsMembers user org chan t = (if \<not> truthy user then unauthorized
     else if t_down t then internal_error
     else if \<not> is_org_member t org (or_else user []) then Refused 403 ''Not a member of this organization'' None
     else (case getChannelScope t chan org of None \<Rightarrow> Refused 404 ''Channel not found'' (Some ''CHANNEL_NOT_FOUND'')
       | Some scope \<Rightarrow> Reply 200 (scope, channelMemberUserIds t scope)))"

section \<open>GroupInfo and external commits\<close>

record info_reply =
  ir_exists :: bool
  ir_epoch :: int
  ir_info :: "string option"
  ir_info_epoch :: "int option"

definition group_info_of :: "string \<Rightarrow> 'a server_scheme \<Rightarrow> info_reply" where
  "group_info_of g t = (case al_get (t_groups t) g of None \<Rightarrow> \<lparr>ir_exists = False, ir_epoch = 0, ir_info = None, ir_info_epoch = None\<rparr>
     | Some r \<Rightarrow>
         if gr_epoch r = 0 then \<lparr>ir_exists = False, ir_epoch = 0, ir_info = None, ir_info_epoch = None\<rparr>
         else \<lparr>ir_exists = True, ir_epoch = gr_epoch r,
                ir_info = (if gr_info_epoch r = Some (gr_epoch r) then gr_info r else None), ir_info_epoch = gr_info_epoch r\<rparr>)"

definition getGroupInfo :: "('a server_scheme \<Rightarrow> info_reply response + group_access) \<Rightarrow> 'a server_scheme \<Rightarrow> info_reply response" where
  "getGroupInfo resolve t = (case resolve t of Inl r \<Rightarrow> r | Inr a \<Rightarrow> Reply 200 (group_info_of (ga_group a) t))"

text \<open>UPDATE ... WHERE group_id = $1 AND current_epoch = $2.\<close>

definition put_info :: "(string \<Rightarrow> string) \<Rightarrow> string \<Rightarrow> int \<Rightarrow> string \<Rightarrow> 'a server_scheme \<Rightarrow> bool \<times> 'a server_scheme" where
  "put_info buf g epoch info t = (case al_get (t_groups t) g of None \<Rightarrow> (False, t)
     | Some r \<Rightarrow> if gr_epoch r \<noteq> epoch then (False, t)
         else (True, t\<lparr>t_groups := al_set g (r\<lparr>gr_info := Some (buf info), gr_info_epoch := Some epoch\<rparr>) (t_groups t)\<rparr>))"

definition putGroupInfo :: "(string \<Rightarrow> string) \<Rightarrow> ('a server_scheme \<Rightarrow> int response + group_access) \<Rightarrow> (int \<times> string) option
    \<Rightarrow> 'a server_scheme \<Rightarrow> int response \<times> 'a server_scheme" where
  "putGroupInfo buf resolve body t = (case safeParse putGroupInfoSchema body of None \<Rightarrow> (invalid, t)
     | Some (epoch, info) \<Rightarrow> (case resolve t of Inl r \<Rightarrow> (r, t)
         | Inr a \<Rightarrow> (case put_info buf (ga_group a) epoch info t of
             (False, t1) \<Rightarrow> (Refused 409 ''Epoch conflict - not the current epoch'' (Some ''EPOCH_CONFLICT''), t1)
           | (True, t1) \<Rightarrow> (Reply 200 epoch, t1))))"

definition relay_events :: "group_access \<Rightarrow> string \<Rightarrow> (string \<times> mls_event) list" where
  "relay_events a commit = map (\<lambda>subj. (subj, Commit_event (ga_ref a) commit)) (ga_subjects a)"

definition submitExternalCommit :: "(string \<Rightarrow> string) \<Rightarrow> ('a server_scheme \<Rightarrow> int response + group_access) \<Rightarrow> commit_body option
    \<Rightarrow> 'a server_scheme \<Rightarrow> int response \<times> 'a server_scheme" where
  "submitExternalCommit buf resolve body t = (case safeParse externalCommitSchema body of None \<Rightarrow> (invalid, t)
     | Some b \<Rightarrow> (case resolve t of Inl r \<Rightarrow> (r, t)
         | Inr a \<Rightarrow> commit_and_publish buf (ga_group a) b None None (relay_events a (cb_commit b)) t))"

definition getChannelGroupInfo where "getChannelGroupInfo user org chan = getGroupInfo (resolveChannelGroup user org chan)"
definition getEventGroupInfo where "getEventGroupInfo user org ev = getGroupInfo (resolveEventGroup user org ev)"
definition getDmGroupInfo where "getDmGroupInfo user other = getGroupInfo (resolveDmGroup user other)"
definition putChannelGroupInfo where "putChannelGroupInfo buf user org chan = putGroupInfo buf (resolveChannelGroup user org chan)"
definition putEventGroupInfo where "putEventGroupInfo buf user org ev = putGroupInfo buf (resolveEventGroup user org ev)"
definition putDmGroupInfo where "putDmGroupInfo buf user other = putGroupInfo buf (resolveDmGroup user other)"

definition submitChannelExternalCommit where
  "submitChannelExternalCommit buf user org chan = submitExternalCommit buf (resolveChannelGroup user org chan)"

definition submitEventGroupExternalCommit where
  "submitEventGroupExternalCommit buf user org ev = submitExternalCommit buf (resolveEventGroup user org ev)"

definition submitDmExternalCommit where
  "submitDmExternalCommit buf user other = submitExternalCommit buf (resolveDmGroup user other)"

section \<open>Device status\<close>

record device_report =
  dr_group :: string
  dr_epoch :: "int option"
  dr_status :: "string option"

definition deviceStatusSchema :: "string \<times> device_report list \<Rightarrow> bool" where
  "deviceStatusSchema b \<longleftrightarrow> 1 \<le> length (fst b) \<and> length (fst b) \<le> 64 \<and> length (snd b) \<le> 500
     \<and> list_all (\<lambda>r. 1 \<le> length (dr_group r) \<and> length (dr_group r) \<le> 200
         \<and> or_else (dr_epoch r) 0 \<ge> 0 \<and> length (or_else (dr_status r) []) \<le> 120) (snd b)"

definition reportDeviceStatus :: "string option \<Rightarrow> (string \<times> device_report list) option \<Rightarrow> 'a server_scheme
    \<Rightarrow> nat response \<times> 'a server_scheme" where
  "reportDeviceStatus user body t = (if \<not> truthy user then (unauthorized, t)
     else (case safeParse deviceStatusSchema body of None \<Rightarrow> (invalid, t)
       | Some (device, reports) \<Rightarrow>
           if t_down t \<and> reports \<noteq> [] then (internal_error, t)
           else (Reply 200 (length reports),
             t\<lparr>t_devices := fold (\<lambda>r. al_set (or_else user [], device, dr_group r) (dr_epoch r, dr_status r)) reports (t_devices t)\<rparr>)))"

end
