(* ===== verification/Mls_Server_Props.thy ===== *)
theory Mls_Server_Props
  imports Mls_Server Mls_Groups
begin

text \<open>
  What the delivery service promises, over every interleaving of requests: one commit per
  epoch and a log without gaps, a GroupInfo that belongs to the epoch it is served with,
  and who gets through the gates.  The gates read the tables before the bump and other
  requests may run in between, so a run is a sequence of bumps, GroupInfo uploads and
  changes of every other table.
\<close>

section \<open>Runs of the service\<close>

datatype accepted_op = Commit_op string int string "string option" | Info_op string int string

inductive server_run :: "(string \<Rightarrow> string) \<Rightarrow> accepted_op list \<Rightarrow> server \<Rightarrow> bool" for buf where
  Run_start: "t_groups t = [] \<Longrightarrow> t_log t = [] \<Longrightarrow> server_run buf [] t"
| Run_commit: "server_run buf ops t \<Longrightarrow> cb_epoch b > 0 \<Longrightarrow> commit_and_publish buf g b w ws evs t = (Reply 202 n, t') \<Longrightarrow>
    server_run buf (ops @ [Commit_op g n (cb_commit b) (cb_group_info b)]) t'"
| Run_info: "server_run buf ops t \<Longrightarrow> n > 0 \<Longrightarrow> put_info buf g n info t = (True, t') \<Longrightarrow> server_run buf (ops @ [Info_op g n info]) t'"
| Run_other: "server_run buf ops t \<Longrightarrow> t_groups t' = t_groups t \<Longrightarrow> t_log t' = t_log t \<Longrightarrow> server_run buf ops t'"

inductive_cases run_emptyE: "server_run buf [] t"

definition rows_of :: "'a server_scheme \<Rightarrow> string \<Rightarrow> log_row list" where
  "rows_of t g = map snd (filter (\<lambda>r. fst r = g) (t_log t))"

definition commits_of :: "string \<Rightarrow> accepted_op list \<Rightarrow> (int \<times> string) list" where
  "commits_of g ops = concat (map (\<lambda>a. case a of Commit_op h n c i \<Rightarrow> if h = g then [(n, c)] else [] | Info_op _ _ _ \<Rightarrow> []) ops)"

definition uploads_of :: "string \<Rightarrow> accepted_op list \<Rightarrow> (int \<times> string) list" where
  "uploads_of g ops = concat (map (\<lambda>a. case a of
       Commit_op h n c i \<Rightarrow> if h = g \<and> truthy i then [(n, or_else i [])] else []
     | Info_op h n i \<Rightarrow> if h = g then [(n, i)] else []) ops)"

lemma commits_of_append [simp]: "commits_of g (ops @ ops') = commits_of g ops @ commits_of g ops'"
  by (simp add: commits_of_def)

lemma uploads_of_append [simp]: "uploads_of g (ops @ ops') = uploads_of g ops @ uploads_of g ops'"
  by (simp add: uploads_of_def)

lemma commits_of_one [simp]:
  "commits_of g [Commit_op h n c i] = (if h = g then [(n, c)] else [])" "commits_of g [Info_op h n j] = []" "commits_of g [] = []"
  by (simp_all add: commits_of_def)

lemma uploads_of_one [simp]:
  "uploads_of g [Commit_op h n c i] = (if h = g \<and> truthy i then [(n, or_else i [])] else [])"
  "uploads_of g [Info_op h n j] = (if h = g then [(n, j)] else [])" "uploads_of g [] = []"
  by (simp_all add: uploads_of_def)

text \<open>An accepted commit, in terms of the tables.\<close>

lemma commit_accepted:
  assumes "commit_and_publish buf g b w ws evs t = (Reply 202 n, t')"
  shows "n = cb_epoch b" "gr_epoch (group_of t g) = n - 1"
    "t_groups t' = al_set g (bumped buf n (cb_group_info b) (group_of t g)) (t_groups t)"
    "t_log t' = (if log_has t g n then t_log t else t_log t @ [(g, logged_row buf n (cb_commit b) w ws)])"
  using assms by (auto simp: commit_and_publish_def bumpGroupEpoch_def internal_error_def epoch_conflict_def split: if_splits)

lemma group_of_bumped:
  assumes "t_groups t' = al_set g r (t_groups t)"
  shows "group_of t' h = (if h = g then r else group_of t h)"
  by (simp add: group_of_def assms)

lemma bumped_fields [simp]:
  "gr_epoch (bumped buf n i r) = n"
  "gr_info_epoch (bumped buf n i r) = (if truthy i then Some n else gr_info_epoch r)"
  "gr_info (bumped buf n i r) = (if truthy i then Some (buf (or_else i [])) else gr_info r)"
  by (simp_all add: bumped_def)

text \<open>The invariant: per group, the log, the accepted commits and the epoch agree; the GroupInfo was uploaded for its epoch.\<close>

definition service_ok :: "(string \<Rightarrow> string) \<Rightarrow> accepted_op list \<Rightarrow> 'a server_scheme \<Rightarrow> string \<Rightarrow> bool" where
  "service_ok buf ops t g \<longleftrightarrow>
     gr_epoch (group_of t g) \<ge> 0
     \<and> map fst (commits_of g ops) = [1..gr_epoch (group_of t g)]
     \<and> map (\<lambda>r. (lr_epoch r, lr_commit r)) (rows_of t g) = map (\<lambda>(n, c). (n, buf c)) (commits_of g ops)
     \<and> (\<forall>m. gr_info_epoch (group_of t g) = Some m \<longrightarrow> m \<le> gr_epoch (group_of t g)
          \<and> (\<exists>txt. (m, txt) \<in> set (uploads_of g ops) \<and> gr_info (group_of t g) = Some (buf txt)))"

lemma rows_log_has: "log_has t g n \<longleftrightarrow> n \<in> fst ` set (map (\<lambda>r. (lr_epoch r, lr_commit r)) (rows_of t g))"
  by (force simp: log_has_def rows_of_def list_ex_iff)

lemma service_ok_next:
  assumes "service_ok buf ops t g" "gr_epoch (group_of t g) < n"
  shows "\<not> log_has t g n"
proof -
  have "map fst (map (\<lambda>r. (lr_epoch r, lr_commit r)) (rows_of t g)) = map fst (map (\<lambda>(n, c). (n, buf c)) (commits_of g ops))"
    using assms(1) by (simp only: service_ok_def)
  also have "\<dots> = [1..gr_epoch (group_of t g)]"
    using assms(1) by (simp add: service_ok_def comp_def case_prod_beta)
  finally have "fst ` set (map (\<lambda>r. (lr_epoch r, lr_commit r)) (rows_of t g)) = {1..gr_epoch (group_of t g)}"
    by (metis set_map set_upto)
  then show ?thesis using assms(2) unfolding rows_log_has by simp
qed

lemma run_service_ok: "server_run buf ops t \<Longrightarrow> service_ok buf ops t g"
proof (induction rule: server_run.induct)
  case (Run_start t)
  then show ?case by (simp add: service_ok_def group_of_def rows_of_def new_group_def)
next
  case (Run_commit ops t b h w ws evs n t')
  note c = commit_accepted [OF Run_commit.hyps(3)]
  show ?case
  proof (cases "h = g")
    case False
    then have "rows_of t' g = rows_of t g" "group_of t' g = group_of t g"
      using c(4) group_of_bumped [OF c(3)] by (auto simp: rows_of_def)
    then show ?thesis using Run_commit.IH False by (simp add: service_ok_def)
  next
    case True
    let ?k = "gr_epoch (group_of t g)"
    have k: "?k = n - 1" "?k \<ge> 0" using c(2) True Run_commit.IH by (simp_all add: service_ok_def)
    have gt: "group_of t' g = bumped buf n (cb_group_info b) (group_of t g)" using group_of_bumped [OF c(3)] True by simp
    have "\<not> log_has t g n" using service_ok_next [OF Run_commit.IH] k by simp
    then have rows: "rows_of t' g = rows_of t g @ [logged_row buf n (cb_commit b) w ws]"
      using c(4) True by (simp add: rows_of_def)
    have up: "[1..n] = [1..?k] @ [n]" using k by (simp add: upto_rec2)
    show ?thesis
      using Run_commit.IH True k unfolding service_ok_def gt rows by (auto simp: up logged_row_def)
  qed
next
  case (Run_info ops t n h info t')
  from Run_info.hyps(3) obtain r where r: "al_get (t_groups t) h = Some r" "gr_epoch r = n"
      "t' = t\<lparr>t_groups := al_set h (r\<lparr>gr_info := Some (buf info), gr_info_epoch := Some n\<rparr>) (t_groups t)\<rparr>"
    by (auto simp: put_info_def split: option.splits if_splits)
  then have "rows_of t' g = rows_of t g"
    "group_of t' g = (if g = h then r\<lparr>gr_info := Some (buf info), gr_info_epoch := Some n\<rparr> else group_of t g)"
    "h = g \<Longrightarrow> group_of t g = r"
    by (auto simp: rows_of_def group_of_def)
  then show ?case using Run_info.IH r(2) by (auto simp: service_ok_def)
next
  case (Run_other ops t t')
  then show ?case by (simp add: service_ok_def group_of_def rows_of_def)
qed

text \<open>Every handler, run on the tables it was called with, is a part of a run.\<close>

lemma commit_runs:
  assumes "server_run buf ops t" "cb_epoch b > 0" "commit_and_publish buf g b w ws evs t = (r, t')"
  shows "\<exists>ops'. server_run buf (ops @ ops') t'"
proof (cases "r = Reply 202 (cb_epoch b)")
  case True
  then show ?thesis using Run_commit [OF assms(1,2)] assms(3) by blast
next
  case False
  then have "t' = t" using assms(3)
    by (auto simp: commit_and_publish_def bumpGroupEpoch_def split: if_splits)
  then show ?thesis using assms(1) by (metis append_Nil2)
qed

lemmas schema_defs = safeParse_def submitDmCommitSchema_def submitChannelCommitSchema_def submitEventGroupCommitSchema_def
  externalCommitSchema_def putGroupInfoSchema_def

lemma submits_run:
  assumes "server_run buf ops t"
  shows "submitDmCommit buf user other body t = (r, t') \<Longrightarrow> \<exists>ops'. server_run buf (ops @ ops') t'"
    "submitChannelCommit buf user org chan body t = (r, t') \<Longrightarrow> \<exists>ops'. server_run buf (ops @ ops') t'"
    "submitEventGroupCommit buf user org chan body t = (r, t') \<Longrightarrow> \<exists>ops'. server_run buf (ops @ ops') t'"
    "submitExternalCommit buf resolve body t = (r, t') \<Longrightarrow> \<exists>ops'. server_run buf (ops @ ops') t'"
  using assms exI [of "\<lambda>ops'. server_run buf (ops @ ops') t" "[]"]
  by (auto simp: submitDmCommit_def submitChannelCommit_def submitEventGroupCommit_def submitExternalCommit_def Let_def
      channel_commit_gate_def event_commit_gate_def schema_defs
      split: sum.splits option.splits if_splits channel_scope.splits intro: commit_runs)

section \<open>The log that is served\<close>

lemma stable_sort_sorted: "sorted_wrt le xs \<Longrightarrow> stable_sort le xs = xs"
proof (induction xs)
  case (Cons x xs)
  then show ?case by (cases xs) simp_all
qed simp

lemma group_log_rows:
  assumes "service_ok buf ops t g"
  shows "group_log t g = rows_of t g"
proof -
  have "map lr_epoch (rows_of t g) = map fst (map (\<lambda>r. (lr_epoch r, lr_commit r)) (rows_of t g))" by simp
  also have "\<dots> = map fst (map (\<lambda>(n, c). (n, buf c)) (commits_of g ops))" using assms by (simp only: service_ok_def)
  also have "\<dots> = [1..gr_epoch (group_of t g)]" using assms by (simp add: service_ok_def comp_def case_prod_beta)
  finally have "sorted (map lr_epoch (rows_of t g))" by simp
  then show ?thesis unfolding group_log_def rows_of_def [symmetric] by (intro stable_sort_sorted) (simp add: sorted_map)
qed

lemma served_log:
  assumes "server_run buf ops t"
  shows "cu_commits (fetchGroupCatchUp g u t t2) = map (\<lambda>(n, c). (n, buf c)) (commits_of g ops)"
    "cu_current_epoch (fetchGroupCatchUp g u t2 t) = Some (gr_epoch (group_of t g))"
  using run_service_ok [OF assms, of g] group_log_rows [OF run_service_ok [OF assms, of g]]
  by (simp_all add: fetchGroupCatchUp_def Let_def service_ok_def group_of_def new_group_def split: option.split)

text \<open>C8: the commit log has no gap and no fork: whatever commits, uploads and roster changes were interleaved, the log a
  device is served holds exactly one commit for every epoch from 1 to the group's epoch, in order, each
  the one that was accepted for it.\<close>

theorem log_without_gap_or_fork:
  assumes "server_run buf ops t"
  shows "map fst (cu_commits (fetchGroupCatchUp g u t t)) = [1..gr_epoch (group_of t g)]
    \<and> cu_current_epoch (fetchGroupCatchUp g u t t) = Some (gr_epoch (group_of t g))
    \<and> cu_commits (fetchGroupCatchUp g u t t) = map (\<lambda>(n, c). (n, buf c)) (commits_of g ops)"
  using run_service_ok [OF assms, of g] served_log [OF assms, of g u t] served_log [OF assms, of g u t]
  by (simp add: service_ok_def comp_def case_prod_beta)

text \<open>A concrete service: one member creates the group of a channel, a second commit follows.\<close>

definition toy_server :: server where
  "toy_server = access_tables.extend toy_access (server.fields [(''alice'', ''bob'', 1)] [] [] [] [] False)"

definition first_commit :: commit_body where
  "first_commit = \<lparr>cb_epoch = 1, cb_commit = ''AQ=='', cb_welcome = None, cb_welcomed = None, cb_group_info = Some ''aQ==''\<rparr>"

definition toy_served :: server where
  "toy_served = snd (commit_and_publish id ''c1'' first_commit None None [] toy_server)"

lemma toy_server_fields [simp]:
  "t_groups toy_server = []" "t_log toy_server = []" "t_down toy_server = False" "t_published toy_server = []"
  "t_org_members toy_server = t_org_members toy_access" "t_channels toy_server = t_channels toy_access"
  "t_events toy_server = t_events toy_access" "t_event_groups toy_server = t_event_groups toy_access"
  "t_group_members toy_server = t_group_members toy_access" "t_frequencies toy_server = t_frequencies toy_access"
  "t_frequency_roles toy_server = t_frequency_roles toy_access" "t_planners toy_server = t_planners toy_access"
  by (simp_all add: toy_server_def server.defs access_tables.defs)

lemma first_accepted: "commit_and_publish id ''c1'' first_commit None None [] toy_server = (Reply 202 1, toy_served)"
  by (simp add: toy_served_def commit_and_publish_def bumpGroupEpoch_def group_of_def new_group_def first_commit_def)

lemma toy_run: "server_run id [Commit_op ''c1'' 1 ''AQ=='' (Some ''aQ=='')] toy_served"
  using Run_commit [OF Run_start _ first_accepted] by (simp add: first_commit_def)

lemma toy_served_fields [simp]: "t_down toy_served = False"
  "al_get (t_groups toy_served) ''c1'' = Some \<lparr>gr_epoch = 1, gr_info = Some ''aQ=='', gr_info_epoch = Some 1\<rparr>"
  by (simp_all add: toy_served_def commit_and_publish_def bumpGroupEpoch_def group_of_def new_group_def first_commit_def bumped_def)

lemma log_without_gap_or_fork_witness:
  "map fst (cu_commits (fetchGroupCatchUp ''c1'' ''bob'' toy_served toy_served)) = [1..gr_epoch (group_of toy_served ''c1'')]
    \<and> cu_current_epoch (fetchGroupCatchUp ''c1'' ''bob'' toy_served toy_served) = Some (gr_epoch (group_of toy_served ''c1''))
    \<and> cu_commits (fetchGroupCatchUp ''c1'' ''bob'' toy_served toy_served)
        = map (\<lambda>(n, c). (n, id c)) (commits_of ''c1'' [Commit_op ''c1'' 1 ''AQ=='' (Some ''aQ=='')])"
  by (rule log_without_gap_or_fork [OF toy_run])

text \<open>C9: one commit per epoch: once a commit of a group was accepted for an epoch, every later commit for that epoch or an
  older one is answered 409 and changes nothing, so two concurrent commits cannot fork the group.\<close>

theorem one_commit_per_epoch:
  assumes "server_run buf ops t" "Commit_op g n c i \<in> set ops" "cb_epoch b \<le> n" "\<not> t_down t"
  shows "commit_and_publish buf g b w ws evs t = (epoch_conflict, t)"
proof -
  have "(n, c) \<in> set (commits_of g ops)" using assms(2) by (force simp: commits_of_def)
  then have "n \<in> set (map fst (commits_of g ops))" by force
  then have "n \<le> gr_epoch (group_of t g)"
    using run_service_ok [OF assms(1), of g] by (simp add: service_ok_def del: set_map)
  then show ?thesis using assms(3,4) by (simp add: commit_and_publish_def bumpGroupEpoch_def)
qed

lemma one_commit_per_epoch_witness:
  "commit_and_publish id ''c1'' first_commit None None [] toy_served = (epoch_conflict, toy_served)"
  by (rule one_commit_per_epoch [where n = 1 and c = "''AQ==''" and i = "Some ''aQ==''", OF toy_run]) (simp_all add: first_commit_def)

text \<open>A served GroupInfo belongs to the epoch it is served with: the route hands one out only when it was uploaded, with
  the accepted commit or afterwards, for exactly the group's current epoch.\<close>

lemma served_info_is_current:
  assumes "server_run buf ops t" "ir_info (group_info_of g t) = Some info"
  shows "ir_epoch (group_info_of g t) = gr_epoch (group_of t g)
    \<and> (\<exists>txt. (gr_epoch (group_of t g), txt) \<in> set (uploads_of g ops) \<and> info = buf txt)"
  using assms(2) run_service_ok [OF assms(1), of g]
  by (auto simp: group_info_of_def service_ok_def group_of_def split: option.splits if_splits)

lemma served_info_is_current_witness:
  "ir_epoch (group_info_of ''c1'' toy_served) = gr_epoch (group_of toy_served ''c1'')
    \<and> (\<exists>txt. (gr_epoch (group_of toy_served ''c1''), txt) \<in> set (uploads_of ''c1'' [Commit_op ''c1'' 1 ''AQ=='' (Some ''aQ=='')])
        \<and> ''aQ=='' = id txt)"
  by (rule served_info_is_current [OF toy_run]) (simp add: group_info_of_def)

section \<open>Who gets through\<close>

text \<open>Only a member commits, and only members are welcomed: an accepted channel commit came from a member of the
  organisation, for an event channel from one of its audience, and its welcome goes to that audience only.\<close>

lemma commit_needs_audience:
  assumes "submitChannelCommit buf user org chan (Some b) t = (Reply 202 n, t')"
    and "getChannelScope t chan org = Some scope" "scope = Event_scope o2 c2 ev k g f"
  shows "truthy user \<and> is_org_member t org (or_else user []) \<and> or_else user [] \<in> set (channelMemberUserIds t scope)
    \<and> set (or_else (cb_welcomed b) []) \<subseteq> set (channelMemberUserIds t scope) \<and> cb_epoch b = n"
  using assms(1,2) unfolding assms(3)
  by (auto simp: submitChannelCommit_def channel_commit_gate_def safeParse_def unauthorized_def invalid_def internal_error_def
      split: if_splits dest: commit_accepted(1))

definition event_commit :: commit_body where
  "event_commit = \<lparr>cb_epoch = 1, cb_commit = ''AQ=='', cb_welcome = None, cb_welcomed = None, cb_group_info = None\<rparr>"

abbreviation group_scope :: channel_scope where
  "group_scope \<equiv> Event_scope ''o1'' ''g1'' ''e1'' Group_kind (Some ''gr1'') None"

lemma toy_server_access:
  "getChannelScope toy_server chan org = getChannelScope toy_access chan org"
  "channelMemberUserIds toy_server scope = channelMemberUserIds toy_access scope"
  "is_org_member toy_server org u \<longleftrightarrow> (org, u) \<in> set (t_org_members toy_access)"
  "channel_in_org toy_server chan org \<longleftrightarrow> (case al_get (t_channels toy_access) chan of None \<Rightarrow> False | Some c \<Rightarrow> ch_org c = org)"
  by (simp_all add: getChannelScope_def channelMemberUserIds_def is_org_member_def channel_in_org_def group_rows_def
      frequency_rows_def staff_rows_def participant_rows_def group_of_event_def
      split: option.split channel_scope.split event_kind.split)

lemma toy_event_commit:
  "fst (submitChannelCommit id (Some ''bob'') ''o1'' ''g1'' (Some event_commit) toy_server) = Reply 202 1"
  by (simp add: submitChannelCommit_def channel_commit_gate_def safeParse_def submitChannelCommitSchema_def welcomed_ok_def
      group_info_ok_def event_commit_def toy_server_access toy_group_scope toy_group_audience commit_and_publish_def
      bumpGroupEpoch_def group_of_def new_group_def) (simp add: toy_access_def)

lemma commit_needs_audience_witness:
  "truthy (Some ''bob'') \<and> is_org_member toy_server ''o1'' (or_else (Some ''bob'') [])
    \<and> or_else (Some ''bob'') [] \<in> set (channelMemberUserIds toy_server group_scope)
    \<and> set (or_else (cb_welcomed event_commit) []) \<subseteq> set (channelMemberUserIds toy_server group_scope) \<and> cb_epoch event_commit = 1"
proof (rule commit_needs_audience [OF _ _ refl])
  show "submitChannelCommit id (Some ''bob'') ''o1'' ''g1'' (Some event_commit) toy_server
      = (Reply 202 1, snd (submitChannelCommit id (Some ''bob'') ''o1'' ''g1'' (Some event_commit) toy_server))"
    by (simp add: prod_eq_iff toy_event_commit)
  show "getChannelScope toy_server ''g1'' ''o1'' = Some group_scope"
    by (simp only: toy_server_access toy_group_scope)
qed

text \<open>The commit log of an event channel is served to members of the organisation who are outside the channel's audience:
  the catch-up route checks only the membership, while members, GroupInfo and commits are refused to them.\<close>

lemma catch_up_outside_audience:
  assumes "truthy user" "is_org_member t org (or_else user [])" "getChannelScope t chan org = Some scope"
    and "\<not> canUseChannel t scope (or_else user [])" "\<not> t_down t"
  shows "getChannelMlsCatchUp user org chan t t = Reply 200 (fetchGroupCatchUp chan (or_else user []) t t)
    \<and> getChannelGroupInfo user org chan t = Refused 403 ''Not assigned to this event channel'' None"
proof -
  obtain me where me: "user = Some me" "me \<noteq> []" using assms(1) by (auto simp: truthy_iff)
  have "channel_in_org t chan org"
    using assms(3) by (auto simp: getChannelScope_def channel_in_org_def split: option.splits if_splits)
  then show ?thesis using assms me
    by (simp add: getChannelMlsCatchUp_def getChannelGroupInfo_def getGroupInfo_def resolveChannelGroup_def resolve_channel_def)
qed

lemma catch_up_outside_audience_witness:
  "getChannelMlsCatchUp (Some ''carol'') ''o1'' ''g1'' toy_server toy_server
      = Reply 200 (fetchGroupCatchUp ''g1'' (or_else (Some ''carol'') []) toy_server toy_server)
    \<and> getChannelGroupInfo (Some ''carol'') ''o1'' ''g1'' toy_server
      = Refused 403 ''Not assigned to this event channel'' None"
  by (rule catch_up_outside_audience [where scope = group_scope])
    (simp_all add: toy_server_access toy_group_scope canUseChannel_def toy_group_audience, simp add: toy_access_def)

text \<open>A commit that lands between the two reads of a catch-up makes a device that is up to date with the served log look
  diverged: the log is the older one and the epoch the newer one, which sends the device to resync.\<close>

lemma torn_catch_up_looks_diverged:
  assumes "server_run buf ops t1" "commit_and_publish buf g b w ws evs t1 = (Reply 202 n, t2)" "cb_epoch b > 0"
  shows "map fst (cu_commits (fetchGroupCatchUp g u t1 t2)) = [1..n - 1]
    \<and> cs_diverged (catchup_status (fetchGroupCatchUp g u t1 t2) (Some (n - 1)))"
proof -
  have n: "gr_epoch (group_of t1 g) = n - 1" "n > 0" using commit_accepted [OF assms(2)] assms(3) by simp_all
  have "server_run buf (ops @ [Commit_op g n (cb_commit b) (cb_group_info b)]) t2"
    by (rule Run_commit [OF assms(1,3,2)])
  then have "cu_current_epoch (fetchGroupCatchUp g u t1 t2) = Some n"
    using served_log(2) [of buf _ t2 g u t1] group_of_bumped [OF commit_accepted(3) [OF assms(2)], of g] by simp
  moreover have "map fst (cu_commits (fetchGroupCatchUp g u t1 t2)) = [1..n - 1]"
    using served_log(1) [OF assms(1)] run_service_ok [OF assms(1), of g] n by (simp add: service_ok_def comp_def case_prod_beta)
  ultimately show ?thesis using n by (simp add: catchup_status_def is_diverged_def server_epoch_def)
qed

lemma torn_catch_up_looks_diverged_witness:
  "map fst (cu_commits (fetchGroupCatchUp ''c1'' ''bob'' toy_server toy_served)) = [1..1 - 1]
    \<and> cs_diverged (catchup_status (fetchGroupCatchUp ''c1'' ''bob'' toy_server toy_served) (Some (1 - 1)))"
  by (rule torn_catch_up_looks_diverged [OF Run_start first_accepted]) (simp_all add: first_commit_def)

end
