(* ===== verification/Relay_Audio.thy ===== *)
theory Relay_Audio
  imports SC_Prelude Complex_Main "HOL-Library.Word"
begin

unbundle bit_operations_syntax

text \<open>
  The receive side of voice (\<open>web-portal/src/voiceRelayAudio.js\<close>): the wire form of an audio frame
  on 32-bit integers, the fail-closed opening of a frame, the key slot with its grace
  window, the throttle of organisation heals, lanes, ducking and key-change listeners.
  The WASM receivers and ciphers are arguments that pass the state of the modules along.
\<close>

section \<open>Varints\<close>

type_synonym octets = "8 word list"

function writeVarint :: "32 word \<Rightarrow> octets" where
  "writeVarint v = (if v > 0x7F then ucast ((v AND 0x7F) OR 0x80) # writeVarint (drop_bit 7 v) else [ucast (v AND 0x7F)])"
  by auto
termination
  by (relation "measure unat") (auto simp: word_less_nat_alt unat_div drop_bit_eq_div)

declare writeVarint.simps [simp del]

text \<open>Reading outside the array gives undefined, which the bit operators take as 0.\<close>

definition byte_at :: "octets \<Rightarrow> int \<Rightarrow> 32 word" where
  "byte_at bs pos = (if 0 \<le> pos \<and> pos < int (length bs) then ucast (bs ! nat pos) else 0)"

text \<open>The inner loop of the decoder; the shift count of \<open><<\<close> is taken modulo 32.\<close>

function read_varint :: "octets \<Rightarrow> int \<Rightarrow> nat \<Rightarrow> 32 word \<Rightarrow> 32 word \<times> int" where
  "read_varint bs pos shift acc =
     (if pos < int (length bs) then
        (let b = byte_at bs pos; acc' = acc OR push_bit (shift mod 32) (b AND 0x7F) in
         if b AND 0x80 = 0 then (acc', pos + 1) else read_varint bs (pos + 1) (shift + 7) acc')
      else (acc, pos))"
  by auto
termination
  by (relation "measure (\<lambda>(bs, pos, _). nat (int (length bs) - pos))") auto

declare read_varint.simps [simp del]

section \<open>Audio frames\<close>

record audio_frame =
  af_opus :: "octets option"
  af_ssrc :: "32 word"
  af_sequence :: "32 word"
  af_broadcast :: bool
  af_signature :: "octets option"

definition empty_frame :: audio_frame where
  "empty_frame = \<lparr>af_opus = None, af_ssrc = 0, af_sequence = 0, af_broadcast = False, af_signature = None\<rparr>"

text \<open>\<open>bytes.slice(a, b)\<close>: negative positions count from the end.\<close>

definition slice_index :: "octets \<Rightarrow> int \<Rightarrow> nat" where
  "slice_index bs i = (if i < 0 then nat (int (length bs) + i) else min (nat i) (length bs))"

definition js_slice :: "octets \<Rightarrow> int \<Rightarrow> int \<Rightarrow> octets" where
  "js_slice bs a b = take (slice_index bs b - slice_index bs a) (drop (slice_index bs a) bs)"

definition set_varint :: "32 word \<Rightarrow> 32 word \<Rightarrow> audio_frame \<Rightarrow> audio_frame" where
  "set_varint n v f = (if n = 2 then f\<lparr>af_ssrc := v\<rparr> else if n = 3 then f\<lparr>af_sequence := v\<rparr>
     else if n = 4 then f\<lparr>af_broadcast := (v \<noteq> 0)\<rparr> else f)"

definition set_bytes :: "32 word \<Rightarrow> octets \<Rightarrow> audio_frame \<Rightarrow> audio_frame" where
  "set_bytes n d f = (if n = 1 then f\<lparr>af_opus := Some d\<rparr> else if n = 5 then f\<lparr>af_signature := Some d\<rparr> else f)"

text \<open>
  The loop over the fields.  A length is a signed 32-bit integer: a negative one moves the
  position backwards, so the loop may not end and its value is then \<^const>\<open>None\<close>.
\<close>

partial_function (option) decode_loop :: "octets \<Rightarrow> int \<Rightarrow> audio_frame \<Rightarrow> audio_frame option" where
  "decode_loop bs pos f =
     (if pos < int (length bs) then
        (let t = read_varint bs pos 0 0 in
         if fst t AND 7 = 0 then
           (let v = read_varint bs (snd t) 0 0 in decode_loop bs (snd v) (set_varint (drop_bit 3 (fst t)) (fst v) f))
         else if fst t AND 7 = 2 then
           (let l = read_varint bs (snd t) 0 0; n = sint (fst l) in
            decode_loop bs (snd l + n) (set_bytes (drop_bit 3 (fst t)) (js_slice bs (snd l) (snd l + n)) f))
         else Some f)
      else Some f)"

definition decodeAudioFrameProto :: "octets \<Rightarrow> audio_frame option" where
  "decodeAudioFrameProto bs = decode_loop bs 0 empty_frame"

definition bytes_field :: "32 word \<Rightarrow> octets \<Rightarrow> octets" where
  "bytes_field n d = writeVarint (push_bit 3 n OR 2) @ writeVarint (word_of_nat (length d)) @ d"

definition varint_field :: "32 word \<Rightarrow> 32 word \<Rightarrow> octets" where
  "varint_field n v = writeVarint (push_bit 3 n OR 0) @ writeVarint v"

definition encodeAudioFrameProto :: "32 word \<Rightarrow> 32 word \<Rightarrow> octets \<Rightarrow> bool \<Rightarrow> octets option \<Rightarrow> octets" where
  "encodeAudioFrameProto ssrc sequence opusBytes isGlobalBroadcast senderSignature =
     bytes_field 1 opusBytes @ varint_field 2 ssrc @ varint_field 3 (sequence AND 0x7FFFFFFF)
     @ (if isGlobalBroadcast then varint_field 4 1 else [])
     @ (case senderSignature of None \<Rightarrow> [] | Some d \<Rightarrow> if length d > 0 then bytes_field 5 d else [])"

section \<open>Opening a frame\<close>

datatype drop_reason = DROP_NO_KEY | DROP_DECRYPT_FAILED | DROP_REPLAY | DROP_BAD_FORMAT | DROP_STALE
  | DROP_UNEXPECTED_RELAY_FRAME

datatype opened = Playable "octets option" bool | Dropped drop_reason bool

definition dropReasonForOpenError :: "string \<Rightarrow> drop_reason" where
  "dropReasonForOpenError code =
     (if code = ''replay'' then DROP_REPLAY
      else if code = ''stale-timestamp'' then DROP_STALE
      else if code = ''unsupported-version'' \<or> code = ''malformed'' then DROP_BAD_FORMAT
      else DROP_DECRYPT_FAILED)"

record 'k lane_keys =
  lk_relay :: bool
  lk_channel :: "'k option"
  lk_cascade :: "'k option"
  lk_channel_prev :: "'k option"
  lk_cascade_prev :: "'k option"

text \<open>\<open>receiver.open\<close>: \<^const>\<open>Inl\<close> the code it throws; the receivers' replay windows are part of the state.\<close>

type_synonym ('k, 'w) opener = "'k \<Rightarrow> octets option \<Rightarrow> 32 word \<Rightarrow> 'w \<Rightarrow> (string + octets) \<times> 'w"

definition receiver_of :: "audio_frame \<Rightarrow> 'k lane_keys \<Rightarrow> 'k option" where
  "receiver_of f ks = (if af_broadcast f then lk_cascade ks else lk_channel ks)"

definition previous_of :: "audio_frame \<Rightarrow> 'k lane_keys \<Rightarrow> 'k option" where
  "previous_of f ks = (if af_broadcast f then lk_cascade_prev ks else lk_channel_prev ks)"

definition open_previous :: "('k, 'w) opener \<Rightarrow> 'k \<Rightarrow> audio_frame \<Rightarrow> 'w \<Rightarrow> opened \<times> 'w" where
  "open_previous opn previous f s = (case opn previous (af_opus f) (af_ssrc f) s of
       (Inr opus, s') \<Rightarrow> (Playable (Some opus) True, s')
     | (Inl code, s') \<Rightarrow>
         (if dropReasonForOpenError code \<in> {DROP_REPLAY, DROP_STALE} then Dropped (dropReasonForOpenError code) True
          else Dropped DROP_DECRYPT_FAILED False, s'))"

definition openAudioFrame :: "('k, 'w) opener \<Rightarrow> audio_frame \<Rightarrow> 'k lane_keys \<Rightarrow> 'w \<Rightarrow> opened \<times> 'w" where
  "openAudioFrame opn f ks s =
     (if \<not> lk_relay ks then
        (if af_ssrc f \<noteq> 0 then (Dropped DROP_UNEXPECTED_RELAY_FRAME False, s) else (Playable (af_opus f) False, s))
      else (case receiver_of f ks of None \<Rightarrow> (Dropped DROP_NO_KEY False, s)
        | Some receiver \<Rightarrow> (case opn receiver (af_opus f) (af_ssrc f) s of
            (Inr opus, s') \<Rightarrow> (Playable (Some opus) False, s')
          | (Inl code, s') \<Rightarrow> (let reason = dropReasonForOpenError code in
              case previous_of f ks of
                None \<Rightarrow> (Dropped reason False, s')
              | Some previous \<Rightarrow>
                  if reason \<noteq> DROP_DECRYPT_FAILED \<or> previous = receiver then (Dropped reason False, s')
                  else open_previous opn previous f s'))))"

text \<open>A relay cipher is kept when it was derived from the same secret; \<open>None\<close> as a verdict is an exception of the module.\<close>

definition retainOrReplaceRelayCipher :: "('k \<Rightarrow> 'b \<Rightarrow> bool option) \<Rightarrow> 'k option \<Rightarrow> 'b option \<Rightarrow> 'k \<Rightarrow> 'k" where
  "retainOrReplaceRelayCipher matches_secret prev secret created = (case (prev, secret) of
       (Some p, Some b) \<Rightarrow> if matches_secret p b = Some True then p else created
     | _ \<Rightarrow> created)"

datatype routed = Play "32 word" "octets option" audio_frame bool
  | Drop drop_reason "32 word" audio_frame | Skip string

text \<open>The route of a datagram; \<^const>\<open>None\<close> when the decoder does not return.\<close>

definition routeAudioDatagram :: "('k, 'w) opener \<Rightarrow> octets \<Rightarrow> 'k lane_keys \<Rightarrow> 'w \<Rightarrow> (routed \<times> 'w) option" where
  "routeAudioDatagram opn bs ks s =
     (if length bs < 2 then Some (Skip ''short'', s)
      else if hd bs = 0xFF then Some (Skip ''control'', s)
      else (case decodeAudioFrameProto bs of None \<Rightarrow> None
        | Some f \<Rightarrow>
            if or_else (af_opus f) [] = [] then Some (Skip ''empty'', s)
            else (case openAudioFrame opn f ks s of
                (Dropped reason prev, s') \<Rightarrow> Some (Drop reason (af_ssrc f) f, s')
              | (Playable opus prev, s') \<Rightarrow> Some (Play (af_ssrc f) opus f prev, s'))))"

section \<open>The key slot and its grace window\<close>

text \<open>
  One lane's receive key and, for the grace window after a rekey, the one it replaced.
  \<open>gs_pending\<close> are the timers the runtime has armed, \<open>gs_freed\<close> the keys \<open>free\<close> was called on.
\<close>

record 'k key_slot =
  gs_current :: "'k option"
  gs_previous :: "'k option"
  gs_timer :: "nat option"
  gs_next :: nat
  gs_pending :: "nat list"
  gs_freed :: "'k list"

definition createKeyGraceSlot :: "'k key_slot" where
  "createKeyGraceSlot = \<lparr>gs_current = None, gs_previous = None, gs_timer = None, gs_next = 0, gs_pending = [], gs_freed = []\<rparr>"

definition release :: "'k option \<Rightarrow> 'k key_slot \<Rightarrow> 'k key_slot" where
  "release k s = (case k of None \<Rightarrow> s | Some x \<Rightarrow> s\<lparr>gs_freed := gs_freed s @ [x]\<rparr>)"

definition cancelTimer :: "'k key_slot \<Rightarrow> 'k key_slot" where
  "cancelTimer s = (case gs_timer s of None \<Rightarrow> s
     | Some n \<Rightarrow> s\<lparr>gs_pending := filter (\<lambda>m. m \<noteq> n) (gs_pending s), gs_timer := None\<rparr>)"

definition expire :: "'k key_slot \<Rightarrow> 'k key_slot" where
  "expire s = (let s1 = cancelTimer s in release (gs_previous s1) (s1\<lparr>gs_previous := None\<rparr>))"

definition clear_slot :: "'k key_slot \<Rightarrow> 'k key_slot" where
  "clear_slot s = (let s1 = cancelTimer s; c = gs_current s1; p = gs_previous s1;
       s2 = release c (s1\<lparr>gs_current := None, gs_previous := None\<rparr>)
     in if p \<noteq> c then release p s2 else s2)"

definition arm :: "'k key_slot \<Rightarrow> 'k key_slot" where
  "arm s = s\<lparr>gs_timer := Some (gs_next s), gs_pending := gs_pending s @ [gs_next s], gs_next := Suc (gs_next s)\<rparr>"

definition install :: "'k option \<Rightarrow> 'k key_slot \<Rightarrow> 'k key_slot" where
  "install nxt s = (case nxt of None \<Rightarrow> clear_slot s
     | Some k \<Rightarrow>
         if gs_current s = Some k then s
         else (let displaced = gs_previous s;
                   s1 = s\<lparr>gs_previous := gs_current s, gs_current := Some k\<rparr>;
                   s2 = (if displaced \<noteq> None \<and> displaced \<noteq> Some k then release displaced s1 else s1);
                   s3 = cancelTimer s2
               in if gs_previous s3 \<noteq> None then arm s3 else s3))"

text \<open>A timer fires: it is no longer armed, and it calls \<open>expire\<close>.\<close>

definition fire :: "nat \<Rightarrow> 'k key_slot \<Rightarrow> 'k key_slot" where
  "fire n s = (if n \<in> set (gs_pending s) then expire (s\<lparr>gs_pending := filter (\<lambda>m. m \<noteq> n) (gs_pending s)\<rparr>) else s)"

section \<open>Video keys\<close>

text \<open>The operation \<open>fn\<close> run with the current key and, if it throws, with the previous one; the error is the current key's.\<close>

definition withGraceKeys :: "('k \<Rightarrow> 'e + 'v) \<Rightarrow> 'e \<Rightarrow> 'k key_slot \<Rightarrow> 'e + ('v \<times> bool)" where
  "withGraceKeys fn no_key slot = (case gs_current slot of None \<Rightarrow> Inl no_key
     | Some current \<Rightarrow> (case fn current of Inr v \<Rightarrow> Inr (v, False)
         | Inl err \<Rightarrow> (case gs_previous slot of None \<Rightarrow> Inl err
             | Some previous \<Rightarrow> if previous = current then Inl err
                 else (case fn previous of Inr v \<Rightarrow> Inr (v, True) | Inl _ \<Rightarrow> Inl err))))"

definition sameSFrameKey :: "('k \<Rightarrow> octets \<Rightarrow> octets option) \<Rightarrow> ('k \<Rightarrow> octets \<Rightarrow> octets option) \<Rightarrow> 'k option \<Rightarrow> 'k option \<Rightarrow> bool" where
  "sameSFrameKey encrypt decrypt a b = (case (a, b) of
       (Some x, Some y) \<Rightarrow> (case encrypt x [0] of None \<Rightarrow> False | Some c \<Rightarrow> decrypt y c \<noteq> None)
     | _ \<Rightarrow> False)"

section \<open>Heal throttle, lanes and ducking\<close>

definition ORG_HEAL_MIN_INTERVAL_MS :: int where "ORG_HEAL_MIN_INTERVAL_MS = 60000"

definition claimOrgHeal :: "string option \<Rightarrow> int \<Rightarrow> int \<Rightarrow> (string, int) jsmap \<Rightarrow> bool \<times> (string, int) jsmap" where
  "claimOrgHeal orgId now minIntervalMs lastOrgHealAt =
     (if \<not> truthy orgId then (False, lastOrgHealAt)
      else (case al_get lastOrgHealAt (or_else orgId []) of
          Some t0 \<Rightarrow> if now - t0 < minIntervalMs then (False, lastOrgHealAt)
                     else (True, al_set (or_else orgId []) now lastOrgHealAt)
        | None \<Rightarrow> (True, al_set (or_else orgId []) now lastOrgHealAt)))"

definition relayLaneStreamId :: "(nat \<Rightarrow> string) \<Rightarrow> string \<Rightarrow> 32 word \<Rightarrow> string" where
  "relayLaneStreamId digits channelId ssrc = channelId @ '':'' @ digits (unat ssrc)"

text \<open>A missing level compares false with every number.\<close>

definition duckGainForLevel :: "int option \<Rightarrow> rat" where
  "duckGainForLevel level = (case level of None \<Rightarrow> 1 / 10 | Some n \<Rightarrow> if n \<le> 1 then 1 / 20 else 1 / 10)"

record duck_state =
  du_active :: bool
  du_ssrc :: "32 word option"
  du_level :: "int option"

definition laneDuckMultiplier :: "duck_state option \<Rightarrow> 32 word \<Rightarrow> rat" where
  "laneDuckMultiplier duckState ssrc = (case duckState of None \<Rightarrow> 1
     | Some d \<Rightarrow> if du_active d \<and> du_ssrc d \<noteq> Some ssrc then duckGainForLevel (du_level d) else 1)"

section \<open>Key-change listeners\<close>

text \<open>
  The sets are objects: an unsubscribe keeps the set it was added to, which may no longer be
  the one registered for the group.
\<close>

record listeners =
  ls_map :: "(string, nat) jsmap"
  ls_sets :: "(nat, nat list) jsmap"
  ls_next :: nat

definition add_listener :: "nat \<Rightarrow> nat \<Rightarrow> listeners \<Rightarrow> listeners" where
  "add_listener i fn l = (let fns = or_else (al_get (ls_sets l) i) [] in
     l\<lparr>ls_sets := al_set i (if fn \<in> set fns then fns else fns @ [fn]) (ls_sets l)\<rparr>)"

text \<open>The set the listener was added to, if any: what the returned function closes over.\<close>

definition onGroupKeyChange :: "string option \<Rightarrow> nat \<Rightarrow> listeners \<Rightarrow> nat option \<times> listeners" where
  "onGroupKeyChange groupId fn l =
     (if \<not> truthy groupId then (None, l)
      else (case al_get (ls_map l) (or_else groupId []) of
          Some i \<Rightarrow> (Some i, add_listener i fn l)
        | None \<Rightarrow> (let i = ls_next l;
                      l1 = l\<lparr>ls_map := al_set (or_else groupId []) i (ls_map l), ls_sets := al_set i [] (ls_sets l), ls_next := Suc i\<rparr>
                  in (Some i, add_listener i fn l1))))"

definition offGroupKeyChange :: "string \<Rightarrow> nat option \<Rightarrow> nat \<Rightarrow> listeners \<Rightarrow> listeners" where
  "offGroupKeyChange groupId set_id fn l = (case set_id of None \<Rightarrow> l
     | Some i \<Rightarrow>
         (let fns = filter (\<lambda>g. g \<noteq> fn) (or_else (al_get (ls_sets l) i) []); l1 = l\<lparr>ls_sets := al_set i fns (ls_sets l)\<rparr>
          in if fns = [] \<and> al_get (ls_map l1) groupId = Some i then l1\<lparr>ls_map := al_del groupId (ls_map l1)\<rparr> else l1))"

text \<open>The listeners a notification calls, in their order.\<close>

definition notifyGroupKeyChange :: "string option \<Rightarrow> listeners \<Rightarrow> nat list" where
  "notifyGroupKeyChange groupId l = (if \<not> truthy groupId then []
     else (case al_get (ls_map l) (or_else groupId []) of None \<Rightarrow> []
       | Some i \<Rightarrow> or_else (al_get (ls_sets l) i) []))"

end
