(* ===== verification/Relay_Audio_Props.thy ===== *)
theory Relay_Audio_Props
  imports Relay_Audio
begin

text \<open>
  The audio frame survives the wire, a frame is played only when a receiver opened it, every
  key is freed exactly once, and a listener that left is not called.
\<close>

section \<open>The wire form\<close>

text \<open>The array from a position on.\<close>

definition cursor :: "octets \<Rightarrow> int \<Rightarrow> octets \<Rightarrow> bool" where
  "cursor bs pos rest \<longleftrightarrow> 0 \<le> pos \<and> pos \<le> int (length bs) \<and> drop (nat pos) bs = rest"

lemma cursor_start: "cursor bs 0 bs"
  by (simp add: cursor_def)

lemma cursor_end: "cursor bs pos [] \<longleftrightarrow> pos = int (length bs)"
  by (auto simp: cursor_def)

lemma cursor_cons:
  assumes "cursor bs pos (b # rest)"
  shows "pos < int (length bs)" "byte_at bs pos = ucast b" "cursor bs (pos + 1) rest"
proof -
  show l: "pos < int (length bs)" using assms by (cases "pos = int (length bs)") (auto simp: cursor_def)
  have "bs ! nat pos = b" "drop (Suc (nat pos)) bs = rest"
    using assms l unfolding cursor_def by (metis hd_drop_conv_nth list.sel(1) nat_less_iff)
      (metis assms cursor_def drop_Suc list.sel(3) tl_drop)
  then show "byte_at bs pos = ucast b" "cursor bs (pos + 1) rest"
    using assms l by (simp_all add: cursor_def byte_at_def nat_add_distrib)
qed

lemma cursor_append:
  assumes "cursor bs pos (d @ rest)"
  shows "cursor bs (pos + int (length d)) rest" "js_slice bs pos (pos + int (length d)) = d"
proof -
  have l: "length d + nat pos \<le> length bs"
  proof -
    have "length (drop (nat pos) bs) = length (d @ rest)" using assms by (simp add: cursor_def)
    moreover have "nat pos \<le> length bs" using assms by (simp add: cursor_def nat_le_iff)
    ultimately show ?thesis by simp
  qed
  have p: "0 \<le> pos" "drop (nat pos) bs = d @ rest" using assms by (simp_all add: cursor_def)
  have n: "nat (pos + int (length d)) = length d + nat pos" using p(1) by (simp add: nat_add_distrib)
  have "drop (length d + nat pos) bs = rest" using p(2) by (metis append_eq_conv_conj drop_drop)
  then show "cursor bs (pos + int (length d)) rest" using l p(1) by (simp add: cursor_def n)
  have "slice_index bs pos = nat pos" "slice_index bs (pos + int (length d)) = length d + nat pos"
    using l p(1) by (simp_all add: slice_index_def n)
  then show "js_slice bs pos (pos + int (length d)) = d" using p(2) by (simp add: js_slice_def)
qed

lemma mask_numeral: "(0x7F :: 32 word) = mask 7"
  by (simp add: mask_eq_exp_minus_1)

lemma bit_128: "bit (0x80 :: int) n \<longleftrightarrow> n = 7"
proof -
  have "(0x80 :: int) = 2 ^ 7" by simp
  then show ?thesis by (simp only: bit_exp_iff) auto
qed

lemma split_varint: "(v :: 32 word) = (v AND mask 7) OR push_bit 7 (drop_bit 7 v)"
proof (rule bit_word_eqI)
  fix n assume "n < LENGTH(32)"
  then show "bit v n \<longleftrightarrow> bit ((v AND mask 7) OR push_bit 7 (drop_bit 7 v)) n"
    by (cases "n < 7") (auto simp: bit_simps)
qed

lemma low_byte:
  "(ucast (ucast (v AND mask 7) :: 8 word) :: 32 word) = v AND mask 7"
  "(ucast (ucast ((v AND mask 7) OR 0x80) :: 8 word) :: 32 word) AND mask 7 = v AND mask 7"
  for v :: "32 word"
  by (rule bit_word_eqI; auto simp: bit_simps bit_128)+

lemma high_bit:
  "(v AND mask 7) AND 0x80 = 0"
  "(ucast (ucast ((v AND mask 7) OR 0x80) :: 8 word) :: 32 word) AND 0x80 \<noteq> 0"
  for v :: "32 word"
proof -
  show "(v AND mask 7) AND 0x80 = 0"
    by (rule bit_word_eqI) (auto simp: bit_simps bit_128)
  have "bit ((ucast (ucast ((v AND mask 7) OR 0x80) :: 8 word) :: 32 word) AND 0x80) 7"
    by (simp add: bit_simps bit_128)
  then show "(ucast (ucast ((v AND mask 7) OR 0x80) :: 8 word) :: 32 word) AND 0x80 \<noteq> 0"
    by auto
qed

lemma small_varint: "\<not> v > 0x7F \<Longrightarrow> v AND mask 7 = v" for v :: "32 word"
proof -
  assume "\<not> v > 0x7F"
  then have "unat v < 128" by (simp add: word_less_nat_alt)
  then have "unat (take_bit 7 v) = unat v" by (simp add: take_bit_eq_mod unat_mod)
  then show ?thesis by (simp add: take_bit_eq_mask [symmetric] unsigned_word_eqI)
qed

lemma read_writeVarint:
  assumes "cursor bs pos (writeVarint v @ rest)" "s < 32" "unat v < 2 ^ (32 - s)"
  shows "\<exists>pos'. read_varint bs pos s acc = (acc OR push_bit s v, pos') \<and> cursor bs pos' rest"
  using assms
proof (induction v arbitrary: pos s acc rule: writeVarint.induct)
  case (1 v)
  show ?case
  proof (cases "v > 0x7F")
    case False
    have "cursor bs pos (ucast (v AND mask 7) # rest)"
      using 1(2) False by (subst (asm) writeVarint.simps) (simp add: mask_numeral)
    note a = cursor_cons [OF this]
    have c: "v AND mask 7 = v" by (rule small_varint [OF False])
    then have "byte_at bs pos = v" "v AND 0x80 = 0" using a(2) low_byte(1) [of v] high_bit(1) [of v] by simp_all
    then have "read_varint bs pos s acc = (acc OR push_bit s v, pos + 1)"
      using a(1) 1(3) c by (subst read_varint.simps) (simp add: mask_numeral Let_def del: push_bit_and)
    then show ?thesis using a(3) by blast
  next
    case True
    let ?w = "drop_bit 7 v"
    have "cursor bs pos (ucast ((v AND mask 7) OR 0x80) # (writeVarint ?w @ rest))"
      using 1(2) True by (subst (asm) writeVarint.simps) (simp add: mask_numeral)
    note a = cursor_cons [OF this]
    have "(128 :: nat) < 2 ^ (32 - s)" using True 1(4) by (simp add: word_less_nat_alt)
    then have "(2 :: nat) ^ 7 < 2 ^ (32 - s)" by simp
    then have "7 < 32 - s" by (simp only: power_strict_increasing_iff)
    then have s: "s + 7 < 32" "32 - s = 7 + (32 - (s + 7))" by simp_all
    have "unat ?w < 2 ^ (32 - (s + 7))"
      using 1(4) unfolding s(2) by (simp add: unat_div drop_bit_eq_div power_add div_less_iff_less_mult mult.commute)
    from 1(1) [OF True a(3) s(1) this, of "acc OR push_bit s (v AND mask 7)"]
    obtain pos' where r: "read_varint bs (pos + 1) (s + 7) (acc OR push_bit s (v AND mask 7))
        = ((acc OR push_bit s (v AND mask 7)) OR push_bit (s + 7) ?w, pos')" "cursor bs pos' rest"
      by blast
    have "push_bit s v = push_bit s (v AND mask 7) OR push_bit (s + 7) ?w"
      by (subst split_varint [of v]) (simp add: push_bit_or)
    then have "read_varint bs pos s acc = (acc OR push_bit s v, pos')"
      using a(1) 1(3) r(1) by (subst read_varint.simps) (simp add: a(2) mask_numeral low_byte high_bit Let_def or.assoc del: push_bit_and)
    then show ?thesis using r(2) by blast
  qed
qed

lemma read_whole:
  assumes "cursor bs pos (writeVarint v @ rest)"
  shows "pos < int (length bs)" "\<exists>pos'. read_varint bs pos 0 0 = (v, pos') \<and> cursor bs pos' rest"
proof -
  have "unat v < 2 ^ (32 - 0)" using unsigned_less [of v] by simp
  from read_writeVarint [OF assms _ this, of 0]
  show "\<exists>pos'. read_varint bs pos 0 0 = (v, pos') \<and> cursor bs pos' rest" by simp
  obtain b r where "writeVarint v @ rest = b # r" using writeVarint.simps [of v] by (cases "v > 0x7F") auto
  then show "pos < int (length bs)" using cursor_cons(1) assms by metis
qed

lemma decode_varint_field:
  assumes "cursor bs pos (writeVarint tag @ writeVarint v @ rest)" "tag AND 7 = 0"
  shows "\<exists>pos'. cursor bs pos' rest \<and> decode_loop bs pos f = decode_loop bs pos' (set_varint (drop_bit 3 tag) v f)"
proof -
  obtain p1 where p1: "read_varint bs pos 0 0 = (tag, p1)" "cursor bs p1 (writeVarint v @ rest)"
    using read_whole(2) [OF assms(1)] by blast
  obtain p2 where p2: "read_varint bs p1 0 0 = (v, p2)" "cursor bs p2 rest" using read_whole(2) [OF p1(2)] by blast
  have "decode_loop bs pos f = decode_loop bs p2 (set_varint (drop_bit 3 tag) v f)"
    using read_whole(1) [OF assms(1)] by (subst decode_loop.simps) (simp add: p1(1) p2(1) assms(2) Let_def)
  then show ?thesis using p2(2) by blast
qed

lemma sint_length: "n < 2 ^ 31 \<Longrightarrow> sint (word_of_nat n :: 32 word) = int n"
  by (simp add: signed_of_nat signed_take_bit_int_eq_self)

lemma decode_bytes_field:
  assumes "cursor bs pos (writeVarint tag @ writeVarint (word_of_nat (length d)) @ d @ rest)" "tag AND 7 = 2" "length d < 2 ^ 31"
  shows "\<exists>pos'. cursor bs pos' rest \<and> decode_loop bs pos f = decode_loop bs pos' (set_bytes (drop_bit 3 tag) d f)"
proof -
  obtain p1 where p1: "read_varint bs pos 0 0 = (tag, p1)" "cursor bs p1 (writeVarint (word_of_nat (length d)) @ d @ rest)"
    using read_whole(2) [OF assms(1)] by blast
  obtain p2 where p2: "read_varint bs p1 0 0 = (word_of_nat (length d), p2)" "cursor bs p2 (d @ rest)"
    using read_whole(2) [OF p1(2)] by blast
  note d = cursor_append [OF p2(2)]
  have "decode_loop bs pos f = decode_loop bs (p2 + int (length d)) (set_bytes (drop_bit 3 tag) d f)"
    using read_whole(1) [OF assms(1)]
    by (subst decode_loop.simps) (simp add: p1(1) p2(1) assms(2) d(2) sint_length [OF assms(3)] Let_def)
  then show ?thesis using d(1) by blast
qed

lemma decode_end: "cursor bs pos [] \<Longrightarrow> decode_loop bs pos f = Some f"
  by (subst decode_loop.simps) (simp add: cursor_end)

text \<open>C38: an audio frame survives the wire: decoding what was encoded gives back the payload, the sender's number, the
  sequence in its 31 bits, the broadcast flag and the signature (an empty one is a missing one).\<close>

theorem audio_frame_roundtrip:
  assumes "length opus < 2 ^ 31" "length (or_else sig []) < 2 ^ 31"
  shows "decodeAudioFrameProto (encodeAudioFrameProto ssrc sequence opus broadcast sig)
    = Some \<lparr>af_opus = Some opus, af_ssrc = ssrc, af_sequence = sequence AND 0x7FFFFFFF, af_broadcast = broadcast,
            af_signature = (if or_else sig [] = [] then None else sig)\<rparr>"
proof -
  let ?bs = "encodeAudioFrameProto ssrc sequence opus broadcast sig"
  let ?bc = "if broadcast then varint_field 4 1 else []"
  let ?sg = "case sig of None \<Rightarrow> [] | Some d \<Rightarrow> if length d > 0 then bytes_field 5 d else []"
  let ?f1 = "empty_frame\<lparr>af_opus := Some opus\<rparr>"
  let ?f3 = "?f1\<lparr>af_ssrc := ssrc, af_sequence := sequence AND 0x7FFFFFFF\<rparr>"
  let ?f4 = "?f3\<lparr>af_broadcast := broadcast\<rparr>"
  obtain p1 where p1: "cursor ?bs p1 (varint_field 2 ssrc @ varint_field 3 (sequence AND 0x7FFFFFFF) @ ?bc @ ?sg)"
      "decode_loop ?bs 0 empty_frame = decode_loop ?bs p1 ?f1"
    using decode_bytes_field [of ?bs 0 10 opus _ empty_frame] cursor_start [of ?bs] assms(1)
    by (auto simp: encodeAudioFrameProto_def bytes_field_def set_bytes_def)
  obtain p2 where p2: "cursor ?bs p2 (varint_field 3 (sequence AND 0x7FFFFFFF) @ ?bc @ ?sg)"
      "decode_loop ?bs p1 ?f1 = decode_loop ?bs p2 (?f1\<lparr>af_ssrc := ssrc\<rparr>)"
    using decode_varint_field [of ?bs p1 16 ssrc _ ?f1] p1(1) by (auto simp: varint_field_def set_varint_def)
  obtain p3 where p3: "cursor ?bs p3 (?bc @ ?sg)"
      "decode_loop ?bs p2 (?f1\<lparr>af_ssrc := ssrc\<rparr>) = decode_loop ?bs p3 ?f3"
    using decode_varint_field [of ?bs p2 24 _ _ "?f1\<lparr>af_ssrc := ssrc\<rparr>"] p2(1)
    by (auto simp: varint_field_def set_varint_def)
  obtain p4 where p4: "cursor ?bs p4 ?sg" "decode_loop ?bs p3 ?f3 = decode_loop ?bs p4 ?f4"
  proof (cases broadcast)
    case True
    then show ?thesis using that decode_varint_field [of ?bs p3 32 1 _ ?f3] p3(1)
      by (auto simp: varint_field_def set_varint_def empty_frame_def)
  next
    case False
    then show ?thesis using that [of p3] p3(1) by (simp add: empty_frame_def)
  qed
  have "decode_loop ?bs p4 ?f4 = Some (?f4\<lparr>af_signature := (if or_else sig [] = [] then None else sig)\<rparr>)"
  proof (cases "or_else sig [] = []")
    case True
    then have "cursor ?bs p4 []" using p4(1) by (cases sig) auto
    then show ?thesis using True by (simp add: decode_end empty_frame_def)
  next
    case False
    then obtain d where d: "sig = Some d" "d \<noteq> []" by (cases sig) auto
    then have "cursor ?bs p4 (writeVarint 42 @ writeVarint (word_of_nat (length d)) @ d @ [])"
      using p4(1) by (simp add: bytes_field_def)
    from decode_bytes_field [OF this, of ?f4] obtain p5 where "cursor ?bs p5 []"
        "decode_loop ?bs p4 ?f4 = decode_loop ?bs p5 (?f4\<lparr>af_signature := Some d\<rparr>)"
      using assms(2) d by (auto simp: set_bytes_def)
    then show ?thesis using d by (simp add: decode_end)
  qed
  then show ?thesis using p1(2) p2(2) p3(2) p4(2) by (simp add: decodeAudioFrameProto_def empty_frame_def)
qed

lemma audio_frame_roundtrip_witness:
  "decodeAudioFrameProto (encodeAudioFrameProto 7 300 [1, 2, 3] True (Some [9]))
    = Some \<lparr>af_opus = Some [1, 2, 3], af_ssrc = 7, af_sequence = 300 AND 0x7FFFFFFF, af_broadcast = True,
            af_signature = (if or_else (Some [9 :: 8 word]) [] = [] then None else Some [9])\<rparr>"
  by (rule audio_frame_roundtrip) simp_all

definition evil_datagram :: octets where
  "evil_datagram = [0x0A, 0xFA, 0xFF, 0xFF, 0xFF, 0x0F, 0]"

lemma evil_reads: "read_varint evil_datagram 0 0 0 = (10, 1)" "read_varint evil_datagram 1 0 0 = (0xFFFFFFFA, 6)"
  by (simp_all add: read_varint.simps evil_datagram_def byte_at_def Let_def)

lemma evil_length: "length evil_datagram = 7"
  by (simp add: evil_datagram_def)

text \<open>A datagram can make the decoder run forever: a length of -6 takes the position back to the start of the field, so
  one seven-byte packet keeps the receiver in the loop.\<close>

lemma decoder_can_hang: "routeAudioDatagram opn evil_datagram ks s = None"
proof -
  have "(bs, pos) \<noteq> (evil_datagram, 0)" if r: "decode_loop bs pos f = Some y" for bs pos f y
  proof (rule decode_loop.raw_induct [where P = "\<lambda>bs pos f y. (bs, pos) \<noteq> (evil_datagram, 0)", OF _ r])
    fix decode :: "octets \<Rightarrow> int \<Rightarrow> audio_frame \<Rightarrow> audio_frame option" and bs pos f y
    assume ih: "\<And>bs pos f y. decode bs pos f = Some y \<Longrightarrow> (bs, pos) \<noteq> (evil_datagram, 0)"
      and step: "(if pos < int (length bs) then
        (let t = read_varint bs pos 0 0 in
         if fst t AND 7 = 0 then
           (let v = read_varint bs (snd t) 0 0 in decode bs (snd v) (set_varint (drop_bit 3 (fst t)) (fst v) f))
         else if fst t AND 7 = 2 then
           (let l = read_varint bs (snd t) 0 0; n = sint (fst l) in
            decode bs (snd l + n) (set_bytes (drop_bit 3 (fst t)) (js_slice bs (snd l) (snd l + n)) f))
         else Some f)
      else Some f) = Some y"
    show "(bs, pos) \<noteq> (evil_datagram, 0)"
    proof
      assume "(bs, pos) = (evil_datagram, 0)"
      then have b: "bs = evil_datagram" "pos = 0" by simp_all
      have "decode evil_datagram 0 (set_bytes 1 (js_slice evil_datagram 6 0) f) = Some y"
        using step unfolding b by (simp add: evil_reads evil_length Let_def)
      from ih [OF this] show False by simp
    qed
  qed
  then have "decodeAudioFrameProto evil_datagram = None"
    unfolding decodeAudioFrameProto_def by (cases "decode_loop evil_datagram 0 empty_frame") auto
  then show ?thesis by (simp add: routeAudioDatagram_def evil_length) (simp add: evil_datagram_def)
qed

section \<open>Fail-closed opening\<close>

text \<open>C36: a frame is played only when it was opened: in a relay channel the payload is what the lane's current receiver
  opened, or its previous one after the current one failed to authenticate it; in a mixed channel only the
  mixer's own stream passes.  A frame no receiver opens is never played.\<close>

theorem played_only_when_opened:
  assumes "openAudioFrame opn f ks s = (Playable b prev, s')"
  shows "if lk_relay ks
    then \<exists>r opus. receiver_of f ks = Some r \<and> b = Some opus \<and>
      (if prev then \<exists>p code s1. previous_of f ks = Some p \<and> p \<noteq> r \<and> opn r (af_opus f) (af_ssrc f) s = (Inl code, s1)
          \<and> dropReasonForOpenError code = DROP_DECRYPT_FAILED \<and> opn p (af_opus f) (af_ssrc f) s1 = (Inr opus, s')
       else opn r (af_opus f) (af_ssrc f) s = (Inr opus, s'))
    else af_ssrc f = 0 \<and> b = af_opus f \<and> s' = s"
proof (cases "lk_relay ks")
  case False
  then show ?thesis using assms by (auto simp: openAudioFrame_def split: if_splits)
next
  case True
  then obtain r where r: "receiver_of f ks = Some r" using assms by (auto simp: openAudioFrame_def split: option.splits)
  obtain a s1 where a: "opn r (af_opus f) (af_ssrc f) s = (a, s1)" by (cases "opn r (af_opus f) (af_ssrc f) s")
  show ?thesis
  proof (cases a)
    case (Inr opus)
    then show ?thesis using True r a assms by (auto simp: openAudioFrame_def)
  next
    case (Inl code)
    then obtain p where p: "previous_of f ks = Some p" "p \<noteq> r" "dropReasonForOpenError code = DROP_DECRYPT_FAILED"
        "open_previous opn p f s1 = (Playable b prev, s')"
      using True r a assms by (auto simp: openAudioFrame_def Let_def split: option.splits if_splits)
    obtain a2 s2 where a2: "opn p (af_opus f) (af_ssrc f) s1 = (a2, s2)" by (cases "opn p (af_opus f) (af_ssrc f) s1")
    have "prev \<and> b \<noteq> None \<and> a2 = Inr (or_else b []) \<and> s2 = s'"
      using p(4) a2 by (cases a2) (auto simp: open_previous_def split: if_splits)
    then show ?thesis using True r a Inl p a2 by auto
  qed
qed

definition toy_open :: "(nat, unit) opener" where
  "toy_open k payload ssrc w = (if payload = Some [word_of_nat k, 1] then (Inr [7], w) else (Inl ''decrypt-failed'', w))"

definition toy_keys :: "nat lane_keys" where
  "toy_keys = \<lparr>lk_relay = True, lk_channel = Some 2, lk_cascade = None, lk_channel_prev = Some 1, lk_cascade_prev = None\<rparr>"

lemma played_only_when_opened_witness:
  "if lk_relay toy_keys
    then \<exists>r opus. receiver_of (empty_frame\<lparr>af_opus := Some [1, 1]\<rparr>) toy_keys = Some r \<and> Some [7] = Some opus \<and>
      (if True then \<exists>p code s1. previous_of (empty_frame\<lparr>af_opus := Some [1, 1]\<rparr>) toy_keys = Some p \<and> p \<noteq> r
            \<and> toy_open r (af_opus (empty_frame\<lparr>af_opus := Some [1, 1]\<rparr>)) (af_ssrc (empty_frame\<lparr>af_opus := Some [1, 1]\<rparr>)) () = (Inl code, s1)
          \<and> dropReasonForOpenError code = DROP_DECRYPT_FAILED
            \<and> toy_open p (af_opus (empty_frame\<lparr>af_opus := Some [1, 1]\<rparr>)) (af_ssrc (empty_frame\<lparr>af_opus := Some [1, 1]\<rparr>)) s1 = (Inr opus, ())
       else toy_open r (af_opus (empty_frame\<lparr>af_opus := Some [1, 1]\<rparr>)) (af_ssrc (empty_frame\<lparr>af_opus := Some [1, 1]\<rparr>)) () = (Inr opus, ()))
    else af_ssrc (empty_frame\<lparr>af_opus := Some [1, 1]\<rparr>) = 0 \<and> Some [7] = af_opus (empty_frame\<lparr>af_opus := Some [1, 1]\<rparr>) \<and> () = ()"
  by (rule played_only_when_opened)
    (simp add: openAudioFrame_def open_previous_def receiver_of_def previous_of_def toy_keys_def toy_open_def empty_frame_def
      dropReasonForOpenError_def)

section \<open>Keys are freed exactly once\<close>

definition held :: "'k key_slot \<Rightarrow> 'k set" where
  "held s = set_option (gs_current s) \<union> set_option (gs_previous s)"

text \<open>The slot as its owner uses it: no key is installed again once it was freed.\<close>

inductive slot_reach :: "'k set \<Rightarrow> 'k key_slot \<Rightarrow> bool" where
  Slot_start: "slot_reach {} createKeyGraceSlot"
| Slot_install: "slot_reach I s \<Longrightarrow> k \<notin> set (gs_freed s) \<Longrightarrow> slot_reach (insert k I) (install (Some k) s)"
| Slot_clear: "slot_reach I s \<Longrightarrow> slot_reach I (install None s)"
| Slot_expire: "slot_reach I s \<Longrightarrow> slot_reach I (expire s)"
| Slot_fire: "slot_reach I s \<Longrightarrow> slot_reach I (fire n s)"

definition slot_ok :: "'k set \<Rightarrow> 'k key_slot \<Rightarrow> bool" where
  "slot_ok I s \<longleftrightarrow> distinct (gs_freed s) \<and> set (gs_freed s) \<inter> held s = {} \<and> set (gs_freed s) \<union> held s = I
     \<and> (gs_previous s \<noteq> None \<longrightarrow> gs_current s \<noteq> None \<and> gs_previous s \<noteq> gs_current s)
     \<and> gs_pending s = (case gs_timer s of None \<Rightarrow> [] | Some n \<Rightarrow> [n])
     \<and> (gs_timer s = None \<longleftrightarrow> gs_previous s = None)"

lemmas slot_defs = slot_ok_def held_def expire_def clear_slot_def cancelTimer_def release_def arm_def Let_def

lemma slot_ok_start: "slot_ok {} createKeyGraceSlot"
  by (simp add: slot_defs createKeyGraceSlot_def)

lemma slot_ok_install: "slot_ok I s \<Longrightarrow> k \<notin> set (gs_freed s) \<Longrightarrow> slot_ok (insert k I) (install (Some k) s)"
  by (cases "gs_current s"; cases "gs_previous s"; cases "gs_timer s") (auto simp: slot_defs install_def)

lemma slot_ok_clear: "slot_ok I s \<Longrightarrow> slot_ok I (install None s)"
  by (cases "gs_current s"; cases "gs_previous s"; cases "gs_timer s") (auto simp: slot_defs install_def)

lemma slot_ok_expire: "slot_ok I s \<Longrightarrow> slot_ok I (expire s)"
  by (cases "gs_current s"; cases "gs_previous s"; cases "gs_timer s") (auto simp: slot_defs)

lemma slot_ok_fire: "slot_ok I s \<Longrightarrow> slot_ok I (fire n s)"
  by (cases "gs_current s"; cases "gs_previous s"; cases "gs_timer s") (auto simp: slot_defs fire_def)

text \<open>C37: every receive key is freed exactly once: whatever sequence of rekeys, swaps, expiries and clears, a key the slot was
  given is either still held or was freed, once; and a previous key is always on a running timer.\<close>

theorem keys_freed_exactly_once:
  assumes "slot_reach I s"
  shows "distinct (gs_freed s) \<and> set (gs_freed s) \<inter> held s = {} \<and> set (gs_freed s) \<union> held s = I
    \<and> (gs_previous s = None \<longleftrightarrow> gs_pending s = [])"
proof -
  have "slot_ok I s" using assms
    by induction (simp_all add: slot_ok_start slot_ok_install slot_ok_clear slot_ok_expire slot_ok_fire)
  then show ?thesis by (auto simp: slot_ok_def split: option.splits)
qed

lemma keys_freed_exactly_once_witness:
  "distinct (gs_freed (install (Some (2::nat)) (install (Some 1) createKeyGraceSlot)))
    \<and> set (gs_freed (install (Some (2::nat)) (install (Some 1) createKeyGraceSlot))) \<inter> held (install (Some 2) (install (Some 1) createKeyGraceSlot)) = {}
    \<and> set (gs_freed (install (Some (2::nat)) (install (Some 1) createKeyGraceSlot))) \<union> held (install (Some 2) (install (Some 1) createKeyGraceSlot)) = {2, 1}
    \<and> (gs_previous (install (Some (2::nat)) (install (Some 1) createKeyGraceSlot)) = None
        \<longleftrightarrow> gs_pending (install (Some (2::nat)) (install (Some 1) createKeyGraceSlot)) = [])"
  by (rule keys_freed_exactly_once, intro Slot_install Slot_start)
    (simp_all add: install_def slot_defs createKeyGraceSlot_def)

text \<open>A timer fires only while its key is the previous one: after it fired the slot holds no previous key.\<close>

lemma fired_frees_previous: "slot_ok I s \<Longrightarrow> n \<in> set (gs_pending s) \<Longrightarrow> gs_previous (fire n s) = None"
  by (cases "gs_timer s"; cases "gs_previous s") (auto simp: slot_defs fire_def)

text \<open>A listener that unsubscribed is no longer called, whatever set it was added to.\<close>

lemma unsubscribed_not_called:
  assumes "onGroupKeyChange (Some g) fn l = (Some i, l1)"
  shows "fn \<in> set (notifyGroupKeyChange (Some g) l1)" "fn \<notin> set (notifyGroupKeyChange (Some g) (offGroupKeyChange g (Some i) fn l1))"
  using assms by (auto simp: onGroupKeyChange_def notifyGroupKeyChange_def offGroupKeyChange_def add_listener_def Let_def
      split: option.splits if_splits)

text \<open>At most one heal of an organisation within the interval.\<close>

lemma claimed_heal_blocks:
  assumes "claimOrgHeal org now interval m = (True, m')" "now' - now < interval"
  shows "claimOrgHeal org now' interval m' = (False, m')"
  using assms by (auto simp: claimOrgHeal_def split: option.splits if_splits)

end
