(* ===== verification/Event_Schema.thy ===== *)
theory Event_Schema
  imports Js_Json
begin

text \<open>
  The contracts of the events a client receives over SSE (\<open>shared/events/schema.js\<close>): the table of
  event types with the subjects and fields of each, subject patterns, validation with its
  messages, and the sample events of the client tests.  Messages are written in ASCII.
\<close>

section \<open>Subjects\<close>

fun split_on :: "char \<Rightarrow> string \<Rightarrow> string list" where
  "split_on d [] = [[]]"
| "split_on d (c # s) = (if c = d then [] # split_on d s
     else (case split_on d s of [] \<Rightarrow> [[c]] | t # ts \<Rightarrow> (c # t) # ts))"

lemma split_on_nonempty: "split_on d s \<noteq> []"
  by (induction s) (auto split: list.split)

lemma split_on_plain: "d \<notin> set s \<Longrightarrow> split_on d s = [s]"
  by (induction s) auto

lemma split_on_join: "d \<notin> set a \<Longrightarrow> split_on d (a @ d # s) = a # split_on d s"
  by (induction a) auto

text \<open>The loop over the pattern's tokens against the subject's.\<close>

fun match_tokens :: "string list \<Rightarrow> string list \<Rightarrow> bool" where
  "match_tokens [] ss = (ss = [])"
| "match_tokens (p # ps) ss =
     (if p = ''>'' then ss \<noteq> []
      else (case ss of [] \<Rightarrow> False | x # xs \<Rightarrow> if p \<noteq> ''*'' \<and> p \<noteq> x then False else match_tokens ps xs))"

definition subjectMatches :: "string \<Rightarrow> string option \<Rightarrow> bool" where
  "subjectMatches pattern subject = (if Some pattern = subject then True
     else match_tokens (split_on (CHR ''.'') pattern) (split_on (CHR ''.'') (or_else subject [])))"

definition SSE_SUBJECTS :: "string list" where
  "SSE_SUBJECTS = [''specter.event.user.*'', ''specter.event.org.*'', ''specter.msg.channel.*'']"

definition INTERNAL_SUBJECTS :: "string list" where
  "INTERNAL_SUBJECTS = [''specter.cmd.>'', ''specter.user.login'', ''specter.moderation.ban'', ''specter.event.tree.*'',
     ''specter.msg.dm.*'', ''UserPresenceUpdated'']"

definition isSseSubject :: "string option \<Rightarrow> bool" where
  "isSseSubject subject = list_ex (\<lambda>p. subjectMatches p subject) SSE_SUBJECTS"

definition isInternalSubject :: "string option \<Rightarrow> bool" where
  "isInternalSubject subject = list_ex (\<lambda>p. subjectMatches p subject) INTERNAL_SUBJECTS"

section \<open>Specs and the table\<close>

datatype spec = STy string | SArr spec | SObj "(string \<times> spec) list"

record event_shape =
  sh_subject :: string
  sh_required :: "(string \<times> spec) list"
  sh_optional :: "(string \<times> spec) list"

definition shape :: "string \<Rightarrow> (string \<times> spec) list \<Rightarrow> (string \<times> spec) list \<Rightarrow> event_shape" where
  "shape s r opt = \<lparr>sh_subject = s, sh_required = r, sh_optional = opt\<rparr>"

definition CHANNEL :: string where "CHANNEL = ''specter.msg.channel.*''"
definition USER :: string where "USER = ''specter.event.user.*''"
definition ORG :: string where "ORG = ''specter.event.org.*''"

definition CHANNEL_MESSAGE :: "(string \<times> spec) list" where
  "CHANNEL_MESSAGE = [(''id'', STy ''string''), (''channel_id'', STy ''string''), (''org_id'', STy ''string''),
     (''sender_id'', STy ''string''), (''callsign'', STy ''string|null''), (''global_tag'', STy ''string|null''),
     (''encrypted_content'', STy ''string''), (''image_url'', STy ''string|null''), (''timestamp'', STy ''string'')]"

definition SYNC_REQUEST :: "(string \<times> spec) list" where
  "SYNC_REQUEST = [(''channel_id'', STy ''string''), (''org_id'', STy ''string''), (''requester_id'', STy ''string''),
     (''since'', STy ''string|null'')]"

definition SSE_EVENTS :: "(string \<times> event_shape list \<times> string list) list" where
  "SSE_EVENTS = [
     (''connected'', [shape ''sse'' [(''orgIds'', STy ''array'')] []],
        [''WarRoom.jsx'', ''useStripOps.js'']),
     (''orgs_changed'', [shape USER [] [],
        shape ORG [] []],
        [''WarRoom.jsx'']),
     (''org_created'', [shape USER [(''org'', SObj [(''id'', STy ''string''), (''callsign'', STy ''string'')])] []],
        [''WarRoom.jsx'']),
     (''member_joined'', [shape ORG [(''userId'', STy ''string''), (''orgId'', STy ''string'')] []],
        [''WarRoom.jsx'']),
     (''member_removed'', [shape ORG [(''userId'', STy ''string''), (''reason'', STy ''string'')] []],
        [''WarRoom.jsx'']),
     (''member_updated'', [shape ORG [(''userId'', STy ''string'')] []],
        [''WarRoom.jsx'']),
     (''role_created'', [shape ORG [(''role'', STy ''object'')] []],
        [''WarRoom.jsx'']),
     (''role_updated'', [shape ORG [(''role'', STy ''object'')] []],
        [''WarRoom.jsx'']),
     (''role_deleted'', [shape ORG [(''roleId'', STy ''string'')] []],
        [''WarRoom.jsx'']),
     (''channel_created'', [shape ORG [] [(''channel'', STy ''object'')]],
        [''WarRoom.jsx'']),
     (''channel_deleted'', [shape ORG [] [(''channelId'', STy ''string'')]],
        [''WarRoom.jsx'']),
     (''channel_presence_changed'', [shape ORG [(''channelId'', STy ''string''), (''occupants'', STy ''array'')] []],
        [''WarRoom.jsx'']),
     (''presence_changed'', [shape ORG [(''channelId'', STy ''string'')] []],
        []),
     (''channel_kicked'', [shape USER [(''channelId'', STy ''string'')] []],
        []),
     (''planner_presence'', [shape ORG [(''event_id'', STy ''string''), (''editors'', STy ''array'')] []],
        [''OperationPlanner.jsx'', ''useStripOps.js'']),
     (''event_launched'', [shape ORG [(''eventId'', STy ''string'')] []],
        [''WarRoom.jsx'', ''useStripOps.js'']),
     (''event_roster_changed'', [shape ORG [(''event_id'', STy ''string'')] []],
        [''WarRoom.jsx'', ''OperationPlanner.jsx'', ''useStripOps.js'']),
     (''operation_ended'', [shape ORG [(''eventId'', STy ''string''), (''mode'', STy ''string''), (''target_channel_id'', STy ''string|null''), (''target_channel_name'', STy ''string|null'')] []],
        [''WarRoom.jsx'', ''useStripOps.js'']),
     (''dm_received'', [shape USER [(''from_user_id'', STy ''string''), (''from_callsign'', STy ''string'')] []],
        [''WarRoom.jsx'']),
     (''message_relay'', [shape CHANNEL (CHANNEL_MESSAGE @ [(''payload'', SObj CHANNEL_MESSAGE)]) [],
        shape USER [(''context'', STy ''literal:dm''), (''partner_id'', STy ''string''), (''message'', SObj [(''id'', STy ''string''), (''conversation_id'', STy ''string''), (''sender_id'', STy ''string''), (''encrypted_content'', STy ''string''), (''timestamp'', STy ''string'')])] []],
        [''WarRoom.jsx'']),
     (''sync_request'', [shape CHANNEL (SYNC_REQUEST @ [(''payload'', SObj SYNC_REQUEST)]) []],
        [''WarRoom.jsx'']),
     (''sync_response'', [shape USER [(''org_id'', STy ''string''), (''channel_id'', STy ''string''), (''relayed_by'', STy ''string''), (''bundle'', STy ''string'')] [(''count'', STy ''number|null'')],
        shape USER [(''channel_id'', STy ''string''), (''messages'', SArr (SObj [(''id'', STy ''string''), (''sender_id'', STy ''string''), (''encrypted_content'', STy ''string''), (''timestamp'', STy ''string'')]))] [(''org_id'', STy ''string''), (''relayed_by'', STy ''string'')]],
        [''WarRoom.jsx'']),
     (''org_sync_request'', [shape ORG [(''org_id'', STy ''string''), (''requester_id'', STy ''string''), (''channels'', SArr (SObj [(''channel_id'', STy ''string''), (''since'', STy ''string|null'')]))] []],
        [''WarRoom.jsx'']),
     (''dm_sync_request'', [shape USER [(''conversation_id'', STy ''string''), (''requester_id'', STy ''string''), (''since'', STy ''string|null'')] []],
        [''WarRoom.jsx'']),
     (''dm_sync_response'', [shape USER [(''conversation_id'', STy ''string''), (''relayed_by'', STy ''string''), (''bundle'', STy ''string'')] [(''count'', STy ''number|null'')]],
        [''WarRoom.jsx'']),
     (''mls_commit'', [shape USER [(''conversation_id'', STy ''string''), (''commit'', STy ''string'')] [],
        shape USER [(''event_group_id'', STy ''string''), (''commit'', STy ''string'')] [],
        shape CHANNEL [(''channel_id'', STy ''string''), (''commit'', STy ''string'')] []],
        [''WarRoom.jsx'']),
     (''mls_welcome'', [shape USER [(''conversation_id'', STy ''string''), (''welcome'', STy ''string'')] [],
        shape USER [(''event_group_id'', STy ''string''), (''welcome'', STy ''string'')] [],
        shape USER [(''channel_id'', STy ''string''), (''welcome'', STy ''string'')] []],
        [''WarRoom.jsx''])]"

text \<open>Properties every JavaScript object inherits: looking one of them up in the table finds a function, which has no shapes.\<close>

definition object_prototype :: "string list" where
  "object_prototype = [''constructor'', ''__defineGetter__'', ''__defineSetter__'', ''hasOwnProperty'', ''__lookupGetter__'',
     ''__lookupSetter__'', ''isPrototypeOf'', ''propertyIsEnumerable'', ''toString'', ''valueOf'', ''__proto__'', ''toLocaleString'']"

section \<open>Validation\<close>

fun typeOf :: "jsval \<Rightarrow> string" where
  "typeOf JUndef = ''undefined''"
| "typeOf JNull = ''null''"
| "typeOf (JBool b) = ''boolean''"
| "typeOf (JNum n) = ''number''"
| "typeOf (JStr s) = ''string''"
| "typeOf (JArr xs) = ''array''"
| "typeOf (JObj fs) = ''object''"

definition json_of :: "jsval \<Rightarrow> string" where
  "json_of v = (if v = JUndef then ''undefined'' else stringify v)"

definition starts_with :: "string \<Rightarrow> string \<Rightarrow> bool" where
  "starts_with p s = (take (length p) s = p)"

definition check_type :: "string \<Rightarrow> jsval \<Rightarrow> string \<Rightarrow> string list" where
  "check_type ty value path =
     (if starts_with ''literal:'' ty then
        (let want = drop 8 ty in if value = JStr want then []
         else [path @ '': expected '' @ quote want @ '', got '' @ json_of value])
      else if ty = ''any'' then []
      else if typeOf value \<in> set (split_on (CHR ''|'') ty) then []
      else [path @ '': expected '' @ ty @ '', got '' @ typeOf value])"

definition member :: "jsval \<Rightarrow> string \<Rightarrow> jsval" where
  "member v key = (case v of JObj fs \<Rightarrow> or_else (al_get fs key) JUndef | _ \<Rightarrow> JUndef)"

text \<open>Undefined and missing are treated alike: missing for a required key, skipped for an optional one.\<close>

fun checkValue :: "spec \<Rightarrow> jsval \<Rightarrow> string \<Rightarrow> string list"
and checkRequired :: "(string \<times> spec) list \<Rightarrow> jsval \<Rightarrow> string \<Rightarrow> string list" where
  "checkValue (STy ty) value path = check_type ty value path"
| "checkValue (SArr sp) value path = (case value of
       JArr els \<Rightarrow> concat (map (\<lambda>(i, el). checkValue sp el (path @ ''['' @ nat_digits i @ '']'')) (enumerate 0 els))
     | _ \<Rightarrow> [path @ '': expected array, got '' @ typeOf value])"
| "checkValue (SObj fs) value path = (case value of
       JObj _ \<Rightarrow> checkRequired fs value (path @ ''.'')
     | _ \<Rightarrow> [path @ '': expected object, got '' @ typeOf value])"
| "checkRequired [] obj prefix = []"
| "checkRequired ((key, sp) # r) obj prefix =
     (if member obj key = JUndef then [prefix @ key @ '': missing''] else checkValue sp (member obj key) (prefix @ key))
     @ checkRequired r obj prefix"

definition checkFields :: "(string \<times> spec) list \<Rightarrow> (string \<times> spec) list \<Rightarrow> jsval \<Rightarrow> string \<Rightarrow> string list" where
  "checkFields required opt obj prefix = checkRequired required obj prefix
     @ concat (map (\<lambda>(key, sp). if member obj key \<noteq> JUndef then checkValue sp (member obj key) (prefix @ key) else []) opt)"

text \<open>The text of a value used as a property name or in a template.\<close>

fun js_text :: "jsval \<Rightarrow> string" where
  "js_text JUndef = ''undefined''"
| "js_text JNull = ''null''"
| "js_text (JBool b) = (if b then ''true'' else ''false'')"
| "js_text (JNum n) = int_text n"
| "js_text (JStr s) = s"
| "js_text (JArr xs) = join_with '','' (map (\<lambda>x. if x = JUndef \<or> x = JNull then [] else js_text x) xs)"
| "js_text (JObj fs) = ''[object Object]''"

text \<open>The first shape without an error decides; else the first one with the fewest.\<close>

fun closest :: "event_shape list \<Rightarrow> jsval \<Rightarrow> string list option \<Rightarrow> string list" where
  "closest [] event best = or_else best []"
| "closest (sh # shs) event best =
     (let errors = checkFields (sh_required sh) (sh_optional sh) event [] in
      if errors = [] then []
      else closest shs event (case best of None \<Rightarrow> Some errors
        | Some b \<Rightarrow> Some (if length errors < length b then errors else b)))"

definition unknown_type :: "jsval \<Rightarrow> string" where
  "unknown_type t = ''unknown event type '' @ json_of t @ '' - add it to shared/events/schema.js''"

text \<open>\<^const>\<open>None\<close> is a TypeError: the type names something every object inherits.\<close>

definition validateEvent :: "jsval \<Rightarrow> string option \<Rightarrow> string list option" where
  "validateEvent event subject = (case event of
       JObj _ \<Rightarrow> (let ty = member event ''type''; name = js_text ty in
         case al_get SSE_EVENTS name of
           None \<Rightarrow> if name \<in> set object_prototype then None else Some [unknown_type ty]
         | Some (shapes, _) \<Rightarrow>
             (let candidates = filter (\<lambda>sh. subject = None \<or> subjectMatches (sh_subject sh) subject) shapes in
              if candidates = []
              then Some [name @ '': not expected on subject '' @ or_else subject [] @ '' (allowed: ''
                     @ join_with '', '' (map sh_subject shapes) @ '')'']
              else Some (map (\<lambda>e. name @ '': '' @ e) (closest candidates event None))))
     | JArr _ \<Rightarrow> Some [unknown_type JUndef]
     | _ \<Rightarrow> Some [''event is not an object''])"

text \<open>The default of the second parameter: the envelope's own subject.\<close>

definition envelope_subject :: "jsval \<Rightarrow> string option" where
  "envelope_subject event = (case member event ''subject'' of JUndef \<Rightarrow> None | JNull \<Rightarrow> None | v \<Rightarrow> Some (js_text v))"

section \<open>Samples\<close>

definition sample_type :: "string \<Rightarrow> string \<Rightarrow> jsval" where
  "sample_type ty key =
     (if starts_with ''literal:'' ty then JStr (drop 8 ty)
      else (let t = hd (split_on (CHR ''|'') ty) in
        if t = ''string'' then JStr (if key = ''timestamp'' then ''2026-10-25T12:00:00.000Z'' else ''sample-'' @ key)
        else if t = ''number'' then JNum 1
        else if t = ''boolean'' then JBool True
        else if t = ''array'' then JArr []
        else if t = ''object'' then JObj []
        else JStr (''sample-'' @ key)))"

fun sampleValue :: "spec \<Rightarrow> string \<Rightarrow> jsval"
and sample_fields :: "(string \<times> spec) list \<Rightarrow> (string \<times> jsval) list" where
  "sampleValue (STy ty) key = sample_type ty key"
| "sampleValue (SArr sp) key = JArr [sampleValue sp key]"
| "sampleValue (SObj fs) key = JObj (sample_fields fs)"
| "sample_fields [] = []"
| "sample_fields ((k, sp) # r) = (k, sampleValue sp k) # sample_fields r"

definition spread :: "(string \<times> jsval) list \<Rightarrow> (string \<times> jsval) list \<Rightarrow> (string \<times> jsval) list" where
  "spread fs obj = fold (\<lambda>(k, v). al_set k v) fs obj"

definition star_to_sample :: "string \<Rightarrow> string" where
  "star_to_sample s = concat (map (\<lambda>c. if c = CHR ''*'' then ''sample'' else [c]) s)"

text \<open>\<^const>\<open>None\<close> is the error of an unknown type or shape.\<close>

definition sampleEvent :: "string \<Rightarrow> (string \<times> jsval) list \<Rightarrow> nat \<Rightarrow> jsval option" where
  "sampleEvent ty overrides i = (case al_get SSE_EVENTS ty of None \<Rightarrow> None
     | Some (shapes, _) \<Rightarrow> if length shapes \<le> i then None
         else (let sh = shapes ! i;
                   subject = (if sh_subject sh = ''sse'' then [] else [(''subject'', JStr (star_to_sample (sh_subject sh)))])
               in Some (JObj (spread overrides (spread (sample_fields (sh_required sh)) (spread [(''type'', JStr ty)] subject))))))"

end
