(* ===== verification/Event_Contracts.thy ===== *)
theory Event_Contracts
  imports Event_Schema Mls_Server
begin

text \<open>
  The contract against its two sides: the samples the client tests use conform, no subject is
  both forwarded to clients and internal, and what the MLS routes publish conforms.
\<close>

section \<open>Subjects\<close>

lemma match_star: "match_tokens [''*''] ss \<longleftrightarrow> (\<exists>x. ss = [x])"
  by (auto split: list.splits)

lemma match_rest: "match_tokens [''>''] ss \<longleftrightarrow> ss \<noteq> []"
  by simp

lemma match_literal:
  "t \<noteq> ''>'' \<Longrightarrow> t \<noteq> ''*'' \<Longrightarrow> match_tokens (t # ps) ss \<longleftrightarrow> (\<exists>xs. ss = t # xs \<and> match_tokens ps xs)"
  by (cases ss) auto

lemma match_refl: "match_tokens ps ps"
  by (induction ps) auto

lemma subject_tokens:
  "subjectMatches p s \<longleftrightarrow> match_tokens (split_on (CHR ''.'') p) (split_on (CHR ''.'') (or_else s []))"
  by (auto simp: subjectMatches_def match_refl)

lemma sse_tokens: "isSseSubject s \<longleftrightarrow> (\<exists>x. split_on (CHR ''.'') (or_else s []) \<in>
    {[''specter'', ''event'', ''user'', x], [''specter'', ''event'', ''org'', x], [''specter'', ''msg'', ''channel'', x]})"
  by (simp add: isSseSubject_def SSE_SUBJECTS_def subject_tokens match_literal match_star del: match_tokens.simps(2)) blast

lemma internal_tokens: "isInternalSubject s \<Longrightarrow>
    \<exists>a b r. split_on (CHR ''.'') (or_else s []) = a # r \<and> (a = ''UserPresenceUpdated'' \<or>
      (\<exists>r'. r = b # r' \<and> (b = ''cmd'' \<or> b = ''user'' \<or> b = ''moderation'' \<or>
        (\<exists>c r''. r' = c # r'' \<and> (b = ''event'' \<and> c = ''tree'' \<or> b = ''msg'' \<and> c = ''dm'')))))"
  by (simp add: isInternalSubject_def INTERNAL_SUBJECTS_def subject_tokens match_literal match_star match_rest
      del: match_tokens.simps(2)) auto

text \<open>What a client may see is never an internal subject: no subject, however it is written, matches both a pattern
  that is forwarded over SSE and one of the internal ones.\<close>

lemma sse_not_internal: "\<not> (isSseSubject subject \<and> isInternalSubject subject)"
proof
  assume "isSseSubject subject \<and> isInternalSubject subject"
  then show False using internal_tokens [of subject] sse_tokens [of subject] by auto
qed

section \<open>Samples\<close>

definition sample_ok :: "string \<Rightarrow> nat \<Rightarrow> bool" where
  "sample_ok ty i = (case sampleEvent ty [] i of None \<Rightarrow> False
     | Some ev \<Rightarrow> validateEvent ev (envelope_subject ev) = Some [])"

text \<open>Every sample event conforms to its contract: for each event type and each of its shapes the sample the client tests are
  fed with is a valid envelope on its own subject.\<close>

lemma samples_conform:
  "list_all (\<lambda>(ty, shapes, handlers). list_all (sample_ok ty) [0..<length shapes]) SSE_EVENTS"
  by code_simp

section \<open>What the MLS routes publish\<close>

text \<open>The object literals the routes publish.\<close>

definition ref_field :: "group_ref \<Rightarrow> string \<times> jsval" where
  "ref_field r = (case r of Conversation_ref c \<Rightarrow> (''conversation_id'', JStr c) | Channel_ref c \<Rightarrow> (''channel_id'', JStr c)
     | Event_ref c \<Rightarrow> (''event_group_id'', JStr c))"

definition event_json :: "mls_event \<Rightarrow> jsval" where
  "event_json ev = (case ev of
       Commit_event r commit \<Rightarrow> JObj [(''type'', JStr ''mls_commit''), ref_field r, (''commit'', JStr commit)]
     | Welcome_event r welcome \<Rightarrow> JObj [(''type'', JStr ''mls_welcome''), ref_field r, (''welcome'', JStr welcome)])"

definition conforms :: "string \<times> mls_event \<Rightarrow> bool" where
  "conforms se \<longleftrightarrow> validateEvent (event_json (snd se)) (Some (fst se)) = Some []"

definition dotless :: "string \<Rightarrow> bool" where
  "dotless s \<longleftrightarrow> CHR ''.'' \<notin> set s"

lemma user_subject_matches: "dotless u \<Longrightarrow> subjectMatches USER (Some (user_subject u))"
  by (simp add: subject_tokens USER_def user_subject_def dotless_def split_on_plain)

lemma channel_subject_matches: "dotless c \<Longrightarrow> subjectMatches CHANNEL (Some (channel_subject c))"
  by (simp add: subject_tokens CHANNEL_def channel_subject_def dotless_def split_on_plain)

lemma mls_shapes:
  "al_get SSE_EVENTS ''mls_commit'' = Some ([
      shape USER [(''conversation_id'', STy ''string''), (''commit'', STy ''string'')] [],
      shape USER [(''event_group_id'', STy ''string''), (''commit'', STy ''string'')] [],
      shape CHANNEL [(''channel_id'', STy ''string''), (''commit'', STy ''string'')] []], [''WarRoom.jsx''])"
  "al_get SSE_EVENTS ''mls_welcome'' = Some ([
      shape USER [(''conversation_id'', STy ''string''), (''welcome'', STy ''string'')] [],
      shape USER [(''event_group_id'', STy ''string''), (''welcome'', STy ''string'')] [],
      shape USER [(''channel_id'', STy ''string''), (''welcome'', STy ''string'')] []], [''WarRoom.jsx''])"
  by (simp_all add: SSE_EVENTS_def)

lemma string_field: "check_type ''string'' (JStr x) path = []"
  by (simp add: check_type_def starts_with_def)

lemma closest_conforms:
  "sh \<in> set shs \<Longrightarrow> checkFields (sh_required sh) (sh_optional sh) ev [] = [] \<Longrightarrow> closest shs ev best = []"
  by (induction shs arbitrary: best) (auto simp: Let_def)

lemma conforms_by_shape:
  assumes "event_json ev = JObj fs" "member (JObj fs) ''type'' = JStr ty" "al_get SSE_EVENTS ty = Some (shapes, hs)"
    and "sh \<in> set shapes" "subjectMatches (sh_subject sh) (Some subj)" "checkFields (sh_required sh) (sh_optional sh) (JObj fs) [] = []"
  shows "conforms (subj, ev)"
proof -
  have "sh \<in> set (filter (\<lambda>sh. subjectMatches (sh_subject sh) (Some subj)) shapes)" using assms(4,5) by simp
  then show ?thesis using assms closest_conforms [of sh "filter (\<lambda>sh. subjectMatches (sh_subject sh) (Some subj)) shapes" "JObj fs" None]
    by (auto simp: conforms_def validateEvent_def Let_def filter_empty_conv)
qed

lemmas field_checks = checkFields_def member_def string_field shape_def

lemma user_conforms:
  assumes "dotless u"
  shows "conforms (user_subject u, Welcome_event r w)" "\<not> (\<exists>c. r = Channel_ref c) \<Longrightarrow> conforms (user_subject u, Commit_event r w)"
proof -
  note m = user_subject_matches [OF assms]
  show "conforms (user_subject u, Welcome_event r w)"
    by (cases r; rule conforms_by_shape [OF _ _ mls_shapes(2), where sh = "shape USER [(fst (ref_field r), STy ''string''), (''welcome'', STy ''string'')] []"])
      (auto simp: event_json_def ref_field_def field_checks m)
  have "conforms (user_subject u, Commit_event (Conversation_ref c) w)" for c
    by (rule conforms_by_shape [OF _ _ mls_shapes(1), where sh = "shape USER [(''conversation_id'', STy ''string''), (''commit'', STy ''string'')] []"])
      (auto simp: event_json_def ref_field_def field_checks m)
  moreover have "conforms (user_subject u, Commit_event (Event_ref c) w)" for c
    by (rule conforms_by_shape [OF _ _ mls_shapes(1), where sh = "shape USER [(''event_group_id'', STy ''string''), (''commit'', STy ''string'')] []"])
      (auto simp: event_json_def ref_field_def field_checks m)
  ultimately show "conforms (user_subject u, Commit_event r w)" if "\<not> (\<exists>c. r = Channel_ref c)"
    using that by (cases r) auto
qed

lemma channel_conforms: "dotless c \<Longrightarrow> conforms (channel_subject c, Commit_event (Channel_ref c) w)"
  by (rule conforms_by_shape [OF _ _ mls_shapes(1), where sh = "shape CHANNEL [(''channel_id'', STy ''string''), (''commit'', STy ''string'')] []"])
    (auto simp: event_json_def ref_field_def field_checks channel_subject_matches)

lemma welcomes_conform: "list_all dotless (or_else (cb_welcomed b) []) \<Longrightarrow> list_all conforms (welcome_events r b)"
  by (auto simp: welcome_events_def list_all_iff user_conforms)

text \<open>Everything the MLS routes publish has the shape its clients read: the events of DM, channel and event commits and of
  external commits validate against the shared contract, on the subject they are published on.\<close>

lemma mls_events_conform:
  assumes "dotless chan" "list_all dotless members" "list_all dotless (or_else (cb_welcomed b) [])"
  shows "list_all conforms (channel_events chan b) \<and> list_all conforms (event_events ev members b)
    \<and> list_all conforms (dm_events conv members b)
    \<and> list_all conforms (relay_events \<lparr>ga_group = chan, ga_ref = Channel_ref chan, ga_subjects = [channel_subject chan]\<rparr> (cb_commit b))"
proof (intro conjI)
  show "list_all conforms (channel_events chan b)"
    using assms by (simp add: channel_events_def channel_conforms welcomes_conform)
  show "list_all conforms (event_events ev members b)"
    using assms welcomes_conform [OF assms(3)] by (auto simp: event_events_def list_all_iff user_conforms)
  show "list_all conforms (dm_events conv members b)"
    using assms(2) by (auto simp: dm_events_def list_all_iff user_conforms)
  show "list_all conforms (relay_events \<lparr>ga_group = chan, ga_ref = Channel_ref chan, ga_subjects = [channel_subject chan]\<rparr> (cb_commit b))"
    using assms(1) by (simp add: relay_events_def channel_conforms)
qed

definition demo_commit :: commit_body where
  "demo_commit = \<lparr>cb_epoch = 2, cb_commit = ''AQ=='', cb_welcome = Some ''Ag=='', cb_welcomed = Some [''bob''], cb_group_info = None\<rparr>"

lemma mls_events_conform_witness:
  "list_all conforms (channel_events ''c1'' demo_commit) \<and> list_all conforms (event_events ''e1'' [''alice'', ''bob''] demo_commit)
    \<and> list_all conforms (dm_events ''alice-bob'' [''alice'', ''bob''] demo_commit)
    \<and> list_all conforms (relay_events \<lparr>ga_group = ''c1'', ga_ref = Channel_ref ''c1'', ga_subjects = [channel_subject ''c1'']\<rparr> (cb_commit demo_commit))"
  by (rule mls_events_conform) (simp_all add: dotless_def demo_commit_def)

end
