(* ===== verification/Event_Groups.thy ===== *)
theory Event_Groups
  imports Js_Json
begin

text \<open>
  The operation plan (\<open>web-portal/src/utils/eventGroups.js\<close>): groups linked by their index in
  the array, roles, frequencies with index-based role references, the payload of a save and
  what a user may do with a role.  A number field holds an integer; 0, the empty string and
  a missing value are the falsy ones \<open>||\<close> replaces.
\<close>

section \<open>The plan\<close>

record seat =
  seat_label :: string
  seat_user :: "string option"

record role =
  ro_id :: "string option"
  ro_name :: string
  ro_priority :: int
  ro_mode :: string
  ro_assigned_user :: string
  ro_assigned_callsign :: string
  ro_assigned_status :: "string option"
  ro_max_slots :: int
  ro_filled :: int
  ro_reserved :: int
  ro_commander :: bool
  ro_auto_approve :: bool
  ro_seat_labels :: "string list option"
  ro_taken :: "seat list"

record ship =
  sp_slug :: string
  sp_name :: string
  sp_icon :: "string option"
  sp_quantity :: int
  sp_claims :: "string list"

record group =
  g_id :: "string option"
  g_name :: string
  g_max :: int
  g_leader :: "string option"
  g_parent :: "nat option"
  g_linked :: "nat option"
  g_roles :: "role list"
  g_ships :: "ship list"
  g_members :: "string list"
  g_statuses :: "(string, string) jsmap"
  g_role_names :: "(string, string) jsmap"
  g_role_ids :: "(string, string option) jsmap"
  g_callsigns :: "(string, string) jsmap"
  g_seats :: "(string, string option) jsmap"

record freq =
  fq_id :: "string option"
  fq_name :: string
  fq_leadership :: bool
  fq_refs :: "(nat \<times> nat) list"

definition PILOT_ROLE_NAMES :: "string list" where
  "PILOT_ROLE_NAMES = [''Pilot'', ''Captain'']"

section \<open>The tree\<close>

definition parent_of :: "group list \<Rightarrow> nat \<Rightarrow> nat option" where
  "parent_of groups i = (if i < length groups then g_parent (groups ! i) else None)"

definition buildGroupTree :: "group list \<Rightarrow> nat list \<times> (nat, nat list) jsmap" where
  "buildGroupTree groups =
     (filter (\<lambda>i. parent_of groups i = None) [0..<length groups],
      fold (\<lambda>i m. case parent_of groups i of None \<Rightarrow> m
        | Some p \<Rightarrow> al_set p (or_else (al_get m p) [] @ [i]) m) [0..<length groups] [])"

definition children_of :: "group list \<Rightarrow> nat \<Rightarrow> nat list" where
  "children_of groups cur = filter (\<lambda>i. parent_of groups i = Some cur) [0..<length groups]"

lemma walk_measure:
  assumes "cur \<notin> set visited"
  shows "card (({..<length groups} \<union> (set queue \<union> set (children_of groups cur))) - insert cur (set visited))
    < card (insert cur ({..<length groups} \<union> set queue - set visited))"
  by (rule psubset_card_mono) (use assms in \<open>auto simp: children_of_def\<close>)

text \<open>The breadth-first walk down from the dragged group.\<close>

function cycle_walk :: "nat \<Rightarrow> group list \<Rightarrow> nat list \<Rightarrow> nat list \<Rightarrow> bool" where
  "cycle_walk target groups visited [] = False"
| "cycle_walk target groups visited (cur # queue) =
     (if cur = target then True
      else if cur \<in> set visited then cycle_walk target groups visited queue
      else cycle_walk target groups (cur # visited) (queue @ children_of groups cur))"
  by pat_completeness auto
termination
  by (relation "measures [\<lambda>(_, groups, visited, queue). card (({..<length groups} \<union> set queue) - set visited),
      \<lambda>(_, _, _, queue). length queue]")
    (simp_all add: walk_measure insert_Diff_if)

definition wouldCreateCycle :: "nat \<Rightarrow> nat \<Rightarrow> group list \<Rightarrow> bool" where
  "wouldCreateCycle targetIdx dragIdx groups = (if targetIdx = dragIdx then True else cycle_walk targetIdx groups [] [dragIdx])"

text \<open>The depth, with fuel for the recursion to the parent; \<^const>\<open>None\<close> is a recursion that does not end.\<close>

fun computeDepth :: "nat \<Rightarrow> nat \<Rightarrow> group list \<Rightarrow> nat option" where
  "computeDepth 0 idx groups = None"
| "computeDepth (Suc fuel) idx groups = (case parent_of groups idx of None \<Rightarrow> Some 1
     | Some p \<Rightarrow> Option.bind (computeDepth fuel p groups) (\<lambda>d. Some (d + 1)))"

section \<open>Editing groups\<close>

definition group_number :: "string \<Rightarrow> nat option" where
  "group_number name = (if take 6 name = ''Group '' \<and> drop 6 name \<noteq> [] \<and> list_all is_digit (drop 6 name)
     then Some (foldl (\<lambda>n c. 10 * n + (of_char c - 48)) 0 (drop 6 name)) else None)"

definition nextGroupName :: "group list \<Rightarrow> string" where
  "nextGroupName currentGroups = ''Group '' @ nat_digits
     (fold (\<lambda>g m. max m (or_else (group_number (g_name g)) 0)) currentGroups 0 + 1)"

definition newGroup :: "string \<Rightarrow> nat option \<Rightarrow> group" where
  "newGroup name parentIndex = \<lparr>g_id = None, g_name = name, g_max = 0, g_leader = None, g_parent = parentIndex, g_linked = None,
     g_roles = [], g_ships = [], g_members = [], g_statuses = [], g_role_names = [], g_role_ids = [], g_callsigns = [], g_seats = []\<rparr>"

definition newRole :: "string \<Rightarrow> role" where
  "newRole name = \<lparr>ro_id = None, ro_name = name, ro_priority = 3, ro_mode = ''open'', ro_assigned_user = [], ro_assigned_callsign = [],
     ro_assigned_status = None, ro_max_slots = 1, ro_filled = 0, ro_reserved = 0, ro_commander = False, ro_auto_approve = True,
     ro_seat_labels = None, ro_taken = []\<rparr>"

definition shift_index :: "nat \<Rightarrow> nat option \<Rightarrow> nat option" where
  "shift_index i p = (case p of None \<Rightarrow> None | Some j \<Rightarrow> if j = i then None else if j > i then Some (j - 1) else Some j)"

definition removeGroupAt :: "group list \<Rightarrow> nat \<Rightarrow> group list" where
  "removeGroupAt groups i = map (\<lambda>g. g\<lparr>g_parent := shift_index i (g_parent g), g_linked := shift_index i (g_linked g)\<rparr>)
     (take i groups @ drop (Suc i) groups)"

definition reparentGroup :: "group list \<Rightarrow> nat option \<Rightarrow> nat option \<Rightarrow> group list" where
  "reparentGroup groups idx target = (case idx of None \<Rightarrow> groups
     | Some i \<Rightarrow>
         if length groups \<le> i then groups
         else if target \<noteq> None \<and> (target = Some i \<or> wouldCreateCycle (or_else target 0) i groups) then groups
         else if g_parent (groups ! i) = target then groups
         else groups[i := (groups ! i)\<lparr>g_parent := target\<rparr>])"

definition LINK_PALETTE :: "string list" where
  "LINK_PALETTE = [''#06b6d4'', ''#a855f7'', ''#f59e0b'', ''#10b981'', ''#f43f5e'', ''#6366f1'', ''#ec4899'']"

definition computeLinkColors :: "group list \<Rightarrow> (nat, string) jsmap" where
  "computeLinkColors groups = fst (fold (\<lambda>i (colors, ci). case g_linked (groups ! i) of
       None \<Rightarrow> (colors, ci)
     | Some li \<Rightarrow> if al_has colors i then (colors, ci)
         else (let c = LINK_PALETTE ! (ci mod length LINK_PALETTE) in (al_set li c (al_set i c colors), ci + 1)))
     [0..<length groups] ([], 0 :: nat))"

section \<open>Ship composition and presets\<close>

record crew_role =
  cr_name :: string
  cr_count :: int
  cr_seats :: "string list"

definition shipRoleToGroupRole :: "crew_role \<Rightarrow> role" where
  "shipRoleToGroupRole r = (newRole (cr_name r))\<lparr>ro_max_slots := cr_count r, ro_seat_labels := Some (cr_seats r)\<rparr>"

definition add_crew :: "int \<Rightarrow> crew_role \<Rightarrow> (string, crew_role) jsmap \<Rightarrow> (string, crew_role) jsmap" where
  "add_crew quantity r m = (let entry = or_else (al_get m (cr_name r)) \<lparr>cr_name = cr_name r, cr_count = 0, cr_seats = []\<rparr> in
     al_set (cr_name r) \<lparr>cr_name = cr_name entry, cr_count = cr_count entry + cr_count r * quantity,
       cr_seats = cr_seats entry @ cr_seats r\<rparr> m)"

definition sumShipCrewRoles :: "(int \<times> crew_role list) list \<Rightarrow> crew_role list" where
  "sumShipCrewRoles perShip =
     map (\<lambda>kv. (snd kv)\<lparr>cr_seats := take 12 (cr_seats (snd kv))\<rparr>) (fold (\<lambda>(quantity, roles). fold (add_crew quantity) roles) perShip [])"

record preset_group =
  pg_name :: string
  pg_max :: int
  pg_parent :: "nat option"
  pg_linked :: "nat option"

definition presetLayoutFromGroups :: "group list \<Rightarrow> preset_group list" where
  "presetLayoutFromGroups groups = map (\<lambda>g. \<lparr>pg_name = g_name g, pg_max = g_max g, pg_parent = g_parent g, pg_linked = g_linked g\<rparr>) groups"

definition groupsFromPresetLayout :: "preset_group list \<Rightarrow> group list" where
  "groupsFromPresetLayout layout = map (\<lambda>(i, p).
     (newGroup (if pg_name p = [] then ''Group '' @ nat_digits (i + 1) else pg_name p) (pg_parent p))
       \<lparr>g_max := pg_max p, g_linked := pg_linked p\<rparr>) (enumerate 0 layout)"

section \<open>Frequencies\<close>

definition newFrequency :: "freq list \<Rightarrow> freq" where
  "newFrequency existing = \<lparr>fq_id = None, fq_name = ''FREQ '' @ [char_of (65 + length existing)], fq_leadership = False, fq_refs = []\<rparr>"

definition hasRef :: "freq \<Rightarrow> nat \<Rightarrow> nat \<Rightarrow> bool" where
  "hasRef f gi ri = ((gi, ri) \<in> set (fq_refs f))"

definition frequencyHasRole :: "freq \<Rightarrow> nat \<Rightarrow> nat \<Rightarrow> bool" where
  "frequencyHasRole f gi ri = hasRef f gi ri"

definition on_freq :: "nat \<Rightarrow> (freq \<Rightarrow> freq) \<Rightarrow> freq list \<Rightarrow> freq list" where
  "on_freq fi h frequencies = map (\<lambda>(i, f). if i = fi then h f else f) (enumerate 0 frequencies)"

definition without_ref :: "nat \<Rightarrow> nat \<Rightarrow> (nat \<times> nat) list \<Rightarrow> (nat \<times> nat) list" where
  "without_ref gi ri refs = filter (\<lambda>r. r \<noteq> (gi, ri)) refs"

definition toggleFrequencyRole :: "freq list \<Rightarrow> nat \<Rightarrow> nat \<Rightarrow> nat \<Rightarrow> freq list" where
  "toggleFrequencyRole frequencies fi gi ri = on_freq fi (\<lambda>f.
     f\<lparr>fq_refs := (if hasRef f gi ri then without_ref gi ri (fq_refs f) else fq_refs f @ [(gi, ri)])\<rparr>) frequencies"

definition addFrequencyRole :: "freq list \<Rightarrow> nat \<Rightarrow> nat \<Rightarrow> nat \<Rightarrow> freq list" where
  "addFrequencyRole frequencies fi gi ri = on_freq fi (\<lambda>f. f\<lparr>fq_refs := fq_refs f @ [(gi, ri)]\<rparr>) frequencies"

definition removeFrequencyRole :: "freq list \<Rightarrow> nat \<Rightarrow> nat \<Rightarrow> nat \<Rightarrow> freq list" where
  "removeFrequencyRole frequencies fi gi ri = on_freq fi (\<lambda>f. f\<lparr>fq_refs := without_ref gi ri (fq_refs f)\<rparr>) frequencies"

definition renameFrequency :: "(string \<Rightarrow> string) \<Rightarrow> freq list \<Rightarrow> nat \<Rightarrow> string \<Rightarrow> freq list" where
  "renameFrequency toUpperCase frequencies fi name = on_freq fi (\<lambda>f. f\<lparr>fq_name := take 32 (toUpperCase name)\<rparr>) frequencies"

definition LEADERSHIP_FREQ_NAME :: string where "LEADERSHIP_FREQ_NAME = ''LEADERSHIP''"

text \<open>Words are maximal runs of letters, digits and underscores.\<close>

definition word_char :: "char \<Rightarrow> bool" where
  "word_char c \<longleftrightarrow> c \<in> set ''abcdefghijklmnopqrstuvwxyzABCDEFGHIJKLMNOPQRSTUVWXYZ0123456789_''"

function words_of :: "string \<Rightarrow> string list" where
  "words_of [] = []"
| "words_of (c # s) = (if word_char c then
      (c # takeWhile word_char s) # words_of (dropWhile word_char s)
    else words_of s)"
  by pat_completeness auto
termination
  by (relation "measure length") (auto simp: le_imp_less_Suc length_dropWhile_le)

definition leader_words :: "string list" where
  "leader_words = [''commander'', ''cmdr'', ''leader'', ''lead'', ''captain'', ''xo'']"

definition lower_case :: "char \<Rightarrow> char" where
  "lower_case c = (if c \<in> set ''ABCDEFGHIJKLMNOPQRSTUVWXYZ'' then char_of (of_char c + 32 :: nat) else c)"

definition isLeadershipRoleName :: "string \<Rightarrow> bool" where
  "isLeadershipRoleName name = list_ex (\<lambda>w. map lower_case w \<in> set leader_words) (words_of name)"

definition newLeadershipFrequency :: freq where
  "newLeadershipFrequency = \<lparr>fq_id = None, fq_name = LEADERSHIP_FREQ_NAME, fq_leadership = True, fq_refs = []\<rparr>"

fun find_index :: "('a \<Rightarrow> bool) \<Rightarrow> 'a list \<Rightarrow> nat option" where
  "find_index P [] = None"
| "find_index P (x # xs) = (if P x then Some 0 else map_option Suc (find_index P xs))"

definition leadershipFrequencyIndex :: "freq list \<Rightarrow> nat option" where
  "leadershipFrequencyIndex frequencies = find_index fq_leadership frequencies"

definition ensureLeadershipFrequency :: "freq list \<Rightarrow> freq list" where
  "ensureLeadershipFrequency frequencies =
     (if leadershipFrequencyIndex frequencies \<noteq> None then frequencies else newLeadershipFrequency # frequencies)"

definition toggleLeadershipRole :: "freq list \<Rightarrow> nat \<Rightarrow> nat \<Rightarrow> freq list" where
  "toggleLeadershipRole frequencies gi ri = (case leadershipFrequencyIndex frequencies of None \<Rightarrow> frequencies
     | Some li \<Rightarrow> toggleFrequencyRole frequencies li gi ri)"

definition assignLeadershipDefault :: "freq list \<Rightarrow> nat \<Rightarrow> nat \<Rightarrow> string \<Rightarrow> freq list" where
  "assignLeadershipDefault frequencies gi ri roleName = (case leadershipFrequencyIndex frequencies of None \<Rightarrow> frequencies
     | Some li \<Rightarrow> if \<not> isLeadershipRoleName roleName \<or> hasRef (frequencies ! li) gi ri then frequencies
         else addFrequencyRole frequencies li gi ri)"

text \<open>Every role of the plan with its indices.\<close>

fun roles_at :: "nat \<Rightarrow> nat \<Rightarrow> role list \<Rightarrow> (nat \<times> nat \<times> role) list" where
  "roles_at gi n [] = []"
| "roles_at gi n (r # rs) = (gi, n, r) # roles_at gi (Suc n) rs"

definition all_roles :: "group list \<Rightarrow> (nat \<times> nat \<times> role) list" where
  "all_roles groups = concat (map (\<lambda>x. roles_at (fst x) 0 (g_roles (snd x))) (enumerate 0 groups))"

definition assignAllLeaderRoles :: "freq list \<Rightarrow> group list \<Rightarrow> freq list" where
  "assignAllLeaderRoles frequencies groups =
     fold (\<lambda>(gi, ri, r) fs. assignLeadershipDefault fs gi ri (ro_name r)) (all_roles groups) frequencies"

definition shift_ref :: "nat \<Rightarrow> nat \<Rightarrow> nat \<times> nat \<Rightarrow> nat \<times> nat" where
  "shift_ref gi ri ref = (if fst ref = gi \<and> snd ref > ri then (fst ref, snd ref - 1) else ref)"

definition removeRoleFromFrequencies :: "freq list \<Rightarrow> nat \<Rightarrow> nat \<Rightarrow> freq list" where
  "removeRoleFromFrequencies frequencies gi ri =
     map (\<lambda>f. f\<lparr>fq_refs := map (shift_ref gi ri) (without_ref gi ri (fq_refs f))\<rparr>) frequencies"

text \<open>A frequency against the plan; \<open>callsign_of\<close> looks the user up in the member list.\<close>

record freq_view =
  fv_authorized :: "(nat \<times> nat \<times> role) list"
  fv_available :: "(nat \<times> nat \<times> role) list"
  fv_assigned :: "(string \<times> string \<times> string) list"

definition find_role :: "(nat \<times> nat \<times> role) list \<Rightarrow> nat \<times> nat \<Rightarrow> (nat \<times> nat \<times> role) option" where
  "find_role rs ref = find (\<lambda>x. fst x = fst ref \<and> fst (snd x) = snd ref) rs"

definition describeFrequency :: "(string \<Rightarrow> string option) \<Rightarrow> freq \<Rightarrow> group list \<Rightarrow> freq_view" where
  "describeFrequency callsign_of f groups =
     (let rs = all_roles groups;
          auth = concat (map (\<lambda>ref. case find_role rs ref of None \<Rightarrow> [] | Some x \<Rightarrow> [x]) (fq_refs f))
      in \<lparr>fv_authorized = auth,
          fv_available = filter (\<lambda>(gi, ri, r). \<not> list_ex (\<lambda>(gi', ri', r'). gi' = gi \<and> ri' = ri) auth) rs,
          fv_assigned = concat (map (\<lambda>(gi, ri, r). if ro_mode r = ''direct'' \<and> ro_assigned_user r \<noteq> []
            then [(if ro_assigned_callsign r \<noteq> [] then ro_assigned_callsign r
                   else or_else (str_or_null (callsign_of (ro_assigned_user r))) (ro_assigned_user r),
                   g_name (groups ! gi), ro_name r)] else []) auth)\<rparr>)"

section \<open>The channel tree\<close>

definition buildChannelTree :: "(string \<times> string option) list \<Rightarrow> (string \<times> string option) list \<times> (string, (string \<times> string option) list) jsmap" where
  "buildChannelTree channels = fold (\<lambda>ch (roots, m). if \<not> truthy (snd ch) then (roots @ [ch], m)
     else (roots, al_set (or_else (snd ch) []) (or_else (al_get m (or_else (snd ch) [])) [] @ [ch]) m)) channels ([], [])"

section \<open>Saving\<close>

text \<open>Depth-first to the parents; \<^const>\<open>None\<close> is the TypeError of an index outside the array.\<close>

function visit :: "group list \<Rightarrow> nat \<Rightarrow> nat list \<times> nat list \<Rightarrow> (nat list \<times> nat list) option" where
  "visit groups idx (visited, out) =
     (if idx \<in> set visited then Some (visited, out)
      else if length groups \<le> idx then None
      else (case g_parent (groups ! idx) of
          None \<Rightarrow> Some (idx # visited, out @ [idx])
        | Some p \<Rightarrow> (case visit groups p (idx # visited, out) of None \<Rightarrow> None
            | Some (visited', out') \<Rightarrow> Some (visited', out' @ [idx]))))"
  by pat_completeness auto
termination
  by (relation "measure (\<lambda>(groups, _, visited, _). card ({..<length groups} - set visited))")
    (auto intro!: diff_less simp: card_gt_0_iff subset_iff not_le)

fun visit_all :: "group list \<Rightarrow> nat list \<Rightarrow> nat list \<times> nat list \<Rightarrow> (nat list \<times> nat list) option" where
  "visit_all groups [] st = Some st"
| "visit_all groups (i # is) st = (case visit groups i st of None \<Rightarrow> None | Some st' \<Rightarrow> visit_all groups is st')"

definition sorted_indices :: "group list \<Rightarrow> nat list option" where
  "sorted_indices groups = map_option snd (visit_all groups [0..<length groups] ([], []))"

record group_payload =
  gp_id :: "string option"
  gp_name :: string
  gp_max :: int
  gp_leader :: "string option"
  gp_parent :: "nat option"
  gp_linked :: "nat option"
  gp_ships :: "(string \<times> string \<times> string option \<times> int) list"
  gp_roles :: "role list"

definition int_or :: "int \<Rightarrow> int \<Rightarrow> int" where
  "int_or n d = (if n = 0 then d else n)"

text \<open>A role of the payload: the fields the server stores, the others at their defaults.\<close>

definition role_payload :: "role \<Rightarrow> role" where
  "role_payload r = (newRole (ro_name r))\<lparr>ro_id := str_or_null (ro_id r), ro_priority := int_or (ro_priority r) 3,
     ro_mode := (if ro_mode r = [] then ''open'' else ro_mode r), ro_assigned_user := ro_assigned_user r,
     ro_max_slots := int_or (ro_max_slots r) 1, ro_commander := ro_commander r, ro_auto_approve := ro_auto_approve r,
     ro_seat_labels := ro_seat_labels r\<rparr>"

definition new_index :: "nat list \<Rightarrow> nat \<Rightarrow> nat option" where
  "new_index order i = find_index (\<lambda>j. j = i) order"

definition group_payload_of :: "nat list \<Rightarrow> group \<Rightarrow> group_payload" where
  "group_payload_of order g = \<lparr>gp_id = str_or_null (g_id g), gp_name = g_name g, gp_max = g_max g, gp_leader = str_or_null (g_leader g),
     gp_parent = Option.bind (g_parent g) (new_index order), gp_linked = Option.bind (g_linked g) (new_index order),
     gp_ships = map (\<lambda>s. (sp_slug s, sp_name s, str_or_null (sp_icon s), int_or (sp_quantity s) 1)) (g_ships g),
     gp_roles = map role_payload (g_roles g)\<rparr>"

definition freq_payload :: "nat list \<Rightarrow> freq \<Rightarrow> freq" where
  "freq_payload order f = f\<lparr>fq_id := str_or_null (fq_id f), fq_refs := map (\<lambda>(gi, ri). (or_else (new_index order gi) gi, ri)) (fq_refs f)\<rparr>"

definition buildEventGroupsPayload :: "group list \<Rightarrow> freq list \<Rightarrow> (group_payload list \<times> freq list) option" where
  "buildEventGroupsPayload groups frequencies = (case sorted_indices groups of None \<Rightarrow> None
     | Some order \<Rightarrow> Some (map (\<lambda>i. group_payload_of order (groups ! i)) order, map (freq_payload order) frequencies))"

section \<open>What a user may do\<close>

datatype role_action = Leave | Pending_approval | Claim_ship | Awaiting_ship | Join | Join_full | No_action

record join_state =
  js_action :: role_action
  js_has_slot :: bool
  js_needs_seat :: bool
  js_available :: "string list"
  js_my_seat :: "string option"
  js_accepted :: bool
  js_pending :: bool

definition my_role_id :: "group \<Rightarrow> string \<Rightarrow> string option" where
  "my_role_id g me = or_else (al_get (g_role_ids g) me) None"

definition join_action :: "group \<Rightarrow> role \<Rightarrow> string \<Rightarrow> bool \<Rightarrow> bool \<Rightarrow> bool \<Rightarrow> role_action" where
  "join_action g r me amAccepted amPending hasSlot =
     (let isShipComposed = g_ships g \<noteq> []; isPilotRole = ro_name r \<in> set PILOT_ROLE_NAMES;
          alreadyInAGroup = truthy (my_role_id g me) \<or> me \<in> set (g_members g);
          anyShipClaimed = list_ex (\<lambda>s. sp_claims s \<noteq> []) (g_ships g)
      in if amAccepted then Leave
         else if amPending then Pending_approval
         else if isShipComposed \<and> isPilotRole then Claim_ship
         else if alreadyInAGroup then No_action
         else if isShipComposed \<and> \<not> isPilotRole \<and> \<not> anyShipClaimed then Awaiting_ship
         else if hasSlot then Join else Join_full)"

definition getRoleJoinState :: "group \<Rightarrow> role \<Rightarrow> string \<Rightarrow> join_state" where
  "getRoleJoinState g r me =
     (let mine = (case al_get (g_role_ids g) me of None \<Rightarrow> ro_id r = None | Some i \<Rightarrow> i \<noteq> None \<and> i = ro_id r);
          amAccepted = (mine \<and> al_get (g_statuses g) me = Some ''accepted'');
          amPending = (mine \<and> al_get (g_statuses g) me = Some ''pending'');
          hasSlot = (ro_filled r + ro_reserved r < int_or (ro_max_slots r) 1);
          seats = or_else (ro_seat_labels r) []
      in \<lparr>js_action = join_action g r me amAccepted amPending hasSlot, js_has_slot = hasSlot,
          js_needs_seat = (length seats > 1),
          js_available = filter (\<lambda>x. x \<notin> set (map seat_label (ro_taken r))) seats,
          js_my_seat = (if amAccepted \<or> amPending then str_or_null (or_else (al_get (g_seats g) me) None) else None),
          js_accepted = amAccepted, js_pending = amPending\<rparr>)"

record my_assignment =
  ma_group :: "string option"
  ma_status :: "string option"
  ma_role :: "string option"
  ma_commander :: bool

record placement =
  pl_group :: "group option"
  pl_group_name :: "string option"
  pl_status :: "string option"
  pl_role :: string
  pl_commander :: bool

definition first_truthy :: "string option list \<Rightarrow> string option" where
  "first_truthy xs = (case filter truthy xs of [] \<Rightarrow> None | x # _ \<Rightarrow> x)"

definition getMyPlacement :: "group list \<Rightarrow> my_assignment option \<Rightarrow> string \<Rightarrow> placement" where
  "getMyPlacement groups mine me =
     (let myGroup = find (\<lambda>g. me \<in> set (g_members g)) groups in
      \<lparr>pl_group = myGroup,
       pl_group_name = first_truthy [Option.bind mine ma_group, map_option g_name myGroup],
       pl_status = first_truthy [Option.bind mine ma_status, Option.bind myGroup (\<lambda>g. al_get (g_statuses g) me)],
       pl_role = or_else (first_truthy [Option.bind mine ma_role, Option.bind myGroup (\<lambda>g. al_get (g_role_names g) me)]) [],
       pl_commander = (case mine of None \<Rightarrow> False | Some a \<Rightarrow> ma_commander a)\<rparr>)"

end
