(* ===== verification/Event_Groups_Props.thy ===== *)
theory Event_Groups_Props
  imports Event_Groups
begin

text \<open>
  The plan stays a forest under every edit of its tree, a save sends parents before their
  children with every index re-pointed, and what happens to the role references of a
  frequency when roles and groups are removed.
\<close>

section \<open>The plan is a forest\<close>

definition tree :: "group list \<Rightarrow> (nat \<times> nat) set" where
  "tree groups = {(p, i). i < length groups \<and> g_parent (groups ! i) = Some p}"

definition plan_ok :: "group list \<Rightarrow> bool" where
  "plan_ok groups \<longleftrightarrow> acyclic (tree groups) \<and> fst ` tree groups \<subseteq> {..<length groups}"

lemma in_children: "i \<in> set (children_of groups p) \<longleftrightarrow> (p, i) \<in> tree groups"
  by (auto simp: children_of_def tree_def parent_of_def)

text \<open>The walk that finds nothing has seen every descendant.\<close>

lemma closed_reach:
  assumes "(x, y) \<in> r\<^sup>*" "x \<in> A" "\<And>a b. a \<in> A \<Longrightarrow> (a, b) \<in> r \<Longrightarrow> b \<in> A"
  shows "y \<in> A"
  using assms(1,2) by (induction rule: rtrancl_induct) (auto intro: assms(3))

lemma cycle_walk_misses:
  assumes "\<not> cycle_walk target groups visited queue" "target \<notin> set visited"
    and "\<And>x c. x \<in> set visited \<Longrightarrow> (x, c) \<in> tree groups \<Longrightarrow> c \<in> set visited \<union> set queue"
  shows "x \<in> set visited \<union> set queue \<Longrightarrow> (x, target) \<notin> (tree groups)\<^sup>*"
  using assms
proof (induction target groups visited queue rule: cycle_walk.induct)
  case (1 target groups visited)
  then show ?case using closed_reach [of x target "tree groups" "set visited"] by auto
next
  case (2 target groups visited cur queue)
  show ?case
  proof (cases "cur \<in> set visited")
    case True
    show ?thesis by (rule 2(1)) (use 2(3-6) True in \<open>auto split: if_splits\<close>)
  next
    case False
    show ?thesis
    proof (rule 2(2))
      show "cur \<noteq> target" "cur \<notin> set visited" using 2(4) False by (auto split: if_splits)
      show "x \<in> set (cur # visited) \<union> set (queue @ children_of groups cur)" using 2(3) by auto
      show "\<not> cycle_walk target groups (cur # visited) (queue @ children_of groups cur)" using 2(4) False by (auto split: if_splits)
      show "target \<notin> set (cur # visited)" using 2(4,5) by (auto split: if_splits)
      show "c \<in> set (cur # visited) \<union> set (queue @ children_of groups cur)"
        if "y \<in> set (cur # visited)" "(y, c) \<in> tree groups" for y c
        using that 2(6) [of y c] by (auto simp: in_children)
    qed
  qed
qed

lemma no_cycle: "\<not> wouldCreateCycle target drag groups \<Longrightarrow> (drag, target) \<notin> (tree groups)\<^sup>*"
  using cycle_walk_misses [of target groups "[]" "[drag]" drag] by (auto simp: wouldCreateCycle_def split: if_splits)

lemma reparent_ok:
  assumes "plan_ok groups" "case target of None \<Rightarrow> True | Some p \<Rightarrow> p < length groups"
  shows "plan_ok (reparentGroup groups idx target)"
proof (cases "reparentGroup groups idx target = groups")
  case True
  then show ?thesis using assms(1) by simp
next
  case False
  then obtain i where i: "idx = Some i" "i < length groups" "target = None \<or> \<not> wouldCreateCycle (the target) i groups"
      "reparentGroup groups idx target = groups[i := (groups ! i)\<lparr>g_parent := target\<rparr>]"
    by (cases target) (auto simp: reparentGroup_def split: option.splits if_splits)
  let ?new = "groups[i := (groups ! i)\<lparr>g_parent := target\<rparr>]"
  have sub: "tree ?new \<subseteq> (case target of None \<Rightarrow> tree groups | Some p \<Rightarrow> insert (p, i) (tree groups))"
    using i(2) by (auto simp: tree_def nth_list_update split: option.split if_split_asm)
  have "acyclic (case target of None \<Rightarrow> tree groups | Some p \<Rightarrow> insert (p, i) (tree groups))"
    using assms(1) i(3) no_cycle by (auto simp: plan_ok_def acyclic_insert split: option.split)
  then have "acyclic (tree ?new)" using sub by (rule acyclic_subset)
  moreover have "fst ` tree ?new \<subseteq> {..<length groups}"
    using sub assms by (fastforce simp: plan_ok_def split: option.splits)
  ultimately show ?thesis unfolding i(4) by (simp add: plan_ok_def)
qed

text \<open>The old index of a group that is left after one was removed.\<close>

definition old_index :: "nat \<Rightarrow> nat \<Rightarrow> nat" where
  "old_index i j = (if j < i then j else Suc j)"

lemma removed_nth:
  assumes "i < length groups" "j < length groups - 1"
  shows "removeGroupAt groups i ! j = (groups ! old_index i j)
    \<lparr>g_parent := shift_index i (g_parent (groups ! old_index i j)), g_linked := shift_index i (g_linked (groups ! old_index i j))\<rparr>"
  using assms by (auto simp: removeGroupAt_def old_index_def nth_append min_def)

lemma removed_length: "i < length groups \<Longrightarrow> length (removeGroupAt groups i) = length groups - 1"
  by (simp add: removeGroupAt_def)

lemma removed_tree:
  assumes "i < length groups" "(p, j) \<in> tree (removeGroupAt groups i)"
  shows "(old_index i p, old_index i j) \<in> tree groups"
proof -
  have j: "j < length groups - 1" using assms by (simp add: tree_def removed_length)
  obtain q where "g_parent (groups ! old_index i j) = Some q" "shift_index i (Some q) = Some p"
    using assms(2) removed_nth [OF assms(1) j] by (auto simp: tree_def shift_index_def split: option.splits if_splits)
  moreover from this have "old_index i p = q" by (auto simp: shift_index_def old_index_def split: if_splits)
  ultimately show ?thesis using j by (auto simp: tree_def old_index_def)
qed

lemma trancl_mapped:
  assumes "(x, y) \<in> r\<^sup>+" "\<And>a b. (a, b) \<in> r \<Longrightarrow> (f a, f b) \<in> s"
  shows "(f x, f y) \<in> s\<^sup>+"
  using assms(1) by (induction rule: trancl_induct) (auto intro: assms(2) trancl_into_trancl)

lemma remove_ok:
  assumes "plan_ok groups" "i < length groups"
  shows "plan_ok (removeGroupAt groups i)"
proof -
  have "acyclic (tree (removeGroupAt groups i))"
    unfolding acyclic_def
  proof (intro allI notI)
    fix x assume "(x, x) \<in> (tree (removeGroupAt groups i))\<^sup>+"
    then have "(old_index i x, old_index i x) \<in> (tree groups)\<^sup>+" by (rule trancl_mapped) (rule removed_tree [OF assms(2)])
    then show False using assms(1) by (simp add: plan_ok_def acyclic_def)
  qed
  moreover have "p < length groups - 1" if "(p, j) \<in> tree (removeGroupAt groups i)" for p j
  proof -
    have "old_index i p < length groups" using removed_tree [OF assms(2) that] assms(1) by (force simp: plan_ok_def)
    then show ?thesis using assms(2) by (auto simp: old_index_def split: if_splits)
  qed
  ultimately show ?thesis by (auto simp: plan_ok_def removed_length [OF assms(2)])
qed

lemma add_ok:
  assumes "plan_ok groups" "case parent of None \<Rightarrow> True | Some p \<Rightarrow> p < length groups"
  shows "plan_ok (groups @ [newGroup name parent])"
proof -
  have t: "tree (groups @ [newGroup name parent]) = (case parent of None \<Rightarrow> tree groups | Some p \<Rightarrow> insert (p, length groups) (tree groups))"
    by (auto simp: tree_def newGroup_def nth_append less_Suc_eq split: option.split if_splits)
  have "(length groups, p) \<notin> (tree groups)\<^sup>*" if "p < length groups" for p
  proof
    assume "(length groups, p) \<in> (tree groups)\<^sup>*"
    then have "(length groups, p) \<in> (tree groups)\<^sup>+" using that by (auto simp: rtrancl_eq_or_trancl)
    then obtain c where "(length groups, c) \<in> tree groups" by (auto dest: tranclD)
    then show False using assms(1) by (force simp: plan_ok_def)
  qed
  then show ?thesis using assms unfolding plan_ok_def t
    by (auto simp: acyclic_insert split: option.splits)
qed

text \<open>On a forest the recursion to the parent ends: a group has fewer strict ancestors than there are groups, and
  each call loses one.\<close>

definition ancestors :: "group list \<Rightarrow> nat \<Rightarrow> nat set" where
  "ancestors groups i = {a. (a, i) \<in> (tree groups)\<^sup>+}"

lemma ancestors_bound:
  assumes "plan_ok groups"
  shows "ancestors groups i \<subseteq> {..<length groups} - {i}"
proof -
  have "a < length groups" if "(a, i) \<in> (tree groups)\<^sup>+" for a
    using tranclD [OF that] assms by (force simp: plan_ok_def)
  then show ?thesis using assms by (auto simp: ancestors_def plan_ok_def acyclic_def)
qed

lemma depth_within_ancestors:
  assumes "plan_ok groups"
  shows "card (ancestors groups i) < n \<Longrightarrow> \<exists>d. computeDepth n i groups = Some d \<and> d \<le> Suc (card (ancestors groups i))"
proof (induction n arbitrary: i)
  case (Suc n)
  show ?case
  proof (cases "parent_of groups i")
    case (Some p)
    then have edge: "(p, i) \<in> tree groups" by (auto simp: parent_of_def tree_def split: if_splits)
    have "ancestors groups p \<subset> ancestors groups i"
      using edge ancestors_bound [OF assms, of p] by (auto simp: ancestors_def intro: trancl_into_trancl)
    moreover have "finite (ancestors groups i)" using ancestors_bound [OF assms, of i] finite_subset by blast
    ultimately have "card (ancestors groups p) < card (ancestors groups i)" by (simp add: psubset_card_mono)
    then show ?thesis using Suc.IH [of p] Suc.prems Some by fastforce
  qed simp
qed simp

lemma depth_returns:
  assumes "plan_ok groups" "i < length groups"
  shows "\<exists>d. computeDepth (length groups) i groups = Some d \<and> d \<le> length groups"
proof -
  have "card (ancestors groups i) \<le> card ({..<length groups} - {i})"
    using ancestors_bound [OF assms(1)] by (simp add: card_mono)
  then have "card (ancestors groups i) < length groups" using assms(2) by simp
  then show ?thesis using depth_within_ancestors [OF assms(1), of i "length groups"] by fastforce
qed

text \<open>C39: the plan stays a forest: re-parenting by drag and drop, adding and removing groups never makes a cycle or leaves a
  parent that does not exist, whatever the target of the drop.\<close>

theorem plan_stays_forest:
  assumes "plan_ok groups" "i < length groups" "case target of None \<Rightarrow> True | Some p \<Rightarrow> p < length groups"
  shows "plan_ok (reparentGroup groups (Some i) target) \<and> plan_ok (removeGroupAt groups i)
    \<and> plan_ok (groups @ [newGroup name target])"
  using reparent_ok remove_ok add_ok assms by blast

definition demo_plan :: "group list" where
  "demo_plan = [(newGroup ''Air'' None)\<lparr>g_roles := [newRole ''Pilot'']\<rparr>, newGroup ''Wing'' (Some 0),
     (newGroup ''Ground'' (Some 1))\<lparr>g_roles := [newRole ''Medic'']\<rparr>]"

lemma demo_tree: "tree demo_plan = {(0, 1), (1, 2)}"
  by (auto simp: tree_def demo_plan_def newGroup_def less_Suc_eq numeral_3_eq_3)

lemma demo_ok: "plan_ok demo_plan"
proof -
  have "acyclic {(0, 1 :: nat), (1, 2)}"
    by (rule acyclicI_order [of _ "\<lambda>n. - int n"]) auto
  then show ?thesis by (simp add: plan_ok_def demo_tree) (simp add: demo_plan_def)
qed

lemma plan_stays_forest_witness:
  "plan_ok (reparentGroup demo_plan (Some 0) (Some 2)) \<and> plan_ok (removeGroupAt demo_plan 0)
    \<and> plan_ok (demo_plan @ [newGroup ''Sea'' (Some 2)])"
  by (rule plan_stays_forest [OF demo_ok]) (simp_all add: demo_plan_def)

section \<open>Saving the plan\<close>

text \<open>Every parent is earlier in the list.\<close>

definition parents_first :: "group list \<Rightarrow> nat list \<Rightarrow> bool" where
  "parents_first groups out \<longleftrightarrow> (\<forall>k p. k < length out \<longrightarrow> g_parent (groups ! (out ! k)) = Some p \<longrightarrow> p \<in> set (take k out))"

lemma parents_first_snoc:
  "parents_first groups (out @ [i]) \<longleftrightarrow> parents_first groups out \<and> (\<forall>p. g_parent (groups ! i) = Some p \<longrightarrow> p \<in> set out)"
  by (auto simp: parents_first_def nth_append less_Suc_eq)

definition visited_ok :: "group list \<Rightarrow> nat set \<Rightarrow> nat list \<times> nat list \<Rightarrow> bool" where
  "visited_ok groups P st \<longleftrightarrow> set (fst st) = set (snd st) \<union> P \<and> set (snd st) \<inter> P = {} \<and> distinct (snd st)
     \<and> parents_first groups (snd st) \<and> set (snd st) \<subseteq> {..<length groups}"

lemma visit_ok:
  assumes "plan_ok groups" "idx < length groups" "visited_ok groups P st" "\<And>x. x \<in> P \<Longrightarrow> (idx, x) \<in> (tree groups)\<^sup>+"
  shows "\<exists>st'. visit groups idx st = Some st' \<and> visited_ok groups P st' \<and> set (snd st) \<subseteq> set (snd st') \<and> idx \<in> set (snd st')"
proof -
  obtain V out where st: "st = (V, out)" by (cases st)
  have "visited_ok groups P (V, out) \<Longrightarrow> idx < length groups \<Longrightarrow> (\<And>x. x \<in> P \<Longrightarrow> (idx, x) \<in> (tree groups)\<^sup>+) \<Longrightarrow>
    \<exists>st'. visit groups idx (V, out) = Some st' \<and> visited_ok groups P st' \<and> set out \<subseteq> set (snd st') \<and> idx \<in> set (snd st')"
    using assms(1)
  proof (induction groups idx "(V, out)" arbitrary: V P rule: visit.induct)
    case (1 groups idx V)
    have n: "idx \<notin> P" using 1(4) [of idx] 1(5) by (auto simp: plan_ok_def acyclic_def)
    show ?case
    proof (cases "idx \<in> set V")
      case True
      then show ?thesis using n 1(2) by (auto simp: visited_ok_def)
    next
      case False
      show ?thesis
      proof (cases "g_parent (groups ! idx)")
        case None
        then show ?thesis using False n 1(2,3) by (simp add: visited_ok_def parents_first_snoc) blast
      next
        case (Some p)
        have e: "(p, idx) \<in> tree groups" using Some 1(3) by (simp add: tree_def)
        have below: "(p, x) \<in> (tree groups)\<^sup>+" if "x \<in> insert idx P" for x
          using that e 1(4) [of x] by (auto intro: trancl_into_trancl2)
        have "visited_ok groups (insert idx P) (idx # V, out)" using 1(2) False by (auto simp: visited_ok_def)
        moreover have "p < length groups" using e 1(5) by (force simp: plan_ok_def)
        ultimately obtain V2 out2 where r: "visit groups p (idx # V, out) = Some (V2, out2)" "visited_ok groups (insert idx P) (V2, out2)"
            "set out \<subseteq> set out2" "p \<in> set out2"
          using 1(1) [OF False _ Some, of "insert idx P"] 1(3,5) below by fastforce
        have "visit groups idx (V, out) = Some (V2, out2 @ [idx])" using False 1(3) Some r(1) by simp
        moreover have "visited_ok groups P (V2, out2 @ [idx])" using r(2,4) n Some 1(3) by (auto simp: visited_ok_def parents_first_snoc)
        ultimately show ?thesis using r(3) by auto
      qed
    qed
  qed
  then show ?thesis using assms(2,3,4) unfolding st by simp
qed

lemma visit_all_ok:
  assumes "plan_ok groups" "set is \<subseteq> {..<length groups}" "visited_ok groups {} st"
  shows "\<exists>st'. visit_all groups is st = Some st' \<and> visited_ok groups {} st' \<and> set (snd st) \<union> set is \<subseteq> set (snd st')"
  using assms(2,3)
proof (induction "is" arbitrary: st)
  case (Cons i "is")
  obtain st1 where s1: "visit groups i st = Some st1" "visited_ok groups {} st1" "set (snd st) \<subseteq> set (snd st1)" "i \<in> set (snd st1)"
    using visit_ok [OF assms(1), of i "{}" st] Cons.prems by (metis empty_iff insert_subset lessThan_iff list.set(2))
  obtain st2 where "visit_all groups is st1 = Some st2" "visited_ok groups {} st2" "set (snd st1) \<union> set is \<subseteq> set (snd st2)"
    using Cons.IH [OF _ s1(2)] Cons.prems(1) by auto
  then show ?case using s1 by auto
qed simp

lemma order_ok:
  assumes "plan_ok groups"
  shows "\<exists>order. sorted_indices groups = Some order \<and> distinct order \<and> set order = {..<length groups} \<and> parents_first groups order"
proof -
  have v: "visited_ok groups {} ([], [])" by (simp add: visited_ok_def parents_first_def)
  have r: "set [0..<length groups] \<subseteq> {..<length groups}" by auto
  from visit_all_ok [OF assms r v] obtain st where st: "visit_all groups [0..<length groups] ([], []) = Some st"
      "visited_ok groups {} st" "set [0..<length groups] \<subseteq> set (snd st)" by (elim exE conjE) simp
  then have "set (snd st) = {..<length groups}" by (auto simp: visited_ok_def)
  then show ?thesis using st by (simp add: sorted_indices_def visited_ok_def)
qed

lemma find_index_Some: "find_index P xs = Some k \<Longrightarrow> k < length xs \<and> P (xs ! k)"
  by (induction xs arbitrary: k) (auto split: if_splits)

lemma new_index_take: "p \<in> set (take k order) \<Longrightarrow> \<exists>j<k. new_index order p = Some j \<and> order ! j = p"
proof (induction order arbitrary: k)
  case (Cons x xs)
  show ?case
  proof (cases "x = p")
    case True
    then show ?thesis using Cons.prems by (cases k) (auto simp: new_index_def)
  next
    case False
    then obtain k' where "k = Suc k'" "p \<in> set (take k' xs)" using Cons.prems by (cases k) auto
    then show ?thesis using Cons.IH [of k'] False by (auto simp: new_index_def)
  qed
qed simp

text \<open>A save sends every group once, its parent before it: the payload of a plan is a reordering of its groups in which each
  parent index points at the parent's new place, which comes earlier, so the server can resolve it in one pass.\<close>

lemma payload_parents_first:
  assumes "plan_ok groups"
  shows "\<exists>order gs fs. sorted_indices groups = Some order \<and> buildEventGroupsPayload groups frequencies = Some (gs, fs)
    \<and> distinct order \<and> set order = {..<length groups} \<and> length gs = length groups
    \<and> list_all (\<lambda>k. gp_name (gs ! k) = g_name (groups ! (order ! k)) \<and>
         (case g_parent (groups ! (order ! k)) of None \<Rightarrow> gp_parent (gs ! k) = None
          | Some p \<Rightarrow> \<exists>j<k. gp_parent (gs ! k) = Some j \<and> order ! j = p)) [0..<length gs]"
proof -
  obtain order where ord: "sorted_indices groups = Some order" "distinct order" "set order = {..<length groups}" "parents_first groups order"
    using order_ok [OF assms] by blast
  let ?gs = "map (\<lambda>i. group_payload_of order (groups ! i)) order"
  have len: "length order = length groups" using distinct_card [OF ord(2)] ord(3) by simp
  have "buildEventGroupsPayload groups frequencies = Some (?gs, map (freq_payload order) frequencies)"
    using ord(1) by (simp add: buildEventGroupsPayload_def)
  moreover have "gp_name (?gs ! k) = g_name (groups ! (order ! k)) \<and>
         (case g_parent (groups ! (order ! k)) of None \<Rightarrow> gp_parent (?gs ! k) = None
          | Some p \<Rightarrow> \<exists>j<k. gp_parent (?gs ! k) = Some j \<and> order ! j = p)" if "k < length order" for k
    using that ord(4) new_index_take [of _ k order]
    by (auto simp: group_payload_of_def parents_first_def split: option.split)
  ultimately show ?thesis using ord len by (auto simp: list_all_iff)
qed

lemma payload_parents_first_witness:
  "\<exists>order gs fs. sorted_indices demo_plan = Some order \<and> buildEventGroupsPayload demo_plan [] = Some (gs, fs)
    \<and> distinct order \<and> set order = {..<length demo_plan} \<and> length gs = length demo_plan
    \<and> list_all (\<lambda>k. gp_name (gs ! k) = g_name (demo_plan ! (order ! k)) \<and>
         (case g_parent (demo_plan ! (order ! k)) of None \<Rightarrow> gp_parent (gs ! k) = None
          | Some p \<Rightarrow> \<exists>j<k. gp_parent (gs ! k) = Some j \<and> order ! j = p)) [0..<length gs]"
  by (rule payload_parents_first [OF demo_ok])

section \<open>Role references\<close>

lemma find_in_group:
  "find (\<lambda>x. fst x = a \<and> fst (snd x) = b) (roles_at m n rs)
    = (if m = a \<and> n \<le> b \<and> b < n + length rs then Some (a, b, rs ! (b - n)) else None)"
  by (induction rs arbitrary: n) (auto simp: nth_Cons' Suc_le_eq)

lemma find_role_from:
  "find (\<lambda>x. fst x = a \<and> fst (snd x) = b) (concat (map (\<lambda>x. roles_at (fst x) 0 (g_roles (snd x))) (enumerate m gs)))
    = (if m \<le> a \<and> a < m + length gs \<and> b < length (g_roles (gs ! (a - m))) then Some (a, b, g_roles (gs ! (a - m)) ! b) else None)"
proof (induction gs arbitrary: m)
  case (Cons g gs)
  show ?case by (cases "m = a") (auto simp: find_append find_in_group Cons.IH nth_Cons' Suc_le_eq)
qed simp

text \<open>The role a reference names.\<close>

lemma find_role_nth:
  "find_role (all_roles groups) (a, b)
    = (if a < length groups \<and> b < length (g_roles (groups ! a)) then Some (a, b, g_roles (groups ! a) ! b) else None)"
  by (simp add: find_role_def all_roles_def find_role_from)

text \<open>After a group is removed the frequencies admit other people: the references are by index and a removal does not
  shift them, so a reference to a later group's role now names the role of the group after it, and the payload of a
  save carries it so.\<close>

lemma removal_moves_frequency_access:
  assumes "i \<le> j" "Suc j < length groups" "ri < length (g_roles (groups ! j))" "ri < length (g_roles (groups ! Suc j))"
  shows "find_role (all_roles groups) (j, ri) = Some (j, ri, g_roles (groups ! j) ! ri)
    \<and> find_role (all_roles (removeGroupAt groups i)) (j, ri) = Some (j, ri, g_roles (groups ! Suc j) ! ri)"
  using assms removed_nth [of i groups j] removed_length [of i groups]
  by (simp add: find_role_nth old_index_def)

lemma removal_moves_frequency_access_witness:
  "find_role (all_roles [(newGroup ''Air'' None)\<lparr>g_roles := [newRole ''Pilot'']\<rparr>, (newGroup ''Ground'' None)\<lparr>g_roles := [newRole ''Medic'']\<rparr>]) (0, 0)
      = Some (0, 0, g_roles ([(newGroup ''Air'' None)\<lparr>g_roles := [newRole ''Pilot'']\<rparr>, (newGroup ''Ground'' None)\<lparr>g_roles := [newRole ''Medic'']\<rparr>] ! 0) ! 0)
    \<and> find_role (all_roles (removeGroupAt [(newGroup ''Air'' None)\<lparr>g_roles := [newRole ''Pilot'']\<rparr>, (newGroup ''Ground'' None)\<lparr>g_roles := [newRole ''Medic'']\<rparr>] 0)) (0, 0)
      = Some (0, 0, g_roles ([(newGroup ''Air'' None)\<lparr>g_roles := [newRole ''Pilot'']\<rparr>, (newGroup ''Ground'' None)\<lparr>g_roles := [newRole ''Medic'']\<rparr>] ! Suc 0) ! 0)"
  by (rule removal_moves_frequency_access) simp_all

text \<open>Removing a role, by contrast, re-points the references: each kept one names the role it named before.\<close>

lemma removed_role_refs:
  assumes "gi < length groups" "(a, b) \<noteq> (gi, ri)" "find_role (all_roles groups) (a, b) = Some (a, b, r)"
    and "groups' = groups[gi := (groups ! gi)\<lparr>g_roles := take ri (g_roles (groups ! gi)) @ drop (Suc ri) (g_roles (groups ! gi))\<rparr>]"
  shows "\<exists>b'. shift_ref gi ri (a, b) = (a, b') \<and> find_role (all_roles groups') (a, b') = Some (a, b', r)"
  using assms
  by (auto simp: find_role_nth shift_ref_def nth_list_update nth_append min_def split: if_splits)

end
