(* ===== verification/Auth_Server.thy ===== *)
theory Auth_Server
  imports Event_Schema
begin

text \<open>
  The accounts and sessions of the identity service
  (\<open>services/identity-node/src/controllers/authController.ts\<close>), its request limiter
  (\<open>middleware/rateLimit.ts\<close>) and the token checks in front of the routes
  (\<open>middleware/authMiddleware.ts\<close>).

  A handler takes the tables and answers a status with a body, and the tables after it; a
  transaction is one step.  \<open>ad_down\<close> says the database does not answer.  \<open>ad_now\<close> is the
  database's clock (NOW()), \<open>ad_clock\<close> the process's (\<open>Date.now()\<close>), both in milliseconds.
  SHA-256, HMAC, argon2, the e-mail cipher and the JWT library are arguments, as are the
  random bytes drawn by a request.
\<close>

section \<open>Tables and primitives\<close>

record user_row =
  u_id :: string
  u_callsign :: string
  u_email_hash :: string
  u_email_encrypted :: "string option"
  u_password_hash :: string
  u_global_tag :: "string option"
  u_hwid :: "string option"
  u_timezone :: "string option"
  u_profile_image :: "string option"
  u_tier :: "string option"
  u_reset :: "string option"
  u_reset_expires :: "int option"

record refresh_row =
  rt_id :: nat
  rt_user :: string
  rt_hash :: string
  rt_expires :: int
  rt_revoked :: "int option"
  rt_replaced :: "nat option"

record auth_db =
  ad_users :: "user_row list"
  ad_tokens :: "refresh_row list"
  ad_bans :: "(string \<times> string) list"
  ad_next :: nat
  ad_now :: int
  ad_clock :: int
  ad_mail :: "(string \<times> string) list"
  ad_events :: "(string \<times> string \<times> string) list"
  ad_down :: bool

record crypto =
  x_sha256 :: "string \<Rightarrow> string"
  x_hmac :: "string \<Rightarrow> string \<Rightarrow> string"
  x_hex :: "string \<Rightarrow> string"
  x_argon :: "string \<Rightarrow> string \<Rightarrow> string"
  x_argon_verify :: "string \<Rightarrow> string \<Rightarrow> bool option"
  x_encrypt_email :: "string \<Rightarrow> string \<Rightarrow> string option"
  x_decrypt_email :: "string \<Rightarrow> string option"
  x_jwt :: "string \<Rightarrow> string \<Rightarrow> string \<Rightarrow> int \<Rightarrow> string"
  x_secret :: "string option"
  x_latest :: "string option"

text \<open>\<open>Failed\<close> is an answer with an error status, its message and, for a ban, the reason.\<close>

datatype 'a answer = Failed nat string "string option" | Done nat 'a

definition server_error :: "'a answer" where "server_error = Failed 500 ''Internal server error'' None"

section \<open>Text\<close>

definition is_space :: "char \<Rightarrow> bool" where
  "is_space c = (let n = of_char c :: nat in (9 \<le> n \<and> n \<le> 13) \<or> n = 32 \<or> n = 160)"

definition trim_text :: "string \<Rightarrow> string" where
  "trim_text s = rev (dropWhile is_space (rev (dropWhile is_space s)))"

definition lower_char :: "char \<Rightarrow> char" where
  "lower_char c = (let n = of_char c :: nat in
     if (65 \<le> n \<and> n \<le> 90) \<or> (192 \<le> n \<and> n \<le> 222 \<and> n \<noteq> 215) then char_of (n + 32) else c)"

definition hashEmail :: "crypto \<Rightarrow> string \<Rightarrow> string" where
  "hashEmail x email = x_sha256 x (trim_text (map lower_char email))"

definition hashResetToken :: "crypto \<Rightarrow> string \<Rightarrow> string" where
  "hashResetToken x token = x_sha256 x token"

definition hashRefreshToken :: "crypto \<Rightarrow> string \<Rightarrow> string" where
  "hashRefreshToken x token = x_sha256 x token"

definition getLatestClientVersion :: "crypto \<Rightarrow> string option" where
  "getLatestClientVersion x = (case x_latest x of None \<Rightarrow> None | Some t \<Rightarrow> str_or_null (Some (trim_text t)))"

section \<open>Secrets and tokens\<close>

text \<open>An unset or empty \<open>JWT_SECRET\<close> makes every signing and derivation throw.\<close>

definition getJwtSecret :: "crypto \<Rightarrow> string option" where
  "getJwtSecret x = str_or_null (x_secret x)"

definition REFRESH_TOKEN_TTL_MS :: int where "REFRESH_TOKEN_TTL_MS = 30 * 24 * 60 * 60 * 1000"
definition REFRESH_REUSE_GRACE_SECONDS :: int where "REFRESH_REUSE_GRACE_SECONDS = 60"

definition successorKey :: "crypto \<Rightarrow> string option" where
  "successorKey x = map_option (\<lambda>secret. x_hmac x secret ''specter/refresh-successor/v1'') (getJwtSecret x)"

definition deriveSuccessorRefreshToken :: "crypto \<Rightarrow> string \<Rightarrow> string \<Rightarrow> string option" where
  "deriveSuccessorRefreshToken x oldRawToken userAgent =
     map_option (\<lambda>key. x_hex x (x_hmac x key (''v1'' @ [CHR 0x00] @ oldRawToken @ [CHR 0x00] @ userAgent))) (successorKey x)"

definition signAccessToken :: "crypto \<Rightarrow> string \<Rightarrow> string \<Rightarrow> auth_db \<Rightarrow> string option" where
  "signAccessToken x userId callsign d = map_option (\<lambda>secret. x_jwt x secret userId callsign (ad_clock d)) (getJwtSecret x)"

definition insert_token :: "string \<Rightarrow> string \<Rightarrow> auth_db \<Rightarrow> nat \<times> auth_db" where
  "insert_token userId tokenHash d = (ad_next d,
     d\<lparr>ad_tokens := ad_tokens d @ [\<lparr>rt_id = ad_next d, rt_user = userId, rt_hash = tokenHash,
           rt_expires = ad_clock d + REFRESH_TOKEN_TTL_MS, rt_revoked = None, rt_replaced = None\<rparr>],
       ad_next := Suc (ad_next d)\<rparr>)"

text \<open>\<open>rnd\<close> is the hex text of the 32 random bytes; \<^const>\<open>None\<close> when signing throws.\<close>

definition issueTokenPair :: "crypto \<Rightarrow> string \<Rightarrow> string \<Rightarrow> string \<Rightarrow> auth_db \<Rightarrow> (string \<times> string) option \<times> auth_db" where
  "issueTokenPair x rnd userId callsign d = (case signAccessToken x userId callsign d of
       None \<Rightarrow> (None, d)
     | Some accessToken \<Rightarrow> (Some (accessToken, rnd), snd (insert_token userId (hashRefreshToken x rnd) d)))"

section \<open>Register and login\<close>

record register_body =
  rg_callsign :: string
  rg_email :: string
  rg_password :: string
  rg_global_tag :: "string option"
  rg_hwid :: "string option"
  rg_timezone :: "string option"

record user_view =
  uv_id :: string
  uv_callsign :: string
  uv_global_tag :: "string option"
  uv_timezone :: "string option"
  uv_tier :: "string option"
  uv_image :: "string option"
  uv_avatar :: "string option"

record session_reply =
  sr_token :: string
  sr_refresh :: string
  sr_user :: user_view
  sr_latest :: "string option"

definition view_of :: "user_row \<Rightarrow> user_view" where
  "view_of u = \<lparr>uv_id = u_id u, uv_callsign = u_callsign u, uv_global_tag = u_global_tag u, uv_timezone = u_timezone u,
     uv_tier = u_tier u, uv_image = u_profile_image u,
     uv_avatar = (if truthy (u_profile_image u) then Some (''/uploads/'' @ or_else (u_profile_image u) []) else None)\<rparr>"

text \<open>The ban check of both handlers; an empty hwid is not looked up.\<close>

definition hwid_ban :: "string option \<Rightarrow> auth_db \<Rightarrow> string option" where
  "hwid_ban hwid d = (if truthy hwid then map_of (ad_bans d) (or_else hwid []) else None)"

definition banned :: "string \<Rightarrow> 'a answer" where
  "banned reason = Failed 403 ''Device is banned from the network'' (Some reason)"

text \<open>
  \<open>newId\<close> is the id the database gives the row, \<open>salt\<close> and \<open>iv\<close> the random parts of the
  password hash and the e-mail cipher.  An unset secret fails only after the row was committed.
  A registration answers the four public fields; the others of the view are null there.
\<close>

definition new_user :: "crypto \<Rightarrow> string \<Rightarrow> string \<Rightarrow> string \<Rightarrow> register_body \<Rightarrow> user_row" where
  "new_user x newId salt enc b = \<lparr>u_id = newId, u_callsign = rg_callsign b, u_email_hash = hashEmail x (rg_email b),
     u_email_encrypted = Some enc, u_password_hash = x_argon x salt (rg_password b),
     u_global_tag = str_or_null (rg_global_tag b), u_hwid = str_or_null (rg_hwid b), u_timezone = str_or_null (rg_timezone b),
     u_profile_image = None, u_tier = None, u_reset = None, u_reset_expires = None\<rparr>"

definition register :: "crypto \<Rightarrow> string \<times> string \<times> string \<times> string \<Rightarrow> register_body \<Rightarrow> auth_db \<Rightarrow> session_reply answer \<times> auth_db" where
  "register x rand b d = (case rand of (newId, salt, iv, rnd) \<Rightarrow>
     if ad_down d then (server_error, d)
     else case hwid_ban (rg_hwid b) d of Some reason \<Rightarrow> (banned reason, d)
     | None \<Rightarrow>
         if list_ex (\<lambda>u. u_callsign u = rg_callsign b \<or> u_email_hash u = hashEmail x (rg_email b)) (ad_users d)
           then (Failed 409 ''User already exists'' None, d)
         else (case x_encrypt_email x iv (trim_text (map lower_char (rg_email b))) of None \<Rightarrow> (server_error, d)
           | Some enc \<Rightarrow> (let u = new_user x newId salt enc b; d1 = d\<lparr>ad_users := ad_users d @ [u]\<rparr> in
               case issueTokenPair x rnd newId (rg_callsign b) d1 of
                 (None, d2) \<Rightarrow> (server_error, d2)
               | (Some (accessToken, refreshToken), d2) \<Rightarrow>
                   (Done 201 \<lparr>sr_token = accessToken, sr_refresh = refreshToken, sr_user = view_of u, sr_latest = None\<rparr>, d2))))"

record login_body =
  lb_callsign :: "string option"
  lb_email :: "string option"
  lb_password :: string
  lb_hwid :: "string option"

definition find_user :: "(user_row \<Rightarrow> bool) \<Rightarrow> auth_db \<Rightarrow> user_row option" where
  "find_user p d = find p (ad_users d)"

definition update_user :: "string \<Rightarrow> (user_row \<Rightarrow> user_row) \<Rightarrow> auth_db \<Rightarrow> auth_db" where
  "update_user i f d = d\<lparr>ad_users := map (\<lambda>u. if u_id u = i then f u else u) (ad_users d)\<rparr>"

definition login_query :: "crypto \<Rightarrow> login_body \<Rightarrow> (user_row \<Rightarrow> bool) option" where
  "login_query x b = (if truthy (lb_callsign b) then Some (\<lambda>u. Some (u_callsign u) = lb_callsign b)
     else if truthy (lb_email b) then Some (\<lambda>u. u_email_hash u = hashEmail x (or_else (lb_email b) []))
     else None)"

definition login_accepted :: "crypto \<Rightarrow> string \<Rightarrow> login_body \<Rightarrow> user_row \<Rightarrow> auth_db \<Rightarrow> session_reply answer \<times> auth_db" where
  "login_accepted x rnd b u d =
     (let d1 = (if truthy (lb_hwid b) then update_user (u_id u) (\<lambda>v. v\<lparr>u_hwid := lb_hwid b\<rparr>) d else d) in
      case issueTokenPair x rnd (u_id u) (u_callsign u) d1 of
        (None, d2) \<Rightarrow> (server_error, d2)
      | (Some (accessToken, refreshToken), d2) \<Rightarrow>
          (Done 200 \<lparr>sr_token = accessToken, sr_refresh = refreshToken, sr_user = view_of u, sr_latest = getLatestClientVersion x\<rparr>,
           d2\<lparr>ad_events := ad_events d2 @ [(''specter.user.login'', u_id u, u_callsign u)]\<rparr>))"

definition login :: "crypto \<Rightarrow> string \<Rightarrow> login_body \<Rightarrow> auth_db \<Rightarrow> session_reply answer \<times> auth_db" where
  "login x rnd b d =
     (if ad_down d \<and> (truthy (lb_hwid b) \<or> login_query x b \<noteq> None) then (server_error, d)
      else case hwid_ban (lb_hwid b) d of Some reason \<Rightarrow> (banned reason, d)
      | None \<Rightarrow> (case login_query x b of None \<Rightarrow> (Failed 400 ''Callsign or Email required'' None, d)
        | Some p \<Rightarrow> (case find_user p d of None \<Rightarrow> (Failed 401 ''Invalid credentials'' None, d)
          | Some u \<Rightarrow> (case x_argon_verify x (u_password_hash u) (lb_password b) of
                None \<Rightarrow> (server_error, d)
              | Some False \<Rightarrow> (Failed 401 ''Invalid credentials'' None, d)
              | Some True \<Rightarrow> login_accepted x rnd b u d))))"

section \<open>Password reset\<close>

text \<open>The answer never depends on the account; \<open>ad_mail\<close> holds the mails sent.\<close>

definition RESET_SENT :: string where
  "RESET_SENT = ''If an account with that email exists and supports reset, a link has been sent.''"

definition forgotPassword :: "crypto \<Rightarrow> string \<Rightarrow> string \<Rightarrow> auth_db \<Rightarrow> string answer \<times> auth_db" where
  "forgotPassword x resetToken email d = (Done 200 RESET_SENT,
     if ad_down d then d
     else case find_user (\<lambda>u. u_email_hash u = hashEmail x email) d of None \<Rightarrow> d
     | Some u \<Rightarrow>
         if \<not> truthy (u_email_encrypted u) then d
         else (let d1 = update_user (u_id u) (\<lambda>v. v\<lparr>u_reset := Some (hashResetToken x resetToken),
                    u_reset_expires := Some (ad_clock d + 60 * 60 * 1000)\<rparr>) d in
               case x_decrypt_email x (or_else (u_email_encrypted u) []) of None \<Rightarrow> d1
               | Some actualEmail \<Rightarrow> d1\<lparr>ad_mail := ad_mail d1 @ [(actualEmail, resetToken)]\<rparr>))"

definition resetPassword :: "crypto \<Rightarrow> string \<Rightarrow> string \<Rightarrow> string \<Rightarrow> auth_db \<Rightarrow> string answer \<times> auth_db" where
  "resetPassword x salt token password d =
     (if ad_down d then (server_error, d)
      else case find_user (\<lambda>u. u_reset u = Some (hashResetToken x token)
          \<and> (case u_reset_expires u of None \<Rightarrow> False | Some e \<Rightarrow> e > ad_now d)) d of
        None \<Rightarrow> (Failed 400 ''Reset token is invalid or has expired.'' None, d)
      | Some u \<Rightarrow> (Done 200 ''Password reset successfully. You may now log in.'',
          update_user (u_id u) (\<lambda>v. v\<lparr>u_password_hash := x_argon x salt password, u_reset := None, u_reset_expires := None\<rparr>) d))"

section \<open>Refresh and logout\<close>

record refreshed =
  rf_token :: string
  rf_refresh :: string

definition INVALID_REFRESH :: "refreshed answer" where
  "INVALID_REFRESH = Failed 401 ''Invalid refresh token'' None"
definition ALREADY_USED :: "refreshed answer" where
  "ALREADY_USED = Failed 401 ''Refresh token has already been used'' None"
definition REFRESH_EXPIRED :: "refreshed answer" where
  "REFRESH_EXPIRED = Failed 401 ''Refresh token expired'' None"

text \<open>The row of the presented token, joined with its user.\<close>

definition token_row :: "string \<Rightarrow> auth_db \<Rightarrow> (refresh_row \<times> string) option" where
  "token_row h d = find (\<lambda>p. rt_hash (fst p) = h)
     (concat (map (\<lambda>r. case find_user (\<lambda>u. u_id u = rt_user r) d of None \<Rightarrow> [] | Some u \<Rightarrow> [(r, u_callsign u)]) (ad_tokens d)))"

definition row_by_id :: "nat \<Rightarrow> auth_db \<Rightarrow> refresh_row option" where
  "row_by_id i d = find (\<lambda>r. rt_id r = i) (ad_tokens d)"

definition expired :: "auth_db \<Rightarrow> refresh_row \<Rightarrow> bool" where
  "expired d r \<longleftrightarrow> rt_expires r \<le> ad_now d"

definition within_grace :: "auth_db \<Rightarrow> refresh_row \<Rightarrow> bool" where
  "within_grace d r = (case rt_revoked r of None \<Rightarrow> False | Some t \<Rightarrow> t > ad_now d - REFRESH_REUSE_GRACE_SECONDS * 1000)"

definition map_tokens :: "(refresh_row \<Rightarrow> refresh_row) \<Rightarrow> auth_db \<Rightarrow> auth_db" where
  "map_tokens f d = d\<lparr>ad_tokens := map f (ad_tokens d)\<rparr>"

text \<open>Reuse of a superseded token: every refresh token of the user is revoked.\<close>

definition revoke_user :: "string \<Rightarrow> auth_db \<Rightarrow> auth_db" where
  "revoke_user uid d = map_tokens (\<lambda>r. if rt_user r = uid \<and> rt_revoked r = None then r\<lparr>rt_revoked := Some (ad_now d)\<rparr> else r) d"

definition hashesEqual :: "string \<Rightarrow> string \<Rightarrow> bool" where
  "hashesEqual a b \<longleftrightarrow> length a = length b \<and> a = b"

text \<open>The benign retry: the successor is unused, of the same user, and what this request derives.\<close>

definition benign_retry :: "string \<Rightarrow> refresh_row \<Rightarrow> auth_db \<Rightarrow> bool" where
  "benign_retry successorHash r d = (within_grace d r \<and>
     (case Option.bind (rt_replaced r) (\<lambda>i. row_by_id i d) of None \<Rightarrow> False
      | Some s \<Rightarrow> rt_revoked s = None \<and> \<not> expired d s \<and> rt_user s = rt_user r \<and> hashesEqual (rt_hash s) successorHash))"

definition supersede :: "nat \<Rightarrow> int \<Rightarrow> nat \<Rightarrow> refresh_row \<Rightarrow> refresh_row" where
  "supersede old now new r = (if rt_id r = old \<and> rt_revoked r = None then r\<lparr>rt_revoked := Some now, rt_replaced := Some new\<rparr> else r)"

definition rotate_token :: "string \<Rightarrow> refresh_row \<Rightarrow> auth_db \<Rightarrow> auth_db" where
  "rotate_token successorHash r d = (case insert_token (rt_user r) successorHash d of (i, d1) \<Rightarrow>
     map_tokens (supersede (rt_id r) (ad_now d) i) d1)"

text \<open>
  The access token is signed after the commit; the secret is the one the successor was derived
  with, so it is there.  An unset secret throws before the handler's \<open>try\<close>: no answer is sent,
  which is \<^const>\<open>None\<close>.
\<close>

definition refresh :: "crypto \<Rightarrow> string \<Rightarrow> string option \<Rightarrow> auth_db \<Rightarrow> refreshed answer option \<times> auth_db" where
  "refresh x refresh_token userAgent d =
     (case deriveSuccessorRefreshToken x refresh_token (or_else userAgent []) of None \<Rightarrow> (None, d)
      | Some successorRaw \<Rightarrow>
         (let successorHash = hashRefreshToken x successorRaw in
          if ad_down d then (Some server_error, d)
          else case token_row (hashRefreshToken x refresh_token) d of None \<Rightarrow> (Some INVALID_REFRESH, d)
          | Some (r, callsign) \<Rightarrow>
              let reply = (case signAccessToken x (rt_user r) callsign d of None \<Rightarrow> server_error
                    | Some token \<Rightarrow> Done 200 \<lparr>rf_token = token, rf_refresh = successorRaw\<rparr>) in
              if rt_revoked r \<noteq> None then
                (if rt_replaced r = None then (Some ALREADY_USED, d)
                 else if benign_retry successorHash r d then (Some reply, d)
                 else (Some ALREADY_USED, revoke_user (rt_user r) d))
              else if expired d r then (Some REFRESH_EXPIRED, d)
              else (Some reply, rotate_token successorHash r d)))"

definition logout :: "crypto \<Rightarrow> string option \<Rightarrow> auth_db \<Rightarrow> string answer \<times> auth_db" where
  "logout x refresh_token d = (Done 200 ''Logged out'',
     if \<not> truthy refresh_token \<or> ad_down d then d
     else map_tokens (\<lambda>r. if rt_hash r = hashRefreshToken x (or_else refresh_token []) \<and> rt_revoked r = None
            then r\<lparr>rt_revoked := Some (ad_now d)\<rparr> else r) d)"

section \<open>In front of the handlers\<close>

text \<open>The limiter's entry: requests counted and the time the window ends.\<close>

record limiter =
  lim_window :: int
  lim_max :: nat
  lim_hits :: "(string, nat \<times> int) jsmap"

definition createRateLimiter :: "int \<Rightarrow> nat \<Rightarrow> limiter" where
  "createRateLimiter windowMs mx = \<lparr>lim_window = windowMs, lim_max = mx, lim_hits = []\<rparr>"

definition sweep :: "int \<Rightarrow> limiter \<Rightarrow> limiter" where
  "sweep now l = l\<lparr>lim_hits := filter (\<lambda>(k, n, resetAt). \<not> now > resetAt) (lim_hits l)\<rparr>"

definition admit :: "string option \<Rightarrow> int \<Rightarrow> limiter \<Rightarrow> bool \<times> limiter" where
  "admit ip now l = (let key = (if truthy ip then or_else ip [] else ''unknown'');
       fresh = l\<lparr>lim_hits := al_set key (1, now + lim_window l) (lim_hits l)\<rparr> in
     case al_get (lim_hits l) key of None \<Rightarrow> (True, fresh)
     | Some (n, resetAt) \<Rightarrow>
         if now > resetAt then (True, fresh)
         else if n \<ge> lim_max l then (False, l)
         else (True, l\<lparr>lim_hits := al_set key (n + 1, resetAt) (lim_hits l)\<rparr>))"

definition loginRateLimiter :: limiter where "loginRateLimiter = createRateLimiter (15 * 60000) 10"
definition registerRateLimiter :: limiter where "registerRateLimiter = createRateLimiter (15 * 60000) 10"
definition forgotPasswordRateLimiter :: limiter where "forgotPasswordRateLimiter = createRateLimiter (60 * 60000) 5"
definition refreshRateLimiter :: limiter where "refreshRateLimiter = createRateLimiter (15 * 60000) 30"

text \<open>
  Token checks.  \<open>verify\<close> is the JWT library with the secret: the claims, or \<^const>\<open>None\<close> for an
  invalid or expired token.  The header's token is the second word of \<open>Bearer token\<close>.
\<close>

record claims =
  cl_id :: "string option"
  cl_callsign :: "string option"
  cl_purpose :: "string option"

definition TOKEN_REQUIRED :: "claims answer" where "TOKEN_REQUIRED = Failed 401 ''Authentication token required'' None"
definition BAD_TOKEN :: "claims answer" where "BAD_TOKEN = Failed 401 ''Invalid or expired token'' None"

definition header_token :: "string option \<Rightarrow> string option" where
  "header_token authHeader = (if truthy authHeader
     then (case split_on (CHR '' '') (or_else authHeader []) of _ # t # _ \<Rightarrow> Some t | _ \<Rightarrow> None) else authHeader)"

definition check_token :: "(string \<Rightarrow> claims option) \<Rightarrow> string option \<Rightarrow> claims answer" where
  "check_token verify token = (if \<not> truthy token then TOKEN_REQUIRED
     else case verify (or_else token []) of None \<Rightarrow> BAD_TOKEN | Some c \<Rightarrow> Done 200 c)"

definition authenticateToken :: "(string \<Rightarrow> claims option) \<Rightarrow> string option \<Rightarrow> string option \<Rightarrow> claims answer" where
  "authenticateToken verify authHeader queryToken =
     check_token verify (if truthy (header_token authHeader) then header_token authHeader else queryToken)"

definition authenticateTokenStrict :: "(string \<Rightarrow> claims option) \<Rightarrow> string option \<Rightarrow> claims answer" where
  "authenticateTokenStrict verify authHeader = check_token verify (header_token authHeader)"

definition authenticateSseToken :: "(string \<Rightarrow> claims option) \<Rightarrow> string option \<Rightarrow> claims answer" where
  "authenticateSseToken verify queryToken =
     (if \<not> truthy queryToken then Failed 401 ''SSE ticket required'' None
      else case verify (or_else queryToken []) of None \<Rightarrow> Failed 401 ''Invalid or expired SSE ticket'' None
      | Some c \<Rightarrow>
          if cl_purpose c \<noteq> Some ''sse'' \<or> \<not> truthy (cl_id c) then Failed 401 ''Invalid SSE ticket scope'' None
          else Done 200 c)"

section \<open>Tickets for the event stream\<close>

text \<open>
  \<open>POST /events/ticket\<close> (\<open>controllers/sseController.ts\<close>) behind the strict check.  \<open>sign\<close> is the JWT
  library: claims, the \<open>jti\<close>, the life in milliseconds and the time of signing.
\<close>

record ticket =
  tk_ticket :: string
  tk_expires_in :: nat

definition issueSseTicket :: "(claims \<Rightarrow> string \<Rightarrow> int \<Rightarrow> int \<Rightarrow> string) \<Rightarrow> string \<Rightarrow> int \<Rightarrow> claims \<Rightarrow> ticket answer" where
  "issueSseTicket sign jti now user = (if \<not> truthy (cl_id user) then Failed 401 ''Unauthorized'' None
     else Done 200 \<lparr>tk_ticket = sign \<lparr>cl_id = cl_id user, cl_callsign = cl_callsign user, cl_purpose = Some ''sse''\<rparr> jti (2 * 60000) now,
                    tk_expires_in = 120\<rparr>)"

definition ticket_route :: "(int \<Rightarrow> string \<Rightarrow> claims option) \<Rightarrow> (claims \<Rightarrow> string \<Rightarrow> int \<Rightarrow> int \<Rightarrow> string) \<Rightarrow> string \<Rightarrow> int
    \<Rightarrow> string option \<Rightarrow> ticket answer" where
  "ticket_route verify sign jti now authHeader = (case authenticateTokenStrict (verify now) authHeader of
       Failed n m r \<Rightarrow> Failed n m r | Done _ c \<Rightarrow> issueSseTicket sign jti now c)"

end
