(* ===== verification/Auth_Server_Props.thy ===== *)
theory Auth_Server_Props
  imports Auth_Server
begin

text \<open>
  What the identity service promises of sessions: along any sequence of requests every login
  keeps at most one live refresh token, a superseded token that is presented again ends every
  session of its user, and a retry of a lost answer gets the answer again.
\<close>

section \<open>Runs of the service\<close>

text \<open>The requests that touch accounts and tokens, and the passing of time.\<close>

datatype auth_op =
    Register_op "string \<times> string \<times> string \<times> string" register_body
  | Login_op string login_body
  | Refresh_op string "string option"
  | Logout_op "string option"
  | Forgot_op string string
  | Reset_op string string string
  | Tick_op nat

text \<open>One request; the result names the user a new session was issued to.\<close>

definition issued :: "session_reply answer \<Rightarrow> string option" where
  "issued a = (case a of Done _ r \<Rightarrow> Some (uv_id (sr_user r)) | Failed _ _ _ \<Rightarrow> None)"

fun auth_step :: "crypto \<Rightarrow> auth_op \<Rightarrow> auth_db \<Rightarrow> string option \<times> auth_db" where
  "auth_step x (Register_op rand b) d = (case register x rand b d of (a, d1) \<Rightarrow> (issued a, d1))"
| "auth_step x (Login_op rnd b) d = (case login x rnd b d of (a, d1) \<Rightarrow> (issued a, d1))"
| "auth_step x (Refresh_op tok ua) d = (None, snd (refresh x tok ua d))"
| "auth_step x (Logout_op tok) d = (None, snd (logout x tok d))"
| "auth_step x (Forgot_op rnd email) d = (None, snd (forgotPassword x rnd email d))"
| "auth_step x (Reset_op salt tok password) d = (None, snd (resetPassword x salt tok password d))"
| "auth_step x (Tick_op n) d = (None, d\<lparr>ad_now := ad_now d + int n, ad_clock := ad_clock d + int n\<rparr>)"

text \<open>A run, with the users that got a session in it.\<close>

inductive auth_run :: "crypto \<Rightarrow> auth_db \<Rightarrow> string list \<Rightarrow> auth_db \<Rightarrow> bool" for x where
  run_nil: "auth_run x d [] d"
| run_step: "auth_run x d us d1 \<Longrightarrow> auth_step x op d1 = (u, d2) \<Longrightarrow>
    auth_run x d (us @ (case u of None \<Rightarrow> [] | Some i \<Rightarrow> [i])) d2"

section \<open>The table of refresh tokens\<close>

definition live :: "string \<Rightarrow> auth_db \<Rightarrow> refresh_row list" where
  "live uid d = filter (\<lambda>r. rt_user r = uid \<and> rt_revoked r = None) (ad_tokens d)"

definition ids_ok :: "auth_db \<Rightarrow> bool" where
  "ids_ok d \<longleftrightarrow> distinct (map rt_id (ad_tokens d)) \<and> (\<forall>r \<in> set (ad_tokens d). rt_id r < ad_next d)"

named_theorems auth_defs \<open>the operations on the tables, unfolded\<close>

lemmas [auth_defs] = insert_token_def map_tokens_def update_user_def revoke_user_def rotate_token_def

text \<open>Each table operation on the tokens: what a user's live tokens are afterwards.\<close>

lemma live_insert: "live uid (snd (insert_token v h d)) = live uid d @ (if v = uid then
    [\<lparr>rt_id = ad_next d, rt_user = v, rt_hash = h, rt_expires = ad_clock d + REFRESH_TOKEN_TTL_MS, rt_revoked = None, rt_replaced = None\<rparr>] else [])"
  by (simp add: live_def insert_token_def)

lemma ids_insert: "ids_ok d \<Longrightarrow> ids_ok (snd (insert_token v h d))"
  by (auto simp: ids_ok_def insert_token_def less_Suc_eq)

lemma live_users [simp]: "live uid (d\<lparr>ad_users := us\<rparr>) = live uid d" "live uid (d\<lparr>ad_mail := ms\<rparr>) = live uid d"
    "live uid (d\<lparr>ad_events := es\<rparr>) = live uid d" "live uid (d\<lparr>ad_now := t, ad_clock := c\<rparr>) = live uid d"
    "live uid (update_user i f d) = live uid d"
  by (simp_all add: live_def update_user_def)

lemma ids_users [simp]: "ids_ok (d\<lparr>ad_users := us\<rparr>) = ids_ok d" "ids_ok (d\<lparr>ad_mail := ms\<rparr>) = ids_ok d"
    "ids_ok (d\<lparr>ad_events := es\<rparr>) = ids_ok d" "ids_ok (d\<lparr>ad_now := t, ad_clock := c\<rparr>) = ids_ok d"
    "ids_ok (update_user i f d) = ids_ok d"
  by (simp_all add: ids_ok_def update_user_def)

text \<open>Operations that only revoke: the identity of the rows stays, live rows can only go away.\<close>

lemma revoking:
  assumes "\<And>r. rt_id (f r) = rt_id r" "\<And>r. rt_user (f r) = rt_user r" "\<And>r. rt_revoked r \<noteq> None \<Longrightarrow> rt_revoked (f r) \<noteq> None"
  shows "ids_ok (map_tokens f d) = ids_ok d" "length (live uid (map_tokens f d)) \<le> length (live uid d)"
proof -
  have m: "map rt_id (map f rs) = map rt_id rs" for rs using assms(1) by simp
  show "ids_ok (map_tokens f d) = ids_ok d" using assms(1) by (simp add: ids_ok_def map_tokens_def comp_def)
  have keep: "rt_revoked (f r) = None \<Longrightarrow> rt_revoked r = None" for r using assms(3) [of r] by blast
  have "length (filter (\<lambda>r. rt_user r = uid \<and> rt_revoked r = None) (map f rs))
      \<le> length (filter (\<lambda>r. rt_user r = uid \<and> rt_revoked r = None) rs)" for rs
    by (induction rs) (auto simp: assms(2) dest: keep)
  then show "length (live uid (map_tokens f d)) \<le> length (live uid d)" by (simp add: live_def map_tokens_def)
qed

lemma token_row_in: "token_row h d = Some (r, c) \<Longrightarrow> r \<in> set (ad_tokens d) \<and> rt_hash r = h"
  unfolding token_row_def by (drule find_in) (auto split: option.splits)

lemma live_empty: "live uid d = [] \<longleftrightarrow> (\<forall>r \<in> set (ad_tokens d). rt_user r = uid \<longrightarrow> rt_revoked r \<noteq> None)"
  by (auto simp: live_def filter_empty_conv)

text \<open>A rotation trades one live token of the user for another.\<close>

lemma rotate_effect:
  assumes "ids_ok d" "r \<in> set (ad_tokens d)" "rt_revoked r = None"
  shows "ids_ok (rotate_token h r d)" "length (live uid (rotate_token h r d)) = length (live uid d)"
proof -
  let ?d1 = "snd (insert_token (rt_user r) h d)"
  let ?f = "supersede (rt_id r) (ad_now d) (ad_next d)"
  have rot: "rotate_token h r d = map_tokens ?f ?d1" by (simp add: rotate_token_def insert_token_def)
  show "ids_ok (rotate_token h r d)" unfolding rot using ids_insert [OF assms(1)] revoking(1) [of ?f] by (simp add: supersede_def)
  have new: "rt_id r < ad_next d" using assms(1,2) by (auto simp: ids_ok_def)
  have one: "length (filter (\<lambda>v. rt_user v = uid \<and> rt_revoked v = None) (map ?f rs)) + (if rt_user r = uid then 1 else 0)
      = length (filter (\<lambda>v. rt_user v = uid \<and> rt_revoked v = None) rs)"
    if "distinct (map rt_id rs)" "r \<in> set rs" for rs
    using that
  proof (induction rs)
    case (Cons v rs)
    show ?case
    proof (cases "v = r")
      case True
      then have "\<forall>w \<in> set rs. rt_id w \<noteq> rt_id r" using Cons.prems(1) by (auto simp: image_iff)
      then have "map ?f rs = rs" by (auto intro!: map_idI simp: supersede_def)
      then have e: "map ?f (v # rs) = ?f r # rs" using True by simp
      show ?thesis unfolding e using True assms(3) by (simp add: supersede_def)
    next
      case False
      then have "r \<in> set rs" "rt_id v \<noteq> rt_id r" using Cons.prems by auto
      then show ?thesis using Cons by (auto simp: supersede_def)
    qed
  qed simp
  show "length (live uid (rotate_token h r d)) = length (live uid d)"
  proof -
    have "length (live uid (rotate_token h r d)) = length (filter (\<lambda>v. rt_user v = uid \<and> rt_revoked v = None) (map ?f (ad_tokens d)))
        + (if rt_user r = uid then 1 else 0)"
      unfolding rot using new by (simp add: live_def map_tokens_def insert_token_def supersede_def)
    also have "\<dots> = length (live uid d)"
      using one [of "ad_tokens d"] assms(1,2) by (simp add: live_def ids_ok_def)
    finally show ?thesis .
  qed
qed

section \<open>Every request\<close>

definition tame :: "string \<Rightarrow> nat \<Rightarrow> auth_db \<Rightarrow> auth_db \<Rightarrow> bool" where
  "tame uid n d d' \<longleftrightarrow> ids_ok d' \<and> length (live uid d') \<le> length (live uid d) + n"

lemma revoking_tame:
  "ids_ok d \<Longrightarrow> tame uid n d (map_tokens (\<lambda>r. if P r \<and> rt_revoked r = None then r\<lparr>rt_revoked := Some (ad_now d)\<rparr> else r) d)"
  unfolding tame_def by (intro conjI trans_le_add1 revoking(2)) (simp_all add: revoking(1))

lemma issue_none: "issueTokenPair x rnd v c d = (None, d') \<Longrightarrow> d' = d"
  by (auto simp: issueTokenPair_def split: option.splits)

lemma issue_some:
  assumes "issueTokenPair x rnd v c d = (Some p, d')"
  shows "ids_ok d \<Longrightarrow> ids_ok d'" "length (live uid d') = length (live uid d) + (if v = uid then 1 else 0)"
  using assms ids_insert [of d v "hashRefreshToken x rnd"] live_insert [of uid v "hashRefreshToken x rnd" d]
  by (auto simp: issueTokenPair_def split: option.splits)

text \<open>Each handler, one after another; a new live token of a user comes only with a session issued to that user.\<close>

lemma register_tame:
  assumes "register x rand b d = (a, d')" "ids_ok d"
  shows "tame uid (if issued a = Some uid then 1 else 0) d d'"
proof -
  obtain newId salt iv rnd where r: "rand = (newId, salt, iv, rnd)" by (cases rand)
  note [simp] = issued_def tame_def server_error_def banned_def
  show ?thesis
  proof (cases "d' = d")
    case False
    then obtain u p where "issueTokenPair x rnd newId (rg_callsign b) (d\<lparr>ad_users := ad_users d @ [u]\<rparr>) = (p, d')"
      and p: "issued a = (case p of None \<Rightarrow> None | Some _ \<Rightarrow> Some newId)"
      using assms(1) unfolding r register_def
      by (auto simp: Let_def view_of_def new_user_def split: if_splits option.splits prod.splits)
    then show ?thesis using assms(2) issue_none issue_some by (cases p) (fastforce simp del: issued_def)+
  qed (use assms(2) in simp)
qed

lemma login_tame:
  assumes "login x rnd b d = (a, d')" "ids_ok d"
  shows "tame uid (if issued a = Some uid then 1 else 0) d d'"
proof -
  note [simp] = issued_def tame_def server_error_def banned_def
  show ?thesis
  proof (cases "d' = d")
    case False
    then obtain u where l: "login_accepted x rnd b u d = (a, d')"
      using assms(1) by (auto simp: login_def split: if_splits option.splits bool.splits)
    let ?d1 = "if truthy (lb_hwid b) then update_user (u_id u) (\<lambda>v. v\<lparr>u_hwid := lb_hwid b\<rparr>) d else d"
    obtain p d2 where i: "issueTokenPair x rnd (u_id u) (u_callsign u) ?d1 = (p, d2)" by fastforce
    moreover have "ids_ok ?d1" "live uid ?d1 = live uid d" using assms(2) by simp_all
    ultimately show ?thesis using l issue_none issue_some
      by (cases p) (fastforce simp: login_accepted_def view_of_def Let_def)+
  qed (use assms(2) in simp)
qed

lemma refresh_tame: "ids_ok d \<Longrightarrow> tame uid 0 d (snd (refresh x tok ua d))"
  using rotate_effect revoking_tame [of d uid 0 "\<lambda>r. rt_user r = _"] token_row_in
  by (fastforce simp: refresh_def tame_def Let_def revoke_user_def split: option.splits)

lemma logout_tame: "ids_ok d \<Longrightarrow> tame uid 0 d (snd (logout x tok d))"
  using revoking_tame [of d uid 0 "\<lambda>r. rt_hash r = _"] by (auto simp: logout_def tame_def)

lemma account_tame: "ids_ok d \<Longrightarrow> tame uid 0 d (snd (forgotPassword x rnd email d))"
    "ids_ok d \<Longrightarrow> tame uid 0 d (snd (resetPassword x salt tok password d))"
  by (auto simp: forgotPassword_def resetPassword_def tame_def Let_def split: option.splits)

lemma step_tame:
  assumes "auth_step x op d = (u, d')" "ids_ok d"
  shows "tame uid (if u = Some uid then 1 else 0) d d'"
proof (cases op)
  case (Register_op rand b)
  then obtain a where "register x rand b d = (a, d')" "u = issued a" using assms(1) by (auto split: prod.splits)
  then show ?thesis using register_tame [OF _ assms(2)] by simp
next
  case (Login_op rnd b)
  then obtain a where "login x rnd b d = (a, d')" "u = issued a" using assms(1) by (auto split: prod.splits)
  then show ?thesis using login_tame [OF _ assms(2)] by simp
next
  case (Tick_op n)
  then show ?thesis using assms by (auto simp: tame_def)
qed (use assms refresh_tame [OF assms(2)] logout_tame [OF assms(2)] account_tame [OF assms(2)] in auto)

lemma run_tame:
  assumes "auth_run x d us d'" "ids_ok d"
  shows "tame uid (count_list us uid) d d'"
  using assms
proof (induction rule: auth_run.induct)
  case (run_step d us d1 op u d2)
  then have "tame uid (count_list us uid) d d1" "ids_ok d1" by (simp_all add: tame_def)
  then show ?case using step_tame [OF run_step.hyps(2), of uid] by (auto simp: tame_def split: option.splits)
qed (simp add: tame_def)

section \<open>Live sessions\<close>

text \<open>C11: however requests are interleaved, repeated or replayed, a user has at most one live refresh
  token for each login: refreshing, retrying a refresh, logging out and resetting a password never
  add one.\<close>

theorem one_live_token_per_login:
  assumes "auth_run x d us d'" "ids_ok d"
  shows "length (live uid d') \<le> length (live uid d) + count_list us uid"
  using run_tame [OF assms] by (simp add: tame_def)

lemma no_live_no_refresh:
  assumes "live (rt_user r) d = []" "token_row (hashRefreshToken x tok) d = Some (r, c)"
  shows "fst (refresh x tok ua d) \<noteq> Some (Done n b)"
proof -
  have dead: "rt_revoked s \<noteq> None" if "s \<in> set (ad_tokens d)" "rt_user s = rt_user r" for s
    using assms(1) that by (simp add: live_empty)
  have "\<not> benign_retry h r d" for h
    using dead find_in by (fastforce simp: benign_retry_def row_by_id_def bind_eq_Some_conv split: option.splits)
  then show ?thesis using assms(2) dead [of r] token_row_in [OF assms(2)]
    by (auto simp: refresh_def Let_def ALREADY_USED_def server_error_def INVALID_REFRESH_def REFRESH_EXPIRED_def split: option.splits)
qed

lemma revoke_user_live [simp]: "live uid (revoke_user uid d) = []"
proof -
  have "filter (\<lambda>r. rt_user r = uid \<and> rt_revoked r = None)
      (map (\<lambda>r. if rt_user r = uid \<and> rt_revoked r = None then r\<lparr>rt_revoked := Some t\<rparr> else r) rs) = []" for rs :: "refresh_row list" and t
    by (induction rs) simp_all
  then show ?thesis by (simp add: live_def revoke_user_def map_tokens_def del: filter_map)
qed

lemma reuse_revokes:
  assumes "deriveSuccessorRefreshToken x tok (or_else ua []) = Some succ" "\<not> ad_down d"
    and "token_row (hashRefreshToken x tok) d = Some (r, c)" "rt_revoked r \<noteq> None" "rt_replaced r \<noteq> None"
    and "\<not> benign_retry (hashRefreshToken x succ) r d"
  shows "refresh x tok ua d = (Some ALREADY_USED, revoke_user (rt_user r) d)"
  using assms by (auto simp: refresh_def)

text \<open>C12: a superseded refresh token that is presented again, and is not the retry of a lost answer, is refused
  and ends every session of its user: until that user logs in again, whatever requests come in
  between, none of the user's refresh tokens buys an access token.\<close>

theorem reuse_ends_every_session:
  assumes "ids_ok d" "deriveSuccessorRefreshToken x tok (or_else ua []) = Some succ" "\<not> ad_down d"
    and "token_row (hashRefreshToken x tok) d = Some (r, c)" "rt_revoked r \<noteq> None" "rt_replaced r \<noteq> None"
    and "\<not> benign_retry (hashRefreshToken x succ) r d"
    and "auth_run x (snd (refresh x tok ua d)) us d'" "rt_user r \<notin> set us"
    and "token_row (hashRefreshToken x tok2) d' = Some (r2, c2)" "rt_user r2 = rt_user r"
  shows "fst (refresh x tok ua d) = Some ALREADY_USED \<and> fst (refresh x tok2 ua2 d') \<noteq> Some (Done n b)"
proof
  let ?d1 = "snd (refresh x tok ua d)"
  note reuse = reuse_revokes [OF assms(2-7)]
  show "fst (refresh x tok ua d) = Some ALREADY_USED" by (simp add: reuse)
  have "ids_ok ?d1" using refresh_tame [OF assms(1), of "rt_user r"] by (simp add: tame_def)
  from run_tame [OF assms(8) this, of "rt_user r"] have "live (rt_user r2) d' = []"
    using assms(9,11) by (simp add: tame_def reuse count_notin)
  then show "fst (refresh x tok2 ua2 d') \<noteq> Some (Done n b)" by (rule no_live_no_refresh [OF _ assms(10)])
qed

section \<open>Lost answers\<close>

lemma token_row_map:
  assumes "\<And>r. rt_hash (f r) = rt_hash r" "\<And>r. rt_user (f r) = rt_user r"
  shows "token_row h (map_tokens f d) = map_option (\<lambda>p. (f (fst p), snd p)) (token_row h d)"
proof -
  define g :: "refresh_row list \<Rightarrow> (refresh_row \<times> string) list"
    where "g rs = concat (map (\<lambda>r. case find_user (\<lambda>u. u_id u = rt_user r) d of None \<Rightarrow> [] | Some u \<Rightarrow> [(r, u_callsign u)]) rs)" for rs
  have "g (map f rs) = map (\<lambda>p. (f (fst p), snd p)) (g rs)" for rs
    unfolding g_def by (induction rs) (auto simp: assms(2) split: option.split)
  then show ?thesis
    using assms(1) by (simp add: token_row_def map_tokens_def find_user_def g_def find_map_keep)
qed

lemma token_row_insert: "token_row h d = Some p \<Longrightarrow> token_row h (snd (insert_token v h2 d)) = Some p"
  by (simp add: token_row_def insert_token_def find_user_def find_append)

text \<open>After a rotation the presented token's row names the new row, which is unused.\<close>

lemma rotated_rows:
  assumes "ids_ok d" "token_row h d = Some (r, c)" "rt_revoked r = None"
  shows "token_row h (rotate_token sh r d) = Some (r\<lparr>rt_revoked := Some (ad_now d), rt_replaced := Some (ad_next d)\<rparr>, c)"
    and "row_by_id (ad_next d) (rotate_token sh r d) = Some \<lparr>rt_id = ad_next d, rt_user = rt_user r, rt_hash = sh,
      rt_expires = ad_clock d + REFRESH_TOKEN_TTL_MS, rt_revoked = None, rt_replaced = None\<rparr>"
proof -
  have s: "rt_hash (supersede i t j v) = rt_hash v" "rt_user (supersede i t j v) = rt_user v" "rt_id (supersede i t j v) = rt_id v" for i t j v
    by (simp_all add: supersede_def)
  have rot: "rotate_token sh r d = map_tokens (supersede (rt_id r) (ad_now d) (ad_next d)) (snd (insert_token (rt_user r) sh d))"
    by (simp add: rotate_token_def insert_token_def)
  show "token_row h (rotate_token sh r d) = Some (r\<lparr>rt_revoked := Some (ad_now d), rt_replaced := Some (ad_next d)\<rparr>, c)"
    unfolding rot using token_row_insert [OF assms(2), of "rt_user r" sh] assms(3) by (simp add: token_row_map s supersede_def)
  have old: "\<forall>v \<in> set (map (supersede i t j) (ad_tokens d)). rt_id v \<noteq> ad_next d" for i t j
    using assms(1) by (auto simp: ids_ok_def s)
  have "rt_id r \<noteq> ad_next d" using token_row_in [OF assms(2)] assms(1) by (auto simp: ids_ok_def)
  then show "row_by_id (ad_next d) (rotate_token sh r d) = Some \<lparr>rt_id = ad_next d, rt_user = rt_user r, rt_hash = sh,
      rt_expires = ad_clock d + REFRESH_TOKEN_TTL_MS, rt_revoked = None, rt_replaced = None\<rparr>"
    unfolding rot using find_last [OF old] by (simp add: row_by_id_def map_tokens_def insert_token_def supersede_def)
qed

text \<open>The same client retries with the same token, each time after \<open>n\<close> milliseconds.\<close>

definition pass_time :: "nat \<Rightarrow> auth_db \<Rightarrow> auth_db" where
  "pass_time n d = d\<lparr>ad_now := ad_now d + int n, ad_clock := ad_clock d + int n\<rparr>"

fun retries :: "crypto \<Rightarrow> string \<Rightarrow> string option \<Rightarrow> nat list \<Rightarrow> auth_db \<Rightarrow> refreshed answer option list \<times> auth_db" where
  "retries x tok ua [] d = ([], d)"
| "retries x tok ua (n # ns) d = (case refresh x tok ua (pass_time n d) of (a, d1) \<Rightarrow>
     case retries x tok ua ns d1 of (as, d2) \<Rightarrow> (a # as, d2))"

definition replayable :: "crypto \<Rightarrow> string \<Rightarrow> string \<Rightarrow> auth_db \<Rightarrow> int \<Rightarrow> bool" where
  "replayable x tok succ d left \<longleftrightarrow> \<not> ad_down d \<and> (\<exists>r c t i s. token_row (hashRefreshToken x tok) d = Some (r, c)
     \<and> rt_revoked r = Some t \<and> rt_replaced r = Some i \<and> row_by_id i d = Some s \<and> rt_revoked s = None \<and> rt_user s = rt_user r
     \<and> rt_hash s = hashRefreshToken x succ \<and> ad_now d + left < t + 60000 \<and> ad_now d + left < rt_expires s)"

definition replays :: "string \<Rightarrow> refreshed answer option \<Rightarrow> bool" where
  "replays succ a = (case a of Some (Done n b) \<Rightarrow> n = 200 \<and> rf_refresh b = succ | _ \<Rightarrow> False)"

lemma pass_time_rows [simp]: "token_row h (pass_time n d) = token_row h d" "row_by_id i (pass_time n d) = row_by_id i d"
    "ad_tokens (pass_time n d) = ad_tokens d" "ad_down (pass_time n d) = ad_down d" "ad_now (pass_time n d) = ad_now d + int n"
    "ad_clock (pass_time n d) = ad_clock d + int n" "ad_users (pass_time n d) = ad_users d"
  by (simp_all add: pass_time_def token_row_def row_by_id_def find_user_def)

lemma replayable_time: "replayable x tok succ d (int n + m) \<Longrightarrow> replayable x tok succ (pass_time n d) m"
  unfolding replayable_def by (auto simp: algebra_simps)

lemma replay_answer:
  assumes "deriveSuccessorRefreshToken x tok (or_else ua []) = Some succ" "replayable x tok succ d m" "m \<ge> 0"
  shows "snd (refresh x tok ua d) = d" "replays succ (fst (refresh x tok ua d))"
proof -
  obtain secret where k: "getJwtSecret x = Some secret"
    using assms(1) by (auto simp: deriveSuccessorRefreshToken_def successorKey_def)
  obtain r c t i s where r: "\<not> ad_down d" "token_row (hashRefreshToken x tok) d = Some (r, c)" "rt_revoked r = Some t"
      "rt_replaced r = Some i" "row_by_id i d = Some s" "rt_revoked s = None" "rt_user s = rt_user r"
      "rt_hash s = hashRefreshToken x succ" "ad_now d + m < t + 60000" "ad_now d + m < rt_expires s"
    using assms(2) unfolding replayable_def by blast
  have "benign_retry (hashRefreshToken x succ) r d"
    using r(3-10) assms(3) by (simp add: benign_retry_def within_grace_def expired_def hashesEqual_def REFRESH_REUSE_GRACE_SECONDS_def)
  then show "snd (refresh x tok ua d) = d" "replays succ (fst (refresh x tok ua d))"
    using assms(1) r(1-4) by (simp_all add: refresh_def signAccessToken_def k replays_def)
qed

lemma retries_replay:
  assumes "deriveSuccessorRefreshToken x tok (or_else ua []) = Some succ" "replayable x tok succ d (int (sum_list ns))"
  shows "list_all (replays succ) (fst (retries x tok ua ns d)) \<and> ad_tokens (snd (retries x tok ua ns d)) = ad_tokens d"
  using assms(2)
proof (induction ns arbitrary: d)
  case (Cons n ns)
  have now: "replayable x tok succ (pass_time n d) (int (sum_list ns))" using Cons.prems by (simp add: replayable_time)
  note answer = replay_answer [OF assms(1) now]
  show ?case using Cons.IH [OF now] answer by (simp split: prod.splits) (metis snd_conv fst_conv)
qed simp

text \<open>A rotation answers with the derived successor and leaves the presented token open to retries.\<close>

lemma rotation:
  assumes "ids_ok d" "\<not> ad_down d" "token_row (hashRefreshToken x tok) d = Some (r, c)" "rt_revoked r = None" "\<not> expired d r"
    and "deriveSuccessorRefreshToken x tok (or_else ua []) = Some succ"
  shows "replays succ (fst (refresh x tok ua d))" "snd (refresh x tok ua d) = rotate_token (hashRefreshToken x succ) r d"
    and "m < 60000 \<Longrightarrow> ad_now d + m < ad_clock d + REFRESH_TOKEN_TTL_MS \<Longrightarrow>
      replayable x tok succ (rotate_token (hashRefreshToken x succ) r d) m"
proof -
  obtain secret where k: "getJwtSecret x = Some secret"
    using assms(6) by (auto simp: deriveSuccessorRefreshToken_def successorKey_def)
  show "replays succ (fst (refresh x tok ua d))" "snd (refresh x tok ua d) = rotate_token (hashRefreshToken x succ) r d"
    using assms by (simp_all add: refresh_def signAccessToken_def k replays_def)
  have "\<not> ad_down (rotate_token h r d)" "ad_now (rotate_token h r d) = ad_now d" for h
    using assms(2) by (simp_all add: rotate_token_def insert_token_def map_tokens_def)
  then show "replayable x tok succ (rotate_token (hashRefreshToken x succ) r d) m"
    if "m < 60000" "ad_now d + m < ad_clock d + REFRESH_TOKEN_TTL_MS"
    using rotated_rows [OF assms(1,3,4), of "hashRefreshToken x succ"] that
    unfolding replayable_def by simp
qed

text \<open>When the answer of a refresh is lost, the client can repeat the request with its old token as often as
  it likes for a minute: every repetition is answered with the same successor token, and the table
  of tokens is the one the first request left, so no retry forks the session or ends it.\<close>

lemma lost_answer_is_replayed:
  assumes "ids_ok d" "\<not> ad_down d" "token_row (hashRefreshToken x tok) d = Some (r, c)" "rt_revoked r = None" "\<not> expired d r"
    and "deriveSuccessorRefreshToken x tok (or_else ua []) = Some succ"
    and "sum_list ns < 60000" "ad_now d + int (sum_list ns) < ad_clock d + REFRESH_TOKEN_TTL_MS"
  shows "replays succ (fst (refresh x tok ua d))
    \<and> list_all (replays succ) (fst (retries x tok ua ns (snd (refresh x tok ua d))))
    \<and> ad_tokens (snd (retries x tok ua ns (snd (refresh x tok ua d)))) = ad_tokens (snd (refresh x tok ua d))"
  using rotation [OF assms(1-6)] retries_replay [OF assms(6)] assms(7,8) by simp

section \<open>Tickets\<close>

text \<open>A ticket is signed for two minutes; a signed token verifies until it expires.\<close>

definition jwt_ok :: "claims \<Rightarrow> int \<Rightarrow> (int \<Rightarrow> string \<Rightarrow> claims option) \<Rightarrow> (claims \<Rightarrow> string \<Rightarrow> int \<Rightarrow> int \<Rightarrow> string) \<Rightarrow> bool" where
  "jwt_ok c life verify sign \<longleftrightarrow> (\<forall>jti t now. 0 \<le> t \<longrightarrow> t \<le> now \<longrightarrow> now < t + life \<longrightarrow> verify now (sign c jti life t) = Some c)
     \<and> (\<forall>jti t. sign c jti life t \<noteq> [] \<and> CHR '' '' \<notin> set (sign c jti life t))"

text \<open>Presenting the last ticket as a bearer token every \<open>n\<close> milliseconds.\<close>

fun renew :: "(int \<Rightarrow> string \<Rightarrow> claims option) \<Rightarrow> (claims \<Rightarrow> string \<Rightarrow> int \<Rightarrow> int \<Rightarrow> string) \<Rightarrow> nat list \<Rightarrow> int \<Rightarrow> string
    \<Rightarrow> ticket answer list" where
  "renew verify sign [] t tok = []"
| "renew verify sign (n # ns) t tok = (case ticket_route verify sign [] (t + int n) (Some (''Bearer '' @ tok)) of
     Failed k m r \<Rightarrow> [Failed k m r]
   | Done k tk \<Rightarrow> Done k tk # renew verify sign ns (t + int n) (tk_ticket tk))"

lemma bearer_token: "CHR '' '' \<notin> set t \<Longrightarrow> header_token (Some (''Bearer '' @ t)) = Some t"
  using split_on_join [of "CHR '' ''" "''Bearer''" t] by (simp add: header_token_def split_on_plain)

text \<open>A ticket for the event stream is as good as an access token, and never runs out: the strict check
  takes it as a bearer token and ignores its purpose, so whoever reads one from a URL can trade it
  for a new one every two minutes, for the same user, for ever.\<close>

lemma ticket_renews_itself:
  assumes "jwt_ok c 120000 verify sign" "0 \<le> t" "list_all (\<lambda>n. n < 120000) ns" "truthy (cl_id c)" "cl_purpose c = Some ''sse''"
  shows "renew verify sign ns t (sign c jti 120000 t)
    = map (\<lambda>i. Done 200 \<lparr>tk_ticket = sign c [] 120000 (t + int (sum_list (take (Suc i) ns))), tk_expires_in = 120\<rparr>) [0..<length ns]"
  using assms(2,3)
proof (induction ns arbitrary: t jti)
  case (Cons n ns)
  let ?tok = "sign c jti 120000 t"
  have tok: "?tok \<noteq> []" "CHR '' '' \<notin> set ?tok" "verify (t + int n) ?tok = Some c"
    using assms(1) Cons.prems by (auto simp: jwt_ok_def)
  have c: "\<lparr>cl_id = cl_id c, cl_callsign = cl_callsign c, cl_purpose = Some ''sse''\<rparr> = c" using assms(5) by simp
  have step: "ticket_route verify sign [] (t + int n) (Some (''Bearer '' @ ?tok))
      = Done 200 \<lparr>tk_ticket = sign c [] 120000 (t + int n), tk_expires_in = 120\<rparr>"
    using tok(1,3) assms(4) bearer_token [OF tok(2)]
    by (simp add: ticket_route_def authenticateTokenStrict_def check_token_def issueSseTicket_def c)
  have "[0..<length (n # ns)] = 0 # map Suc [0..<length ns]" by (simp add: upt_conv_Cons map_Suc_upt del: upt_Suc)
  then show ?case using Cons.IH [of "t + int n" "[]"] Cons.prems by (simp add: step [simplified] comp_def add.assoc del: upt_Suc)
qed simp

section \<open>A concrete service\<close>

text \<open>Hashes that keep their input and derivations that extend it, for the witnesses.\<close>

definition plain_crypto :: crypto where
  "plain_crypto = \<lparr>x_sha256 = (\<lambda>t. t), x_hmac = (\<lambda>k m. m), x_hex = (\<lambda>t. t), x_argon = (\<lambda>salt p. p),
     x_argon_verify = (\<lambda>h p. Some (h = p)), x_encrypt_email = (\<lambda>iv t. Some t), x_decrypt_email = (\<lambda>t. Some t),
     x_jwt = (\<lambda>k u c t. u), x_secret = Some ''key'', x_latest = None\<rparr>"

definition ann_row :: user_row where
  "ann_row = \<lparr>u_id = ''u1'', u_callsign = ''ann'', u_email_hash = ''ann@a.b'', u_email_encrypted = None, u_password_hash = ''pw'',
     u_global_tag = None, u_hwid = None, u_timezone = None, u_profile_image = None, u_tier = None, u_reset = None, u_reset_expires = None\<rparr>"

definition token_at :: "nat \<Rightarrow> string \<Rightarrow> int option \<Rightarrow> nat option \<Rightarrow> refresh_row" where
  "token_at i h t j = \<lparr>rt_id = i, rt_user = ''u1'', rt_hash = h, rt_expires = REFRESH_TOKEN_TTL_MS, rt_revoked = t, rt_replaced = j\<rparr>"

text \<open>A table with the given tokens of the account.\<close>

definition ann_db :: "refresh_row list \<Rightarrow> auth_db" where
  "ann_db rs = \<lparr>ad_users = [ann_row], ad_tokens = rs, ad_bans = [], ad_next = length rs, ad_now = 0, ad_clock = 0,
     ad_mail = [], ad_events = [], ad_down = False\<rparr>"

lemmas plain_defs = plain_crypto_def ann_row_def token_at_def ann_db_def
lemmas auth_ops = deriveSuccessorRefreshToken_def successorKey_def getJwtSecret_def hashRefreshToken_def token_row_def find_user_def
  row_by_id_def benign_retry_def within_grace_def expired_def hashesEqual_def

lemma ann_login: "auth_run plain_crypto (ann_db []) [''u1''] (snd (login plain_crypto ''t0''
    \<lparr>lb_callsign = Some ''ann'', lb_email = None, lb_password = ''pw'', lb_hwid = None\<rparr> (ann_db [])))"
  using run_step [OF run_nil, of plain_crypto "Login_op ''t0'' \<lparr>lb_callsign = Some ''ann'', lb_email = None, lb_password = ''pw'', lb_hwid = None\<rparr>"
      "ann_db []" "Some ''u1''"]
  by (simp add: login_def login_query_def hwid_ban_def find_user_def login_accepted_def issueTokenPair_def signAccessToken_def
      getJwtSecret_def plain_defs issued_def view_of_def insert_token_def)

lemma one_live_token_per_login_witness:
  "length (live ''u1'' (snd (login plain_crypto ''t0''
      \<lparr>lb_callsign = Some ''ann'', lb_email = None, lb_password = ''pw'', lb_hwid = None\<rparr> (ann_db [])))) \<le> 1"
  using one_live_token_per_login [OF ann_login, of "''u1''"] by (simp add: ids_ok_def ann_db_def live_def)

lemma reuse_ends_every_session_witness:
  "let d = ann_db [token_at 0 ''t0'' (Some 0) (Some 1), token_at 1 ''t1'' (Some 0) (Some 2), token_at 2 ''t2'' None None] in
    fst (refresh plain_crypto ''t0'' None d) = Some ALREADY_USED
    \<and> (\<forall>b. fst (refresh plain_crypto ''t2'' None (snd (refresh plain_crypto ''t0'' None d))) \<noteq> Some (Done 200 b))"
proof -
  let ?d = "ann_db [token_at 0 ''t0'' (Some 0) (Some 1), token_at 1 ''t1'' (Some 0) (Some 2), token_at 2 ''t2'' None None]"
  have used: "refresh plain_crypto ''t0'' None ?d = (Some ALREADY_USED, revoke_user ''u1'' ?d)"
    by (simp add: refresh_def auth_ops plain_defs)
  have row: "token_row (hashRefreshToken plain_crypto ''t2'') (snd (refresh plain_crypto ''t0'' None ?d)) = Some (token_at 2 ''t2'' (Some 0) None, ''ann'')"
    unfolding used by (simp add: revoke_user_def map_tokens_def auth_ops plain_defs)
  have "fst (refresh plain_crypto ''t0'' None ?d) = Some ALREADY_USED
    \<and> fst (refresh plain_crypto ''t2'' None (snd (refresh plain_crypto ''t0'' None ?d))) \<noteq> Some (Done 200 b)" for b
    by (rule reuse_ends_every_session [where r = "token_at 0 ''t0'' (Some 0) (Some 1)" and c = "''ann''"
          and ?r2.0 = "token_at 2 ''t2'' (Some 0) None" and ?c2.0 = "''ann''", OF _ _ _ _ _ _ _ run_nil _ row])
      (simp_all add: ids_ok_def auth_ops plain_defs)
  then show ?thesis unfolding Let_def by blast
qed

lemma lost_answer_is_replayed_witness:
  "let d = ann_db [token_at 0 ''t0'' None None]; succ = ''v1'' @ [CHR 0x00] @ ''t0'' @ [CHR 0x00] in
    replays succ (fst (refresh plain_crypto ''t0'' None d))
    \<and> list_all (replays succ) (fst (retries plain_crypto ''t0'' None [20000, 20000] (snd (refresh plain_crypto ''t0'' None d))))
    \<and> ad_tokens (snd (retries plain_crypto ''t0'' None [20000, 20000] (snd (refresh plain_crypto ''t0'' None d))))
       = ad_tokens (snd (refresh plain_crypto ''t0'' None d))"
  unfolding Let_def
  by (rule lost_answer_is_replayed [where r = "token_at 0 ''t0'' None None" and c = "''ann''"])
    (simp_all add: ids_ok_def auth_ops plain_defs REFRESH_TOKEN_TTL_MS_def)

text \<open>Tokens that count their time of signing.\<close>

definition count_token :: "claims \<Rightarrow> string \<Rightarrow> int \<Rightarrow> int \<Rightarrow> string" where
  "count_token c jti life t = replicate (Suc (nat t)) (CHR ''x'')"

definition ann_claims :: claims where
  "ann_claims = \<lparr>cl_id = Some ''u1'', cl_callsign = None, cl_purpose = Some ''sse''\<rparr>"

definition count_verify :: "int \<Rightarrow> string \<Rightarrow> claims option" where
  "count_verify now tok = (if int (length tok) - 1 \<le> now \<and> now < int (length tok) - 1 + 120000 then Some ann_claims else None)"

lemma ticket_renews_itself_witness:
  "renew count_verify count_token [100000, 100000] 0 (count_token ann_claims [] 120000 0)
    = [Done 200 \<lparr>tk_ticket = count_token ann_claims [] 120000 100000, tk_expires_in = 120\<rparr>,
       Done 200 \<lparr>tk_ticket = count_token ann_claims [] 120000 200000, tk_expires_in = 120\<rparr>]"
proof -
  have "jwt_ok ann_claims 120000 count_verify count_token"
    by (auto simp: jwt_ok_def count_verify_def count_token_def)
  then have "renew count_verify count_token [100000, 100000] 0 (count_token ann_claims [] 120000 0)
    = map (\<lambda>i. Done 200 \<lparr>tk_ticket = count_token ann_claims [] 120000 (0 + int (sum_list (take (Suc i) [100000, 100000]))),
        tk_expires_in = 120\<rparr>) [0..<length [100000 :: nat, 100000]]"
    by (rule ticket_renews_itself) (simp_all add: ann_claims_def)
  then show ?thesis by (simp add: upt_rec del: renew.simps)
qed

end
