(* ===== verification/Auth_Desktop.thy ===== *)
theory Auth_Desktop
  imports Event_Schema
begin

text \<open>
  The owner of the login session in the desktop app (\<open>web-portal/src-tauri/src/session.rs\<close>), which
  the token store of every window asks for its token.

  A refresh holds an async mutex and awaits one request, so it is a sequence of steps: the
  decision and the request (\<open>refresh_begin\<close>), the answer's effect under the state's lock
  (\<open>refresh_answer\<close>), and what follows the release of that lock (\<open>refresh_settle\<close>).  Any other
  command can run between them.  \<open>dk_stage\<close> is what the holder of the mutex has left to do.
  The credential file is \<open>dk_saved\<close>; a write of it that fails is only logged, which
  \<open>dk_disk\<close> says.  \<open>dk_revoked\<close> lists the tokens posted to /auth/logout in the background and
  \<open>dk_emitted\<close> the \<open>auth-changed\<close> events.  Times are in seconds; \<open>exp\<close> reads a token's expiry.
\<close>

section \<open>State\<close>

record dsession =
  ds_token :: string
  ds_refresh :: "string option"
  ds_user :: jsval

record saved_session =
  sv_token :: "string option"
  sv_refresh :: "string option"
  sv_user :: "jsval option"
  sv_email :: "string option"
  sv_password :: "string option"

record posting =
  po_refresh :: string
  po_epoch :: nat
  po_user :: jsval

datatype stage = Posting posting | Adopted dsession | Outdated string | Ending | Superseded | Broken string

record desktop =
  dk_session :: "dsession option"
  dk_loaded :: bool
  dk_epoch :: nat
  dk_saved :: "saved_session option"
  dk_disk :: bool
  dk_stage :: "stage option"
  dk_posted :: "string list"
  dk_revoked :: "string list"
  dk_emitted :: "(jsval option \<times> string) list"

definition emit :: "jsval option \<Rightarrow> string \<Rightarrow> desktop \<Rightarrow> desktop" where
  "emit user reason k = k\<lparr>dk_emitted := dk_emitted k @ [(user, reason)]\<rparr>"

definition persist :: "dsession \<Rightarrow> desktop \<Rightarrow> desktop" where
  "persist s k = (if dk_disk k then k\<lparr>dk_saved := Some \<lparr>sv_token = Some (ds_token s), sv_refresh = ds_refresh s,
     sv_user = Some (ds_user s), sv_email = None, sv_password = None\<rparr>\<rparr> else k)"

definition revoke_in_background :: "string \<Rightarrow> desktop \<Rightarrow> desktop" where
  "revoke_in_background r k = k\<lparr>dk_revoked := dk_revoked k @ [r]\<rparr>"

definition REFRESH_LEEWAY_SECS :: int where "REFRESH_LEEWAY_SECS = 120"

definition needs_refresh :: "(string \<Rightarrow> int option) \<Rightarrow> int \<Rightarrow> string \<Rightarrow> bool" where
  "needs_refresh exp now token = (case exp token of Some e \<Rightarrow> e - now < REFRESH_LEEWAY_SECS | None \<Rightarrow> False)"

definition current_token :: "desktop \<Rightarrow> string option" where
  "current_token k = map_option ds_token (dk_session k)"

definition current_user :: "desktop \<Rightarrow> jsval option" where
  "current_user k = map_option ds_user (dk_session k)"

text \<open>Ends the session locally: memory, disk and every window.  The old session is handed back.\<close>

definition end_session :: "string \<Rightarrow> desktop \<Rightarrow> dsession option \<times> desktop" where
  "end_session reason k = (dk_session k,
     emit None reason (k\<lparr>dk_epoch := dk_epoch k + 1, dk_loaded := True, dk_session := None, dk_saved := None\<rparr>))"

section \<open>The single-flight refresh\<close>

datatype refresh_response = Fresh string string | Dead string | Transient string

datatype flight = Finished "string option" | In_flight

text \<open>With the mutex free: finished at once, or a request on the way.  \<open>stale\<close> is the token the caller gave up.\<close>

definition refresh_begin :: "(string \<Rightarrow> int option) \<Rightarrow> int \<Rightarrow> string option \<Rightarrow> desktop \<Rightarrow> flight \<times> desktop" where
  "refresh_begin exp now stale k = (case dk_session k of
       None \<Rightarrow> (Finished None, k)
     | Some s \<Rightarrow>
         let already_fresh = (case stale of Some t \<Rightarrow> ds_token s \<noteq> t | None \<Rightarrow> \<not> needs_refresh exp now (ds_token s)) in
         if already_fresh then (Finished (Some (ds_token s)), k)
         else (case ds_refresh s of
             None \<Rightarrow> (Finished None, snd (end_session ''expired'' k))
           | Some r \<Rightarrow> (In_flight, k\<lparr>dk_stage := Some (Posting \<lparr>po_refresh = r, po_epoch = dk_epoch k, po_user = ds_user s\<rparr>),
                                    dk_posted := dk_posted k @ [r]\<rparr>)))"

definition refresh_answer :: "refresh_response \<Rightarrow> desktop \<Rightarrow> desktop" where
  "refresh_answer resp k = (case dk_stage k of Some (Posting p) \<Rightarrow>
       (case resp of
          Fresh t r \<Rightarrow>
            if dk_epoch k \<noteq> po_epoch p \<or> dk_session k = None then k\<lparr>dk_stage := Some (Outdated r)\<rparr>
            else (let s = \<lparr>ds_token = t, ds_refresh = Some r, ds_user = po_user p\<rparr> in
                  k\<lparr>dk_session := Some s, dk_stage := Some (Adopted s)\<rparr>)
        | Dead e \<Rightarrow> k\<lparr>dk_stage := Some (if dk_epoch k = po_epoch p then Ending else Superseded)\<rparr>
        | Transient e \<Rightarrow> k\<lparr>dk_stage := Some (Broken e)\<rparr>)
     | _ \<Rightarrow> k)"

definition refresh_settle :: "desktop \<Rightarrow> (string + string option) \<times> desktop" where
  "refresh_settle k = (let k1 = k\<lparr>dk_stage := None\<rparr> in case dk_stage k of
       Some (Adopted s) \<Rightarrow> (Inr (Some (ds_token s)), emit (Some (ds_user s)) ''refresh'' (persist s k1))
     | Some (Outdated r) \<Rightarrow> (Inr (current_token k1), revoke_in_background r k1)
     | Some Ending \<Rightarrow> (Inr None, snd (end_session ''expired'' k1))
     | Some Superseded \<Rightarrow> (Inr (current_token k1), k1)
     | Some (Broken e) \<Rightarrow> (Inl e, k1)
     | _ \<Rightarrow> (Inr None, k))"

text \<open>A token for a caller: at once, or after a refresh whose failure a token that has not expired survives.\<close>

definition valid_token_begin :: "(string \<Rightarrow> int option) \<Rightarrow> int \<Rightarrow> desktop \<Rightarrow> flight \<times> desktop" where
  "valid_token_begin exp now k = (case current_token k of
       None \<Rightarrow> (Finished None, k)
     | Some t \<Rightarrow> if \<not> needs_refresh exp now t then (Finished (Some t), k) else refresh_begin exp now None k)"

definition valid_token_end :: "(string \<Rightarrow> int option) \<Rightarrow> int \<Rightarrow> string \<Rightarrow> string + string option \<Rightarrow> string + string option" where
  "valid_token_end exp now t result = (case result of
       Inl e \<Rightarrow> (case exp t of Some x \<Rightarrow> if x > now then Inr (Some t) else Inl e | None \<Rightarrow> Inl e)
     | Inr r \<Rightarrow> Inr r)"

section \<open>Commands\<close>

definition auth_set_session :: "string \<Rightarrow> string option \<Rightarrow> jsval \<Rightarrow> desktop \<Rightarrow> desktop" where
  "auth_set_session token refresh_token user k =
     (let s = \<lparr>ds_token = token, ds_refresh = refresh_token, ds_user = user\<rparr>;
          replaced = Option.bind (dk_session k) ds_refresh;
          k1 = k\<lparr>dk_epoch := dk_epoch k + 1, dk_loaded := True, dk_session := Some s\<rparr>;
          k2 = (case replaced of None \<Rightarrow> k1
                | Some old \<Rightarrow> if Some old \<noteq> refresh_token then revoke_in_background old k1 else k1)
      in emit (Some user) ''login'' (persist s k2))"

definition auth_set_user :: "jsval \<Rightarrow> desktop \<Rightarrow> (string + unit) \<times> desktop" where
  "auth_set_user user k = (case dk_session k of
       None \<Rightarrow> (Inl ''not logged in'', k)
     | Some s \<Rightarrow> (let s1 = s\<lparr>ds_user := user\<rparr> in
         (Inr (), emit (Some user) ''user'' (persist s1 (k\<lparr>dk_session := Some s1\<rparr>)))))"

definition auth_logout :: "desktop \<Rightarrow> desktop" where
  "auth_logout k = (case end_session ''logout'' k of (old, k1) \<Rightarrow>
     (case Option.bind old ds_refresh of None \<Rightarrow> k1 | Some r \<Rightarrow> revoke_in_background r k1))"

datatype restore_result = Restored jsval | No_session | Offline string | Legacy string string

text \<open>
  The load of the saved file: \<open>Inl\<close> a result at once, \<open>Inr\<close> whether this call loaded it, with the
  token request to follow (\<open>valid_token_begin\<close>) and \<open>auth_restore_end\<close> on its result.
\<close>

definition auth_restore_load :: "desktop \<Rightarrow> (restore_result + bool) \<times> desktop" where
  "auth_restore_load k =
     (if dk_loaded k \<or> dk_session k \<noteq> None then (Inr False, k)
      else (let k1 = k\<lparr>dk_loaded := True\<rparr> in case dk_saved k of
          None \<Rightarrow> (Inl No_session, k1)
        | Some s \<Rightarrow>
            if sv_token s \<noteq> None \<and> sv_user s \<noteq> None
              then (Inr True, k1\<lparr>dk_epoch := dk_epoch k + 1, dk_session := Some \<lparr>ds_token = or_else (sv_token s) [],
                    ds_refresh = sv_refresh s, ds_user = or_else (sv_user s) JNull\<rparr>\<rparr>)
            else if sv_email s \<noteq> None \<and> sv_password s \<noteq> None
              then (Inl (Legacy (or_else (sv_email s) []) (or_else (sv_password s) [])), k1)
            else (Inl No_session, k1)))"

definition auth_restore_end :: "bool \<Rightarrow> string + string option \<Rightarrow> desktop \<Rightarrow> restore_result \<times> desktop" where
  "auth_restore_end loaded_now result k = (case result of
       Inr (Some t) \<Rightarrow> (case current_user k of None \<Rightarrow> (No_session, k)
                       | Some user \<Rightarrow> (Restored user, emit (Some user) ''restore'' k))
     | Inr None \<Rightarrow> (No_session, k)
     | Inl e \<Rightarrow>
         if loaded_now then (Offline e, k\<lparr>dk_session := None, dk_loaded := False, dk_epoch := dk_epoch k + 1\<rparr>)
         else (case current_user k of Some user \<Rightarrow> (Restored user, k) | None \<Rightarrow> (Offline e, k)))"

text \<open>\<open>auth_configure\<close>: the first value wins; trailing slashes are dropped.\<close>

definition trim_base :: "string \<Rightarrow> string" where
  "trim_base s = (let t = rev (dropWhile is_ws (rev (dropWhile is_ws s))) in rev (dropWhile (\<lambda>c. c = CHR ''/'') (rev t)))"

definition auth_configure :: "string \<Rightarrow> string option \<Rightarrow> (string + unit) \<times> string option" where
  "auth_configure api_base slot = (let trimmed = trim_base api_base in
     if \<not> (starts_with ''https://'' trimmed \<or> starts_with ''http://'' trimmed) then (Inl ''api_base must be an http(s) URL'', slot)
     else (Inr (), Some (or_else slot trimmed)))"

section \<open>Everything else that can run during a refresh\<close>

text \<open>The commands that change the session while a refresh holds the mutex.\<close>

datatype other_command = Set_session string "string option" jsval | Set_user jsval | Log_out | Restore_load
  | Restore_end bool "string + string option"

fun run_command :: "desktop \<Rightarrow> other_command \<Rightarrow> desktop" where
  "run_command k (Set_session t r u) = auth_set_session t r u k"
| "run_command k (Set_user u) = snd (auth_set_user u k)"
| "run_command k Log_out = auth_logout k"
| "run_command k Restore_load = snd (auth_restore_load k)"
| "run_command k (Restore_end b res) = snd (auth_restore_end b res k)"

definition run_commands :: "other_command list \<Rightarrow> desktop \<Rightarrow> desktop" where
  "run_commands cs k = foldl run_command k cs"

text \<open>Those that make the answer of a refresh in flight obsolete.\<close>

fun switches :: "other_command \<Rightarrow> bool" where
  "switches (Set_session t r u) = True"
| "switches Log_out = True"
| "switches _ = False"

lemmas desktop_ops = auth_set_session_def auth_set_user_def auth_logout_def auth_restore_load_def auth_restore_end_def
  end_session_def emit_def persist_def revoke_in_background_def

lemma command_keeps_stage [simp]: "dk_stage (run_command k c) = dk_stage k"
  by (cases c) (auto simp: desktop_ops Let_def split: option.splits sum.splits)

lemma command_epoch: "dk_epoch k \<le> dk_epoch (run_command k c)" "switches c \<Longrightarrow> dk_epoch k < dk_epoch (run_command k c)"
  by (cases c; auto simp: desktop_ops Let_def split: option.splits sum.splits)+

lemma commands_keep_stage [simp]: "dk_stage (run_commands cs k) = dk_stage k"
  unfolding run_commands_def by (induction cs arbitrary: k) simp_all

lemma commands_epoch: "dk_epoch k \<le> dk_epoch (run_commands cs k)"
  unfolding run_commands_def by (induction cs arbitrary: k) (auto intro: order_trans [OF command_epoch(1)])

lemma commands_switch: "list_ex switches cs \<Longrightarrow> dk_epoch k < dk_epoch (run_commands cs k)"
  unfolding run_commands_def
proof (induction cs arbitrary: k)
  case (Cons c cs)
  then show ?case
    using commands_epoch [of "run_command k c" cs, unfolded run_commands_def] command_epoch(2) [of c k]
      Cons.IH [of "run_command k c"] command_epoch(1) [of k c]
    by (cases "switches c") (auto intro: order.strict_trans1 order.strict_trans2)
qed simp

text \<open>C13: on the desktop a refresh that was in flight across a logout or another login changes nothing of the
  session that is there now: the answer's tokens are dropped, the fresh refresh token is revoked at
  the server, and a rejected refresh does not end the new session.\<close>

theorem outdated_refresh_is_dropped:
  assumes "refresh_begin exp now stale k = (In_flight, k1)" "list_ex switches cs" "k2 = run_commands cs k1"
  shows "dk_session (snd (refresh_settle (refresh_answer resp k2))) = dk_session k2
    \<and> dk_saved (snd (refresh_settle (refresh_answer resp k2))) = dk_saved k2
    \<and> (case resp of Fresh t r \<Rightarrow> dk_revoked (snd (refresh_settle (refresh_answer resp k2))) = dk_revoked k2 @ [r] | _ \<Rightarrow> True)"
proof -
  obtain p where p: "dk_stage k1 = Some (Posting p)" "po_epoch p = dk_epoch k1"
    using assms(1) by (auto simp: refresh_begin_def Let_def split: option.splits if_splits)
  have "dk_stage k2 = Some (Posting p)" "po_epoch p \<noteq> dk_epoch k2"
    using p commands_switch [OF assms(2), of k1] by (simp_all add: assms(3))
  then show ?thesis
    by (cases resp) (auto simp: refresh_answer_def refresh_settle_def Let_def revoke_in_background_def)
qed

definition signed_in :: desktop where
  "signed_in = \<lparr>dk_session = Some \<lparr>ds_token = ''a0'', ds_refresh = Some ''t0'', ds_user = JStr ''ann''\<rparr>, dk_loaded = True, dk_epoch = 1,
     dk_saved = None, dk_disk = True, dk_stage = None, dk_posted = [], dk_revoked = [], dk_emitted = []\<rparr>"

lemma outdated_refresh_is_dropped_witness:
  "let k1 = snd (refresh_begin (\<lambda>t. None) 0 (Some ''a0'') signed_in); k2 = run_commands [Log_out] k1;
       k3 = snd (refresh_settle (refresh_answer (Fresh ''a1'' ''t1'') k2)) in
    dk_session k3 = dk_session k2 \<and> dk_saved k3 = dk_saved k2 \<and> dk_revoked k3 = dk_revoked k2 @ [''t1'']"
proof -
  let ?k1 = "snd (refresh_begin (\<lambda>t. None) 0 (Some ''a0'') signed_in)"
  have "refresh_begin (\<lambda>t. None) 0 (Some ''a0'') signed_in = (In_flight, ?k1)"
    by (simp add: refresh_begin_def signed_in_def)
  from outdated_refresh_is_dropped [OF this, of "[Log_out]" _ "Fresh ''a1'' ''t1''"] show ?thesis by (simp add: Let_def)
qed

text \<open>A logout between the answer of a refresh and its save is undone on disk: the refresh, which took the
  state's lock before the logout, writes the session file after the logout deleted it, and the next
  launch loads that session as a signed-in one.\<close>

lemma logout_undone_on_disk:
  assumes "dk_stage k = Some (Posting p)" "po_epoch p = dk_epoch k" "dk_session k \<noteq> None" "dk_disk k"
    and "k1 = snd (refresh_settle (auth_logout (refresh_answer (Fresh t r) k)))"
  shows "dk_session k1 = None \<and> dk_revoked k1 = dk_revoked k @ [r]
    \<and> fst (auth_restore_load (k1\<lparr>dk_loaded := False\<rparr>)) = Inr True
    \<and> current_token (snd (auth_restore_load (k1\<lparr>dk_loaded := False\<rparr>))) = Some t"
  using assms by (auto simp: refresh_answer_def refresh_settle_def desktop_ops Let_def current_token_def)

lemma logout_undone_on_disk_witness:
  "let k = snd (refresh_begin (\<lambda>t. None) 0 (Some ''a0'') signed_in);
       k1 = snd (refresh_settle (auth_logout (refresh_answer (Fresh ''a1'' ''t1'') k))) in
    dk_session k1 = None \<and> dk_revoked k1 = dk_revoked k @ [''t1'']
    \<and> fst (auth_restore_load (k1\<lparr>dk_loaded := False\<rparr>)) = Inr True
    \<and> current_token (snd (auth_restore_load (k1\<lparr>dk_loaded := False\<rparr>))) = Some ''a1''"
  unfolding Let_def
  by (rule logout_undone_on_disk [where p = "\<lparr>po_refresh = ''t0'', po_epoch = 1, po_user = JStr ''ann''\<rparr>"])
    (simp_all add: refresh_begin_def signed_in_def)

end
