(* ===== verification/Token_Store.thy ===== *)
theory Token_Store
  imports Auth_Desktop Mls_State Event_Schema
begin

text \<open>
  Where a window keeps the session's tokens (\<open>web-portal/src/auth/tokenStore.js\<close>): the desktop
  store, which asks \<^theory_text>\<open>Auth_Desktop\<close> and keeps a short-lived copy of the access token, and the
  browser store on \<open>localStorage\<close> with a refresh shared by the tab's requests.

  An asynchronous operation is cut at its awaits: what runs before the request, and what runs
  on its answer; other operations may come in between.  The storage is available (the code's
  \<open>try\<close> around it has no effect then).  Users are JSON values.
\<close>

section \<open>Storage\<close>

definition USER_KEY :: string where "USER_KEY = ''specter_user''"
definition TOKEN_KEY :: string where "TOKEN_KEY = ''specter_token''"
definition REFRESH_KEY :: string where "REFRESH_KEY = ''specter_refresh_token''"

fun jtruthy :: "jsval \<Rightarrow> bool" where
  "jtruthy JUndef = False"
| "jtruthy JNull = False"
| "jtruthy (JBool b) = b"
| "jtruthy (JNum n) = (n \<noteq> 0)"
| "jtruthy (JStr s) = (s \<noteq> [])"
| "jtruthy _ = True"

type_synonym storage = "(string, string) jsmap"

definition mirrorUser :: "jsval \<Rightarrow> storage \<Rightarrow> storage" where
  "mirrorUser user ls = (if jtruthy user then al_set USER_KEY (stringify user) ls else al_del USER_KEY ls)"

section \<open>The expiry of a token\<close>

definition url_char :: "char \<Rightarrow> char" where
  "url_char c = (if c = CHR ''-'' then CHR ''+'' else if c = CHR ''_'' then CHR ''/'' else c)"

text \<open>\<^const>\<open>None\<close> for whatever throws or is not a number; milliseconds otherwise.\<close>

definition jwtExpMs :: "string \<Rightarrow> int option" where
  "jwtExpMs token = (case split_on (CHR ''.'') token of
       _ # part0 # _ \<Rightarrow>
         (let part = map url_char part0 in
          case atob (part @ replicate ((4 - length part mod 4) mod 4) (CHR ''='')) of None \<Rightarrow> None
          | Some text \<Rightarrow> (case json_parse text of
                Some (JObj kvs) \<Rightarrow> (case al_get kvs ''exp'' of Some (JNum n) \<Rightarrow> Some (n * 1000) | _ \<Rightarrow> None)
              | _ \<Rightarrow> None))
     | _ \<Rightarrow> None)"

section \<open>The desktop store\<close>

record tauri =
  tw_cached :: "(string \<times> int) option"
  tw_ls :: storage
  tw_configured :: bool
  tw_base :: "string option"
  tw_desktop :: desktop

definition CACHE_MIN_REMAINING_MS :: int where "CACHE_MIN_REMAINING_MS = 180000"

text \<open>Once per window; a failing \<open>auth_configure\<close> is only logged.\<close>

definition ready :: "string \<Rightarrow> tauri \<Rightarrow> tauri" where
  "ready api_base w = (if tw_configured w then w
     else w\<lparr>tw_ls := al_del REFRESH_KEY (al_del TOKEN_KEY (tw_ls w)), tw_configured := True,
            tw_base := snd (auth_configure api_base (tw_base w))\<rparr>)"

definition cacheToken :: "string option \<Rightarrow> tauri \<Rightarrow> string option \<times> tauri" where
  "cacheToken token w = (str_or_null token,
     w\<lparr>tw_cached := (if truthy token then (case jwtExpMs (or_else token []) of
         Some x \<Rightarrow> if x = 0 then None else Some (or_else token [], x) | None \<Rightarrow> None) else None)\<rparr>)"

text \<open>\<open>getToken\<close>: the copy, or a request of Rust; \<open>now\<close> is in milliseconds.  The second half takes Rust's answer.\<close>

definition tauri_getToken :: "string \<Rightarrow> int \<Rightarrow> tauri \<Rightarrow> flight option \<times> tauri" where
  "tauri_getToken api_base now w = (case tw_cached w of
       Some (token, x) \<Rightarrow>
         if x - now > CACHE_MIN_REMAINING_MS then (Some (Finished (Some token)), w) else (None, ready api_base w)
     | None \<Rightarrow> (None, ready api_base w))"

definition ask_rust :: "(string \<Rightarrow> int option) \<Rightarrow> int \<Rightarrow> tauri \<Rightarrow> flight \<times> tauri" where
  "ask_rust exp now w = (case valid_token_begin exp (now div 1000) (tw_desktop w) of (f, k) \<Rightarrow> (f, w\<lparr>tw_desktop := k\<rparr>))"

definition rust_answered :: "string + string option \<Rightarrow> tauri \<Rightarrow> (string + string option) \<times> tauri" where
  "rust_answered result w = (case result of Inl e \<Rightarrow> (Inl e, w)
     | Inr t \<Rightarrow> (case cacheToken t w of (t1, w1) \<Rightarrow> (Inr t1, w1)))"

text \<open>\<open>onUnauthorized\<close>: drop the copy and let Rust refresh; an empty stale token is none.\<close>

definition tauri_onUnauthorized :: "string \<Rightarrow> (string \<Rightarrow> int option) \<Rightarrow> int \<Rightarrow> string option \<Rightarrow> tauri \<Rightarrow> flight \<times> tauri" where
  "tauri_onUnauthorized api_base exp now staleToken w =
     (let w1 = ready api_base (w\<lparr>tw_cached := None\<rparr>) in
      case str_or_null staleToken of
        None \<Rightarrow> ask_rust exp now w1
      | Some t \<Rightarrow> (case refresh_begin exp (now div 1000) (Some t) (tw_desktop w1) of (f, k) \<Rightarrow> (f, w1\<lparr>tw_desktop := k\<rparr>)))"

definition tauri_restored :: "restore_result \<Rightarrow> tauri \<Rightarrow> tauri" where
  "tauri_restored res w = (case res of Restored user \<Rightarrow> w\<lparr>tw_ls := mirrorUser user (tw_ls w)\<rparr> | _ \<Rightarrow> w)"

definition tauri_setSession :: "string \<Rightarrow> string \<Rightarrow> string option \<Rightarrow> jsval \<Rightarrow> tauri \<Rightarrow> tauri" where
  "tauri_setSession api_base token refreshToken user w =
     (let w1 = snd (cacheToken (Some token) (ready api_base w)) in
      w1\<lparr>tw_ls := mirrorUser user (tw_ls w1), tw_desktop := auth_set_session token (str_or_null refreshToken) user (tw_desktop w1)\<rparr>)"

definition tauri_setUser :: "string \<Rightarrow> jsval \<Rightarrow> tauri \<Rightarrow> (string + unit) \<times> tauri" where
  "tauri_setUser api_base user w = (let w1 = ready api_base w; w2 = w1\<lparr>tw_ls := mirrorUser user (tw_ls w1)\<rparr> in
     case auth_set_user user (tw_desktop w2) of (r, k) \<Rightarrow> (r, w2\<lparr>tw_desktop := k\<rparr>))"

definition tauri_current :: "string \<Rightarrow> tauri \<Rightarrow> jsval option \<times> tauri" where
  "tauri_current api_base w = (current_user (tw_desktop w), ready api_base w)"

definition tauri_clear :: "string \<Rightarrow> tauri \<Rightarrow> tauri" where
  "tauri_clear api_base w = (let w1 = ready api_base (w\<lparr>tw_cached := None, tw_ls := mirrorUser JNull (tw_ls w)\<rparr>) in
     w1\<lparr>tw_desktop := auth_logout (tw_desktop w1)\<rparr>)"

text \<open>An \<open>auth-changed\<close> event reaches the window.\<close>

definition tauri_changed :: "jsval option \<Rightarrow> tauri \<Rightarrow> tauri" where
  "tauri_changed user w = w\<lparr>tw_cached := (if jtruthy (or_else user JNull) then tw_cached w else None),
     tw_ls := mirrorUser (or_else user JNull) (tw_ls w)\<rparr>"

section \<open>The browser store\<close>

text \<open>\<open>bw_refreshing\<close> is the refresh token of the shared request on its way.\<close>

record browser =
  bw_ls :: storage
  bw_refreshing :: "string option"
  bw_posted :: "string list"
  bw_logouts :: "string list"
  bw_emitted :: "(jsval \<times> string) list"

definition browserEmit :: "jsval \<Rightarrow> string \<Rightarrow> browser \<Rightarrow> browser" where
  "browserEmit user reason b = b\<lparr>bw_emitted := bw_emitted b @ [(user, reason)]\<rparr>"

definition readUser :: "browser \<Rightarrow> jsval" where
  "readUser b = (let raw = al_get (bw_ls b) USER_KEY in
     case json_parse (if truthy raw then or_else raw [] else ''null'') of Some v \<Rightarrow> v | None \<Rightarrow> JNull)"

definition browserClearLocal :: "browser \<Rightarrow> browser" where
  "browserClearLocal b = b\<lparr>bw_ls := al_del USER_KEY (al_del REFRESH_KEY (al_del TOKEN_KEY (bw_ls b)))\<rparr>"

definition browser_getToken :: "browser \<Rightarrow> string option" where
  "browser_getToken b = al_get (bw_ls b) TOKEN_KEY"

text \<open>The shared refresh up to its request; a request already on its way is joined.\<close>

definition browser_onUnauthorized :: "string option \<Rightarrow> browser \<Rightarrow> flight \<times> browser" where
  "browser_onUnauthorized staleToken b =
     (if bw_refreshing b \<noteq> None then (In_flight, b)
      else (let current = al_get (bw_ls b) TOKEN_KEY in
        if truthy current \<and> current \<noteq> staleToken then (Finished current, b)
        else (let refreshToken = al_get (bw_ls b) REFRESH_KEY in
          if \<not> truthy refreshToken then (Finished None, browserEmit JNull ''expired'' (browserClearLocal b))
          else (In_flight, b\<lparr>bw_refreshing := refreshToken, bw_posted := bw_posted b @ [or_else refreshToken []]\<rparr>))))"

text \<open>Its answer: no response, or a status with the \<open>token\<close> and \<open>refresh_token\<close> of the body.\<close>

datatype web_answer = No_response | Response nat "string option" "string option"

definition browser_refreshed :: "web_answer \<Rightarrow> browser \<Rightarrow> string option \<times> browser" where
  "browser_refreshed a b0 = (let b = b0\<lparr>bw_refreshing := None\<rparr> in case a of
       No_response \<Rightarrow> (None, b)
     | Response status token refresh_token \<Rightarrow>
         if 200 \<le> status \<and> status < 300 \<and> truthy token then
           (let b1 = b\<lparr>bw_ls := al_set TOKEN_KEY (or_else token []) (bw_ls b)\<rparr>;
                b2 = (if truthy refresh_token then b1\<lparr>bw_ls := al_set REFRESH_KEY (or_else refresh_token []) (bw_ls b1)\<rparr> else b1)
            in (token, browserEmit (readUser b2) ''refresh'' b2))
         else if status = 401 \<or> status = 403 then (None, browserEmit JNull ''expired'' (browserClearLocal b))
         else (None, b))"

datatype stored = Stored_ok jsval | Stored_none | Stored_offline string | Stored_legacy string string

definition browser_restore :: "browser \<Rightarrow> stored \<times> browser" where
  "browser_restore b = (let token = al_get (bw_ls b) TOKEN_KEY; raw = al_get (bw_ls b) USER_KEY in
     if \<not> truthy token \<or> \<not> truthy raw then (Stored_none, b)
     else case json_parse (or_else raw []) of Some user \<Rightarrow> (Stored_ok user, b)
     | None \<Rightarrow> (Stored_none, b\<lparr>bw_ls := al_del USER_KEY (al_del TOKEN_KEY (bw_ls b))\<rparr>))"

definition browser_setSession :: "string \<Rightarrow> string option \<Rightarrow> jsval \<Rightarrow> browser \<Rightarrow> browser" where
  "browser_setSession token refreshToken user b =
     (let ls1 = al_set TOKEN_KEY token (bw_ls b);
          ls2 = (if truthy refreshToken then al_set REFRESH_KEY (or_else refreshToken []) ls1 else ls1)
      in browserEmit user ''login'' (b\<lparr>bw_ls := mirrorUser user ls2\<rparr>))"

definition browser_setUser :: "jsval \<Rightarrow> browser \<Rightarrow> browser" where
  "browser_setUser user b = browserEmit user ''user'' (b\<lparr>bw_ls := mirrorUser user (bw_ls b)\<rparr>)"

definition browser_current :: "browser \<Rightarrow> jsval" where
  "browser_current b = (if truthy (al_get (bw_ls b) TOKEN_KEY) then readUser b else JNull)"

definition browser_clear :: "browser \<Rightarrow> browser" where
  "browser_clear b = (let refreshToken = al_get (bw_ls b) REFRESH_KEY; b1 = browserClearLocal b;
       b2 = (if truthy refreshToken then b1\<lparr>bw_logouts := bw_logouts b1 @ [or_else refreshToken []]\<rparr> else b1)
     in browserEmit JNull ''logout'' b2)"

end
