(* ===== verification/Auth_Session.thy ===== *)
theory Auth_Session
  imports Token_Store
begin

text \<open>
  The flows on top of the token store: login, restore and logout
  (\<open>web-portal/src/auth/session.js\<close>), and the request wrapper of both web clients with its one
  refresh and one retry (\<open>packages/shared-web/src/api.js\<close>).

  The store, the identity service's routes and the hardware id are arguments.  Versions are
  dotted decimal numbers; another spelling of a part reads as 0, as NaN does.
\<close>

section \<open>Versions\<close>

definition part_number :: "string \<Rightarrow> nat" where
  "part_number s = (if s \<noteq> [] \<and> list_all is_digit s then fst (p_digits 0 s) else 0)"

definition version_parts :: "string \<Rightarrow> nat list" where
  "version_parts v = (let ns = map part_number (split_on (CHR ''.'') v) in map (\<lambda>i. if i < length ns then ns ! i else 0) [0..<3])"

fun newer :: "nat list \<Rightarrow> nat list \<Rightarrow> bool" where
  "newer (r # rs) (l # ls) = (if r > l then True else if r < l then False else newer rs ls)"
| "newer _ _ = False"

definition isNewerVersion :: "string option \<Rightarrow> string option \<Rightarrow> bool" where
  "isNewerVersion remote local =
     (if \<not> truthy remote \<or> \<not> truthy local then False
      else newer (version_parts (or_else remote [])) (version_parts (or_else local [])))"

text \<open>Whether the updater is asked to check now; \<open>version\<close> is the installed one, or its failure.\<close>

definition checkVersionFromLogin :: "bool \<Rightarrow> string option \<Rightarrow> string option \<Rightarrow> bool" where
  "checkVersionFromLogin tauri version latestVersion =
     (if \<not> tauri \<or> \<not> truthy latestVersion then False
      else case version of None \<Rightarrow> False | Some v \<Rightarrow> isNewerVersion latestVersion (Some v))"

section \<open>The store as the flows see it\<close>

text \<open>\<open>so_restore\<close> may be rejected; the rejections of the others are swallowed by the flows.\<close>

record 's store_ops =
  so_tauri :: bool
  so_restore :: "'s \<Rightarrow> (string + stored) \<times> 's"
  so_set_session :: "string \<Rightarrow> string option \<Rightarrow> jsval \<Rightarrow> 's \<Rightarrow> 's"
  so_set_user :: "jsval \<Rightarrow> 's \<Rightarrow> 's"
  so_clear :: "'s \<Rightarrow> 's"

definition browser_ops :: "browser store_ops" where
  "browser_ops = \<lparr>so_tauri = False, so_restore = (\<lambda>b. case browser_restore b of (r, b1) \<Rightarrow> (Inr r, b1)),
     so_set_session = browser_setSession, so_set_user = browser_setUser, so_clear = browser_clear\<rparr>"

text \<open>Rust's \<open>auth_restore\<close> in one go, with the answer a refresh gets if one is needed.\<close>

definition auth_restore :: "(string \<Rightarrow> int option) \<Rightarrow> int \<Rightarrow> refresh_response \<Rightarrow> desktop \<Rightarrow> restore_result \<times> desktop" where
  "auth_restore exp now resp k = (case auth_restore_load k of
       (Inl r, k1) \<Rightarrow> (r, k1)
     | (Inr loaded, k1) \<Rightarrow> (case valid_token_begin exp now k1 of
           (Finished t, k2) \<Rightarrow> auth_restore_end loaded (Inr t) k2
         | (In_flight, k2) \<Rightarrow> (case refresh_settle (refresh_answer resp k2) of (r, k3) \<Rightarrow>
             auth_restore_end loaded (valid_token_end exp now (or_else (current_token k1) []) r) k3)))"

definition stored_of :: "restore_result \<Rightarrow> stored" where
  "stored_of r = (case r of Restored u \<Rightarrow> Stored_ok u | No_session \<Rightarrow> Stored_none | Offline e \<Rightarrow> Stored_offline e
     | Legacy e p \<Rightarrow> Stored_legacy e p)"

definition tauri_ops :: "string \<Rightarrow> (string \<Rightarrow> int option) \<Rightarrow> int \<Rightarrow> refresh_response \<Rightarrow> tauri store_ops" where
  "tauri_ops api_base exp now resp = \<lparr>so_tauri = True,
     so_restore = (\<lambda>w. let w1 = ready api_base w in case auth_restore exp now resp (tw_desktop w1) of (r, k) \<Rightarrow>
        (Inr (stored_of r), tauri_restored r (w1\<lparr>tw_desktop := k\<rparr>))),
     so_set_session = tauri_setSession api_base, so_set_user = (\<lambda>u w. snd (tauri_setUser api_base u w)),
     so_clear = tauri_clear api_base\<rparr>"

section \<open>Login, restore, logout\<close>

record login_data =
  ld_token :: "string option"
  ld_refresh :: "string option"
  ld_user :: jsval
  ld_latest :: "string option"

text \<open>The routes' results: data, or an error text.\<close>

record 's session_env =
  se_store :: "'s store_ops"
  se_hwid :: "string option"
  se_login :: "string \<Rightarrow> string \<Rightarrow> string \<Rightarrow> 's \<Rightarrow> (string + login_data) \<times> 's"
  se_profile :: "'s \<Rightarrow> (string + jsval) \<times> 's"

definition getHwid :: "'s session_env \<Rightarrow> string" where
  "getHwid e = or_else (se_hwid e) ''browser-fallback-hwid''"

definition adoptLogin :: "'s session_env \<Rightarrow> login_data \<Rightarrow> 's \<Rightarrow> 's" where
  "adoptLogin e d s = so_set_session (se_store e) (or_else (ld_token d) ''undefined'') (str_or_null (ld_refresh d)) (ld_user d) s"

definition session_login :: "'s session_env \<Rightarrow> string \<Rightarrow> string \<Rightarrow> 's \<Rightarrow> (string + jsval) \<times> 's" where
  "session_login e email password s = (case se_login e email password (getHwid e) s of
       (Inl err, s1) \<Rightarrow> (Inl err, s1)
     | (Inr d, s1) \<Rightarrow> (Inr (ld_user d), adoptLogin e d s1))"

definition session_logout :: "'s session_env \<Rightarrow> 's \<Rightarrow> 's" where
  "session_logout e s = so_clear (se_store e) s"

definition restoreQuiet :: "'s session_env \<Rightarrow> 's \<Rightarrow> jsval \<times> 's" where
  "restoreQuiet e s = (case so_restore (se_store e) s of (Inr (Stored_ok u), s1) \<Rightarrow> (u, s1) | (_, s1) \<Rightarrow> (JNull, s1))"

text \<open>\<open>data.user || data\<close>.\<close>

definition profile_user :: "jsval \<Rightarrow> jsval" where
  "profile_user d = (case d of JObj kvs \<Rightarrow>
     (case al_get kvs ''user'' of Some u \<Rightarrow> if jtruthy u then u else d | None \<Rightarrow> d) | _ \<Rightarrow> d)"

definition restore_profile :: "'s session_env \<Rightarrow> jsval \<Rightarrow> 's \<Rightarrow> jsval \<times> 's" where
  "restore_profile e user s = (if \<not> so_tauri (se_store e) then (user, s)
     else case se_profile e s of
         (Inl err, s1) \<Rightarrow> (JNull, so_clear (se_store e) s1)
       | (Inr d, s1) \<Rightarrow>
           if \<not> jtruthy d then (JNull, so_clear (se_store e) s1)
           else (profile_user d, so_set_user (se_store e) (profile_user d) s1))"

definition restore_legacy :: "'s session_env \<Rightarrow> string \<Rightarrow> string \<Rightarrow> 's \<Rightarrow> jsval \<times> 's" where
  "restore_legacy e email password s = (case se_login e email password (getHwid e) s of
       (Inl err, s1) \<Rightarrow> (JNull, so_clear (se_store e) s1)
     | (Inr d, s1) \<Rightarrow>
         if \<not> truthy (ld_token d) then (JNull, so_clear (se_store e) s1) else (ld_user d, adoptLogin e d s1))"

definition session_restore :: "'s session_env \<Rightarrow> 's \<Rightarrow> jsval \<times> 's" where
  "session_restore e s = (case so_restore (se_store e) s of
       (Inl err, s1) \<Rightarrow> (JNull, s1)
     | (Inr saved, s1) \<Rightarrow> (case saved of
           Stored_ok u \<Rightarrow> restore_profile e u s1
         | Stored_legacy email password \<Rightarrow> restore_legacy e email password s1
         | _ \<Rightarrow> (JNull, s1)))"

section \<open>Requests\<close>

text \<open>
  What a request can come to: no response, or a status with its text and the parsed body (an
  empty object when the body is not JSON).  \<open>ae_provider\<close> says the client was given a token
  provider (the portal); the website reads the stored token and clears it on a 401.
\<close>

datatype fetched = Net_error string | Http nat string jsval

record 's api_env =
  ae_provider :: bool
  ae_token :: "'s \<Rightarrow> string option \<times> 's"
  ae_unauthorized :: "string \<Rightarrow> 's \<Rightarrow> string option \<times> 's"
  ae_expire :: "'s \<Rightarrow> 's"
  ae_send :: "string \<Rightarrow> string option \<Rightarrow> 's \<Rightarrow> fetched \<times> 's"

definition jmember :: "jsval \<Rightarrow> string \<Rightarrow> jsval" where
  "jmember v k = (case v of JObj kvs \<Rightarrow> or_else (al_get kvs k) JUndef | _ \<Rightarrow> JUndef)"

definition jtext :: "jsval \<Rightarrow> string" where
  "jtext v = (case v of JStr s \<Rightarrow> s | JUndef \<Rightarrow> [] | JNull \<Rightarrow> [] | _ \<Rightarrow> stringify v)"

definition error_message :: "nat \<Rightarrow> string \<Rightarrow> jsval \<Rightarrow> string" where
  "error_message status statusText json =
     (let fieldErrors = (case jmember json ''errors'' of JArr (e # es) \<Rightarrow>
              join_with [CHR '' '', CHR 0xB7, CHR '' ''] (map (\<lambda>x. jtext (jmember x ''message'')) (e # es)) | _ \<Rightarrow> []) in
      if fieldErrors \<noteq> [] then fieldErrors
      else if jtruthy (jmember json ''message'') then jtext (jmember json ''message'')
      else ''HTTP '' @ nat_digits status @ '': '' @ statusText)"

definition api_failure :: "nat list \<Rightarrow> nat \<Rightarrow> string \<Rightarrow> jsval \<Rightarrow> string" where
  "api_failure expected status statusText json = (let m = error_message status statusText json in
     if status \<in> set expected then m else if m = [] then ''Network Error'' else m)"

text \<open>One request: its outcome, or the fresh token to retry with.\<close>

definition fetch_once :: "'s api_env \<Rightarrow> string \<Rightarrow> nat list \<Rightarrow> string option \<Rightarrow> bool \<Rightarrow> 's \<Rightarrow> ((string + jsval) + string) \<times> 's" where
  "fetch_once e endpoint expected tokenOverride isRetry s =
     (let (sessionToken, s1) = (if truthy tokenOverride then (None, s) else ae_token e s);
          token = (if truthy tokenOverride then tokenOverride else sessionToken) in
      case ae_send e endpoint (str_or_null token) s1 of
        (Net_error m, s2) \<Rightarrow> (Inl (Inl (if m = [] then ''Network Error'' else m)), s2)
      | (Http status statusText json, s2) \<Rightarrow>
          if 200 \<le> status \<and> status < 300 then (Inl (Inr json), s2)
          else if status = 401 \<and> ae_provider e \<and> truthy sessionToken \<and> \<not> isRetry \<and> \<not> starts_with ''/auth/'' endpoint then
            (case ae_unauthorized e (or_else sessionToken []) s2 of (fresh, s3) \<Rightarrow>
               if truthy fresh then (Inr (or_else fresh []), s3) else (Inl (Inl (api_failure expected status statusText json)), s3))
          else (Inl (Inl (api_failure expected status statusText json)),
                if status = 401 \<and> \<not> ae_provider e then ae_expire e s2 else s2))"

definition fetchWithAuth :: "'s api_env \<Rightarrow> string \<Rightarrow> nat list \<Rightarrow> string option \<Rightarrow> 's \<Rightarrow> (string + jsval) \<times> 's" where
  "fetchWithAuth e endpoint expected tokenOverride s = (case fetch_once e endpoint expected tokenOverride False s of
       (Inl r, s1) \<Rightarrow> (r, s1)
     | (Inr fresh, s1) \<Rightarrow> (case fetch_once e endpoint expected tokenOverride True s1 of
           (Inl r, s2) \<Rightarrow> (r, s2)
         | (Inr t, s2) \<Rightarrow> (Inl ''Network Error'', s2)))"

text \<open>The portal in the browser: the token store is the provider; \<open>net\<close> answers its refresh.\<close>

definition browser_refresh_run :: "(string \<Rightarrow> web_answer) \<Rightarrow> string \<Rightarrow> browser \<Rightarrow> string option \<times> browser" where
  "browser_refresh_run net stale b = (case browser_onUnauthorized (str_or_null (Some stale)) b of
       (Finished t, b1) \<Rightarrow> (t, b1)
     | (In_flight, b1) \<Rightarrow> browser_refreshed (net (or_else (bw_refreshing b1) [])) b1)"

end
