(* ===== verification/Auth_Props.thy ===== *)
theory Auth_Props
  imports Auth_Server_Props Auth_Session
begin

text \<open>
  The session across its parts: both token stores keep the last login, a request is retried
  once, a late answer of the browser's refresh crosses accounts, and the desktop's single
  refresh with the service's rotation keeps a device signed in whatever answers get lost.
\<close>

section \<open>What a token store promises\<close>

text \<open>
  The contract of a store: after a login its token and user are the ones handed out, after a
  logout there are none.  \<open>ok\<close> says which tokens and users it is asked to keep, \<open>inv\<close> is what
  its operations maintain.
\<close>

datatype store_op = Log_in string "string option" jsval | Sign_out

locale token_store =
  fixes login :: "string \<Rightarrow> string option \<Rightarrow> jsval \<Rightarrow> 's \<Rightarrow> 's"
    and logout :: "'s \<Rightarrow> 's"
    and session :: "'s \<Rightarrow> (string \<times> jsval) option"
    and inv :: "'s \<Rightarrow> bool"
    and ok :: "string \<Rightarrow> jsval \<Rightarrow> bool"
  assumes login_session: "inv s \<Longrightarrow> ok t u \<Longrightarrow> session (login t r u s) = Some (t, u)"
    and logout_session: "inv s \<Longrightarrow> session (logout s) = None"
    and login_inv: "inv s \<Longrightarrow> ok t u \<Longrightarrow> inv (login t r u s)"
    and logout_inv: "inv s \<Longrightarrow> inv (logout s)"
begin

fun step :: "'s \<Rightarrow> store_op \<Rightarrow> 's" where
  "step s (Log_in t r u) = login t r u s"
| "step s Sign_out = logout s"

definition ok_op :: "store_op \<Rightarrow> bool" where
  "ok_op op = (case op of Log_in t r u \<Rightarrow> ok t u | Sign_out \<Rightarrow> True)"

lemma step_inv: "inv s \<Longrightarrow> ok_op op \<Longrightarrow> inv (step s op)"
  by (cases op) (simp_all add: ok_op_def login_inv logout_inv)

lemma steps_inv: "inv s \<Longrightarrow> list_all ok_op ops \<Longrightarrow> inv (foldl step s ops)"
  by (induction ops arbitrary: s) (simp_all add: step_inv)

text \<open>The last operation decides.\<close>

lemma last_decides:
  assumes "inv s" "list_all ok_op (ops @ [op])"
  shows "session (foldl step s (ops @ [op])) = (case op of Log_in t r u \<Rightarrow> Some (t, u) | Sign_out \<Rightarrow> None)"
proof -
  have "inv (foldl step s ops)" using assms by (simp add: steps_inv)
  then show ?thesis using assms(2) by (cases op) (simp_all add: ok_op_def login_session logout_session)
qed

end

section \<open>The two stores keep the contract\<close>

text \<open>What a request would use without the network, and the user shown with it.\<close>

definition browser_session :: "browser \<Rightarrow> (string \<times> jsval) option" where
  "browser_session b = (case browser_getToken b of None \<Rightarrow> None
     | Some t \<Rightarrow> if t = [] then None else Some (t, browser_current b))"

definition tauri_session :: "string \<Rightarrow> (string \<Rightarrow> int option) \<Rightarrow> int \<Rightarrow> tauri \<Rightarrow> (string \<times> jsval) option" where
  "tauri_session api_base exp now w =
     (let token = (case tauri_getToken api_base now w of
            (Some (Finished t), w1) \<Rightarrow> t
          | (_, w1) \<Rightarrow> (case ask_rust exp now w1 of (Finished t, w2) \<Rightarrow> str_or_null t | _ \<Rightarrow> None)) in
      case (token, current_user (tw_desktop w)) of (Some t, Some u) \<Rightarrow> Some (t, u) | _ \<Rightarrow> None)"

definition keepable :: "string \<Rightarrow> jsval \<Rightarrow> bool" where
  "keepable t u \<longleftrightarrow> t \<noteq> [] \<and> jclean u \<and> jtruthy u"

text \<open>Tokens that are not about to expire, as a login hands them out.\<close>

definition lasting :: "(string \<Rightarrow> int option) \<Rightarrow> int \<Rightarrow> string \<Rightarrow> jsval \<Rightarrow> bool" where
  "lasting exp now t u \<longleftrightarrow> t \<noteq> [] \<and> \<not> needs_refresh exp (now div 1000) t"

lemma storage_keys [simp]: "USER_KEY \<noteq> TOKEN_KEY" "USER_KEY \<noteq> REFRESH_KEY" "TOKEN_KEY \<noteq> REFRESH_KEY"
    "TOKEN_KEY \<noteq> USER_KEY" "REFRESH_KEY \<noteq> USER_KEY" "REFRESH_KEY \<noteq> TOKEN_KEY"
  by (simp_all add: USER_KEY_def TOKEN_KEY_def REFRESH_KEY_def)

lemma stringify_nonempty [simp]: "stringify v \<noteq> []"
  using stringify_length [of v] by auto

lemma read_mirrored:
  assumes "jclean u" "jtruthy u" "al_get (bw_ls b) USER_KEY = Some (stringify u)"
  shows "readUser b = u"
  using assms by (simp add: readUser_def json_roundtrip)

lemma mirror_get [simp]: "al_get (mirrorUser u ls) k = (if k = USER_KEY then (if jtruthy u then Some (stringify u) else None) else al_get ls k)"
  by (simp add: mirrorUser_def)

lemma browser_login_view:
  assumes "keepable t u"
  shows "browser_session (browser_setSession t r u b) = Some (t, u)"
proof -
  let ?b = "browser_setSession t r u b"
  have ls: "al_get (bw_ls ?b) TOKEN_KEY = Some t" "al_get (bw_ls ?b) USER_KEY = Some (stringify u)"
    using assms by (simp_all add: browser_setSession_def browserEmit_def Let_def keepable_def)
  then show ?thesis using assms read_mirrored [of u ?b]
    by (simp add: browser_session_def browser_getToken_def browser_current_def keepable_def)
qed

lemma browser_logout_view: "browser_session (browser_clear b) = None"
  by (simp add: browser_session_def browser_getToken_def browser_clear_def browserClearLocal_def browserEmit_def Let_def)

interpretation web: token_store browser_setSession browser_clear browser_session "\<lambda>b. True" keepable
  by unfold_locales (simp_all add: browser_login_view browser_logout_view)

lemma tauri_login_view:
  assumes "lasting exp now t u"
  shows "tauri_session api_base exp now (tauri_setSession api_base t r u w) = Some (t, u)"
proof -
  let ?w = "tauri_setSession api_base t r u w"
  have k: "current_token (tw_desktop ?w) = Some t" "current_user (tw_desktop ?w) = Some u"
    by (simp_all add: tauri_setSession_def auth_set_session_def emit_def persist_def revoke_in_background_def Let_def
        current_token_def current_user_def split: option.split)
  have "tw_cached ?w = None \<or> (\<exists>x. tw_cached ?w = Some (t, x))"
    using assms by (simp add: tauri_setSession_def cacheToken_def lasting_def Let_def split: option.split)
  moreover have "str_or_null (Some t) = Some t" using assms by (cases t) (simp_all add: lasting_def)
  ultimately show ?thesis using assms k
    by (auto simp: tauri_session_def tauri_getToken_def ask_rust_def valid_token_begin_def lasting_def ready_def)
qed

lemma tauri_logout_view: "tauri_session api_base exp now (tauri_clear api_base w) = None"
  by (simp add: tauri_session_def tauri_clear_def auth_logout_def end_session_def emit_def revoke_in_background_def ready_def
      current_user_def Let_def split: option.split prod.split)

interpretation native: token_store "tauri_setSession api_base" "tauri_clear api_base" "tauri_session api_base exp now"
    "\<lambda>w. True" "lasting exp now"
  for api_base exp now
  by unfold_locales (simp_all add: tauri_login_view tauri_logout_view)

fun browser_op :: "browser \<Rightarrow> store_op \<Rightarrow> browser" where
  "browser_op b (Log_in t r u) = browser_setSession t r u b"
| "browser_op b Sign_out = browser_clear b"

fun tauri_op :: "string \<Rightarrow> tauri \<Rightarrow> store_op \<Rightarrow> tauri" where
  "tauri_op api_base w (Log_in t r u) = tauri_setSession api_base t r u w"
| "tauri_op api_base w Sign_out = tauri_clear api_base w"

definition session_of :: "store_op \<Rightarrow> (string \<times> jsval) option" where
  "session_of op = (case op of Log_in t r u \<Rightarrow> Some (t, u) | Sign_out \<Rightarrow> None)"

definition kept_by :: "(string \<Rightarrow> jsval \<Rightarrow> bool) \<Rightarrow> store_op \<Rightarrow> bool" where
  "kept_by ok op = (case op of Log_in t r u \<Rightarrow> ok t u | Sign_out \<Rightarrow> True)"

lemma browser_op_step: "browser_op = web.step"
  by (intro ext) (metis browser_op.simps store_op.exhaust web.step.simps)

lemma tauri_op_step: "tauri_op api_base = native.step api_base"
  by (intro ext) (metis tauri_op.simps store_op.exhaust native.step.simps)

lemma kept_ok: "kept_by keepable = web.ok_op" "kept_by (lasting exp now) = native.ok_op exp now"
  by (simp_all add: fun_eq_iff kept_by_def web.ok_op_def native.ok_op_def)


definition fresh_browser :: browser where
  "fresh_browser = \<lparr>bw_ls = [], bw_refreshing = None, bw_posted = [], bw_logouts = [], bw_emitted = []\<rparr>"

definition fresh_tauri :: tauri where
  "fresh_tauri = \<lparr>tw_cached = None, tw_ls = [], tw_configured = False, tw_base = None, tw_desktop = signed_in\<rparr>"


section \<open>A late answer in the browser\<close>

text \<open>The browser's refresh does not look again before it stores its answer: when the user logs out and
  another logs in while it is on its way, the answer puts the first account's tokens under the
  second account's name, so every request acts for the first.\<close>

lemma late_answer_crosses_accounts:
  assumes "browser_onUnauthorized stale b = (In_flight, b1)" "b2 = browser_setSession tB rB uB (browser_clear b1)"
    and "keepable tB uB" "200 \<le> status" "status < 300" "tA \<noteq> []" "rA \<noteq> []"
  shows "browser_session (snd (browser_refreshed (Response status (Some tA) (Some rA)) b2)) = Some (tA, uB)
    \<and> al_get (bw_ls (snd (browser_refreshed (Response status (Some tA) (Some rA)) b2))) REFRESH_KEY = Some rA"
proof -
  let ?b = "snd (browser_refreshed (Response status (Some tA) (Some rA)) b2)"
  have ls: "al_get (bw_ls ?b) TOKEN_KEY = Some tA" "al_get (bw_ls ?b) REFRESH_KEY = Some rA" "al_get (bw_ls ?b) USER_KEY = Some (stringify uB)"
    using assms(3-7) by (simp_all add: browser_refreshed_def browserEmit_def Let_def assms(2) browser_setSession_def keepable_def)
  then show ?thesis using assms(3,6) read_mirrored [of uB ?b]
    by (simp add: browser_session_def browser_getToken_def browser_current_def keepable_def)
qed

definition ann_browser :: browser where
  "ann_browser = browser_setSession ''a0'' (Some ''t0'') (JStr ''ann'') fresh_browser"

lemma late_answer_crosses_accounts_witness:
  "let b1 = snd (browser_onUnauthorized (Some ''a0'') ann_browser); b2 = browser_setSession ''b0'' None (JStr ''bob'') (browser_clear b1);
       b3 = snd (browser_refreshed (Response 200 (Some ''a1'') (Some ''t1'')) b2) in
    browser_session b3 = Some (''a1'', JStr ''bob'') \<and> al_get (bw_ls b3) REFRESH_KEY = Some ''t1''"
proof -
  have start: "browser_onUnauthorized (Some ''a0'') ann_browser = (In_flight, snd (browser_onUnauthorized (Some ''a0'') ann_browser))"
    by (simp add: browser_onUnauthorized_def ann_browser_def fresh_browser_def browser_setSession_def browserEmit_def Let_def
      TOKEN_KEY_def REFRESH_KEY_def USER_KEY_def mirrorUser_def)
  show ?thesis unfolding Let_def
    by (rule late_answer_crosses_accounts [OF start refl]) (simp_all add: keepable_def)
qed

section \<open>Requests\<close>

text \<open>The same environment, counting requests and refreshes.\<close>

definition counting :: "'s api_env \<Rightarrow> ('s \<times> nat \<times> nat) api_env" where
  "counting e = \<lparr>ae_provider = ae_provider e,
     ae_token = (\<lambda>c. case ae_token e (fst c) of (t, s) \<Rightarrow> (t, (s, snd c))),
     ae_unauthorized = (\<lambda>t c. case ae_unauthorized e t (fst c) of (f, s) \<Rightarrow> (f, (s, fst (snd c), snd (snd c) + 1))),
     ae_expire = (\<lambda>c. (ae_expire e (fst c), snd c)),
     ae_send = (\<lambda>ep t c. case ae_send e ep t (fst c) of (r, s) \<Rightarrow> (r, (s, fst (snd c) + 1, snd (snd c))))\<rparr>"

text \<open>Whether a request may refresh: it carried the session's token, is not a retry and not of /auth/.\<close>

lemma fetch_once_counted:
  "\<exists>k. fetch_once (counting e) ep expected ov retry (s, n, m)
      = (fst (fetch_once e ep expected ov retry s), (snd (fetch_once e ep expected ov retry s), n + 1, m + k))
    \<and> k \<le> 1 \<and> (k = 1 \<longrightarrow> \<not> retry \<and> \<not> truthy ov \<and> \<not> starts_with ''/auth/'' ep)
    \<and> ((\<exists>t. fst (fetch_once e ep expected ov retry s) = Inr t) \<longrightarrow> k = 1)"
proof -
  let ?s1 = "if truthy ov then s else snd (ae_token e s)"
  let ?st = "if truthy ov then None else fst (ae_token e s)"
  obtain r s2 where send: "ae_send e ep (str_or_null (if truthy ov then ov else ?st)) ?s1 = (r, s2)" by fastforce
  let ?k = "if \<exists>status t j. r = Http status t j \<and> \<not> (200 \<le> status \<and> status < 300) \<and> status = 401 \<and> ae_provider e \<and> truthy ?st
    \<and> \<not> retry \<and> \<not> starts_with ''/auth/'' ep then 1 else (0 :: nat)"
  have "fetch_once (counting e) ep expected ov retry (s, n, m)
      = (fst (fetch_once e ep expected ov retry s), (snd (fetch_once e ep expected ov retry s), n + 1, m + ?k))"
    using send by (cases "ae_token e s"; cases r) (auto simp: fetch_once_def counting_def Let_def split: prod.splits)
  moreover have "(\<exists>t. fst (fetch_once e ep expected ov retry s) = Inr t) \<longrightarrow> ?k = 1"
    using send by (cases "ae_token e s"; cases r) (auto simp: fetch_once_def Let_def split: prod.splits if_splits)
  ultimately show ?thesis by (intro exI [of _ ?k]) auto
qed

text \<open>C15: a request is sent once or, after one refresh that brought a token, twice, and never more often; a login
  (any /auth/ route) and a request with a token of its own are sent once and refresh nothing.\<close>

theorem request_retried_once:
  assumes "fetchWithAuth (counting e) ep expected ov (s, 0, 0) = (r, s', n, m)"
  shows "fetchWithAuth e ep expected ov s = (r, s') \<and> 1 \<le> n \<and> n \<le> m + 1 \<and> m \<le> 1
    \<and> (truthy ov \<or> starts_with ''/auth/'' ep \<longrightarrow> n = 1 \<and> m = 0)"
proof -
  let ?f = "fetch_once e ep expected ov False s"
  obtain k where k: "fetch_once (counting e) ep expected ov False (s, 0, 0) = (fst ?f, (snd ?f, 0 + 1, 0 + k))" "k \<le> 1"
      "k = 1 \<longrightarrow> \<not> False \<and> \<not> truthy ov \<and> \<not> starts_with ''/auth/'' ep" "(\<exists>t. fst ?f = Inr t) \<longrightarrow> k = 1"
    using fetch_once_counted [where e = e and ep = ep and expected = expected and ov = ov and retry = False and s = s and n = 0 and m = 0]
    by (elim exE conjE)
  show ?thesis
  proof (cases "fst ?f")
    case (Inl a)
    then have "?f = (Inl a, snd ?f)" by (simp add: prod_eq_iff)
    then show ?thesis using assms k by (auto simp: fetchWithAuth_def split: prod.splits)
  next
    case (Inr t)
    let ?g = "fetch_once e ep expected ov True (snd ?f)"
    obtain j where j: "fetch_once (counting e) ep expected ov True (snd ?f, 1, k) = (fst ?g, (snd ?g, 1 + 1, k + j))"
        "j \<le> 1" "j = 1 \<longrightarrow> \<not> True \<and> \<not> truthy ov \<and> \<not> starts_with ''/auth/'' ep" "(\<exists>t. fst ?g = Inr t) \<longrightarrow> j = 1"
      using fetch_once_counted [where e = e and ep = ep and expected = expected and ov = ov and retry = True and s = "snd ?f" and n = 1 and m = k]
      by (elim exE conjE)
    have j0: "j = 0" using j(2,3) by (cases "j = 1") simp_all
    obtain b where g: "fst ?g = Inl b" using j(4) j0 by (cases "fst ?g") auto
    have "?f = (Inr t, snd ?f)" "?g = (Inl b, snd ?g)" using Inr g by (simp_all add: prod_eq_iff)
    then show ?thesis using assms k j(1) j0 Inr g by (auto simp: fetchWithAuth_def split: prod.splits)
  qed
qed

text \<open>A server that wants the token \<open>a1\<close>, and a provider whose refresh brings it.\<close>

definition picky_api :: "string api_env" where
  "picky_api = \<lparr>ae_provider = True, ae_token = (\<lambda>s. (Some s, s)), ae_unauthorized = (\<lambda>t s. (Some ''a1'', ''a1'')), ae_expire = (\<lambda>s. s),
     ae_send = (\<lambda>ep t s. (if t = Some ''a1'' then Http 200 [] (JObj []) else Http 401 ''Unauthorized'' (JObj []), s))\<rparr>"

lemma request_retried_once_witness:
  "fetchWithAuth picky_api ''/users/me'' [] None ''a0'' = (Inr (JObj []), ''a1'')
    \<and> fetchWithAuth (counting picky_api) ''/users/me'' [] None (''a0'', 0, 0) = (Inr (JObj []), ''a1'', 2, 1)"
proof -
  have "fetchWithAuth (counting picky_api) ''/users/me'' [] None (''a0'', 0, 0) = (Inr (JObj []), ''a1'', 2, 1)"
    by (simp add: fetchWithAuth_def fetch_once_def counting_def picky_api_def starts_with_def str_or_null_def)
  with request_retried_once [OF this] show ?thesis by blast
qed

section \<open>Starting without the server\<close>

text \<open>A desktop start that cannot reach the server shows the login screen but loses nothing: the saved session
  stays in its file, no window acts as signed in, no token is revoked, and the next restore loads
  the same session again.\<close>

lemma offline_restore_keeps_session:
  assumes "dk_saved k = Some sv" "sv_token sv = Some t" "sv_refresh sv = Some r" "sv_user sv = Some u"
    and "\<not> dk_loaded k" "dk_session k = None" "tw_desktop w = k" "exp t = Some x" "x \<le> now"
    and "se_store e = tauri_ops api_base exp now (Transient msg)"
    and "session_restore e w = (shown, w')" "k' = tw_desktop w'"
  shows "shown = JNull \<and> dk_saved k' = Some sv \<and> dk_session k' = None \<and> dk_revoked k' = dk_revoked k \<and> dk_emitted k' = dk_emitted k
    \<and> fst (auth_restore_load k') = Inr True \<and> current_token (snd (auth_restore_load k')) = Some t"
proof -
  have ready: "tw_desktop (ready api_base w) = k" using assms(7) by (simp add: ready_def)
  show ?thesis
    using assms(1-6,8-12) ready
    by (auto simp: session_restore_def tauri_ops_def auth_restore_def auth_restore_load_def auth_restore_end_def valid_token_begin_def
        refresh_begin_def refresh_answer_def refresh_settle_def valid_token_end_def needs_refresh_def REFRESH_LEEWAY_SECS_def
        current_token_def stored_of_def tauri_restored_def Let_def)
qed

definition saved_ann :: tauri where
  "saved_ann = fresh_tauri\<lparr>tw_desktop := signed_in\<lparr>dk_session := None, dk_loaded := False,
     dk_saved := Some \<lparr>sv_token = Some ''a0'', sv_refresh = Some ''t0'', sv_user = Some (JStr ''ann''), sv_email = None, sv_password = None\<rparr>\<rparr>\<rparr>"

definition offline_env :: "tauri session_env" where
  "offline_env = \<lparr>se_store = tauri_ops ''https://x'' (\<lambda>t. Some 0) 0 (Transient ''offline''), se_hwid = None,
     se_login = (\<lambda>m p h w. (Inl ''offline'', w)), se_profile = (\<lambda>w. (Inl ''offline'', w))\<rparr>"

lemma offline_restore_keeps_session_witness:
  "let (shown, w') = session_restore offline_env saved_ann; k = tw_desktop saved_ann; k' = tw_desktop w' in
    shown = JNull \<and> dk_saved k' = dk_saved k \<and> dk_session k' = None \<and> dk_revoked k' = dk_revoked k \<and> dk_emitted k' = dk_emitted k
    \<and> fst (auth_restore_load k') = Inr True \<and> current_token (snd (auth_restore_load k')) = Some ''a0''"
proof -
  obtain shown w' where r: "session_restore offline_env saved_ann = (shown, w')" by fastforce
  have sv: "dk_saved (tw_desktop saved_ann) = Some \<lparr>sv_token = Some ''a0'', sv_refresh = Some ''t0'', sv_user = Some (JStr ''ann''),
      sv_email = None, sv_password = None\<rparr>" by (simp add: saved_ann_def)
  have "shown = JNull \<and> dk_saved (tw_desktop w') = dk_saved (tw_desktop saved_ann) \<and> dk_session (tw_desktop w') = None
    \<and> dk_revoked (tw_desktop w') = dk_revoked (tw_desktop saved_ann) \<and> dk_emitted (tw_desktop w') = dk_emitted (tw_desktop saved_ann)
    \<and> fst (auth_restore_load (tw_desktop w')) = Inr True \<and> current_token (snd (auth_restore_load (tw_desktop w'))) = Some ''a0''"
    unfolding sv
    by (rule offline_restore_keeps_session [where exp = "\<lambda>t. Some 0" and now = 0 and x = 0 and api_base = "''https://x''"
          and msg = "''offline''", OF sv _ _ _ _ _ refl _ _ _ r refl])
      (simp_all add: saved_ann_def signed_in_def offline_env_def)
  then show ?thesis by (simp add: r)
qed

end
