(* ===== verification/Auth_Device_Service.thy ===== *)
theory Auth_Device_Service
  imports Auth_Props
begin

text \<open>
  The desktop's refresh (\<open>session.rs\<close>) against the identity service's rotation
  (\<open>authController.ts\<close>): a device that refreshes again and again, each time with its request or
  its answer possibly lost.
\<close>

section \<open>Attempts\<close>

datatype fate = Delivered | Answer_lost | Request_lost

text \<open>What the HTTP client makes of the service's answer; no answer at all is a timeout.\<close>

definition response_of :: "refreshed answer option \<Rightarrow> refresh_response" where
  "response_of a = (case a of None \<Rightarrow> Transient ''timeout''
     | Some (Done n b) \<Rightarrow> if 200 \<le> n \<and> n < 300 then Fresh (rf_token b) (rf_refresh b) else Transient ''refresh failed''
     | Some (Failed n m _) \<Rightarrow> if n = 401 \<or> n = 403 then Dead m else Transient m)"

definition posted_token :: "desktop \<Rightarrow> string" where
  "posted_token k = (case dk_stage k of Some (Posting p) \<Rightarrow> po_refresh p | _ \<Rightarrow> [])"

definition finish :: "refresh_response \<Rightarrow> desktop \<Rightarrow> desktop" where
  "finish resp k = snd (refresh_settle (refresh_answer resp k))"

text \<open>After \<open>n\<close> milliseconds the device's access token was refused and it refreshes.\<close>

definition refresh_attempt :: "crypto \<Rightarrow> string option \<Rightarrow> desktop \<times> auth_db \<Rightarrow> nat \<times> fate \<Rightarrow> desktop \<times> auth_db" where
  "refresh_attempt x ua kd nf = (let k = fst kd; d = pass_time (fst nf) (snd kd) in
     case refresh_begin (\<lambda>t. None) 0 (current_token k) k of
       (Finished t, k1) \<Rightarrow> (k1, d)
     | (In_flight, k1) \<Rightarrow> (case snd nf of
           Request_lost \<Rightarrow> (finish (Transient ''timeout'') k1, d)
         | Answer_lost \<Rightarrow> (finish (Transient ''timeout'') k1, snd (refresh x (posted_token k1) ua d))
         | Delivered \<Rightarrow> (finish (response_of (fst (refresh x (posted_token k1) ua d))) k1, snd (refresh x (posted_token k1) ua d))))"

text \<open>
  The times that are in order: a refresh reaches the service before its token expires, \<open>age\<close>
  after the token was issued, and within a minute (\<open>lost\<close> counts it) of a refresh whose answer
  was lost.
\<close>

fun in_time :: "int \<Rightarrow> int option \<Rightarrow> (nat \<times> fate) list \<Rightarrow> bool" where
  "in_time age lost [] = True"
| "in_time age lost ((n, f) # as) = (case lost of
     None \<Rightarrow> (f \<noteq> Request_lost \<longrightarrow> age + int n < REFRESH_TOKEN_TTL_MS)
       \<and> in_time (if f = Request_lost then age + int n else 0) (if f = Answer_lost then Some 0 else None) as
   | Some e \<Rightarrow> (f \<noteq> Request_lost \<longrightarrow> e + int n < REFRESH_REUSE_GRACE_SECONDS * 1000)
       \<and> in_time (e + int n) (if f = Delivered then None else Some (e + int n)) as)"

section \<open>The device's side of an attempt\<close>

lemmas device_steps = refresh_begin_def current_token_def posted_token_def finish_def refresh_answer_def refresh_settle_def
  emit_def persist_def

lemma refresh_attempt_device:
  assumes "dk_session k = Some s" "ds_refresh s = Some tok" "dk_stage k = None"
  shows "snd (refresh_attempt x ua (k, d) (n, f)) = (if f = Request_lost then pass_time n d else snd (refresh x tok ua (pass_time n d)))"
    and "f \<noteq> Delivered \<Longrightarrow> dk_stage (fst (refresh_attempt x ua (k, d) (n, f))) = None \<and> dk_session (fst (refresh_attempt x ua (k, d) (n, f))) = Some s"
    and "f = Delivered \<Longrightarrow> replays succ (fst (refresh x tok ua (pass_time n d))) \<Longrightarrow> dk_stage (fst (refresh_attempt x ua (k, d) (n, f))) = None
      \<and> (\<exists>t. dk_session (fst (refresh_attempt x ua (k, d) (n, f))) = Some \<lparr>ds_token = t, ds_refresh = Some succ, ds_user = ds_user s\<rparr>)"
proof -
  show "snd (refresh_attempt x ua (k, d) (n, f)) = (if f = Request_lost then pass_time n d else snd (refresh x tok ua (pass_time n d)))"
    using assms by (simp add: refresh_attempt_def Let_def device_steps split: fate.split)
  show "dk_stage (fst (refresh_attempt x ua (k, d) (n, f))) = None \<and> dk_session (fst (refresh_attempt x ua (k, d) (n, f))) = Some s" if "f \<noteq> Delivered"
    using assms that by (cases f) (simp_all add: refresh_attempt_def Let_def device_steps)
  show "dk_stage (fst (refresh_attempt x ua (k, d) (n, f))) = None
      \<and> (\<exists>t. dk_session (fst (refresh_attempt x ua (k, d) (n, f))) = Some \<lparr>ds_token = t, ds_refresh = Some succ, ds_user = ds_user s\<rparr>)"
    if f: "f = Delivered" and answer: "replays succ (fst (refresh x tok ua (pass_time n d)))"
  proof -
    obtain b where "fst (refresh x tok ua (pass_time n d)) = Some (Done 200 b)" "rf_refresh b = succ"
      using answer by (auto simp: replays_def split: option.splits answer.splits)
    then show ?thesis using assms f by (simp add: refresh_attempt_def Let_def device_steps response_of_def)
  qed
qed

section \<open>The service's side\<close>

lemma hashes_of_rotation: "map rt_hash (ad_tokens (rotate_token sh r d)) = map rt_hash (ad_tokens d) @ [sh]"
  by (simp add: rotate_token_def insert_token_def map_tokens_def supersede_def comp_def)

lemma refresh_grows: "\<exists>hs. map rt_hash (ad_tokens (snd (refresh x tok ua d))) = map rt_hash (ad_tokens d) @ hs"
proof -
  have "map rt_hash (ad_tokens (revoke_user u d)) = map rt_hash (ad_tokens d)" for u
    by (simp add: revoke_user_def map_tokens_def comp_def if_distrib cong: if_cong)
  then show ?thesis by (auto simp: refresh_def Let_def hashes_of_rotation split: option.split)
qed

lemma attempt_grows: "\<exists>hs. map rt_hash (ad_tokens (snd (refresh_attempt x ua kd nf))) = map rt_hash (ad_tokens (snd kd)) @ hs"
  using refresh_grows [of x _ ua "pass_time (fst nf) (snd kd)"]
  by (auto simp: refresh_attempt_def Let_def split: prod.split flight.split fate.split)

lemma attempts_grow: "\<exists>hs. map rt_hash (ad_tokens (snd (foldl (refresh_attempt x ua) kd as))) = map rt_hash (ad_tokens (snd kd)) @ hs"
proof (induction as arbitrary: kd)
  case (Cons a as)
  from Cons.IH [of "refresh_attempt x ua kd a"] attempt_grows [of x ua kd a] show ?case by auto
qed simp

text \<open>The new row of a rotation is found by its hash when no other row has it.\<close>

lemma rotated_new:
  assumes "ids_ok d" "token_row h d = Some (r, c)" "rt_revoked r = None" "sh \<notin> set (map rt_hash (ad_tokens d))"
  shows "token_row sh (rotate_token sh r d) = Some (\<lparr>rt_id = ad_next d, rt_user = rt_user r, rt_hash = sh,
      rt_expires = ad_clock d + REFRESH_TOKEN_TTL_MS, rt_revoked = None, rt_replaced = None\<rparr>, c)"
proof -
  have old: "find (\<lambda>p. rt_hash (fst p) = sh) (concat (map (\<lambda>r. case find_user (\<lambda>u. u_id u = rt_user r) d of None \<Rightarrow> []
      | Some u \<Rightarrow> [(r, u_callsign u)]) rs)) = None" if "sh \<notin> set (map rt_hash rs)" for rs :: "refresh_row list"
    using that by (auto simp: find_None_iff split: option.splits)
  have "\<exists>u. find_user (\<lambda>u. u_id u = rt_user r) d = Some u \<and> u_callsign u = c"
    using find_in [OF assms(2) [unfolded token_row_def]] by (cases "find_user (\<lambda>u. u_id u = rt_user r) d") auto
  then have "token_row sh (snd (insert_token (rt_user r) sh d)) = Some (\<lparr>rt_id = ad_next d, rt_user = rt_user r, rt_hash = sh,
      rt_expires = ad_clock d + REFRESH_TOKEN_TTL_MS, rt_revoked = None, rt_replaced = None\<rparr>, c)"
    using old [OF assms(4)] by (auto simp: token_row_def insert_token_def find_user_def find_append)
  moreover have "rt_id r \<noteq> ad_next d" using token_row_in [OF assms(2)] assms(1) by (auto simp: ids_ok_def)
  moreover have "rotate_token sh r d = map_tokens (supersede (rt_id r) (ad_now d) (ad_next d)) (snd (insert_token (rt_user r) sh d))"
    by (simp add: rotate_token_def insert_token_def)
  ultimately show ?thesis by (simp add: token_row_map supersede_def)
qed

section \<open>The invariant\<close>

text \<open>
  The device's refresh token has a row of the session's user; \<open>r0\<close> is the row at the start in the
  tables \<open>d0\<close>, whose other rows stay.  Before a lost answer the row is live; after one, \<open>e\<close>
  milliseconds ago, its successor is live and the device's next request derives it.
\<close>

definition token_linked :: "crypto \<Rightarrow> string option \<Rightarrow> auth_db \<Rightarrow> nat \<Rightarrow> string \<Rightarrow> refresh_row \<Rightarrow> string \<Rightarrow> int \<Rightarrow> int option \<Rightarrow> bool" where
  "token_linked x ua d first tok r c age lost \<longleftrightarrow> token_row (hashRefreshToken x tok) d = Some (r, c) \<and> (case lost of
     None \<Rightarrow> rt_revoked r = None \<and> ad_now d + REFRESH_TOKEN_TTL_MS \<le> rt_expires r + age
   | Some e \<Rightarrow> 0 \<le> e \<and> rt_revoked r = Some (ad_now d - e) \<and> (\<exists>succ i v. deriveSuccessorRefreshToken x tok (or_else ua []) = Some succ
       \<and> rt_replaced r = Some i \<and> row_by_id i d = Some v \<and> token_row (hashRefreshToken x succ) d = Some (v, c)
       \<and> rt_revoked v = None \<and> rt_user v = rt_user r \<and> first \<le> rt_id v \<and> ad_now d + REFRESH_TOKEN_TTL_MS \<le> rt_expires v + e))"

definition linked :: "crypto \<Rightarrow> string option \<Rightarrow> auth_db \<Rightarrow> refresh_row \<Rightarrow> jsval \<Rightarrow> desktop \<times> auth_db \<Rightarrow> int \<Rightarrow> int option \<Rightarrow> bool" where
  "linked x ua d0 r0 u kd age lost \<longleftrightarrow> ids_ok (snd kd) \<and> \<not> ad_down (snd kd) \<and> ad_clock (snd kd) = ad_now (snd kd)
     \<and> dk_stage (fst kd) = None \<and> ad_next d0 \<le> ad_next (snd kd)
     \<and> (\<forall>q \<in> set (ad_tokens d0). rt_id q \<noteq> rt_id r0 \<longrightarrow> q \<in> set (ad_tokens (snd kd)))
     \<and> (\<exists>s tok r c. dk_session (fst kd) = Some s \<and> ds_refresh s = Some tok \<and> ds_user s = u \<and> rt_user r = rt_user r0
        \<and> (rt_id r = rt_id r0 \<or> ad_next d0 \<le> rt_id r) \<and> token_linked x ua (snd kd) (ad_next d0) tok r c age lost)"

lemma token_linked_time:
  "token_linked x ua d first tok r c age lost \<Longrightarrow>
    token_linked x ua (pass_time n d) first tok r c (age + int n) (map_option (\<lambda>e. e + int n) lost)"
  by (auto simp: token_linked_def split: option.splits)

text \<open>The service answers a linked device, and the successor's row is live afterwards.\<close>

lemma linked_answer:
  assumes "token_linked x ua d first tok r c age lost" "ids_ok d" "\<not> ad_down d" "ad_clock d = ad_now d"
    and "deriveSuccessorRefreshToken x tok (or_else ua []) = Some succ"
    and "case lost of None \<Rightarrow> age < REFRESH_TOKEN_TTL_MS | Some e \<Rightarrow> e < REFRESH_REUSE_GRACE_SECONDS * 1000"
    and "distinct (map rt_hash (ad_tokens (snd (refresh x tok ua d))))" "first \<le> ad_next d"
  defines "d' \<equiv> snd (refresh x tok ua d)" and "e \<equiv> or_else lost 0"
  shows "replays succ (fst (refresh x tok ua d))" "ad_now d' = ad_now d" "ad_clock d' = ad_now d" "\<not> ad_down d'" "ad_next d \<le> ad_next d'"
    and "\<exists>r'. rt_user r' = rt_user r \<and> rt_id r' = rt_id r \<and> token_linked x ua d' first tok r' c e (Some e)"
    and "\<exists>v. rt_user v = rt_user r \<and> first \<le> rt_id v \<and> token_linked x ua d' first succ v c e None"
    and "q \<in> set (ad_tokens d) \<Longrightarrow> rt_id q \<noteq> rt_id r \<Longrightarrow> q \<in> set (ad_tokens d')"
proof -
  have ttl: "REFRESH_REUSE_GRACE_SECONDS * 1000 < REFRESH_TOKEN_TTL_MS" by (simp add: REFRESH_TOKEN_TTL_MS_def REFRESH_REUSE_GRACE_SECONDS_def)
  have row: "token_row (hashRefreshToken x tok) d = Some (r, c)" using assms(1) by (simp add: token_linked_def)
  have "replays succ (fst (refresh x tok ua d)) \<and> ad_now d' = ad_now d \<and> ad_clock d' = ad_now d \<and> \<not> ad_down d' \<and> ad_next d \<le> ad_next d'
    \<and> (\<exists>r'. rt_user r' = rt_user r \<and> rt_id r' = rt_id r \<and> token_linked x ua d' first tok r' c e (Some e))
    \<and> (\<exists>v. rt_user v = rt_user r \<and> first \<le> rt_id v \<and> token_linked x ua d' first succ v c e None)
    \<and> (q \<in> set (ad_tokens d) \<longrightarrow> rt_id q \<noteq> rt_id r \<longrightarrow> q \<in> set (ad_tokens d'))"
  proof (cases lost)
    case None
    then have live: "rt_revoked r = None" "\<not> expired d r"
      using assms(1,6) by (auto simp: token_linked_def expired_def)
    note rot = rotation [OF assms(2,3) row live assms(5)]
    have d': "d' = rotate_token (hashRefreshToken x succ) r d" by (simp add: d'_def rot(2))
    have "hashRefreshToken x succ \<notin> set (map rt_hash (ad_tokens d))"
      using assms(7) by (simp add: rot(2) hashes_of_rotation)
    note new = rotated_new [OF assms(2) row live(1) this] and rows = rotated_rows [OF assms(2) row live(1), of "hashRefreshToken x succ"]
    have same: "ad_now d' = ad_now d" "ad_clock d' = ad_clock d" "ad_down d' = ad_down d" "ad_next d' = Suc (ad_next d)"
      by (simp_all add: d' rotate_token_def insert_token_def map_tokens_def)
    have "q \<in> set (ad_tokens d) \<longrightarrow> rt_id q \<noteq> rt_id r \<longrightarrow> q \<in> set (ad_tokens d')"
      by (auto simp: d' rotate_token_def insert_token_def map_tokens_def supersede_def image_iff)
    then show ?thesis using rot(1) new rows same assms(3,4,5,8) None
      by (auto simp: token_linked_def e_def d')
  next
    case (Some e0)
    then obtain succ' i v where lk: "0 \<le> e0" "rt_revoked r = Some (ad_now d - e0)" "deriveSuccessorRefreshToken x tok (or_else ua []) = Some succ'"
       "rt_replaced r = Some i" "row_by_id i d = Some v" "token_row (hashRefreshToken x succ') d = Some (v, c)"
       "rt_revoked v = None" "rt_user v = rt_user r" "first \<le> rt_id v" "ad_now d + REFRESH_TOKEN_TTL_MS \<le> rt_expires v + e0"
      using assms(1) by (auto simp: token_linked_def)
    have "rt_hash v = hashRefreshToken x succ" using lk(3,6) assms(5) token_row_in by auto
    then have rp: "replayable x tok succ d 0"
      using lk row assms(3,6) Some ttl unfolding replayable_def by (auto simp: REFRESH_REUSE_GRACE_SECONDS_def)
    note answer = replay_answer [OF assms(5) rp]
    then have "d' = d" by (simp add: d'_def)
    then show ?thesis using answer lk row assms(1,3-5) Some by (auto simp: token_linked_def e_def)
  qed
  then show "replays succ (fst (refresh x tok ua d))" "ad_now d' = ad_now d" "ad_clock d' = ad_now d" "\<not> ad_down d'" "ad_next d \<le> ad_next d'"
    and "\<exists>r'. rt_user r' = rt_user r \<and> rt_id r' = rt_id r \<and> token_linked x ua d' first tok r' c e (Some e)"
    and "\<exists>v. rt_user v = rt_user r \<and> first \<le> rt_id v \<and> token_linked x ua d' first succ v c e None"
    and "q \<in> set (ad_tokens d) \<Longrightarrow> rt_id q \<noteq> rt_id r \<Longrightarrow> q \<in> set (ad_tokens d')"
    by blast+
qed

text \<open>What an attempt makes of the age of the token and of the time since a lost answer.\<close>

fun age_after :: "int \<Rightarrow> int option \<Rightarrow> nat \<times> fate \<Rightarrow> int" where
  "age_after age None (n, f) = (if f = Request_lost then age + int n else 0)"
| "age_after age (Some e) (n, f) = e + int n"

fun lost_after :: "int option \<Rightarrow> nat \<times> fate \<Rightarrow> int option" where
  "lost_after None (n, f) = (if f = Answer_lost then Some 0 else None)"
| "lost_after (Some e) (n, f) = (if f = Delivered then None else Some (e + int n))"

definition in_order :: "int \<Rightarrow> int option \<Rightarrow> nat \<times> fate \<Rightarrow> bool" where
  "in_order age lost nf \<longleftrightarrow> (snd nf \<noteq> Request_lost \<longrightarrow> (case lost of None \<Rightarrow> age + int (fst nf) < REFRESH_TOKEN_TTL_MS
     | Some e \<Rightarrow> e + int (fst nf) < REFRESH_REUSE_GRACE_SECONDS * 1000))"

lemma in_time_Cons: "in_time age lost (nf # as) \<longleftrightarrow> in_order age lost nf \<and> in_time (age_after age lost nf) (lost_after lost nf) as"
  by (cases nf; cases lost) (auto simp: in_order_def)

lemma derives: "getJwtSecret x \<noteq> None \<Longrightarrow> \<exists>succ. deriveSuccessorRefreshToken x tok ua = Some succ"
  by (auto simp: deriveSuccessorRefreshToken_def successorKey_def)

lemma linked_attempt:
  assumes "linked x ua d0 r0 u kd age lost" "in_order age lost nf" "getJwtSecret x \<noteq> None" "ids_ok d0"
    and "distinct (map rt_hash (ad_tokens (snd (refresh_attempt x ua kd nf))))"
  shows "linked x ua d0 r0 u (refresh_attempt x ua kd nf) (age_after age lost nf) (lost_after lost nf)"
proof -
  obtain k d n f where [simp]: "kd = (k, d)" "nf = (n, f)" by (cases kd; cases nf)
  obtain s tok r c where s: "dk_session k = Some s" "ds_refresh s = Some tok" "dk_stage k = None" "ds_user s = u"
    and r: "rt_user r = rt_user r0" "rt_id r = rt_id r0 \<or> ad_next d0 \<le> rt_id r" "token_linked x ua d (ad_next d0) tok r c age lost"
    using assms(1) by (auto simp: linked_def)
  have base: "ids_ok d" "\<not> ad_down d" "ad_clock d = ad_now d" "ad_next d0 \<le> ad_next d"
      "\<forall>q \<in> set (ad_tokens d0). rt_id q \<noteq> rt_id r0 \<longrightarrow> q \<in> set (ad_tokens d)"
    using assms(1) by (auto simp: linked_def)
  let ?d = "pass_time n d"
  have time: "ids_ok ?d" "\<not> ad_down ?d" "ad_clock ?d = ad_now ?d" "ad_next d0 \<le> ad_next ?d"
      "token_linked x ua ?d (ad_next d0) tok r c (age + int n) (map_option (\<lambda>e. e + int n) lost)"
    using base token_linked_time [OF r(3)] by (simp_all add: pass_time_def ids_ok_def)
  note device = refresh_attempt_device [OF s(1-3), where x = x and ua = ua and d = d and n = n and f = f]
  show ?thesis
  proof (cases "f = Request_lost")
    case True
    then have "age_after age lost nf = (if lost = None then age + int n else or_else lost 0 + int n)"
      "lost_after lost nf = map_option (\<lambda>e. e + int n) lost" by (cases lost; simp)+
    moreover have "token_linked x ua ?d (ad_next d0) tok r c a (map_option (\<lambda>e. e + int n) lost)"
      if "lost = None \<longrightarrow> a = age + int n" for a
      using time(5) that by (auto simp: token_linked_def split: option.splits)
    ultimately have "token_linked x ua ?d (ad_next d0) tok r c (age_after age lost nf) (lost_after lost nf)" by simp
    moreover have "snd (refresh_attempt x ua kd nf) = ?d" "dk_session (fst (refresh_attempt x ua kd nf)) = Some s" "dk_stage (fst (refresh_attempt x ua kd nf)) = None"
      using device True by simp_all
    ultimately show ?thesis unfolding linked_def using s(2,4) r(1,2) base(5) time by auto
  next
    case False
    obtain succ where succ: "deriveSuccessorRefreshToken x tok (or_else ua []) = Some succ" using derives [OF assms(3)] by blast
    have dist: "distinct (map rt_hash (ad_tokens (snd (refresh x tok ua ?d))))" using assms(5) device(1) False by simp
    have bound: "case map_option (\<lambda>e. e + int n) lost of None \<Rightarrow> age + int n < REFRESH_TOKEN_TTL_MS
        | Some e \<Rightarrow> e < REFRESH_REUSE_GRACE_SECONDS * 1000"
      using assms(2) False by (auto simp: in_order_def split: option.splits)
    note answer = linked_answer [OF time(5,1-3) succ bound dist time(4)]
    have kept: "q \<in> set (ad_tokens (snd (refresh x tok ua ?d)))" if q: "q \<in> set (ad_tokens d0)" "rt_id q \<noteq> rt_id r0" for q
    proof (rule answer(8))
      show "q \<in> set (ad_tokens ?d)" using base(5) q by simp
      have "rt_id q < ad_next d0" using assms(4) q(1) by (simp add: ids_ok_def)
      then show "rt_id q \<noteq> rt_id r" using r(2) q(2) by auto
    qed
    have ids: "ids_ok (snd (refresh x tok ua ?d))" using refresh_tame [OF time(1)] by (simp add: tame_def)
    have later: "ad_next d0 \<le> ad_next (snd (refresh x tok ua ?d))" using answer(5) time(4) by linarith
    show ?thesis
    proof (cases "f = Delivered")
      case True
      then obtain t where "dk_stage (fst (refresh_attempt x ua kd nf)) = None"
        "dk_session (fst (refresh_attempt x ua kd nf)) = Some \<lparr>ds_token = t, ds_refresh = Some succ, ds_user = u\<rparr>"
        using device(3) [OF True answer(1)] s(4) by auto
      moreover have "age_after age lost nf = or_else (map_option (\<lambda>e. e + int n) lost) 0" "lost_after lost nf = None"
        using True by (cases lost; simp)+
      ultimately show ?thesis using answer(2-4,7) ids later kept device(1) True r(1) by (auto simp: linked_def)
    next
      case lost_answer: False
      have "age_after age lost nf = or_else (map_option (\<lambda>e. e + int n) lost) 0"
          "lost_after lost nf = Some (or_else (map_option (\<lambda>e. e + int n) lost) 0)"
        using False lost_answer by (cases lost; cases f; simp)+
      then show ?thesis using answer(2-4,6) ids later kept device(1,2) lost_answer False r(1,2) s by (auto simp: linked_def)
    qed
  qed
qed

lemma linked_attempts:
  assumes "linked x ua d0 r0 u kd age lost" "in_time age lost as" "getJwtSecret x \<noteq> None" "ids_ok d0"
    and "distinct (map rt_hash (ad_tokens (snd (foldl (refresh_attempt x ua) kd as))))"
  shows "\<exists>age' lost'. linked x ua d0 r0 u (foldl (refresh_attempt x ua) kd as) age' lost'"
  using assms(1,2,5)
proof (induction as arbitrary: kd age lost)
  case (Cons nf as)
  obtain hs where "map rt_hash (ad_tokens (snd (foldl (refresh_attempt x ua) (refresh_attempt x ua kd nf) as)))
      = map rt_hash (ad_tokens (snd (refresh_attempt x ua kd nf))) @ hs" using attempts_grow by blast
  then have "distinct (map rt_hash (ad_tokens (snd (refresh_attempt x ua kd nf))))" using Cons.prems(3) by simp
  then have "linked x ua d0 r0 u (refresh_attempt x ua kd nf) (age_after age lost nf) (lost_after lost nf)"
    using linked_attempt [OF Cons.prems(1) _ assms(3,4)] Cons.prems(2) by (simp add: in_time_Cons)
  then show ?case using Cons.IH Cons.prems(2,3) by (simp add: in_time_Cons)
qed auto

text \<open>C10: a signed-in desktop that refreshes over an unreliable network stays signed in: whatever requests and
  answers get lost, if it asks again within a minute of a lost answer and before its token expires,
  the service never takes a retry for theft: the device keeps its session and a refresh token whose
  row, or whose direct successor, is live, and the sessions of the user's other devices are not
  touched.\<close>

theorem device_survives_lost_answers:
  assumes "ids_ok d" "\<not> ad_down d" "ad_clock d = ad_now d" "getJwtSecret x \<noteq> None"
    and "dk_session k = Some s" "ds_refresh s = Some tok" "dk_stage k = None"
    and "token_row (hashRefreshToken x tok) d = Some (r, c)" "rt_revoked r = None" "ad_now d + REFRESH_TOKEN_TTL_MS \<le> rt_expires r + age"
    and "in_time age None as" "foldl (refresh_attempt x ua) (k, d) as = (k', d')" "distinct (map rt_hash (ad_tokens d'))"
  shows "(\<exists>s' tok' r' c'. dk_session k' = Some s' \<and> ds_user s' = ds_user s \<and> ds_refresh s' = Some tok'
      \<and> token_row (hashRefreshToken x tok') d' = Some (r', c') \<and> rt_user r' = rt_user r
      \<and> (rt_revoked r' = None \<or> (\<exists>i v. rt_replaced r' = Some i \<and> row_by_id i d' = Some v \<and> rt_revoked v = None)))
    \<and> set (ad_tokens d) - {r} \<subseteq> set (ad_tokens d')"
proof -
  have "linked x ua d r (ds_user s) (k, d) age None"
    using assms(1-3,5-10) by (auto simp: linked_def token_linked_def)
  from linked_attempts [OF this assms(11,4,1)] obtain age' lost' where l: "linked x ua d r (ds_user s) (k', d') age' lost'"
    using assms(12,13) by auto
  have "r \<in> set (ad_tokens d)" using token_row_in [OF assms(8)] by simp
  then have "rt_id q \<noteq> rt_id r" if "q \<in> set (ad_tokens d)" "q \<noteq> r" for q
    using assms(1) that by (auto simp: ids_ok_def distinct_map inj_on_def)
  then have "set (ad_tokens d) - {r} \<subseteq> set (ad_tokens d')" using l by (auto simp: linked_def)
  moreover have "\<exists>s' tok' r' c'. dk_session k' = Some s' \<and> ds_user s' = ds_user s \<and> ds_refresh s' = Some tok'
      \<and> token_row (hashRefreshToken x tok') d' = Some (r', c') \<and> rt_user r' = rt_user r
      \<and> (rt_revoked r' = None \<or> (\<exists>i v. rt_replaced r' = Some i \<and> row_by_id i d' = Some v \<and> rt_revoked v = None))"
    using l unfolding linked_def token_linked_def by (cases lost') (simp, blast)+
  ultimately show ?thesis by blast
qed

text \<open>Two lost answers within the minute, then one that arrives.\<close>

definition ann_devices :: auth_db where
  "ann_devices = ann_db [token_at 0 ''t0'' None None, token_at 1 ''phone'' None None]"

lemma device_survives_lost_answers_witness:
  "let (k, d) = foldl (refresh_attempt plain_crypto None) (signed_in, ann_devices) [(1000, Answer_lost), (20000, Answer_lost), (20000, Delivered)] in
    (\<exists>s' tok' r' c'. dk_session k = Some s' \<and> ds_user s' = JStr ''ann'' \<and> ds_refresh s' = Some tok'
      \<and> token_row (hashRefreshToken plain_crypto tok') d = Some (r', c') \<and> rt_user r' = ''u1''
      \<and> (rt_revoked r' = None \<or> (\<exists>i v. rt_replaced r' = Some i \<and> row_by_id i d = Some v \<and> rt_revoked v = None)))
    \<and> set (ad_tokens ann_devices) - {token_at 0 ''t0'' None None} \<subseteq> set (ad_tokens d)"
proof -
  let ?as = "[(1000, Answer_lost), (20000, Answer_lost), (20000, Delivered)]"
  obtain k d where run: "foldl (refresh_attempt plain_crypto None) (signed_in, ann_devices) ?as = (k, d)" by fastforce
  have "distinct (map rt_hash (ad_tokens (snd (foldl (refresh_attempt plain_crypto None) (signed_in, ann_devices) ?as))))"
    by (simp add: refresh_attempt_def Let_def device_steps signed_in_def ann_devices_def plain_defs pass_time_def refresh_def auth_ops
      rotate_token_def insert_token_def map_tokens_def supersede_def signAccessToken_def REFRESH_TOKEN_TTL_MS_def REFRESH_REUSE_GRACE_SECONDS_def)
  then have "distinct (map rt_hash (ad_tokens d))" by (simp only: run snd_conv)
  then have "(\<exists>s' tok' r' c'. dk_session k = Some s' \<and> ds_user s' = ds_user \<lparr>ds_token = ''a0'', ds_refresh = Some ''t0'', ds_user = JStr ''ann''\<rparr> \<and> ds_refresh s' = Some tok'
      \<and> token_row (hashRefreshToken plain_crypto tok') d = Some (r', c') \<and> rt_user r' = rt_user (token_at 0 ''t0'' None None)
      \<and> (rt_revoked r' = None \<or> (\<exists>i v. rt_replaced r' = Some i \<and> row_by_id i d = Some v \<and> rt_revoked v = None)))
    \<and> set (ad_tokens ann_devices) - {token_at 0 ''t0'' None None} \<subseteq> set (ad_tokens d)"
    by (intro device_survives_lost_answers [where age = 0 and c = "''ann''", OF _ _ _ _ _ _ _ _ _ _ _ run])
      (simp_all add: ann_devices_def plain_defs ids_ok_def auth_ops signed_in_def REFRESH_TOKEN_TTL_MS_def REFRESH_REUSE_GRACE_SECONDS_def)
  then show ?thesis unfolding run by (simp add: token_at_def)
qed

end
