(* ===== verification/Calendar.thy ===== *)
theory Calendar
  imports SC_Prelude
begin

text \<open>
  The dates of the service: JavaScript's \<open>Date\<close> arithmetic on months (UTC, as the containers run)
  and the buckets of \<open>date_trunc\<close>.  Days are counted from 1 January 1970; months are counted
  from year 0, January being the first of the twelve.
\<close>

section \<open>Days and months\<close>

definition leap :: "int \<Rightarrow> bool" where
  "leap y \<longleftrightarrow> y mod 4 = 0 \<and> (y mod 100 \<noteq> 0 \<or> y mod 400 = 0)"

definition year_start :: "int \<Rightarrow> int" where
  "year_start y = 365 * (y - 1970) + (y - 1969) div 4 - (y - 1901) div 100 + (y - 1601) div 400"

definition days_before :: "int list" where
  "days_before = [0, 31, 59, 90, 120, 151, 181, 212, 243, 273, 304, 334]"

definition month_start :: "int \<Rightarrow> int" where
  "month_start am = (let y = am div 12; m = am mod 12 in
     year_start y + days_before ! nat m + (if m \<ge> 2 \<and> leap y then 1 else 0))"

definition month_length :: "int \<Rightarrow> int" where
  "month_length am = month_start (am + 1) - month_start am"

lemma div_next:
  assumes "0 < k"
  shows "((x :: int) + 1) div k = x div k + (if (x + 1) mod k = 0 then 1 else 0)"
proof (cases "x mod k + 1 = k")
  case True
  then have "x + 1 = k * (x div k + 1)" using mult_div_mod_eq [of k x] by (simp only: distrib_left mult_1_right)
  then show ?thesis using assms by simp
next
  case False
  then have r: "0 \<le> x mod k + 1" "x mod k + 1 < k" using assms pos_mod_bound [OF assms, of x] pos_mod_sign [OF assms, of x] by linarith+
  have x: "x + 1 = k * (x div k) + (x mod k + 1)" by simp
  have "(x + 1) div k = x div k" "(x + 1) mod k = x mod k + 1"
    using int_div_pos_eq [OF x r] int_mod_pos_eq [OF x r] by simp_all
  moreover have "x mod k + 1 \<noteq> 0" using pos_mod_sign [OF assms, of x] by linarith
  ultimately show ?thesis by simp
qed

lemma year_start_Suc: "year_start (y + 1) = year_start y + 365 + (if leap y then 1 else 0)"
proof -
  have a: "(y + 1 - 1969) div 4 = (y - 1969) div 4 + (if y mod 4 = 0 then 1 else 0)"
    using div_next [of 4 "y - 1969"] mod_diff_eq [of y 4 1968] by simp
  have b: "(y + 1 - 1901) div 100 = (y - 1901) div 100 + (if y mod 100 = 0 then 1 else 0)"
    using div_next [of 100 "y - 1901"] mod_diff_eq [of y 100 1900] by simp
  have c: "(y + 1 - 1601) div 400 = (y - 1601) div 400 + (if y mod 400 = 0 then 1 else 0)"
    using div_next [of 400 "y - 1601"] mod_diff_eq [of y 400 1600] by simp
  have d: "y mod 400 = 0 \<Longrightarrow> y mod 100 = 0" using mod_mod_cancel [of 100 400 y] by simp
  have e: "y mod 100 = 0 \<Longrightarrow> y mod 4 = 0" using mod_mod_cancel [of 4 100 y] by simp
  show ?thesis unfolding year_start_def leap_def a b c
    by (cases "y mod 4 = 0"; cases "y mod 100 = 0"; cases "y mod 400 = 0") (use d e in simp_all)
qed

lemma month_of_year:
  assumes "0 \<le> m" "m < 12"
  shows "month_start (12 * y + m) = year_start y + days_before ! nat m + (if m \<ge> 2 \<and> leap y then 1 else 0)"
  using assms by (simp add: month_start_def Let_def)

lemma twelve_months:
  assumes "0 \<le> (m :: int)" "m < 12"
  shows "m = 0 \<or> m = 1 \<or> m = 2 \<or> m = 3 \<or> m = 4 \<or> m = 5 \<or> m = 6 \<or> m = 7 \<or> m = 8 \<or> m = 9 \<or> m = 10 \<or> m = 11"
  using assms by presburger

lemma month_length_bounds: "28 \<le> month_length am \<and> month_length am \<le> 31"
proof -
  define y m where "y = am div 12" and "m = am mod 12"
  have am: "am = 12 * y + m" and m: "0 \<le> m" "m < 12" by (simp_all add: y_def m_def)
  show ?thesis
  proof (cases "m = 11")
    case True
    have "month_start (am + 1) = year_start (y + 1)"
      using month_of_year [of 0 "y + 1"] am True by (simp add: days_before_def algebra_simps)
    then show ?thesis using month_of_year [OF m, of y] am True year_start_Suc [of y]
      by (simp add: month_length_def days_before_def)
  next
    case False
    then have "month_start (am + 1) = year_start y + days_before ! nat (m + 1) + (if m + 1 \<ge> 2 \<and> leap y then 1 else 0)"
      using month_of_year [of "m + 1" y] m by (simp add: am algebra_simps)
    then show ?thesis using month_of_year [OF m, of y] twelve_months [OF m] False
      by (auto simp: month_length_def am days_before_def)
  qed
qed

lemma month_start_less [simp]: "month_start am < month_start (am + 1)"
  using month_length_bounds [of am] by (simp add: month_length_def)

text \<open>The month of a day: the last one that has begun.\<close>

function month_walk :: "int \<Rightarrow> int \<Rightarrow> int" where
  "month_walk am day = (if day < month_start (am + 1) then am else month_walk (am + 1) day)"
  by auto
termination
proof (relation "measure (\<lambda>(am, day). nat (day - month_start am))")
  show "((am + 1, day), am, day) \<in> measure (\<lambda>(am, day). nat (day - month_start am))"
    if "\<not> day < month_start (am + 1)" for am day
    using that month_start_less [of am] by (simp del: month_start_less)
qed simp

declare month_walk.simps [simp del]

definition month_of :: "int \<Rightarrow> int" where
  "month_of day = month_walk (12 * 1970) day"

lemma epoch_month [simp]: "month_start (12 * 1970) = 0" "month_start 23640 = 0"
  by (simp_all add: month_start_def year_start_def days_before_def leap_def)

lemma month_walk_finds:
  "month_start am \<le> day \<Longrightarrow> month_start (month_walk am day) \<le> day \<and> day < month_start (month_walk am day + 1)"
proof (induction am day rule: month_walk.induct)
  case (1 am day)
  show ?case
  proof (cases "day < month_start (am + 1)")
    case True
    then show ?thesis using 1(2) by (simp add: month_walk.simps [of am day])
  next
    case False
    then show ?thesis using 1(1) by (simp add: month_walk.simps [of am day])
  qed
qed

lemma month_of_day:
  assumes "0 \<le> day"
  shows "month_start (month_of day) \<le> day" "day < month_start (month_of day + 1)"
  using month_walk_finds [of "12 * 1970" day] assms by (simp_all add: month_of_def)

section \<open>Adding months to a date\<close>

abbreviation day_ms :: int where "day_ms \<equiv> 86400000"

text \<open>\<open>setMonth\<close> keeps the day of the month as a number: a day the target month does not have runs
  over into the month after it.\<close>

definition addMonths :: "int \<Rightarrow> int \<Rightarrow> int" where
  "addMonths t n = (let day = t div day_ms; am = month_of day in
     (month_start (am + n) + (day - month_start am)) * day_ms + t mod day_ms)"

lemma addMonths_one: "addMonths t 1 = t + month_length (month_of (t div day_ms)) * day_ms"
proof -
  have "addMonths t 1 = (t div day_ms + month_length (month_of (t div day_ms))) * day_ms + t mod day_ms"
    by (simp add: addMonths_def Let_def month_length_def algebra_simps)
  also have "\<dots> = (t div day_ms * day_ms + t mod day_ms) + month_length (month_of (t div day_ms)) * day_ms"
    by (simp add: algebra_simps)
  finally show ?thesis by simp
qed

lemma addMonths_later: "t < addMonths t 1"
  using month_length_bounds [of "month_of (t div day_ms)"] by (simp add: addMonths_one)

end
