(* ===== verification/Fee_Math.thy ===== *)
theory Fee_Math
  imports SC_Prelude "HOL-Library.Log_Nat"
begin

text \<open>
  The card fee (\<open>services/identity-node/src/utils/feeMath.ts\<close>), with the double arithmetic it is
  computed in: a quotient is rounded to 53 bits, ties to even, before \<open>Math.ceil\<close> sees it.
  \<open>1 - CARD_FEE_PERCENT / 100\<close> is the double nearest to 0.971, a fraction over 2 to the 53.
\<close>

section \<open>Doubles\<close>

text \<open>A quotient of positive integers rounded to the nearest integer, ties to even.\<close>

definition round_even :: "int \<Rightarrow> int \<Rightarrow> int" where
  "round_even a b = (let q = a div b; r = a mod b in
     if 2 * r < b then q else if 2 * r > b then q + 1 else if even q then q else q + 1)"

text \<open>The double of \<open>a / b\<close> for a quotient of at least one and below 2 to the 53: an integer mantissa of 53 bits and
  the power of two it is divided by.\<close>

definition scale :: "int \<Rightarrow> int \<Rightarrow> nat" where
  "scale a b = nat (53 - bitlen (a div b))"

definition double_div :: "int \<Rightarrow> int \<Rightarrow> int \<times> nat" where
  "double_div a b = (round_even (a * 2 ^ scale a b) b, scale a b)"

definition ceil_double :: "int \<times> nat \<Rightarrow> int" where
  "ceil_double x = - ((- fst x) div 2 ^ snd x)"

lemma round_even_near:
  assumes "0 < b"
  shows "2 * a - b \<le> 2 * (round_even a b * b)" "2 * (round_even a b * b) \<le> 2 * a + b"
proof -
  define q r where "q = a div b" and "r = a mod b"
  have a: "a = q * b + r" and r: "0 \<le> r" "r < b" using assms by (simp_all add: q_def r_def)
  have "2 * (q * b + r) - b \<le> 2 * (round_even a b * b) \<and> 2 * (round_even a b * b) \<le> 2 * (q * b + r) + b"
    using r by (auto simp: round_even_def Let_def distrib_right simp flip: q_def r_def)
  then show "2 * a - b \<le> 2 * (round_even a b * b)" "2 * (round_even a b * b) \<le> 2 * a + b" using a by simp_all
qed

text \<open>The ceiling of a double, as an inequality of integers.\<close>

lemma ceil_double_eq:
  assumes "(k - 1) * 2 ^ snd x < fst x" "fst x \<le> k * 2 ^ snd x"
  shows "ceil_double x = k"
proof -
  have "(- fst x) div 2 ^ snd x = - k"
  proof (rule int_div_pos_eq)
    show "- fst x = 2 ^ snd x * - k + (k * 2 ^ snd x - fst x)" by simp
    show "0 \<le> k * 2 ^ snd x - fst x" using assms(2) by simp
    show "k * 2 ^ snd x - fst x < 2 ^ snd x" using assms(1) by (simp add: left_diff_distrib)
  qed
  then show ?thesis by (simp add: ceil_double_def)
qed

section \<open>The gross-up\<close>

definition CARD_FEE_FIXED_CENTS :: int where "CARD_FEE_FIXED_CENTS = 30"
definition MIN_CONTRIBUTION_CENTS :: int where "MIN_CONTRIBUTION_CENTS = 100"

text \<open>The double \<open>1 - CARD_FEE_PERCENT / 100\<close>, times 2 to the 53.\<close>

definition CARD_KEEP :: int where "CARD_KEEP = 8745990476353503"

definition cardGrossUp :: "int \<Rightarrow> string + int \<times> int" where
  "cardGrossUp netCents = (if netCents < MIN_CONTRIBUTION_CENTS then Inl ''netCents must be a whole number >= 100''
     else let chargeCents = ceil_double (double_div ((netCents + CARD_FEE_FIXED_CENTS) * 2 ^ 53) CARD_KEEP)
     in Inr (chargeCents, chargeCents - netCents))"

lemma scale_bounds:
  assumes "100 \<le> n" "n \<le> 2 ^ 43"
  shows "9 \<le> scale (n * 2 ^ 53) CARD_KEEP" "2 ^ Suc (scale (n * 2 ^ 53) CARD_KEEP) * n < 2 * CARD_KEEP"
proof -
  define t where "t = n * 2 ^ 53 div CARD_KEEP"
  have pos: "0 < CARD_KEEP" by (simp add: CARD_KEEP_def)
  have up: "n * 2 ^ 53 < (t + 1) * CARD_KEEP" and low: "t * CARD_KEEP \<le> n * 2 ^ 53"
    using pos_mod_bound [OF pos, of "n * 2 ^ 53"] pos_mod_sign [OF pos, of "n * 2 ^ 53"] div_mult_mod_eq [of "n * 2 ^ 53" CARD_KEEP]
    unfolding t_def by (simp_all only: distrib_right)
  have t: "0 < t" "t < 2 ^ 44" using up low assms unfolding CARD_KEEP_def by simp_all
  then have L: "t < 2 ^ nat (bitlen t)" "bitlen t \<le> 44" using bitlen_bounds [of t] by (simp_all add: bitlen_le_iff_power)
  have s: "scale (n * 2 ^ 53) CARD_KEEP = nat (53 - bitlen t)" by (simp add: scale_def t_def)
  then show "9 \<le> scale (n * 2 ^ 53) CARD_KEEP" using L(2) by simp
  have "(2 :: int) ^ nat (53 - bitlen t) * 2 ^ nat (bitlen t) = 2 ^ 53"
    using L(2) bitlen_nonneg [of t] by (simp flip: power_add nat_add_distrib)
  moreover have "2 ^ nat (53 - bitlen t) * (t + 1) \<le> 2 ^ nat (53 - bitlen t) * 2 ^ nat (bitlen t)"
    using L(1) by simp
  ultimately have "2 ^ nat (53 - bitlen t) * (t + 1) \<le> 2 ^ 53" by simp
  then have "2 ^ nat (53 - bitlen t) * ((t + 1) * CARD_KEEP) \<le> 2 ^ 53 * CARD_KEEP"
    using mult_right_mono [of _ _ CARD_KEEP] pos by (simp add: mult.assoc)
  moreover have "2 ^ nat (53 - bitlen t) * (n * 2 ^ 53) < 2 ^ nat (53 - bitlen t) * ((t + 1) * CARD_KEEP)"
    using up by (intro mult_strict_left_mono) simp_all
  ultimately have "2 ^ 53 * (2 ^ nat (53 - bitlen t) * n) < 2 ^ 53 * CARD_KEEP" by (simp only: ac_simps)
  then show "2 ^ Suc (scale (n * 2 ^ 53) CARD_KEEP) * n < 2 * CARD_KEEP" unfolding s by simp
qed

text \<open>The rounded quotient does not cross the whole number above the exact one.\<close>

lemma ceil_of_quotient:
  assumes n: "100 \<le> n" "n \<le> 2 ^ 43" and k: "971 * (k - 1) < 1000 * n" "1000 * n \<le> 971 * k"
  shows "ceil_double (double_div (n * 2 ^ 53) CARD_KEEP) = k"
proof -
  define s where "s = (2 :: int) ^ scale (n * 2 ^ 53) CARD_KEEP"
  define m where "m = round_even (n * 2 ^ 53 * s) CARD_KEEP"
  have s: "512 \<le> s" "n * s < CARD_KEEP"
    using power_increasing [OF scale_bounds(1) [OF n], of "2 :: int"] scale_bounds(2) [OF n] by (simp_all add: s_def mult.commute)
  have ns: "0 \<le> n * s" using n(1) s(1) by simp
  have near: "18014398509481984 * (n * s) - CARD_KEEP \<le> 2 * (m * CARD_KEEP)" "2 * (m * CARD_KEEP) \<le> 18014398509481984 * (n * s) + CARD_KEEP"
    using round_even_near [of CARD_KEEP "n * 2 ^ 53 * s"] by (simp_all add: m_def CARD_KEEP_def)
  have "(k - 1) * s < m"
  proof (rule ccontr)
    assume "\<not> (k - 1) * s < m"
    then have "971 * m \<le> 971 * ((k - 1) * s)" by linarith
    also have "\<dots> = 971 * (k - 1) * s" by (simp only: mult.assoc)
    also have "\<dots> \<le> (1000 * n - 1) * s" using k(1) s(1) by (intro mult_right_mono) linarith+
    finally have "971 * m \<le> 1000 * (n * s) - s" by (simp only: left_diff_distrib mult_1_left mult.assoc)
    then show False using near(1) s(1) ns unfolding CARD_KEEP_def by linarith
  qed
  moreover have "m \<le> k * s"
  proof (rule ccontr)
    assume "\<not> m \<le> k * s"
    then have "971 * k * s + 971 \<le> 971 * m" by simp
    moreover have "1000 * n * s \<le> 971 * k * s" using k(2) s(1) by (intro mult_right_mono) linarith+
    ultimately have "1000 * (n * s) + 971 \<le> 971 * m" by (simp only: mult.assoc)
    then show False using near(2) s(2) unfolding CARD_KEEP_def by linarith
  qed
  ultimately show ?thesis by (intro ceil_double_eq) (simp_all add: double_div_def m_def s_def)
qed

lemma gross_up_least:
  assumes "100 \<le> net" "net \<le> 2 ^ 42"
  shows "\<exists>charge. cardGrossUp net = Inr (charge, charge - net) \<and> (\<forall>c. charge \<le> c \<longleftrightarrow> net * 1000 \<le> c * 1000 - (c * 29 + 30000))"
proof -
  define k where "k = - ((- (1000 * (net + 30))) div 971)"
  define r where "r = - (1000 * (net + 30)) mod 971"
  have "1000 * (net + 30) = 971 * k - r"
    using div_mult_mod_eq [of "- (1000 * (net + 30))" 971] unfolding k_def r_def by linarith
  moreover have "0 \<le> r" "r < 971" by (simp_all add: r_def)
  ultimately have k: "971 * (k - 1) < 1000 * (net + 30)" "1000 * (net + 30) \<le> 971 * k" by simp_all
  then have "cardGrossUp net = Inr (k, k - net)"
    using ceil_of_quotient [of "net + 30" k] assms
    by (simp add: cardGrossUp_def MIN_CONTRIBUTION_CENTS_def CARD_FEE_FIXED_CENTS_def)
  moreover have "k \<le> c \<longleftrightarrow> net * 1000 \<le> c * 1000 - (c * 29 + 30000)" for c
  proof
    assume "k \<le> c"
    then have "971 * k \<le> 971 * c" by simp
    then show "net * 1000 \<le> c * 1000 - (c * 29 + 30000)" using k(2) by simp
  next
    assume "net * 1000 \<le> c * 1000 - (c * 29 + 30000)"
    then have "971 * (k - 1) < 971 * c" using k(1) by simp
    then show "k \<le> c" by simp
  qed
  ultimately show ?thesis by blast
qed

text \<open>C18: a card contribution of any amount up to forty billion dollars is charged the least whole number of cents that
  leaves the organisation's pool the intended amount once the processor has taken its 2.9 percent and 30 cents,
  although the charge is computed in rounded doubles.\<close>

theorem gross_up_is_least:
  assumes "100 \<le> net" "net \<le> 2 ^ 42"
  shows "\<exists>charge. cardGrossUp net = Inr (charge, charge - net) \<and> (\<forall>c. charge \<le> c \<longleftrightarrow> net * 1000 \<le> c * 1000 - (c * 29 + 30000))"
  by (rule gross_up_least [OF assms])

lemma gross_up_is_least_witness:
  "\<exists>charge. cardGrossUp 941 = Inr (charge, charge - 941) \<and> (\<forall>c. charge \<le> c \<longleftrightarrow> 941 * 1000 \<le> c * 1000 - (c * 29 + 30000))"
  by (rule gross_up_is_least) simp_all

end
