(* ===== verification/Billing.thy ===== *)
theory Billing
  imports Auth_Server Calendar Fee_Math
begin

text \<open>
  The money of an organisation: contributions and invoices, the pool they are credited to, its
  ledger and its use (\<open>controllers/billingController.ts\<close>, \<open>utils/billingCredit.ts\<close>,
  \<open>utils/billingConsumer.ts\<close>, \<open>utils/orgTiers.ts\<close>, \<open>routes/stripeWebhook.ts\<close> and \<open>payments/\<close> of the
  identity service, and the invoices of \<open>adminController.ts\<close>).

  The tables are the state; a transaction is one step, and a handler that awaits between two of them is
  cut there.  \<open>bd_down\<close> says the database does not answer.  Times in the database are microseconds, as PostgreSQL
  keeps them; JavaScript reads them as milliseconds.  The checkout interface of Stripe and the verification
  of its signatures are arguments, as are the ids the database draws for new rows.
\<close>

section \<open>Tables\<close>

datatype pay_status = Pending | Succeeded | Declined | Canceled

datatype pay_method = Ach | Card | Dev_method

datatype provider_name = Dev_provider | Stripe_provider

record contribution =
  bc_id :: string
  bc_org :: string
  bc_user :: string
  bc_amount :: int
  bc_fee :: int
  bc_method :: pay_method
  bc_provider :: provider_name
  bc_status :: pay_status
  bc_invoice :: bool
  bc_reason :: "string option"
  bc_issuer :: "string option"
  bc_ref :: "string option"
  bc_session :: "string option"
  bc_payment :: "string option"
  bc_created :: int
  bc_credited :: "int option"

record pool_row =
  pl_balance :: int
  pl_bytes :: int
  pl_cycle :: int

record org_row =
  og_callsign :: string
  og_owner :: string
  og_tier :: "int option"

record ledger_row =
  lg_org :: string
  lg_delta :: int
  lg_text :: string
  lg_at :: int

record billing_info =
  bi_contact :: string
  bi_company :: "string option"
  bi_email :: string
  bi_phone :: string
  bi_address1 :: string
  bi_address2 :: string
  bi_city :: string
  bi_state :: string
  bi_zip :: string
  bi_tax_id :: string
  bi_exempt :: bool
  bi_exempt_number :: string
  bi_by :: "string option"

text \<open>A member's entry holds \<open>can_view_billing\<close> of the member's role; \<open>PAYMENTS_PROVIDER\<close> and whether a Stripe key is set
  are part of the configuration; \<open>bd_new_cycle\<close> is the database's default for \<open>cycle_start_at\<close>, whose schema the
  repository does not hold.  (The dashes of the texts are hyphens here.)\<close>

record bill_db =
  bd_orgs :: "(string, org_row) jsmap"
  bd_callsigns :: "(string, string) jsmap"
  bd_members :: "(string \<times> string \<times> bool option) list"
  bd_contribs :: "contribution list"
  bd_pools :: "(string, pool_row) jsmap"
  bd_ledger :: "ledger_row list"
  bd_daily :: "(string \<times> int, int) jsmap"
  bd_info :: "(string, billing_info) jsmap"
  bd_now :: int
  bd_new_cycle :: int
  bd_down :: bool
  bd_provider :: "string option"
  bd_stripe_key :: bool
  bd_enforce :: bool

definition us_of_ms :: "int \<Rightarrow> int" where "us_of_ms t = t * 1000"
definition ms_of_us :: "int \<Rightarrow> int" where "ms_of_us t = t div 1000"

section \<open>Tiers\<close>

record tier_config =
  tc_name :: string
  tc_kbps :: int
  tc_resolution :: string
  tc_limit :: int
  tc_price :: int
  tc_overage :: "rat option"

definition ORG_TIERS :: "(int, tier_config) jsmap" where
  "ORG_TIERS =
    [(0, \<lparr>tc_name = ''Free Trial'', tc_kbps = 1280, tc_resolution = ''720p'', tc_limit = 30000000000, tc_price = 0, tc_overage = None\<rparr>),
     (1, \<lparr>tc_name = ''Ops Starter'', tc_kbps = 4000, tc_resolution = ''1080p'', tc_limit = 1000000000000, tc_price = 1900,
          tc_overage = Some (5 / 2)\<rparr>),
     (2, \<lparr>tc_name = ''Ops Growth'', tc_kbps = 8000, tc_resolution = ''1440p'', tc_limit = 5000000000000, tc_price = 4900,
          tc_overage = Some (9 / 5)\<rparr>),
     (3, \<lparr>tc_name = ''Ops Command'', tc_kbps = 20000, tc_resolution = ''1440p60'', tc_limit = 20000000000000, tc_price = 14900,
          tc_overage = Some (6 / 5)\<rparr>)]"

definition getOrgTierConfig :: "int \<Rightarrow> tier_config" where
  "getOrgTierConfig tier = or_else (al_get ORG_TIERS tier) (snd (hd ORG_TIERS))"

text \<open>The estimate of a cycle in exact arithmetic; \<open>Math.round\<close> rounds halves up.\<close>

definition estimated_cents :: "tier_config \<Rightarrow> int \<Rightarrow> int" where
  "estimated_cents c bytes = (case tc_overage c of None \<Rightarrow> tc_price c
     | Some rate \<Rightarrow> \<lfloor>of_int (tc_price c) + max 0 (of_int bytes / 1000000000 - of_int (tc_limit c) / 1000000000) * rate + 1 / 2\<rfloor>)"

section \<open>Crediting\<close>

definition update_contrib :: "string \<Rightarrow> (contribution \<Rightarrow> contribution) \<Rightarrow> bill_db \<Rightarrow> bill_db" where
  "update_contrib cid f d = d\<lparr>bd_contribs := map (\<lambda>c. if bc_id c = cid then f c else c) (bd_contribs d)\<rparr>"

definition pending_contrib :: "string \<Rightarrow> bill_db \<Rightarrow> contribution option" where
  "pending_contrib cid d = find (\<lambda>c. bc_id c = cid \<and> bc_status c = Pending) (bd_contribs d)"

definition new_pool :: "bill_db \<Rightarrow> pool_row" where
  "new_pool d = \<lparr>pl_balance = 0, pl_bytes = 0, pl_cycle = bd_new_cycle d\<rparr>"

definition pool_of :: "bill_db \<Rightarrow> string \<Rightarrow> pool_row" where
  "pool_of d org = or_else (al_get (bd_pools d) org) (new_pool d)"

definition method_text :: "pay_method \<Rightarrow> string" where
  "method_text m = (case m of Ach \<Rightarrow> ''ach'' | Card \<Rightarrow> ''card'' | Dev_method \<Rightarrow> ''dev'')"

definition ledger_note :: "bill_db \<Rightarrow> pay_method \<Rightarrow> string" where
  "ledger_note d m = ''Member contribution ('' @ method_text m @ '')''
     @ (if bd_enforce d then [] else '' (enforcement inactive - testing mode)'')"

definition credit_pool :: "contribution \<Rightarrow> bill_db \<Rightarrow> bill_db" where
  "credit_pool c d = d\<lparr>
     bd_pools := al_set (bc_org c) (pool_of d (bc_org c)\<lparr>pl_balance := pl_balance (pool_of d (bc_org c)) + bc_amount c\<rparr>) (bd_pools d),
     bd_ledger := bd_ledger d @ [\<lparr>lg_org = bc_org c, lg_delta = bc_amount c, lg_text = ledger_note d (bc_method c), lg_at = bd_now d\<rparr>]\<rparr>"

text \<open>\<^const>\<open>None\<close> when the database throws; otherwise whether this call credited.\<close>

definition creditContribution :: "string \<Rightarrow> string option \<Rightarrow> bill_db \<Rightarrow> bool option \<times> bill_db" where
  "creditContribution cid payment d = (if bd_down d then (None, d)
     else case pending_contrib cid d of None \<Rightarrow> (Some False, d)
     | Some c \<Rightarrow> (Some True, credit_pool c (update_contrib cid
         (\<lambda>r. r\<lparr>bc_status := Succeeded, bc_credited := Some (bd_now d), bc_payment := nullish payment (bc_payment r)\<rparr>) d)))"

definition markContributionFailed :: "string \<Rightarrow> pay_status \<Rightarrow> string option \<Rightarrow> bill_db \<Rightarrow> bool option \<times> bill_db" where
  "markContributionFailed cid status payment d = (if bd_down d then (None, d)
     else case pending_contrib cid d of None \<Rightarrow> (Some False, d)
     | Some c \<Rightarrow> (Some True, update_contrib cid
         (\<lambda>r. r\<lparr>bc_status := status, bc_payment := nullish payment (bc_payment r)\<rparr>) d))"

section \<open>The webhook of the payment processor\<close>

text \<open>The events the route looks at, with \<open>metadata.contribution_id\<close> and the id of the payment.\<close>

datatype stripe_event =
    Payment_succeeded "string option" string
  | Payment_failed "string option" string
  | Session_expired "string option"
  | Other_event

definition handle_event :: "stripe_event \<Rightarrow> bill_db \<Rightarrow> bool option \<times> bill_db" where
  "handle_event ev d = (case ev of
       Payment_succeeded cid payment \<Rightarrow> if truthy cid then creditContribution (or_else cid []) (Some payment) d else (Some False, d)
     | Payment_failed cid payment \<Rightarrow> if truthy cid then markContributionFailed (or_else cid []) Declined (Some payment) d else (Some False, d)
     | Session_expired cid \<Rightarrow> if truthy cid then markContributionFailed (or_else cid []) Canceled None d else (Some False, d)
     | Other_event \<Rightarrow> (Some False, d))"

definition stripe_webhook :: "(string \<Rightarrow> string \<Rightarrow> stripe_event option) \<Rightarrow> string \<Rightarrow> string option \<Rightarrow> bill_db \<Rightarrow> unit answer \<times> bill_db" where
  "stripe_webhook verify body signature d = (case signature of
       None \<Rightarrow> (Failed 400 ''Missing stripe-signature header'' None, d)
     | Some sig \<Rightarrow> (case verify body sig of
         None \<Rightarrow> (Failed 400 ''Invalid signature'' None, d)
       | Some ev \<Rightarrow> (case handle_event ev d of
           (None, d') \<Rightarrow> (Failed 500 ''Webhook handler error'' None, d')
         | (Some _, d') \<Rightarrow> (Done 200 (), d'))))"

section \<open>Checkouts\<close>

record checkout_params =
  co_contribution :: string
  co_org :: string
  co_name :: string
  co_user :: string
  co_net :: int
  co_fee :: int
  co_charge :: int
  co_method :: pay_method

record stripe_session =
  ss_id :: string
  ss_url :: "string option"
  ss_payment :: "string option"

record checkout_result =
  cr_immediate :: bool
  cr_redirect :: "string option"
  cr_session :: "string option"
  cr_payment :: "string option"

definition paymentsEnabled :: "bill_db \<Rightarrow> bool" where
  "paymentsEnabled d \<longleftrightarrow> (if bd_provider d = Some ''stripe'' then bd_stripe_key d else bd_provider d = Some ''dev'')"

definition getPaymentProvider :: "bill_db \<Rightarrow> provider_name" where
  "getPaymentProvider d = (if bd_provider d = Some ''stripe'' \<and> bd_stripe_key d then Stripe_provider else Dev_provider)"

text \<open>What the customer is asked to pay: the names and cents of the lines.\<close>

definition line_items :: "checkout_params \<Rightarrow> (string \<times> int) list" where
  "line_items p = (co_name p @ '' - pool contribution'', co_net p)
     # (if co_method p = Card \<and> co_fee p > 0 then [(''Card processing fee'', co_fee p)] else [])"

text \<open>\<open>stripe\<close> is the session the processor creates for the lines, or \<^const>\<open>None\<close> when its call throws.\<close>

definition createCheckout :: "(checkout_params \<Rightarrow> (string \<times> int) list \<Rightarrow> stripe_session option) \<Rightarrow> checkout_params \<Rightarrow> bill_db
    \<Rightarrow> checkout_result option \<times> bill_db" where
  "createCheckout stripe p d = (case getPaymentProvider d of
       Dev_provider \<Rightarrow> (let payment = ''dev_'' @ co_contribution p in
         case creditContribution (co_contribution p) (Some payment) d of
           (None, d') \<Rightarrow> (None, d')
         | (Some _, d') \<Rightarrow> (Some \<lparr>cr_immediate = True, cr_redirect = None, cr_session = None, cr_payment = Some payment\<rparr>, d'))
     | Stripe_provider \<Rightarrow> (case stripe p (line_items p) of None \<Rightarrow> (None, d)
         | Some s \<Rightarrow> (Some \<lparr>cr_immediate = False, cr_redirect = ss_url s, cr_session = Some (ss_id s), cr_payment = ss_payment s\<rparr>, d)))"

definition price_of :: "pay_method \<Rightarrow> int \<Rightarrow> string + int \<times> int" where
  "price_of m net = (if m = Card then cardGrossUp net else Inr (net, 0))"

section \<open>Who may look and pay\<close>

record billing_viewer =
  vw_member :: bool
  vw_can_view :: bool
  vw_contributor :: bool

definition getBillingViewer :: "string \<Rightarrow> string \<Rightarrow> bill_db \<Rightarrow> billing_viewer" where
  "getBillingViewer org user d =
    (let rows = filter (\<lambda>(o', u, _). o' = org \<and> u = user) (bd_members d);
         owner = (case al_get (bd_orgs d) org of None \<Rightarrow> False | Some r \<Rightarrow> og_owner r = user)
     in \<lparr>vw_member = (rows \<noteq> [] \<or> owner),
         vw_can_view = (owner \<or> list_ex (\<lambda>(_, _, p). p = Some True) rows),
         vw_contributor = list_ex (\<lambda>c. bc_org c = org \<and> bc_user c = user \<and> bc_status c = Succeeded) (bd_contribs d)\<rparr>)"

text \<open>The prelude of the routes of a member: a user, an answering database, membership.\<close>

definition member_gate :: "string \<Rightarrow> string option \<Rightarrow> bill_db \<Rightarrow> (billing_viewer \<Rightarrow> 'a answer \<times> bill_db) \<Rightarrow> 'a answer \<times> bill_db" where
  "member_gate org user d k = (case user of None \<Rightarrow> (Failed 401 ''Unauthorized'' None, d)
     | Some u \<Rightarrow> if bd_down d then (server_error, d)
         else if \<not> vw_member (getBillingViewer org u d) then (Failed 403 ''Forbidden'' None, d)
         else k (getBillingViewer org u d))"

definition owner_gate :: "string \<Rightarrow> string \<Rightarrow> string option \<Rightarrow> bill_db \<Rightarrow> (string \<Rightarrow> 'a answer \<times> bill_db) \<Rightarrow> 'a answer \<times> bill_db" where
  "owner_gate refusal org user d k = (case user of None \<Rightarrow> (Failed 401 ''Unauthorized'' None, d)
     | Some u \<Rightarrow> if bd_down d then (server_error, d)
         else case al_get (bd_orgs d) org of None \<Rightarrow> (Failed 404 ''Organization not found'' None, d)
         | Some r \<Rightarrow> if og_owner r \<noteq> u then (Failed 403 refusal None, d) else k u)"

section \<open>Contributing\<close>

definition parse_method :: "string \<Rightarrow> pay_method option" where
  "parse_method m = (if m = ''ach'' then Some Ach else if m = ''card'' then Some Card else None)"

record pay_reply =
  py_contribution :: string
  py_status :: pay_status
  py_redirect :: "string option"
  py_net :: int
  py_fee :: int
  py_charge :: int

definition pay_reply_of :: "string \<Rightarrow> checkout_result \<Rightarrow> int \<Rightarrow> int \<Rightarrow> int \<Rightarrow> pay_reply" where
  "pay_reply_of cid c net charge fee = \<lparr>py_contribution = cid, py_status = (if cr_immediate c then Succeeded else Pending),
     py_redirect = cr_redirect c, py_net = net, py_fee = fee, py_charge = charge\<rparr>"

definition row_method :: "bill_db \<Rightarrow> pay_method \<Rightarrow> pay_method" where
  "row_method d m = (if getPaymentProvider d = Dev_provider then Dev_method else m)"

definition new_contribution :: "string \<Rightarrow> string \<Rightarrow> string \<Rightarrow> int \<Rightarrow> int \<Rightarrow> pay_method \<Rightarrow> bill_db \<Rightarrow> contribution" where
  "new_contribution cid org user net fee m d =
     \<lparr>bc_id = cid, bc_org = org, bc_user = user, bc_amount = net, bc_fee = fee, bc_method = row_method d m,
      bc_provider = getPaymentProvider d, bc_status = Pending, bc_invoice = False, bc_reason = None, bc_issuer = None, bc_ref = None,
      bc_session = None, bc_payment = None, bc_created = bd_now d, bc_credited = None\<rparr>"

text \<open>Up to the insert of the pending row.  \<open>amount\<close> is \<^const>\<open>None\<close> when the body's is not a whole number;
  \<open>cid\<close> is the id the database draws.\<close>

definition contribute_begin :: "string \<Rightarrow> string \<Rightarrow> string option \<Rightarrow> int option \<Rightarrow> string \<Rightarrow> bill_db
    \<Rightarrow> pay_reply answer + (checkout_params \<times> bill_db)" where
  "contribute_begin cid org user amount m d = (case user of None \<Rightarrow> Inl (Failed 401 ''Unauthorized'' None)
     | Some u \<Rightarrow>
       if \<not> paymentsEnabled d then Inl (Failed 503 ''Payments are not enabled on this server'' None)
       else case amount of None \<Rightarrow> Inl (Failed 400 ''amount_cents must be a whole number >= 100 (minimum $1.00)'' None)
       | Some net \<Rightarrow>
         if net < MIN_CONTRIBUTION_CENTS then Inl (Failed 400 ''amount_cents must be a whole number >= 100 (minimum $1.00)'' None)
         else case parse_method m of None \<Rightarrow> Inl (Failed 400 ''method must be ach or card'' None)
         | Some meth \<Rightarrow>
           if bd_down d then Inl server_error
           else if \<not> vw_member (getBillingViewer org u d) then Inl (Failed 403 ''Forbidden'' None)
           else case al_get (bd_orgs d) org of None \<Rightarrow> Inl (Failed 404 ''Organization not found'' None)
           | Some o' \<Rightarrow> (case price_of meth net of Inl _ \<Rightarrow> Inl server_error
             | Inr (charge, fee) \<Rightarrow> Inr
                 (\<lparr>co_contribution = cid, co_org = org, co_name = og_callsign o', co_user = u, co_net = net, co_fee = fee,
                   co_charge = charge, co_method = meth\<rparr>,
                  d\<lparr>bd_contribs := bd_contribs d @ [new_contribution cid org u net fee meth d]\<rparr>)))"

text \<open>After the checkout: the row remembers the session.\<close>

definition contribute_end :: "checkout_params \<Rightarrow> checkout_result option \<Rightarrow> bill_db \<Rightarrow> pay_reply answer \<times> bill_db" where
  "contribute_end p c d = (case c of None \<Rightarrow> (server_error, d)
     | Some r \<Rightarrow>
       if \<not> truthy (cr_session r) then (Done 201 (pay_reply_of (co_contribution p) r (co_net p) (co_charge p) (co_fee p)), d)
       else if bd_down d then (server_error, d)
       else (Done 201 (pay_reply_of (co_contribution p) r (co_net p) (co_charge p) (co_fee p)),
             update_contrib (co_contribution p) (\<lambda>b. b\<lparr>bc_session := cr_session r\<rparr>) d))"

definition contributeToOrg :: "(checkout_params \<Rightarrow> (string \<times> int) list \<Rightarrow> stripe_session option) \<Rightarrow> string \<Rightarrow> string \<Rightarrow> string option
    \<Rightarrow> int option \<Rightarrow> string \<Rightarrow> bill_db \<Rightarrow> pay_reply answer \<times> bill_db" where
  "contributeToOrg stripe cid org user amount m d = (case contribute_begin cid org user amount m d of
       Inl a \<Rightarrow> (a, d)
     | Inr (p, d1) \<Rightarrow> (case createCheckout stripe p d1 of (c, d2) \<Rightarrow> contribute_end p c d2))"

section \<open>Invoices\<close>

text \<open>\<open>admin\<close> is the issuing administrator; the unique index on the external reference of an organisation is the
  constraint the code's 409 answers to.\<close>

definition ref_taken :: "string \<Rightarrow> string option \<Rightarrow> bill_db \<Rightarrow> bool" where
  "ref_taken org ext d \<longleftrightarrow> ext \<noteq> None \<and> list_ex (\<lambda>c. bc_org c = org \<and> bc_ref c = ext) (bd_contribs d)"

definition createOrgInvoice :: "string \<Rightarrow> string option \<Rightarrow> string \<Rightarrow> int option \<Rightarrow> string option \<Rightarrow> string option \<Rightarrow> bill_db
    \<Rightarrow> string answer \<times> bill_db" where
  "createOrgInvoice cid admin org amount reason ext d =
    (if or_else amount 0 \<le> 0 then (Failed 400 ''amount_cents must be a positive whole number'' None, d)
     else if bd_down d then (server_error, d)
     else case al_get (bd_orgs d) org of None \<Rightarrow> (Failed 404 ''Organization not found'' None, d)
     | Some o' \<Rightarrow>
       if ref_taken org ext d then (Failed 409 ''An invoice with this external_invoice_ref already exists for this org'' None, d)
       else (Done 201 cid, d\<lparr>bd_contribs := bd_contribs d @
         [\<lparr>bc_id = cid, bc_org = org, bc_user = og_owner o', bc_amount = or_else amount 0, bc_fee = 0, bc_method = Dev_method,
           bc_provider = Dev_provider, bc_status = Pending, bc_invoice = True, bc_reason = reason, bc_issuer = admin, bc_ref = ext,
           bc_session = None, bc_payment = None, bc_created = bd_now d, bc_credited = None\<rparr>]\<rparr>))"

definition newest_first :: "('a \<Rightarrow> int) \<Rightarrow> 'a list \<Rightarrow> 'a list" where
  "newest_first at' = stable_sort (\<lambda>a b. at' b \<le> at' a)"

definition listOrgInvoices :: "string \<Rightarrow> string option \<Rightarrow> bill_db \<Rightarrow> contribution list answer \<times> bill_db" where
  "listOrgInvoices org user d = member_gate org user d (\<lambda>v.
     (Done 200 (newest_first bc_created (filter (\<lambda>c. bc_org c = org \<and> bc_invoice c) (bd_contribs d))), d))"

text \<open>Paying an invoice, up to the checkout and after it.\<close>

definition open_invoice :: "string \<Rightarrow> string \<Rightarrow> bill_db \<Rightarrow> contribution option" where
  "open_invoice cid org d = find (\<lambda>c. bc_id c = cid \<and> bc_org c = org \<and> bc_invoice c \<and> bc_status c = Pending) (bd_contribs d)"

definition pay_begin :: "string \<Rightarrow> string \<Rightarrow> string option \<Rightarrow> string \<Rightarrow> bill_db \<Rightarrow> pay_reply answer + checkout_params" where
  "pay_begin org cid user m d = (case user of None \<Rightarrow> Inl (Failed 401 ''Unauthorized'' None)
     | Some u \<Rightarrow>
       if \<not> paymentsEnabled d then Inl (Failed 503 ''Payments are not enabled on this server'' None)
       else case parse_method m of None \<Rightarrow> Inl (Failed 400 ''method must be ach or card'' None)
       | Some meth \<Rightarrow>
         if bd_down d then Inl server_error
         else if \<not> vw_member (getBillingViewer org u d) then Inl (Failed 403 ''Forbidden'' None)
         else case open_invoice cid org d of None \<Rightarrow> Inl (Failed 404 ''Invoice not found or already paid'' None)
         | Some bill \<Rightarrow> (case (al_get (bd_orgs d) org, price_of meth (bc_amount bill)) of
             (Some o', Inr (charge, fee)) \<Rightarrow> Inr
               \<lparr>co_contribution = cid, co_org = org, co_name = og_callsign o', co_user = u, co_net = bc_amount bill, co_fee = fee,
                co_charge = charge, co_method = meth\<rparr>
           | _ \<Rightarrow> Inl server_error))"

definition pay_end :: "checkout_params \<Rightarrow> checkout_result option \<Rightarrow> bill_db \<Rightarrow> pay_reply answer \<times> bill_db" where
  "pay_end p c d = (case c of None \<Rightarrow> (server_error, d)
     | Some r \<Rightarrow> if bd_down d then (server_error, d)
       else (Done 200 (pay_reply_of (co_contribution p) r (co_net p) (co_charge p) (co_fee p)),
             update_contrib (co_contribution p) (\<lambda>b. b\<lparr>bc_user := co_user p, bc_method := row_method d (co_method p),
               bc_provider := getPaymentProvider d, bc_fee := co_fee p, bc_session := cr_session r\<rparr>) d))"

definition payOrgInvoice :: "(checkout_params \<Rightarrow> (string \<times> int) list \<Rightarrow> stripe_session option) \<Rightarrow> string \<Rightarrow> string \<Rightarrow> string option
    \<Rightarrow> string \<Rightarrow> bill_db \<Rightarrow> pay_reply answer \<times> bill_db" where
  "payOrgInvoice stripe org cid user m d = (case pay_begin org cid user m d of
       Inl a \<Rightarrow> (a, d)
     | Inr p \<Rightarrow> (case createCheckout stripe p d of (c, d1) \<Rightarrow> pay_end p c d1))"

definition getContributionStatus :: "string \<Rightarrow> string \<Rightarrow> string option \<Rightarrow> bill_db \<Rightarrow> contribution answer \<times> bill_db" where
  "getContributionStatus org cid user d = (case user of None \<Rightarrow> (Failed 401 ''Unauthorized'' None, d)
     | Some u \<Rightarrow> if bd_down d then (server_error, d)
         else (case find (\<lambda>c. bc_id c = cid \<and> bc_org c = org \<and> bc_user c = u) (bd_contribs d) of
             None \<Rightarrow> (Failed 404 ''Contribution not found'' None, d)
           | Some c \<Rightarrow> (Done 200 c, d)))"

section \<open>Use and its cycle\<close>

text \<open>\<open>while (now >= addMonths(cycleStart, 1)) cycleStart = addMonths(cycleStart, 1)\<close>\<close>

function advance_cycle :: "int \<Rightarrow> int \<Rightarrow> int" where
  "advance_cycle now start = (if now \<ge> addMonths start 1 then advance_cycle now (addMonths start 1) else start)"
  by auto
termination
proof (relation "measure (\<lambda>(now, start). nat (now - start))")
  show "((now, addMonths start 1), now, start) \<in> measure (\<lambda>(now, start). nat (now - start))"
    if "addMonths start 1 \<le> now" for now start
    using that addMonths_later [of start] by simp
qed simp

declare advance_cycle.simps [simp del]

definition ensure_pool :: "string \<Rightarrow> bill_db \<Rightarrow> bill_db" where
  "ensure_pool org d = (if al_has (bd_pools d) org then d else d\<lparr>bd_pools := al_set org (new_pool d) (bd_pools d)\<rparr>)"

text \<open>The guarded update of the rollover: \<open>WHERE org_id = $1 AND cycle_start_at = $3\<close>, the parameters being dates of
  JavaScript.\<close>

definition reset_cycle :: "string \<Rightarrow> int \<Rightarrow> int \<Rightarrow> bill_db \<Rightarrow> bool \<times> bill_db" where
  "reset_cycle org start original d = (case al_get (bd_pools d) org of None \<Rightarrow> (False, d)
     | Some r \<Rightarrow> if pl_cycle r \<noteq> us_of_ms original then (False, d)
         else (True, d\<lparr>bd_pools := al_set org (r\<lparr>pl_bytes := 0, pl_cycle := us_of_ms start\<rparr>) (bd_pools d)\<rparr>))"

text \<open>The row as it was read, and what is written for it when its cycle is over.\<close>

definition cycle_plan :: "bill_db \<Rightarrow> pool_row \<Rightarrow> (int \<times> int) option" where
  "cycle_plan d r = (let original = ms_of_us (pl_cycle r); now = ms_of_us (bd_now d) in
     if now \<ge> addMonths original 1 then Some (advance_cycle now original, original) else None)"

definition roll_over :: "string \<Rightarrow> pool_row \<Rightarrow> bill_db \<Rightarrow> pool_row \<times> bill_db" where
  "roll_over org r d = (case cycle_plan d r of None \<Rightarrow> (r, d)
     | Some (start, original) \<Rightarrow> (case reset_cycle org start original d of
         (True, d') \<Rightarrow> (r\<lparr>pl_bytes := 0, pl_cycle := us_of_ms start\<rparr>, d')
       | (False, d') \<Rightarrow> (r, d')))"

text \<open>A session of the media service that ended.  Its user is taken out of the channel's presence first (a call to
  the channel controller), unless a newer session of the user has replaced it; an event without organisation or
  duration is skipped.\<close>

record session_event =
  se_org :: "string option"
  se_user :: "string option"
  se_channel :: "string option"
  se_duration :: "int option"
  se_bytes :: "int option"
  se_superseded :: bool

definition session_end :: "session_event \<Rightarrow> bill_db \<Rightarrow> (string \<times> string \<times> string) option \<times> bill_db" where
  "session_end ev d =
    (if \<not> truthy (se_org ev) \<or> se_duration ev = None then (None, d)
     else let o' = or_else (se_org ev) []; r = pool_of d o'; day = bd_now d div (day_ms * 1000); n = or_else (se_bytes ev) 0;
              evicted = (if truthy (se_user ev) \<and> truthy (se_channel ev) \<and> \<not> se_superseded ev
                then Some (or_else (se_user ev) [], o', or_else (se_channel ev) []) else None)
     in if bd_down d then (evicted, d)
        else (evicted, d\<lparr>bd_pools := al_set o' (r\<lparr>pl_bytes := pl_bytes r + n\<rparr>) (bd_pools d),
          bd_daily := al_set (o', day) (or_else (al_get (bd_daily d) (o', day)) 0 + n) (bd_daily d)\<rparr>))"

section \<open>What members see\<close>

record billing_status =
  st_tier :: int
  st_config :: tier_config
  st_start :: int
  st_bytes :: int
  st_estimate :: int
  st_viewer :: billing_viewer
  st_payments :: bool
  st_enforced :: bool
  st_managed :: "(int \<times> (string \<times> int) list \<times> ledger_row list) option"

text \<open>\<open>SUM(amount_cents) ... GROUP BY callsign ORDER BY total DESC LIMIT 10\<close>, joined with the users.\<close>

definition contributors :: "string \<Rightarrow> bill_db \<Rightarrow> (string \<times> int) list" where
  "contributors org d =
    (let add = (\<lambda>c m. case al_get (bd_callsigns d) (bc_user c) of None \<Rightarrow> m
           | Some name \<Rightarrow> al_set name (or_else (al_get m name) 0 + bc_amount c) m)
     in take 10 (stable_sort (\<lambda>a b. snd b \<le> snd a)
          (fold add (filter (\<lambda>c. bc_org c = org \<and> bc_status c = Succeeded) (bd_contribs d)) [])))"

definition org_ledger :: "string \<Rightarrow> bill_db \<Rightarrow> ledger_row list" where
  "org_ledger org d = newest_first lg_at (filter (\<lambda>l. lg_org l = org) (bd_ledger d))"

definition status_reply :: "string \<Rightarrow> billing_viewer \<Rightarrow> int \<Rightarrow> pool_row \<Rightarrow> bill_db \<Rightarrow> billing_status" where
  "status_reply org v balance r d =
    (let tier = (case al_get (bd_orgs d) org of None \<Rightarrow> 0 | Some o' \<Rightarrow> or_else (og_tier o') 0); c = getOrgTierConfig tier
     in \<lparr>st_tier = tier, st_config = c, st_start = ms_of_us (pl_cycle r), st_bytes = pl_bytes r,
         st_estimate = estimated_cents c (pl_bytes r), st_viewer = v, st_payments = paymentsEnabled d, st_enforced = bd_enforce d,
         st_managed = (if vw_can_view v then Some (balance, contributors org d, take 10 (org_ledger org d)) else None)\<rparr>)"

definition getBillingStatus :: "string \<Rightarrow> string option \<Rightarrow> bill_db \<Rightarrow> billing_status answer \<times> bill_db" where
  "getBillingStatus org user d = member_gate org user d (\<lambda>v.
     (let d1 = ensure_pool org d; row = pool_of d1 org in
      case roll_over org row d1 of (r, d2) \<Rightarrow> (Done 200 (status_reply org v (pl_balance row) r d2), d2)))"

text \<open>\<open>Math.min(Number(limit) || 50, 200)\<close>; PostgreSQL refuses a negative LIMIT.\<close>

definition page :: "int option \<Rightarrow> int option \<Rightarrow> int \<times> int" where
  "page limit offset = (let l = or_else limit 0 in (min (if l = 0 then 50 else l) 200, max (or_else offset 0) 0))"

definition paged :: "int \<times> int \<Rightarrow> 'a list \<Rightarrow> 'a list" where
  "paged lo xs = take (nat (fst lo)) (drop (nat (snd lo)) xs)"

definition getOrgTransactions :: "string \<Rightarrow> string option \<Rightarrow> int option \<Rightarrow> int option \<Rightarrow> bill_db
    \<Rightarrow> ((string \<times> contribution) list \<times> ledger_row list) answer \<times> bill_db" where
  "getOrgTransactions org user limit offset d = member_gate org user d (\<lambda>v.
     if \<not> vw_can_view v \<and> \<not> vw_contributor v
       then (Failed 403 ''Forbidden: billing history is visible to contributors and billing managers'' None, d)
     else if fst (page limit offset) < 0 then (server_error, d)
     else (Done 200
       (paged (page limit offset) (List.map_filter (\<lambda>c. map_option (\<lambda>name. (name, c)) (al_get (bd_callsigns d) (bc_user c)))
          (newest_first bc_created (filter (\<lambda>c. bc_org c = org \<and> bc_status c \<in> {Succeeded, Pending}) (bd_contribs d)))),
        paged (page limit offset) (org_ledger org d)), d))"

definition getMyTransactions :: "string option \<Rightarrow> int option \<Rightarrow> int option \<Rightarrow> bill_db \<Rightarrow> (string \<times> contribution) list answer \<times> bill_db" where
  "getMyTransactions user limit offset d = (case user of None \<Rightarrow> (Failed 401 ''Unauthorized'' None, d)
     | Some u \<Rightarrow> if bd_down d \<or> fst (page limit offset) < 0 then (server_error, d)
         else (Done 200 (paged (page limit offset)
           (List.map_filter (\<lambda>c. map_option (\<lambda>o'. (og_callsign o', c)) (al_get (bd_orgs d) (bc_org c)))
             (newest_first bc_created (filter (\<lambda>c. bc_user c = u) (bd_contribs d))))), d))"

text \<open>The days of the current month, and the months of the last \<open>n\<close> with their totals, newest first.\<close>

definition getUsageDaily :: "string \<Rightarrow> string option \<Rightarrow> int option \<Rightarrow> bill_db
    \<Rightarrow> ((int \<times> int) list \<times> (int \<times> int) list) answer \<times> bill_db" where
  "getUsageDaily org user months d = member_gate org user d (\<lambda>v.
     (let n = min (max (if or_else months 0 = 0 then 6 else or_else months 0) 1) 12;
          am = month_of (bd_now d div (day_ms * 1000));
          days = List.map_filter (\<lambda>((o', day), b). if o' = org then Some (day, b) else None) (bd_daily d);
          recent = filter (\<lambda>(day, _). day \<ge> month_start (am - n)) days;
          totals = fold (\<lambda>(day, b) m. al_set (month_of day) (or_else (al_get m (month_of day)) 0 + b) m) recent []
      in (Done 200 (stable_sort (\<lambda>a b. fst a \<le> fst b) (filter (\<lambda>(day, _). day \<ge> month_start am) days),
                    stable_sort (\<lambda>a b. fst b \<le> fst a) totals), d)))"

section \<open>Contact data\<close>

definition getBillingInfo :: "string \<Rightarrow> string option \<Rightarrow> bill_db \<Rightarrow> billing_info option answer \<times> bill_db" where
  "getBillingInfo org user d = owner_gate ''Only the owner can view billing info'' org user d
     (\<lambda>u. (Done 200 (al_get (bd_info d) org), d))"

text \<open>\<open>f name\<close> is the body's field of that name, \<open>exempt\<close> its flag.\<close>

definition updateBillingInfo :: "string \<Rightarrow> string option \<Rightarrow> (string \<Rightarrow> string option) \<Rightarrow> bool option \<Rightarrow> bill_db \<Rightarrow> unit answer \<times> bill_db" where
  "updateBillingInfo org user f exempt d = owner_gate ''Only the owner can update billing info'' org user d
     (\<lambda>u. (Done 200 (), d\<lparr>bd_info := al_set org
       \<lparr>bi_contact = or_else (f ''contact_name'') [], bi_company = f ''company_name'', bi_email = or_else (f ''billing_email'') [],
        bi_phone = or_else (f ''phone'') [], bi_address1 = or_else (f ''address_line1'') [], bi_address2 = or_else (f ''address_line2'') [],
        bi_city = or_else (f ''city'') [], bi_state = or_else (f ''state'') [], bi_zip = or_else (f ''zip'') [],
        bi_tax_id = or_else (f ''tax_id'') [], bi_exempt = or_else exempt False,
        bi_exempt_number = or_else (f ''tax_exemption_number'') [], bi_by = Some u\<rparr> (bd_info d)\<rparr>))"

definition getOrgBillingInfo :: "string \<Rightarrow> bill_db \<Rightarrow> billing_info option answer" where
  "getOrgBillingInfo org d = (if bd_down d then server_error else Done 200 (al_get (bd_info d) org))"

text \<open>What an external ledger mirrors: credited rows after a time, oldest first.\<close>

definition listBillingContributions :: "int option \<Rightarrow> int \<Rightarrow> int \<Rightarrow> bill_db \<Rightarrow> (contribution list \<times> bool) answer" where
  "listBillingContributions since limit offset d =
    (if bd_down d then server_error
     else let rows = stable_sort (\<lambda>a b. or_else (bc_credited a) 0 \<le> or_else (bc_credited b) 0)
                (filter (\<lambda>c. bc_status c = Succeeded \<and> al_has (bd_orgs d) (bc_org c) \<and> al_has (bd_callsigns d) (bc_user c)
                   \<and> (case since of None \<Rightarrow> True | Some t \<Rightarrow> or_else (bc_credited c) 0 > t)) (bd_contribs d));
              l = min 200 limit; p = take (nat (l + 1)) (drop (nat (max 0 offset)) rows)
          in Done 200 (take (nat l) p, int (length p) > l))"

end
