(* ===== verification/Billing_Props.thy ===== *)
theory Billing_Props
  imports Billing
begin

text \<open>
  What the service promises of money: the pool of an organisation, its ledger and the credited
  contributions agree after any requests and webhooks in any order; the first event about a
  contribution decides it; the customer is asked for exactly the charge.  And where the promises end:
  a declined first attempt, a stale session, and a cycle that never rolls over.
\<close>

section \<open>The books\<close>

definition credited_rows :: "string \<Rightarrow> contribution list \<Rightarrow> contribution list" where
  "credited_rows org cs = filter (\<lambda>c. bc_org c = org \<and> bc_status c = Succeeded) cs"

definition credited_cents :: "string \<Rightarrow> contribution list \<Rightarrow> int" where
  "credited_cents org cs = sum_list (map bc_amount (credited_rows org cs))"

definition ledger_cents :: "string \<Rightarrow> bill_db \<Rightarrow> int" where
  "ledger_cents org d = sum_list (map lg_delta (filter (\<lambda>l. lg_org l = org) (bd_ledger d)))"

definition balance_cents :: "string \<Rightarrow> bill_db \<Rightarrow> int" where
  "balance_cents org d = (case al_get (bd_pools d) org of None \<Rightarrow> 0 | Some r \<Rightarrow> pl_balance r)"

definition books_ok :: "bill_db \<Rightarrow> bool" where
  "books_ok d \<longleftrightarrow> distinct (map bc_id (bd_contribs d))
     \<and> (\<forall>c \<in> set (bd_contribs d). (bc_credited c = None) = (bc_status c \<noteq> Succeeded))
     \<and> (\<forall>org. balance_cents org d = credited_cents org (bd_contribs d) \<and> ledger_cents org d = credited_cents org (bd_contribs d))"

lemma balance_pool: "balance_cents org d = pl_balance (pool_of d org)"
  by (simp add: balance_cents_def pool_of_def new_pool_def split: option.split)

lemma credited_simps [simp]:
  "credited_cents org [] = 0"
  "credited_cents org (c # cs) = (if bc_org c = org \<and> bc_status c = Succeeded then bc_amount c else 0) + credited_cents org cs"
  "credited_cents org (cs @ cs') = credited_cents org cs + credited_cents org cs'"
  by (simp_all add: credited_cents_def credited_rows_def)

text \<open>The flip of a pending row adds its amount once; a change that keeps the columns of the books adds nothing.\<close>

definition same_books :: "(contribution \<Rightarrow> contribution) \<Rightarrow> bool" where
  "same_books f \<longleftrightarrow> (\<forall>c. bc_id (f c) = bc_id c \<and> bc_org (f c) = bc_org c \<and> bc_amount (f c) = bc_amount c
     \<and> bc_status (f c) = bc_status c \<and> bc_credited (f c) = bc_credited c)"

lemma update_ids:
  assumes "\<And>c. bc_id (f c) = bc_id c"
  shows "map bc_id (bd_contribs (update_contrib cid f d)) = map bc_id (bd_contribs d)"
  using assms by (simp add: update_contrib_def)

lemma no_row_no_change: "cid \<notin> bc_id ` set cs \<Longrightarrow> map (\<lambda>c. if bc_id c = cid then f c else c) cs = cs"
  by (induction cs) auto

lemma flip_credits:
  assumes "distinct (map bc_id cs)" "find (\<lambda>c. bc_id c = cid \<and> bc_status c = Pending) cs = Some c"
    and "\<And>r. bc_org (f r) = bc_org r" "\<And>r. bc_amount (f r) = bc_amount r"
  shows "credited_cents org (map (\<lambda>r. if bc_id r = cid then f r else r) cs)
    = credited_cents org cs + (if bc_org c = org \<and> bc_status (f c) = Succeeded then bc_amount c else 0)"
  using assms(1,2)
proof (induction cs)
  case (Cons a cs)
  show ?case
  proof (cases "bc_id a = cid")
    case True
    then have "cid \<notin> bc_id ` set cs" using Cons.prems(1) by auto
    moreover from this have "find (\<lambda>c. bc_id c = cid \<and> bc_status c = Pending) cs = None" by (auto simp: find_None_iff)
    ultimately have "bc_status a = Pending" "c = a" using Cons.prems(2) True by (auto split: if_splits)
    then show ?thesis using True no_row_no_change [OF \<open>cid \<notin> bc_id ` set cs\<close>, of f] assms(3,4) by simp
  qed (use Cons in simp)
qed simp

lemma keep_credits:
  assumes "same_books f"
  shows "credited_cents org (map (\<lambda>r. if bc_id r = cid then f r else r) cs) = credited_cents org cs"
  using assms by (induction cs) (auto simp: same_books_def)

lemma pending_row:
  assumes "pending_contrib cid d = Some c"
  shows "c \<in> set (bd_contribs d)" "bc_id c = cid" "bc_status c = Pending"
  using find_in [OF assms [unfolded pending_contrib_def]] by simp_all

lemma credit_keeps_books:
  assumes "books_ok d"
  shows "books_ok (snd (creditContribution cid payment d))"
proof (cases "bd_down d \<or> pending_contrib cid d = None")
  case True
  then show ?thesis using assms by (auto simp: creditContribution_def)
next
  case False
  then obtain c where c: "pending_contrib cid d = Some c" by auto
  let ?f = "\<lambda>r. r\<lparr>bc_status := Succeeded, bc_credited := Some (bd_now d), bc_payment := nullish payment (bc_payment r)\<rparr>"
  let ?d = "snd (creditContribution cid payment d)"
  have d': "?d = credit_pool c (update_contrib cid ?f d)" using False c by (simp add: creditContribution_def)
  have cs: "bd_contribs ?d = map (\<lambda>r. if bc_id r = cid then ?f r else r) (bd_contribs d)"
    unfolding d' by (simp add: credit_pool_def update_contrib_def)
  have "credited_cents org (bd_contribs ?d) = credited_cents org (bd_contribs d) + (if bc_org c = org then bc_amount c else 0)" for org
    using flip_credits [of "bd_contribs d" cid c ?f org] assms c unfolding cs by (simp add: books_ok_def pending_contrib_def)
  moreover have "balance_cents org ?d = balance_cents org d + (if bc_org c = org then bc_amount c else 0)" for org
    unfolding d' balance_pool by (simp add: credit_pool_def update_contrib_def pool_of_def new_pool_def)
  moreover have "ledger_cents org ?d = ledger_cents org d + (if bc_org c = org then bc_amount c else 0)" for org
    unfolding d' by (simp add: credit_pool_def update_contrib_def ledger_cents_def)
  moreover have "map bc_id (bd_contribs ?d) = map bc_id (bd_contribs d)" unfolding cs by simp
  moreover have "\<forall>r \<in> set (bd_contribs ?d). (bc_credited r = None) = (bc_status r \<noteq> Succeeded)"
    unfolding cs using assms by (auto simp: books_ok_def)
  ultimately show ?thesis using assms unfolding books_ok_def by metis
qed

lemma fail_keeps_books:
  assumes "books_ok d" "status \<noteq> Succeeded"
  shows "books_ok (snd (markContributionFailed cid status payment d))"
proof (cases "bd_down d \<or> pending_contrib cid d = None")
  case True
  then show ?thesis using assms by (auto simp: markContributionFailed_def)
next
  case False
  then obtain c where c: "pending_contrib cid d = Some c" by auto
  let ?f = "\<lambda>r. r\<lparr>bc_status := status, bc_payment := nullish payment (bc_payment r)\<rparr>"
  let ?d = "snd (markContributionFailed cid status payment d)"
  have d': "?d = update_contrib cid ?f d" using False c by (simp add: markContributionFailed_def)
  have cs: "bd_contribs ?d = map (\<lambda>r. if bc_id r = cid then ?f r else r) (bd_contribs d)"
    unfolding d' by (simp add: update_contrib_def)
  have "credited_cents org (bd_contribs ?d) = credited_cents org (bd_contribs d)" for org
    using flip_credits [of "bd_contribs d" cid c ?f org] assms c unfolding cs by (simp add: books_ok_def pending_contrib_def)
  moreover have "balance_cents org ?d = balance_cents org d" "ledger_cents org ?d = ledger_cents org d" for org
    unfolding d' by (simp_all add: update_contrib_def balance_cents_def ledger_cents_def)
  moreover have "map bc_id (bd_contribs ?d) = map bc_id (bd_contribs d)" unfolding cs by simp
  moreover have "\<forall>r \<in> set (bd_contribs ?d). (bc_credited r = None) = (bc_status r \<noteq> Succeeded)"
  proof
    fix r assume "r \<in> set (bd_contribs ?d)"
    then obtain q where q: "q \<in> set (bd_contribs d)" "r = (if bc_id q = cid then ?f q else q)" unfolding cs by auto
    have "q = c" if "bc_id q = cid"
      using that q(1) pending_row [OF c] assms(1) by (auto simp: books_ok_def distinct_map dest: inj_onD)
    then show "(bc_credited r = None) = (bc_status r \<noteq> Succeeded)"
      using q assms pending_row [OF c] by (auto simp: books_ok_def)
  qed
  ultimately show ?thesis using assms(1) unfolding books_ok_def by metis
qed

lemma update_keeps_books:
  assumes "books_ok d" "same_books f"
  shows "books_ok (update_contrib cid f d)"
proof -
  have "map bc_id (bd_contribs (update_contrib cid f d)) = map bc_id (bd_contribs d)"
    using assms(2) by (intro update_ids) (simp add: same_books_def)
  moreover have "credited_cents org (bd_contribs (update_contrib cid f d)) = credited_cents org (bd_contribs d)" for org
    using keep_credits [OF assms(2)] by (simp add: update_contrib_def)
  moreover have "balance_cents org (update_contrib cid f d) = balance_cents org d"
      "ledger_cents org (update_contrib cid f d) = ledger_cents org d" for org
    by (simp_all add: update_contrib_def balance_cents_def ledger_cents_def)
  moreover have "\<forall>c \<in> set (bd_contribs (update_contrib cid f d)). (bc_credited c = None) = (bc_status c \<noteq> Succeeded)"
    using assms by (auto simp: update_contrib_def books_ok_def same_books_def)
  ultimately show ?thesis using assms(1) unfolding books_ok_def by metis
qed

lemma insert_keeps_books:
  assumes "books_ok d" "bc_id c \<notin> bc_id ` set (bd_contribs d)" "bc_status c = Pending" "bc_credited c = None"
  shows "books_ok (d\<lparr>bd_contribs := bd_contribs d @ [c]\<rparr>)"
  using assms by (auto simp: books_ok_def balance_cents_def ledger_cents_def)

lemma books_frame:
  assumes "books_ok d" "bd_contribs d' = bd_contribs d" "bd_ledger d' = bd_ledger d" "\<And>org. balance_cents org d' = balance_cents org d"
  shows "books_ok d'"
  using assms by (simp add: books_ok_def ledger_cents_def)

section \<open>Any order of requests and webhooks\<close>

text \<open>One turn of the service: a handler up to its next await, a webhook, a session that ended, or a change of the tables
  and the configuration these handlers only read.\<close>

inductive billing_step :: "(checkout_params \<Rightarrow> (string \<times> int) list \<Rightarrow> stripe_session option) \<Rightarrow> bill_db \<Rightarrow> bill_db \<Rightarrow> bool"
  for stripe where
  Begin: "contribute_begin cid org user amount m d = Inr (p, d') \<Longrightarrow> cid \<notin> bc_id ` set (bd_contribs d) \<Longrightarrow> billing_step stripe d d'"
| Checkout: "billing_step stripe d (snd (createCheckout stripe p d))"
| End: "billing_step stripe d (snd (contribute_end p c d))"
| Invoice: "cid \<notin> bc_id ` set (bd_contribs d) \<Longrightarrow> billing_step stripe d (snd (createOrgInvoice cid admin org amount reason ext d))"
| Paid: "billing_step stripe d (snd (pay_end p c d))"
| Webhook: "billing_step stripe d (snd (stripe_webhook verify body signature d))"
| Session: "billing_step stripe d (snd (session_end ev d))"
| Ensure: "billing_step stripe d (ensure_pool org d)"
| Reset: "billing_step stripe d (snd (reset_cycle org start original d))"
| Info: "billing_step stripe d (snd (updateBillingInfo org user f exempt d))"
| Outside: "bd_contribs d' = bd_contribs d \<Longrightarrow> bd_pools d' = bd_pools d \<Longrightarrow> bd_ledger d' = bd_ledger d \<Longrightarrow> billing_step stripe d d'"

lemma begin_inserts:
  assumes "contribute_begin cid org user amount m d = Inr (p, d')"
  shows "\<exists>u net meth charge o'. user = Some u \<and> amount = Some net \<and> parse_method m = Some meth \<and> 100 \<le> net
    \<and> al_get (bd_orgs d) org = Some o' \<and> price_of meth net = Inr (charge, co_fee p)
    \<and> d' = d\<lparr>bd_contribs := bd_contribs d @ [new_contribution cid org u net (co_fee p) meth d]\<rparr>
    \<and> co_contribution p = cid \<and> co_org p = org \<and> co_user p = u \<and> co_net p = net \<and> co_charge p = charge \<and> co_method p = meth"
  using assms
  by (auto simp: contribute_begin_def MIN_CONTRIBUTION_CENTS_def split: option.splits if_splits sum.splits prod.splits)

lemma event_keeps_books: "books_ok d \<Longrightarrow> books_ok (snd (handle_event ev d))"
  by (auto simp: handle_event_def split: stripe_event.split intro: credit_keeps_books fail_keeps_books)

lemma webhook_state: "snd (stripe_webhook verify body signature d) = (case signature of None \<Rightarrow> d
    | Some sig \<Rightarrow> (case verify body sig of None \<Rightarrow> d | Some ev \<Rightarrow> snd (handle_event ev d)))"
  by (simp add: stripe_webhook_def split: option.split prod.split)

lemma checkout_state: "snd (createCheckout stripe p d) = d
    \<or> snd (createCheckout stripe p d) = snd (creditContribution (co_contribution p) (Some (''dev_'' @ co_contribution p)) d)"
  by (auto simp: createCheckout_def Let_def split: provider_name.split option.split prod.split)

lemma end_state: "snd (contribute_end p c d) = d \<or> (\<exists>s. snd (contribute_end p c d) = update_contrib (co_contribution p) (\<lambda>b. b\<lparr>bc_session := s\<rparr>) d)"
  by (auto simp: contribute_end_def split: option.split)

lemma pay_end_state: "snd (pay_end p c d) = d \<or> (\<exists>u m v f s. snd (pay_end p c d) = update_contrib (co_contribution p)
    (\<lambda>b. b\<lparr>bc_user := u, bc_method := m, bc_provider := v, bc_fee := f, bc_session := s\<rparr>) d)"
  unfolding pay_end_def by (cases c; cases "bd_down d") (simp_all, blast)

lemma invoice_state: "snd (createOrgInvoice cid admin org amount reason ext d) = d
    \<or> (\<exists>c. snd (createOrgInvoice cid admin org amount reason ext d) = d\<lparr>bd_contribs := bd_contribs d @ [c]\<rparr>
       \<and> bc_id c = cid \<and> bc_status c = Pending \<and> bc_credited c = None)"
  by (auto simp: createOrgInvoice_def split: option.split)

lemma info_state: "snd (updateBillingInfo org user f exempt d) = d \<or> (\<exists>x. snd (updateBillingInfo org user f exempt d) = d\<lparr>bd_info := x\<rparr>)"
  by (auto simp: updateBillingInfo_def owner_gate_def split: option.split)

lemma reset_books: "books_ok d \<Longrightarrow> books_ok (snd (reset_cycle org start original d))"
  by (auto simp: reset_cycle_def balance_cents_def split: option.split elim: books_frame)

lemma session_books: "books_ok d \<Longrightarrow> books_ok (snd (session_end ev d))"
  by (erule books_frame) (auto simp: session_end_def Let_def balance_pool pool_of_def new_pool_def)

lemma ensure_books: "books_ok d \<Longrightarrow> books_ok (ensure_pool org d)"
  by (erule books_frame) (auto simp: ensure_pool_def balance_cents_def al_has_def new_pool_def split: option.splits)

lemma step_keeps_books:
  assumes "billing_step stripe d d'" "books_ok d"
  shows "books_ok d'"
  using assms
proof (induction rule: billing_step.induct)
  case (Begin cid org user amount m d p d')
  then obtain u net meth where "d' = d\<lparr>bd_contribs := bd_contribs d @ [new_contribution cid org u net (co_fee p) meth d]\<rparr>"
    using begin_inserts [OF Begin(1)] by blast
  then show ?case using insert_keeps_books [OF Begin(3), of "new_contribution cid org u net (co_fee p) meth d"] Begin(2)
    by (simp add: new_contribution_def)
next
  case (Checkout d p)
  then show ?case using checkout_state [of stripe p d] credit_keeps_books [OF Checkout] by metis
next
  case (End d p c)
  then show ?case using end_state [of p c d] update_keeps_books [OF End] by (auto simp: same_books_def)
next
  case (Invoice cid d admin org amount reason ext)
  then show ?case using invoice_state [of cid admin org amount reason ext d] insert_keeps_books [OF Invoice(2)] by metis
next
  case (Paid d p c)
  then show ?case using pay_end_state [of p c d] update_keeps_books [OF Paid] by (auto simp: same_books_def)
next
  case (Webhook d verify body signature)
  then show ?case unfolding webhook_state by (auto split: option.split intro: event_keeps_books)
next
  case (Info d org user f exempt)
  then show ?case using info_state [of org user f exempt d] by (auto elim!: books_frame simp: balance_cents_def)
next
  case (Outside d' d)
  then show ?case by (auto elim!: books_frame simp: balance_cents_def)
qed (simp_all add: session_books ensure_books reset_books)

lemma run_keeps_books: "(billing_step stripe)\<^sup>*\<^sup>* d d' \<Longrightarrow> books_ok d \<Longrightarrow> books_ok d'"
  by (induction rule: rtranclp_induct) (auto intro: step_keeps_books)

text \<open>The handlers as they are written are such runs.\<close>

lemma contribute_is_run:
  assumes "cid \<notin> bc_id ` set (bd_contribs d)"
  shows "(billing_step stripe)\<^sup>*\<^sup>* d (snd (contributeToOrg stripe cid org user amount m d))"
proof (cases "contribute_begin cid org user amount m d")
  case (Inr r)
  obtain p d1 where r: "r = (p, d1)" by (cases r)
  have "billing_step stripe d d1" using Inr assms r by (intro Begin) simp_all
  moreover have "billing_step stripe d1 (snd (createCheckout stripe p d1))" by (rule Checkout)
  moreover have "billing_step stripe (snd (createCheckout stripe p d1))
      (snd (contribute_end p (fst (createCheckout stripe p d1)) (snd (createCheckout stripe p d1))))" by (rule End)
  ultimately show ?thesis using Inr r
    by (simp add: contributeToOrg_def case_prod_beta)
qed (simp add: contributeToOrg_def)

lemma pay_is_run: "(billing_step stripe)\<^sup>*\<^sup>* d (snd (payOrgInvoice stripe org cid user m d))"
proof (cases "pay_begin org cid user m d")
  case (Inr p)
  have "billing_step stripe d (snd (createCheckout stripe p d))" by (rule Checkout)
  moreover have "billing_step stripe (snd (createCheckout stripe p d))
      (snd (pay_end p (fst (createCheckout stripe p d)) (snd (createCheckout stripe p d))))" by (rule Paid)
  ultimately show ?thesis using Inr by (simp add: payOrgInvoice_def case_prod_beta)
qed (simp add: payOrgInvoice_def)

lemma status_is_run: "(billing_step stripe)\<^sup>*\<^sup>* d (snd (getBillingStatus org user d))"
proof -
  have e: "billing_step stripe d (ensure_pool org d)" by (rule Ensure)
  have r: "billing_step stripe d1 (snd (reset_cycle org start original d1))" for d1 start original by (rule Reset)
  have "(billing_step stripe)\<^sup>*\<^sup>* d1 (snd (roll_over org row d1))" for d1 row
    using r [of d1] by (auto simp: roll_over_def split: option.split prod.split bool.split) (metis r_into_rtranclp snd_conv)+
  then show ?thesis using converse_rtranclp_into_rtranclp [of "billing_step stripe", OF e]
    by (simp add: getBillingStatus_def member_gate_def Let_def case_prod_beta split: option.split)
qed

text \<open>C16: the books of every organisation agree: after any requests, checkouts, webhooks (repeated, late or out of order) and
  ended sessions, in any order, the balance of the pool is the sum of the contributions that succeeded, and so is its
  ledger; no contribution is credited twice.\<close>

theorem books_stay_balanced:
  assumes "(billing_step stripe)\<^sup>*\<^sup>* d d'" "books_ok d"
  shows "balance_cents org d' = sum_list (map bc_amount (filter (\<lambda>c. bc_org c = org \<and> bc_status c = Succeeded) (bd_contribs d')))
    \<and> ledger_cents org d' = balance_cents org d' \<and> distinct (map bc_id (bd_contribs d'))"
  using run_keeps_books [OF assms] by (simp add: books_ok_def credited_cents_def credited_rows_def)

section \<open>What is closed stays closed\<close>

definition row_key :: "contribution \<Rightarrow> string \<times> string \<times> int \<times> pay_status \<times> int option" where
  "row_key c = (bc_id c, bc_org c, bc_amount c, bc_status c, bc_credited c)"

lemma updated_row:
  assumes "c \<in> set (bd_contribs d)"
  shows "(if bc_id c = cid then f c else c) \<in> set (bd_contribs (update_contrib cid f d))"
  unfolding update_contrib_def using imageI [OF assms, of "\<lambda>c. if bc_id c = cid then f c else c"] by simp

lemma update_keeps_key:
  assumes "\<And>r. row_key (f r) = row_key r" "c \<in> set (bd_contribs d)"
  shows "\<exists>c' \<in> set (bd_contribs (update_contrib cid f d)). row_key c' = row_key c"
  using bexI [OF _ updated_row [OF assms(2), of cid f]] assms(1) by simp

lemma event_keeps_closed:
  assumes "books_ok d" "c \<in> set (bd_contribs d)" "bc_status c \<noteq> Pending" "pending_contrib cid d = Some q"
  shows "c \<in> set (bd_contribs (update_contrib cid f d))"
proof -
  have "bc_id c \<noteq> cid"
    using assms pending_row [OF assms(4)] by (auto simp: books_ok_def distinct_map dest: inj_onD)
  then show ?thesis using assms(2) by (auto simp: update_contrib_def intro: rev_image_eqI)
qed

lemma credit_keeps_closed:
  assumes "books_ok d" "c \<in> set (bd_contribs d)" "bc_status c \<noteq> Pending"
  shows "c \<in> set (bd_contribs (snd (creditContribution cid payment d)))"
    "c \<in> set (bd_contribs (snd (markContributionFailed cid st payment d)))"
  using event_keeps_closed [OF assms] assms(2)
  by (auto simp: creditContribution_def markContributionFailed_def credit_pool_def split: option.split)

lemma step_keeps_closed:
  assumes "billing_step stripe d d'" "books_ok d" "c \<in> set (bd_contribs d)" "bc_status c \<noteq> Pending"
  shows "\<exists>c' \<in> set (bd_contribs d'). row_key c' = row_key c"
  using assms
proof (induction rule: billing_step.induct)
  case (Begin cid org user amount m d p d')
  then show ?case using begin_inserts [OF Begin(1)] by fastforce
next
  case (Checkout d p)
  then show ?case using checkout_state [of stripe p d] credit_keeps_closed(1) [OF Checkout] by metis
next
  case (End d p r)
  then show ?case using end_state [of p r d] update_keeps_key [OF _ End(2)] by (fastforce simp: row_key_def)
next
  case (Invoice cid d admin org amount reason ext)
  then show ?case using invoice_state [of cid admin org amount reason ext d] by fastforce
next
  case (Paid d p r)
  then show ?case using pay_end_state [of p r d] update_keeps_key [OF _ Paid(2)] by (fastforce simp: row_key_def)
next
  case (Webhook d verify body signature)
  then show ?case unfolding webhook_state
    using credit_keeps_closed [OF Webhook] by (force simp: handle_event_def split: option.split stripe_event.split)
next
  case (Info d org user f exempt)
  then show ?case using info_state [of org user f exempt d] by fastforce
qed (auto simp: session_end_def ensure_pool_def reset_cycle_def Let_def split: option.split)

lemma run_keeps_closed:
  assumes "(billing_step stripe)\<^sup>*\<^sup>* d d'" "books_ok d" "c \<in> set (bd_contribs d)" "bc_status c \<noteq> Pending"
  shows "\<exists>c' \<in> set (bd_contribs d'). row_key c' = row_key c"
  using assms(1)
proof (induction rule: rtranclp_induct)
  case base
  then show ?case using assms(3) by blast
next
  case (step d1 d2)
  then obtain c' where c': "c' \<in> set (bd_contribs d1)" "row_key c' = row_key c" by blast
  then show ?case using step_keeps_closed [OF step(2) run_keeps_books [OF step(1) assms(2)] c'(1)] assms(4)
    by (auto simp: row_key_def)
qed

lemma same_id_same_row:
  assumes "books_ok d" "c \<in> set (bd_contribs d)" "q \<in> set (bd_contribs d)" "bc_id c = bc_id q"
  shows "c = q"
proof -
  have "inj_on bc_id (set (bd_contribs d))" using assms(1) by (simp add: books_ok_def distinct_map)
  then show ?thesis by (rule inj_onD) (use assms(2-4) in simp_all)
qed

lemma closed_not_pending:
  assumes "books_ok d" "c \<in> set (bd_contribs d)" "bc_status c \<noteq> Pending"
  shows "pending_contrib (bc_id c) d = None"
proof (rule ccontr)
  assume "pending_contrib (bc_id c) d \<noteq> None"
  then obtain q where q: "pending_contrib (bc_id c) d = Some q" by blast
  have "c = q" by (rule same_id_same_row [OF assms(1,2) pending_row(1) [OF q]]) (simp add: pending_row(2) [OF q])
  then show False using pending_row(3) [OF q] assms(3) by simp
qed

text \<open>An event about a contribution that is not pending does nothing, and an invoice that is not pending cannot be paid.\<close>

lemma closed_event_ignored:
  assumes "pending_contrib cid d = None"
  shows "snd (creditContribution cid payment d) = d" "snd (markContributionFailed cid st payment d) = d"
  using assms by (simp_all add: creditContribution_def markContributionFailed_def)

lemma closed_invoice_refused:
  assumes "pending_contrib cid d = None" "\<not> bd_down d" "paymentsEnabled d" "parse_method m = Some meth"
    "vw_member (getBillingViewer org u d)"
  shows "payOrgInvoice stripe org cid (Some u) m d = (Failed 404 ''Invoice not found or already paid'' None, d)"
proof -
  have "open_invoice cid org d = None" using assms(1) by (auto simp: open_invoice_def pending_contrib_def find_None_iff)
  then show ?thesis using assms by (simp add: payOrgInvoice_def pay_begin_def)
qed

lemma decline_state:
  assumes "pending_contrib cid d = Some q" "\<not> bd_down d" "cid \<noteq> []"
  shows "snd (handle_event (Payment_failed (Some cid) payment) d) = update_contrib cid
      (\<lambda>r. r\<lparr>bc_status := Declined, bc_payment := Some payment\<rparr>) d"
  using assms by (simp add: handle_event_def markContributionFailed_def)

lemma decline_closes:
  assumes "pending_contrib cid d = Some q" "\<not> bd_down d" "cid \<noteq> []"
  shows "q\<lparr>bc_status := Declined, bc_payment := Some payment\<rparr> \<in> set (bd_contribs (snd (handle_event (Payment_failed (Some cid) payment) d)))"
  unfolding decline_state [OF assms]
  using updated_row [OF pending_row(1) [OF assms(1)], of cid "\<lambda>r. r\<lparr>bc_status := Declined, bc_payment := Some payment\<rparr>"]
    pending_row(2) [OF assms(1)] by simp

text \<open>A declined attempt closes the contribution for good: when the customer tries again in the same checkout and the
  payment goes through, the money is taken, but whatever runs in between the success is ignored, the pool does not
  get it, and an invoice answers that it was not found or already paid.\<close>

lemma declined_attempt_loses_payment:
  assumes "books_ok d" "pending_contrib cid d \<noteq> None" "\<not> bd_down d" "cid \<noteq> []"
    and "(billing_step stripe)\<^sup>*\<^sup>* (snd (handle_event (Payment_failed (Some cid) first) d)) d1"
  shows "snd (handle_event (Payment_succeeded (Some cid) second) d1) = d1
    \<and> (\<exists>c \<in> set (bd_contribs d1). bc_id c = cid \<and> bc_status c = Declined \<and> bc_credited c = None)
    \<and> (\<not> bd_down d1 \<and> paymentsEnabled d1 \<and> vw_member (getBillingViewer org u d1) \<longrightarrow>
        payOrgInvoice stripe org cid (Some u) ''card'' d1 = (Failed 404 ''Invoice not found or already paid'' None, d1))"
proof -
  let ?d = "snd (handle_event (Payment_failed (Some cid) first) d)"
  obtain q where q: "pending_contrib cid d = Some q" using assms(2) by blast
  have b: "books_ok ?d" using event_keeps_books [OF assms(1)] .
  have b1: "books_ok d1" by (rule run_keeps_books [OF assms(5) b])
  obtain c where c: "c \<in> set (bd_contribs d1)" "row_key c = row_key (q\<lparr>bc_status := Declined, bc_payment := Some first\<rparr>)"
    using run_keeps_closed [OF assms(5) b decline_closes [OF q assms(3,4)]] by auto
  then have id: "bc_id c = cid" "bc_status c = Declined" using pending_row [OF q] by (simp_all add: row_key_def)
  then have none: "pending_contrib cid d1 = None" using closed_not_pending [OF b1 c(1)] by simp
  have "bc_credited c = None" using b1 c(1) id(2) by (auto simp: books_ok_def)
  then show ?thesis using closed_event_ignored(1) [OF none] closed_invoice_refused [OF none] c(1) id assms(4)
    by (auto simp: handle_event_def parse_method_def)
qed

section \<open>The first event decides\<close>

text \<open>A value that the first relevant event decides: what a payment processor that repeats and reorders its events has to be
  answered with.\<close>

locale first_wins =
  fixes turn :: "'e \<Rightarrow> 's \<Rightarrow> 's" and val :: "'s \<Rightarrow> 'v" and undecided :: 'v and vote :: "'e \<Rightarrow> 'v option" and ok :: "'s \<Rightarrow> bool"
  assumes ok_turn: "ok s \<Longrightarrow> ok (turn e s)"
    and decided_stays: "ok s \<Longrightarrow> val s \<noteq> undecided \<Longrightarrow> val (turn e s) = val s"
    and vote_counts: "ok s \<Longrightarrow> val s = undecided \<Longrightarrow> val (turn e s) = or_else (vote e) undecided"
    and vote_decides: "vote e = Some v \<Longrightarrow> v \<noteq> undecided"
begin

lemma ok_fold: "ok s \<Longrightarrow> ok (fold turn es s)"
  by (induction es arbitrary: s) (simp_all add: ok_turn)

lemma decided_fold: "ok s \<Longrightarrow> val s \<noteq> undecided \<Longrightarrow> val (fold turn es s) = val s"
  by (induction es arbitrary: s) (simp_all add: ok_turn decided_stays)

lemma first_vote:
  "ok s \<Longrightarrow> val s = undecided \<Longrightarrow>
    val (fold turn es s) = (case find (\<lambda>e. vote e \<noteq> None) es of None \<Rightarrow> undecided | Some e \<Rightarrow> or_else (vote e) undecided)"
proof (induction es arbitrary: s)
  case (Cons e es)
  show ?case
  proof (cases "vote e")
    case None
    then show ?thesis using Cons.IH [OF ok_turn [OF Cons.prems(1)], of e] vote_counts [OF Cons.prems, of e] by simp
  next
    case (Some v)
    then have "val (turn e s) = v" "v \<noteq> undecided" using vote_counts [OF Cons.prems, of e] vote_decides by simp_all
    then show ?thesis using decided_fold [OF ok_turn [OF Cons.prems(1)], of e es] Some by simp
  qed
qed simp

text \<open>Events that arrive again, in any place behind their first arrival, change nothing.\<close>

lemma repeats_ignored:
  assumes "ok s" "val s = undecided" "set again \<subseteq> set es"
  shows "val (fold turn (es @ again) s) = val (fold turn es s)"
proof (cases "find (\<lambda>e. vote e \<noteq> None) es")
  case None
  then have "find (\<lambda>e. vote e \<noteq> None) again = None" using assms(3) by (auto simp: find_None_iff)
  then show ?thesis using first_vote [OF assms(1,2)] None by (simp add: find_append del: fold_append)
next
  case (Some e)
  then show ?thesis using first_vote [OF assms(1,2)] by (simp add: find_append del: fold_append)
qed

end

definition status_of :: "string \<Rightarrow> bill_db \<Rightarrow> pay_status option" where
  "status_of cid d = map_option bc_status (find (\<lambda>c. bc_id c = cid) (bd_contribs d))"

definition vote_of :: "string \<Rightarrow> stripe_event \<Rightarrow> pay_status option option" where
  "vote_of cid ev = (case ev of
       Payment_succeeded c _ \<Rightarrow> if c = Some cid then Some (Some Succeeded) else None
     | Payment_failed c _ \<Rightarrow> if c = Some cid then Some (Some Declined) else None
     | Session_expired c \<Rightarrow> if c = Some cid then Some (Some Canceled) else None
     | Other_event \<Rightarrow> None)"

lemma status_pending:
  assumes "books_ok d"
  shows "pending_contrib cid d = None \<longleftrightarrow> status_of cid d \<noteq> Some Pending"
proof -
  have "bc_status q = bc_status c" if "q \<in> set (bd_contribs d)" "bc_id q = cid" "find (\<lambda>c. bc_id c = cid) (bd_contribs d) = Some c" for q c
    using same_id_same_row [OF assms that(1), of c] find_in [OF that(3)] that(2) by auto
  then show ?thesis
    by (cases "find (\<lambda>c. bc_id c = cid) (bd_contribs d)")
      (auto simp: status_of_def pending_contrib_def find_None_iff dest: find_in)
qed

lemma status_after_update:
  assumes "\<And>c. bc_id (f c) = bc_id c"
  shows "status_of cid (update_contrib x f d)
    = map_option (\<lambda>c. bc_status (if bc_id c = x then f c else c)) (find (\<lambda>c. bc_id c = cid) (bd_contribs d))"
  unfolding status_of_def update_contrib_def
  using find_map_keep [of "\<lambda>c. bc_id c = cid" "\<lambda>c. if bc_id c = x then f c else c" "bd_contribs d"] assms
  by (simp add: option.map_comp comp_def)

lemma status_other: "x \<noteq> cid \<Longrightarrow> (\<And>c. bc_id (f c) = bc_id c) \<Longrightarrow> status_of cid (update_contrib x f d) = status_of cid d"
  using status_after_update [of f cid x d]
  by (cases "find (\<lambda>c. bc_id c = cid) (bd_contribs d)") (auto simp: status_of_def dest: find_in)

lemma status_same:
  assumes "\<And>c. bc_id (f c) = bc_id c" "\<And>c. bc_status (f c) = st" "status_of cid d \<noteq> None"
  shows "status_of cid (update_contrib cid f d) = Some st"
  using status_after_update [of f cid cid d] assms
  by (cases "find (\<lambda>c. bc_id c = cid) (bd_contribs d)") (auto simp: status_of_def dest: find_in)

lemma status_credit_pool [simp]: "status_of cid (credit_pool c d) = status_of cid d"
  by (simp add: status_of_def credit_pool_def)

lemma status_credit:
  assumes "books_ok d" "\<not> bd_down d"
  shows "status_of cid (snd (creditContribution x payment d))
      = (if x = cid \<and> status_of cid d = Some Pending then Some Succeeded else status_of cid d)"
  using assms status_pending [OF assms(1), of x]
  by (cases "x = cid"; cases "pending_contrib x d") (auto simp: creditContribution_def status_other status_same)

lemma status_failed:
  assumes "books_ok d" "\<not> bd_down d"
  shows "status_of cid (snd (markContributionFailed x st payment d))
      = (if x = cid \<and> status_of cid d = Some Pending then Some st else status_of cid d)"
  using assms status_pending [OF assms(1), of x]
  by (cases "x = cid"; cases "pending_contrib x d") (auto simp: markContributionFailed_def status_other status_same)

definition webhook_ready :: "string \<Rightarrow> bill_db \<Rightarrow> bool" where
  "webhook_ready cid d \<longleftrightarrow> books_ok d \<and> \<not> bd_down d \<and> cid \<noteq> []"

lemma down_event: "bd_down (snd (handle_event ev d)) = bd_down d"
  by (auto simp: handle_event_def creditContribution_def markContributionFailed_def credit_pool_def update_contrib_def
      split: stripe_event.split option.split)

lemma event_status:
  assumes "webhook_ready cid d"
  shows "status_of cid (snd (handle_event ev d))
    = (if status_of cid d = Some Pending then or_else (vote_of cid ev) (Some Pending) else status_of cid d)"
  using assms status_credit [of d cid] status_failed [of d cid]
  by (cases ev) (auto simp: handle_event_def vote_of_def webhook_ready_def truthy_iff)

interpretation webhooks: first_wins "\<lambda>ev d. snd (handle_event ev d)" "status_of cid" "Some Pending" "vote_of cid" "webhook_ready cid"
  for cid
proof unfold_locales
  show "webhook_ready cid (snd (handle_event ev d))" if "webhook_ready cid d" for ev d
    using that by (simp add: webhook_ready_def event_keeps_books down_event)
qed (auto simp: event_status vote_of_def split: stripe_event.splits if_splits)

text \<open>C17: the first event about a contribution decides it, whatever events come between or after it and however
  often the processor repeats them: it succeeds, is declined or is canceled by that one.\<close>

theorem first_event_decides:
  assumes "books_ok d" "\<not> bd_down d" "cid \<noteq> []" "status_of cid d = Some Pending" "set again \<subseteq> set evs"
  shows "status_of cid (fold (\<lambda>ev d. snd (handle_event ev d)) (evs @ again) d)
    = (case find (\<lambda>ev. vote_of cid ev \<noteq> None) evs of None \<Rightarrow> Some Pending | Some ev \<Rightarrow> or_else (vote_of cid ev) None)"
proof -
  have ok: "webhook_ready cid d" using assms by (simp add: webhook_ready_def)
  show ?thesis
    using webhooks.repeats_ignored [OF ok assms(4,5)] webhooks.first_vote [OF ok assms(4), of evs]
    by (auto simp del: fold_append split: option.split dest: find_in)
qed

section \<open>What the customer is asked for\<close>

lemma row_pending:
  assumes "c \<in> set (bd_contribs d)" "bc_id c = cid" "bc_status c = Pending"
  shows "pending_contrib cid d \<noteq> None"
  using assms unfolding pending_contrib_def find_None_iff by blast

lemma lines_sum:
  assumes "price_of (co_method p) (co_net p) = Inr (co_charge p, co_fee p)"
    "co_method p = Card \<or> co_method p = Ach" "0 < co_net p" "co_net p \<le> 2 ^ 42"
  shows "sum_list (map snd (line_items p)) = co_charge p \<and> co_fee p = co_charge p - co_net p
    \<and> (co_method p = Ach \<longrightarrow> co_charge p = co_net p)
    \<and> (co_method p = Card \<longrightarrow> (\<forall>c. co_charge p \<le> c \<longleftrightarrow> co_net p * 1000 \<le> c * 1000 - (c * 29 + 30000)))"
proof (cases "co_method p = Card")
  case True
  then have g: "cardGrossUp (co_net p) = Inr (co_charge p, co_fee p)" using assms(1) by (simp add: price_of_def)
  then have "100 \<le> co_net p" by (auto simp: cardGrossUp_def MIN_CONTRIBUTION_CENTS_def split: if_splits)
  then obtain charge where c: "cardGrossUp (co_net p) = Inr (charge, charge - co_net p)"
      "\<forall>c. charge \<le> c \<longleftrightarrow> co_net p * 1000 \<le> c * 1000 - (c * 29 + 30000)"
    using gross_up_least [OF _ assms(4)] by blast
  then have e: "charge = co_charge p" "co_fee p = co_charge p - co_net p" using g by simp_all
  have "co_net p * 1000 \<le> charge * 1000 - (charge * 29 + 30000)" using c(2) by blast
  then have "co_fee p > 0" using e assms(3) by simp
  then show ?thesis using True c(2) e by (simp add: line_items_def)
qed (use assms in \<open>simp add: price_of_def line_items_def\<close>)

text \<open>What the customer is asked for is what the pool gets plus the fee: the lines of the checkout of a contribution or of an
  invoice add up to the charge; a bank payment is charged the amount itself, a card the least charge
  that leaves the amount after the processor's fee; and the row that waits for the payment holds exactly
  the amount that will be credited.\<close>

lemma customer_pays_charge:
  assumes "(\<exists>user amount m. contribute_begin cid org user amount m d = Inr (p, d'))
      \<or> (\<exists>user m. pay_begin org cid user m d = Inr p) \<and> d' = d"
    and "cid \<notin> bc_id ` set (bd_contribs d) \<or> d' = d" "0 < co_net p" "co_net p \<le> 2 ^ 42"
  shows "sum_list (map snd (line_items p)) = co_charge p \<and> co_fee p = co_charge p - co_net p
    \<and> (co_method p = Ach \<longrightarrow> co_charge p = co_net p)
    \<and> (co_method p = Card \<longrightarrow> (\<forall>c. co_charge p \<le> c \<longleftrightarrow> co_net p * 1000 \<le> c * 1000 - (c * 29 + 30000)))
    \<and> (\<exists>r. pending_contrib cid d' \<noteq> None \<and> r \<in> set (bd_contribs d') \<and> bc_id r = cid \<and> bc_org r = org
        \<and> bc_status r = Pending \<and> bc_amount r = co_net p)"
  using assms(1)
proof (elim disjE exE conjE)
  fix user amount m
  assume b: "contribute_begin cid org user amount m d = Inr (p, d')"
  obtain u net meth charge where w: "parse_method m = Some meth" "price_of meth net = Inr (charge, co_fee p)"
      "d' = d\<lparr>bd_contribs := bd_contribs d @ [new_contribution cid org u net (co_fee p) meth d]\<rparr>"
      "co_method p = meth" "co_net p = net" "co_charge p = charge"
    using begin_inserts [OF b] by blast
  let ?c = "new_contribution cid org u net (co_fee p) meth d"
  have c: "?c \<in> set (bd_contribs d')" "bc_id ?c = cid" "bc_org ?c = org" "bc_status ?c = Pending" "bc_amount ?c = co_net p"
    unfolding w(3,5) by (simp_all add: new_contribution_def)
  have "meth = Card \<or> meth = Ach" using w(1) by (auto simp: parse_method_def split: if_splits)
  then have "co_method p = Card \<or> co_method p = Ach" "price_of (co_method p) (co_net p) = Inr (co_charge p, co_fee p)"
    using w(2,4-6) by simp_all
  then show ?thesis using lines_sum [of p, OF _ _ assms(3,4)] row_pending [OF c(1,2,4)] c by metis
next
  fix user m
  assume b: "pay_begin org cid user m d = Inr p" "d' = d"
  then obtain bill meth charge where w: "open_invoice cid org d = Some bill" "parse_method m = Some meth"
      "price_of meth (bc_amount bill) = Inr (charge, co_fee p)" "co_method p = meth" "co_net p = bc_amount bill" "co_charge p = charge"
    by (auto simp: pay_begin_def split: option.splits if_splits sum.splits prod.splits)
  have c: "bill \<in> set (bd_contribs d')" "bc_id bill = cid" "bc_org bill = org" "bc_status bill = Pending" "bc_amount bill = co_net p"
    using find_in [OF w(1) [unfolded open_invoice_def]] b(2) w(5) by simp_all
  have "meth = Card \<or> meth = Ach" using w(2) by (auto simp: parse_method_def split: if_splits)
  then show ?thesis using lines_sum [of p] w(3-6) assms(3,4) row_pending [OF c(1,2,4)] c by metis
qed

section \<open>The cycle\<close>

lemma advance_reaches:
  "start \<le> now \<Longrightarrow> advance_cycle now start \<le> now \<and> now < addMonths (advance_cycle now start) 1"
proof (induction now start rule: advance_cycle.induct)
  case (1 now start)
  then show ?case by (cases "addMonths start 1 \<le> now") (simp_all add: advance_cycle.simps [of now start])
qed

lemma pool_kept: "al_get (bd_pools d) org = Some r \<Longrightarrow> ensure_pool org d = d \<and> pool_of d org = r"
  by (simp add: ensure_pool_def al_has_def pool_of_def)

lemma whole_ms: "t mod 1000 = 0 \<Longrightarrow> us_of_ms (ms_of_us t) = t"
  by (auto simp: us_of_ms_def ms_of_us_def)


lemma odd_cycle_kept:
  assumes "al_get (bd_pools d) org = Some r" "pl_cycle r mod 1000 \<noteq> 0"
  shows "\<exists>r'. al_get (bd_pools (snd (reset_cycle x start original d))) org = Some r' \<and> pl_cycle r' = pl_cycle r"
proof -
  have "pl_cycle r \<noteq> us_of_ms original" using assms(2) by (auto simp: us_of_ms_def)
  then show ?thesis using assms(1) by (cases "x = org") (auto simp: reset_cycle_def split: option.split)
qed

lemma credit_keeps_cycle:
  assumes "al_get (bd_pools d) org = Some r"
  shows "\<exists>r'. al_get (bd_pools (snd (creditContribution cid payment d))) org = Some r' \<and> pl_cycle r' = pl_cycle r"
  using assms by (auto simp: creditContribution_def credit_pool_def update_contrib_def pool_of_def split: option.split)

lemma mark_keeps_pools: "bd_pools (snd (markContributionFailed cid st payment d)) = bd_pools d"
  by (auto simp: markContributionFailed_def update_contrib_def split: option.split)

lemma event_keeps_cycle:
  assumes "al_get (bd_pools d) org = Some r"
  shows "\<exists>r'. al_get (bd_pools (snd (handle_event ev d))) org = Some r' \<and> pl_cycle r' = pl_cycle r"
  using assms credit_keeps_cycle [OF assms]
  by (cases ev) (simp_all add: handle_event_def mark_keeps_pools)

lemma step_keeps_odd_cycle:
  assumes "billing_step stripe d d'" "al_get (bd_pools d) org = Some r" "pl_cycle r mod 1000 \<noteq> 0"
  shows "\<exists>r'. al_get (bd_pools d') org = Some r' \<and> pl_cycle r' = pl_cycle r"
  using assms
proof (induction rule: billing_step.induct)
  case (Begin cid o' user amount m d p d')
  then show ?case using begin_inserts [OF Begin(1)] by fastforce
next
  case (Checkout d p)
  then show ?case using checkout_state [of stripe p d] credit_keeps_cycle [OF Checkout(1)] by metis
next
  case (End d p c)
  then show ?case using end_state [of p c d] by (fastforce simp: update_contrib_def)
next
  case (Invoice cid d admin o' amount reason ext)
  then show ?case using invoice_state [of cid admin o' amount reason ext d] by fastforce
next
  case (Paid d p c)
  then show ?case using pay_end_state [of p c d] by (fastforce simp: update_contrib_def)
next
  case (Webhook d verify body signature)
  then show ?case unfolding webhook_state using event_keeps_cycle [OF Webhook(1)] by (auto split: option.split)
next
  case (Session d ev)
  then show ?case by (auto simp: session_end_def Let_def pool_of_def)
next
  case (Ensure d o')
  then show ?case by (auto simp: ensure_pool_def al_has_def)
next
  case (Reset d o' start original)
  then show ?case by (intro odd_cycle_kept)
next
  case (Info d o' user f exempt)
  then show ?case using info_state [of o' user f exempt d] by fastforce
qed simp

lemma run_keeps_odd_cycle:
  assumes "(billing_step stripe)\<^sup>*\<^sup>* d d'" "al_get (bd_pools d) org = Some r" "pl_cycle r mod 1000 \<noteq> 0"
  shows "\<exists>r'. al_get (bd_pools d') org = Some r' \<and> pl_cycle r' = pl_cycle r"
  using assms(1)
proof (induction rule: rtranclp_induct)
  case (step d1 d2)
  then show ?case using step_keeps_odd_cycle [OF step(2)] assms(3) by metis
qed (use assms(2) in simp)

text \<open>The database keeps microseconds and JavaScript milliseconds: a cycle whose stored start is not a whole millisecond
  never rolls over.  Whatever runs and however late it is, the start stays the stored one, and a status request answers with
  it and with the bytes of all time.\<close>

lemma odd_cycle_never_rolls:
  assumes "(billing_step stripe)\<^sup>*\<^sup>* d d'" "al_get (bd_pools d) org = Some r" "pl_cycle r mod 1000 \<noteq> 0"
    and "\<not> bd_down d'" "vw_member (getBillingViewer org u d')"
  shows "\<exists>st r'. getBillingStatus org (Some u) d' = (Done 200 st, d') \<and> al_get (bd_pools d') org = Some r'
    \<and> pl_cycle r' = pl_cycle r \<and> st_start st = ms_of_us (pl_cycle r) \<and> st_bytes st = pl_bytes r'"
proof -
  obtain r' where r': "al_get (bd_pools d') org = Some r'" "pl_cycle r' = pl_cycle r"
    using run_keeps_odd_cycle [OF assms(1-3)] by blast
  have "reset_cycle org start original d' = (False, d')" for start original
    using r' assms(3) by (auto simp: reset_cycle_def us_of_ms_def)
  then have "roll_over org r' d' = (r', d')" by (auto simp: roll_over_def split: option.split)
  then show ?thesis using assms(4,5) pool_kept [OF r'(1)] r'
    by (simp add: getBillingStatus_def member_gate_def Let_def status_reply_def)
qed

section \<open>At concrete inputs\<close>

definition toy_bill :: "int \<Rightarrow> bill_db" where
  "toy_bill cycle = \<lparr>bd_orgs = [(''o1'', \<lparr>og_callsign = ''Org'', og_owner = ''ann'', og_tier = Some 1\<rparr>)],
     bd_callsigns = [(''ann'', ''Ann'')], bd_members = [(''o1'', ''ann'', Some True)],
     bd_contribs = [\<lparr>bc_id = ''c1'', bc_org = ''o1'', bc_user = ''ann'', bc_amount = 5000, bc_fee = 0, bc_method = Ach,
        bc_provider = Stripe_provider, bc_status = Pending, bc_invoice = True, bc_reason = None, bc_issuer = None, bc_ref = None,
        bc_session = None, bc_payment = None, bc_created = 0, bc_credited = None\<rparr>],
     bd_pools = [(''o1'', \<lparr>pl_balance = 0, pl_bytes = 7, pl_cycle = cycle\<rparr>)], bd_ledger = [], bd_daily = [], bd_info = [],
     bd_now = 3000000000000, bd_new_cycle = 0, bd_down = False, bd_provider = Some ''stripe'', bd_stripe_key = True, bd_enforce = True\<rparr>"

lemma toy_books: "books_ok (toy_bill cycle)"
  by (simp add: books_ok_def toy_bill_def balance_cents_def ledger_cents_def)

lemma toy_simps [simp]:
  "bd_down (toy_bill cycle) = False" "bd_pools (toy_bill cycle) = [(''o1'', \<lparr>pl_balance = 0, pl_bytes = 7, pl_cycle = cycle\<rparr>)]"
  "bd_now (toy_bill cycle) = 3000000000000"
  by (simp_all add: toy_bill_def)

lemma toy_member: "vw_member (getBillingViewer ''o1'' ''ann'' (toy_bill cycle))"
  by (simp add: getBillingViewer_def toy_bill_def)

lemma toy_pending: "pending_contrib ''c1'' (toy_bill cycle) \<noteq> None" "status_of ''c1'' (toy_bill cycle) = Some Pending"
  by (simp_all add: pending_contrib_def status_of_def toy_bill_def)

definition toy_verify :: "string \<Rightarrow> string \<Rightarrow> stripe_event option" where
  "toy_verify body sig = Some (Payment_succeeded (Some body) ''p'')"

lemma books_stay_balanced_witness:
  "balance_cents ''o1'' (snd (stripe_webhook toy_verify ''c1'' (Some ''s'') (toy_bill 0)))
     = sum_list (map bc_amount (filter (\<lambda>c. bc_org c = ''o1'' \<and> bc_status c = Succeeded)
         (bd_contribs (snd (stripe_webhook toy_verify ''c1'' (Some ''s'') (toy_bill 0))))))
   \<and> ledger_cents ''o1'' (snd (stripe_webhook toy_verify ''c1'' (Some ''s'') (toy_bill 0)))
     = balance_cents ''o1'' (snd (stripe_webhook toy_verify ''c1'' (Some ''s'') (toy_bill 0)))
   \<and> distinct (map bc_id (bd_contribs (snd (stripe_webhook toy_verify ''c1'' (Some ''s'') (toy_bill 0)))))"
  by (rule books_stay_balanced [where stripe = "\<lambda>p l. None" and d = "toy_bill 0"])
    (auto intro: Webhook toy_books r_into_rtranclp)

lemma declined_attempt_loses_payment_witness:
  "snd (handle_event (Payment_succeeded (Some ''c1'') ''p2'') (snd (handle_event (Payment_failed (Some ''c1'') ''p1'') (toy_bill 0))))
     = snd (handle_event (Payment_failed (Some ''c1'') ''p1'') (toy_bill 0))"
  by (rule conjunct1, rule declined_attempt_loses_payment [where stripe = "\<lambda>p l. None" and d = "toy_bill 0" and first = "''p1''" and u = "''ann''"])
    (simp_all add: toy_books toy_pending [simplified])

lemma first_event_decides_witness:
  "status_of ''c1'' (fold (\<lambda>ev d. snd (handle_event ev d))
      ([Other_event, Session_expired (Some ''c1''), Payment_succeeded (Some ''c1'') ''p''] @ [Session_expired (Some ''c1'')]) (toy_bill 0))
    = (case find (\<lambda>ev. vote_of ''c1'' ev \<noteq> None) [Other_event, Session_expired (Some ''c1''), Payment_succeeded (Some ''c1'') ''p'']
         of None \<Rightarrow> Some Pending | Some ev \<Rightarrow> or_else (vote_of ''c1'' ev) None)"
  by (rule first_event_decides) (simp_all add: toy_books toy_pending)

definition toy_checkout :: checkout_params where
  "toy_checkout = \<lparr>co_contribution = ''c1'', co_org = ''o1'', co_name = ''Org'', co_user = ''ann'', co_net = 5000, co_fee = 0,
     co_charge = 5000, co_method = Ach\<rparr>"

lemma toy_pay: "pay_begin ''o1'' ''c1'' (Some ''ann'') ''ach'' (toy_bill 0) = Inr toy_checkout"
  by (simp add: pay_begin_def toy_checkout_def toy_bill_def paymentsEnabled_def parse_method_def getBillingViewer_def
      open_invoice_def price_of_def)

lemma customer_pays_charge_witness:
  "sum_list (map snd (line_items toy_checkout)) = co_charge toy_checkout"
  by (rule conjunct1, rule customer_pays_charge [where cid = "''c1''" and org = "''o1''" and d = "toy_bill 0" and d' = "toy_bill 0"])
    (use toy_pay in blast, simp_all add: toy_checkout_def)

lemma toy_january: "month_of 0 = 23640" "addMonths 0 1 = 2678400000"
proof -
  show m: "month_of 0 = 23640" by (simp add: month_of_def month_walk.simps [of 23640] month_start_def year_start_def days_before_def leap_def)
  show "addMonths 0 1 = 2678400000"
    by (simp add: addMonths_def m month_start_def year_start_def days_before_def leap_def)
qed


lemma odd_cycle_never_rolls_witness:
  "\<exists>st r'. getBillingStatus ''o1'' (Some ''ann'') (toy_bill 1) = (Done 200 st, toy_bill 1) \<and> al_get (bd_pools (toy_bill 1)) ''o1'' = Some r'
    \<and> pl_cycle r' = 1 \<and> st_start st = 0 \<and> st_bytes st = 7"
  using odd_cycle_never_rolls [of "\<lambda>p l. None" "toy_bill 1" "toy_bill 1" "''o1''" "\<lparr>pl_balance = 0, pl_bytes = 7, pl_cycle = 1\<rparr>" "''ann''"]
    toy_member [of 1] by (auto simp: ms_of_us_def)

section \<open>Where the promises end\<close>

text \<open>A checkout that is abandoned expires a day later and cancels the invoice, although a newer checkout of the same
  invoice is open: the payment of the newer one is then ignored.\<close>

lemma stale_session_cancels_invoice:
  assumes "books_ok d" "\<not> bd_down d" "cid \<noteq> []" "status_of cid d = Some Pending"
  shows "status_of cid (fold (\<lambda>ev d. snd (handle_event ev d)) [Session_expired (Some cid), Payment_succeeded (Some cid) payment] d)
    = Some Canceled"
proof -
  have "webhook_ready cid d" using assms by (simp add: webhook_ready_def)
  then show ?thesis
    using webhooks.first_vote [of cid d "[Session_expired (Some cid), Payment_succeeded (Some cid) payment]"] assms(4)
    by (simp add: vote_of_def)
qed

text \<open>An invoice below one dollar can be issued and never paid by card.\<close>

lemma small_invoice_not_payable_by_card:
  assumes "pending_contrib cid d = Some c" "bc_invoice c" "bc_org c = org" "bc_amount c < 100" "books_ok d"
    and "\<not> bd_down d" "paymentsEnabled d" "vw_member (getBillingViewer org u d)"
  shows "payOrgInvoice stripe org cid (Some u) ''card'' d = (server_error, d)"
proof -
  have "open_invoice cid org d = Some bill \<Longrightarrow> bill = c" for bill
    using find_in [of _ "bd_contribs d" bill] same_id_same_row [OF assms(5) _ pending_row(1) [OF assms(1)]] pending_row(2) [OF assms(1)]
    unfolding open_invoice_def by blast
  moreover have "open_invoice cid org d \<noteq> None"
    using pending_row [OF assms(1)] assms(2,3) by (auto simp: open_invoice_def find_None_iff)
  ultimately have "open_invoice cid org d = Some c" by auto
  then show ?thesis using assms
    by (auto simp: payOrgInvoice_def pay_begin_def parse_method_def price_of_def cardGrossUp_def MIN_CONTRIBUTION_CENTS_def split: option.split)
qed

text \<open>A month after 31 January 1970 is 3 March, and from then on the cycle begins on the third.\<close>

lemma anniversary_drifts: "addMonths (30 * day_ms) 1 = 61 * day_ms" "month_start (23640 + 2) = 59"
proof -
  have "month_of 30 = 23640" by (simp add: month_of_def month_walk.simps [of 23640] month_start_def year_start_def days_before_def leap_def)
  then show "addMonths (30 * day_ms) 1 = 61 * day_ms"
    by (simp add: addMonths_def month_start_def year_start_def days_before_def leap_def)
  show "month_start (23640 + 2) = 59" by (simp add: month_start_def year_start_def days_before_def leap_def)
qed

end
