(* ===== verification/Relay_Server.thy ===== *)
theory Relay_Server
  imports Mls_Server Event_Schema Chat_Sync
begin

text \<open>
  The relay of messages and of peers' answers (\<open>controllers/messageController.ts\<close> and
  \<open>controllers/dmController.ts\<close> of the identity service) and the event stream that carries
  them (\<open>controllers/sseController.ts\<close>).

  The service stores no message: a handler checks who may send and publishes.  Its result is the answer and
  the events it publishes, a subject and a JavaScript object each.  \<open>profile\<close> is the row of a user (callsign and
  tag); the ids and timestamps of the service, and the URL and date syntax of the schemas, are arguments.
\<close>

section \<open>Bodies\<close>

record message_body =
  mb_content :: string
  mb_image :: "string option"

definition IMAGE_URL_MAX :: nat where "IMAGE_URL_MAX = 700000"
definition SYNC_MESSAGES_MAX :: nat where "SYNC_MESSAGES_MAX = 200"
definition ORG_SYNC_MAX_CHANNELS :: nat where "ORG_SYNC_MAX_CHANNELS = 500"
definition SYNC_BUNDLE_MAX :: nat where "SYNC_BUNDLE_MAX = 95000"

definition sendMessageSchema :: "(string \<Rightarrow> bool) \<Rightarrow> message_body \<Rightarrow> bool" where
  "sendMessageSchema valid_url b \<longleftrightarrow> length (mb_content b) \<le> 6000
     \<and> (case mb_image b of None \<Rightarrow> True | Some u \<Rightarrow> length u \<le> IMAGE_URL_MAX \<and> valid_url u)"

definition since_ok :: "(string \<Rightarrow> bool) \<Rightarrow> string option \<Rightarrow> bool" where
  "since_ok valid_date since \<longleftrightarrow> (case since of None \<Rightarrow> True | Some t \<Rightarrow> valid_date t)"

definition orgSyncRequestSchema :: "(string \<Rightarrow> bool) \<Rightarrow> (string \<times> string option) list \<Rightarrow> bool" where
  "orgSyncRequestSchema valid_date cs \<longleftrightarrow> cs \<noteq> [] \<and> length cs \<le> ORG_SYNC_MAX_CHANNELS
     \<and> list_all (\<lambda>(c, since). UUID_RE c \<and> since_ok valid_date since) cs"

text \<open>A message of the legacy answer, with the fields the schema names.\<close>

record legacy_item =
  li_id :: string
  li_sender :: string
  li_callsign :: "string option"
  li_tag :: "string option"
  li_content :: string
  li_image :: "string option"
  li_timestamp :: string

definition syncResponseSchema :: "string \<times> legacy_item list \<Rightarrow> bool" where
  "syncResponseSchema b \<longleftrightarrow> UUID_RE (fst b) \<and> length (snd b) \<le> SYNC_MESSAGES_MAX
     \<and> list_all (\<lambda>m. length (li_content m) \<le> 6000 \<and> length (or_else (li_image m) []) \<le> IMAGE_URL_MAX) (snd b)"

record bundle_body =
  bb_to :: string
  bb_channel :: string
  bb_bundle :: string
  bb_count :: "int option"

definition bundle_ok :: "string \<Rightarrow> bool" where
  "bundle_ok b \<longleftrightarrow> b \<noteq> [] \<and> length b \<le> SYNC_BUNDLE_MAX"

definition count_ok :: "int option \<Rightarrow> bool" where
  "count_ok n \<longleftrightarrow> (case n of None \<Rightarrow> True | Some k \<Rightarrow> 0 \<le> k \<and> k \<le> int SYNC_MESSAGES_MAX)"

definition orgSyncResponseSchema :: "bundle_body \<Rightarrow> bool" where
  "orgSyncResponseSchema b \<longleftrightarrow> UUID_RE (bb_to b) \<and> UUID_RE (bb_channel b) \<and> bundle_ok (bb_bundle b) \<and> count_ok (bb_count b)"

section \<open>Events\<close>

definition nullable :: "string option \<Rightarrow> jsval" where
  "nullable s = (case s of None \<Rightarrow> JNull | Some t \<Rightarrow> JStr t)"

definition count_json :: "int option \<Rightarrow> jsval" where
  "count_json n = (case n of None \<Rightarrow> JNull | Some k \<Rightarrow> JNum k)"

definition org_subject :: "string \<Rightarrow> string" where
  "org_subject org = ''specter.event.org.'' @ org"

definition channel_message_fields :: "string \<Rightarrow> string \<Rightarrow> string \<Rightarrow> string \<Rightarrow> string option \<times> string option \<Rightarrow> message_body \<Rightarrow> string
    \<Rightarrow> (string \<times> jsval) list" where
  "channel_message_fields i chan org sender profile b ts =
     [(''id'', JStr i), (''channel_id'', JStr chan), (''org_id'', JStr org), (''sender_id'', JStr sender),
      (''callsign'', nullable (fst profile)), (''global_tag'', nullable (snd profile)), (''encrypted_content'', JStr (mb_content b)),
      (''image_url'', nullable (mb_image b)), (''timestamp'', JStr ts)]"

text \<open>The fields at the top level and again under \<open>payload\<close>.\<close>

definition doubled :: "string \<Rightarrow> (string \<times> jsval) list \<Rightarrow> jsval" where
  "doubled ty fs = JObj ((''type'', JStr ty) # fs @ [(''payload'', JObj fs)])"

section \<open>Channel messages\<close>

text \<open>The checks shared by the channel routes: membership, the channel, and for an event channel its audience.\<close>

definition channel_gate :: "string \<Rightarrow> string \<Rightarrow> string \<Rightarrow> 'a server_scheme \<Rightarrow> 'b response option" where
  "channel_gate org chan user t =
    (if t_down t then Some internal_error
     else if \<not> is_org_member t org user then Some (Refused 403 ''Not a member of this organization'' None)
     else case getChannelScope t chan org of None \<Rightarrow> Some (Refused 404 ''Channel not found'' None)
     | Some scope \<Rightarrow> if \<not> canUseChannel t scope user then Some (Refused 403 ''Not assigned to this event channel'' None) else None)"

definition sendMessage :: "(string \<Rightarrow> bool) \<Rightarrow> (string \<Rightarrow> (string option \<times> string option) option) \<Rightarrow> string \<Rightarrow> string
    \<Rightarrow> string option \<Rightarrow> string \<Rightarrow> string \<Rightarrow> message_body option \<Rightarrow> 'a server_scheme
    \<Rightarrow> (string \<times> string) response \<times> (string \<times> jsval) list" where
  "sendMessage valid_url profile msg_id ts user org chan body t = (case user of None \<Rightarrow> (unauthorized, [])
     | Some me \<Rightarrow> if me = [] then (unauthorized, [])
         else (case safeParse (sendMessageSchema valid_url) body of None \<Rightarrow> (invalid, [])
         | Some b \<Rightarrow> (case channel_gate org chan me t of Some r \<Rightarrow> (r, [])
           | None \<Rightarrow> (Reply 201 (msg_id, ts),
               [(channel_subject chan, doubled ''message_relay''
                  (channel_message_fields msg_id chan org me (or_else (profile me) (None, None)) b ts))]))))"

definition requestChannelSync :: "(string \<Rightarrow> bool) \<Rightarrow> string option \<Rightarrow> string \<Rightarrow> string \<Rightarrow> string option option \<Rightarrow> 'a server_scheme
    \<Rightarrow> unit response \<times> (string \<times> jsval) list" where
  "requestChannelSync valid_date user org chan body t = (case user of None \<Rightarrow> (unauthorized, [])
     | Some me \<Rightarrow> if me = [] then (unauthorized, [])
         else (case safeParse (since_ok valid_date) body of None \<Rightarrow> (invalid, [])
         | Some since \<Rightarrow> (case channel_gate org chan me t of Some r \<Rightarrow> (r, [])
           | None \<Rightarrow> (Reply 202 (), [(channel_subject chan, doubled ''sync_request''
               [(''channel_id'', JStr chan), (''org_id'', JStr org), (''requester_id'', JStr me), (''since'', nullable since)])]))))"

text \<open>\<^const>\<open>None\<close> when every user may use the channel.\<close>

definition eventChannelDenial :: "string \<Rightarrow> string \<Rightarrow> string list \<Rightarrow> 'a server_scheme \<Rightarrow> 'b response option" where
  "eventChannelDenial chan org users t = (case getChannelScope t chan org of None \<Rightarrow> Some (Refused 404 ''Channel not found'' None)
     | Some scope \<Rightarrow> (case scope of Org_scope _ _ \<Rightarrow> None
       | Event_scope _ _ _ _ _ _ \<Rightarrow> if set users \<subseteq> set (channelMemberUserIds t scope) then None
           else Some (Refused 403 ''Not assigned to this event channel'' None)))"

definition legacy_json :: "legacy_item \<Rightarrow> jsval" where
  "legacy_json m = JObj ([(''id'', JStr (li_id m)), (''sender_id'', JStr (li_sender m)), (''callsign'', nullable (li_callsign m)),
     (''global_tag'', nullable (li_tag m)), (''encrypted_content'', JStr (li_content m)), (''image_url'', nullable (li_image m)),
     (''timestamp'', JStr (li_timestamp m))])"

definition is_member_uuid :: "'a server_scheme \<Rightarrow> string \<Rightarrow> string \<Rightarrow> bool" where
  "is_member_uuid t org u \<longleftrightarrow> list_ex (\<lambda>(o', v). o' = org \<and> same_uuid v u) (t_org_members t)"

definition respondChannelSync :: "string option \<Rightarrow> string \<Rightarrow> string \<Rightarrow> (string \<times> legacy_item list) option \<Rightarrow> 'a server_scheme
    \<Rightarrow> unit response \<times> (string \<times> jsval) list" where
  "respondChannelSync user org chan body t = (case user of None \<Rightarrow> (unauthorized, [])
     | Some me \<Rightarrow> if me = [] then (unauthorized, [])
         else (case safeParse syncResponseSchema body of None \<Rightarrow> (invalid, [])
         | Some (to_user, messages) \<Rightarrow>
             if t_down t then (internal_error, [])
             else if \<not> is_org_member t org me then (Refused 403 ''Not a member of this organization'' None, [])
             else if \<not> is_member_uuid t org to_user then (Refused 403 ''Recipient is not a member of this organization'' None, [])
             else (case eventChannelDenial chan org [me, to_user] t of Some r \<Rightarrow> (r, [])
               | None \<Rightarrow> (Reply 202 (), [(user_subject to_user, JObj
                   [(''type'', JStr ''sync_response''), (''channel_id'', JStr chan), (''org_id'', JStr org), (''relayed_by'', JStr me),
                    (''messages'', JArr (map legacy_json messages))])]))))"

section \<open>Organisation-wide catch-up\<close>

text \<open>\<open>rows\<close> are the organisation's channels among the requested ones, \<open>can\<close> is asked for event channels.\<close>

fun filterSyncChannels :: "string list \<Rightarrow> (string, string option) jsmap \<Rightarrow> (string \<Rightarrow> bool) \<Rightarrow> (string \<times> string option) list
    \<Rightarrow> (string \<times> string option) list" where
  "filterSyncChannels seen rows can [] = []"
| "filterSyncChannels seen rows can ((c, since) # rs) =
    (if c \<in> set seen then filterSyncChannels seen rows can rs
     else case al_get rows c of None \<Rightarrow> filterSyncChannels (c # seen) rows can rs
     | Some ev \<Rightarrow> if truthy ev \<and> \<not> can c then filterSyncChannels (c # seen) rows can rs
         else (c, since) # filterSyncChannels (c # seen) rows can rs)"

definition org_channel_rows :: "string \<Rightarrow> (string \<times> string option) list \<Rightarrow> 'a server_scheme \<Rightarrow> (string, string option) jsmap" where
  "org_channel_rows org requested t = map (\<lambda>(c, r). (c, ch_event r))
     (filter (\<lambda>(c, r). ch_org r = org \<and> list_ex (\<lambda>q. same_uuid c (fst q)) requested) (t_channels t))"

definition can_event_channel :: "string \<Rightarrow> string \<Rightarrow> 'a server_scheme \<Rightarrow> string \<Rightarrow> bool" where
  "can_event_channel org user t chan = (case getChannelScope t chan org of None \<Rightarrow> False | Some scope \<Rightarrow> canUseChannel t scope user)"

definition since_json :: "string \<times> string option \<Rightarrow> jsval" where
  "since_json c = JObj [(''channel_id'', JStr (fst c)), (''since'', nullable (snd c))]"

definition requestOrgSync :: "(string \<Rightarrow> bool) \<Rightarrow> string option \<Rightarrow> string \<Rightarrow> (string \<times> string option) list option \<Rightarrow> 'a server_scheme
    \<Rightarrow> string list response \<times> (string \<times> jsval) list" where
  "requestOrgSync valid_date user org body t = (case user of None \<Rightarrow> (unauthorized, [])
     | Some me \<Rightarrow> if me = [] then (unauthorized, [])
         else (case safeParse (orgSyncRequestSchema valid_date) body of None \<Rightarrow> (invalid, [])
         | Some requested \<Rightarrow>
             if t_down t then (internal_error, [])
             else if \<not> is_org_member t org me then (Refused 403 ''Not a member of this organization'' None, [])
             else (let channels = filterSyncChannels [] (org_channel_rows org requested t) (can_event_channel org me t) requested
               in (Reply 202 (map fst channels), if channels = [] then [] else [(org_subject org, JObj
                    [(''type'', JStr ''org_sync_request''), (''org_id'', JStr org), (''requester_id'', JStr me),
                     (''channels'', JArr (map since_json channels))])]))))"

definition respondOrgSync :: "string option \<Rightarrow> string \<Rightarrow> bundle_body option \<Rightarrow> 'a server_scheme
    \<Rightarrow> unit response \<times> (string \<times> jsval) list" where
  "respondOrgSync user org body t = (case user of None \<Rightarrow> (unauthorized, [])
     | Some me \<Rightarrow> if me = [] then (unauthorized, [])
         else (case safeParse orgSyncResponseSchema body of None \<Rightarrow> (invalid, [])
         | Some b \<Rightarrow>
             if bb_to b = me then (Refused 400 ''Cannot answer your own sync request'' None, [])
             else if t_down t then (internal_error, [])
             else if \<not> is_org_member t org me then (Refused 403 ''Not a member of this organization'' None, [])
             else if \<not> is_org_member t org (bb_to b) then (Refused 403 ''Recipient is not a member of this organization'' None, [])
             else (case eventChannelDenial (bb_channel b) org [me, bb_to b] t of Some r \<Rightarrow> (r, [])
               | None \<Rightarrow> (Reply 202 (), [(user_subject (bb_to b), JObj
                   [(''type'', JStr ''sync_response''), (''org_id'', JStr org), (''channel_id'', JStr (bb_channel b)),
                    (''relayed_by'', JStr me), (''bundle'', JStr (bb_bundle b)), (''count'', count_json (bb_count b))])]))))"

section \<open>Direct messages\<close>

definition DM_SYNC_MESSAGES_MAX :: nat where "DM_SYNC_MESSAGES_MAX = 200"
definition DM_SYNC_BUNDLE_MAX :: nat where "DM_SYNC_BUNDLE_MAX = 95000"

definition dm_failure :: "'b response" where "dm_failure = Refused 500 ''Server error'' None"

definition dm_message_json :: "string \<Rightarrow> string \<Rightarrow> string \<Rightarrow> string \<Rightarrow> string \<Rightarrow> string \<Rightarrow> jsval" where
  "dm_message_json i me other name content ts = JObj
     [(''id'', JStr i), (''conversation_id'', JStr (convId me other)), (''sender_id'', JStr me), (''to_user_id'', JStr other),
      (''callsign'', JStr name), (''encrypted_content'', JStr content), (''timestamp'', JStr ts)]"

definition dm_relay_json :: "string \<Rightarrow> jsval \<Rightarrow> jsval" where
  "dm_relay_json partner m = JObj [(''type'', JStr ''message_relay''), (''context'', JStr ''dm''), (''partner_id'', JStr partner), (''message'', m)]"

definition dm_subject :: "string \<Rightarrow> string" where
  "dm_subject conv = ''specter.msg.dm.'' @ conv"

definition dm_callsign :: "(string \<Rightarrow> (string option \<times> string option) option) \<Rightarrow> string \<Rightarrow> string" where
  "dm_callsign profile me = or_else (Option.bind (profile me) fst) ''Unknown''"

text \<open>\<open>content\<close> is \<open>encrypted_content\<close> of the body, \<^const>\<open>None\<close> when it is missing.\<close>

definition sendDirectMessage :: "(string \<Rightarrow> (string option \<times> string option) option) \<Rightarrow> string \<Rightarrow> string \<Rightarrow> string option \<Rightarrow> string
    \<Rightarrow> string option \<Rightarrow> 'a server_scheme \<Rightarrow> (string \<times> string) response \<times> (string \<times> jsval) list" where
  "sendDirectMessage profile msg_id ts user other content t =
    (if \<not> truthy user then (unauthorized, [])
     else let me = or_else user []; c = or_else content []; name = dm_callsign profile me;
              m = dm_message_json msg_id me other name c ts in
       if \<not> UUID_RE other then (Refused 400 ''Invalid userId'' None, [])
       else if me = other then (Refused 400 ''Cannot DM yourself'' None, [])
       else if c = [] \<or> length c > 8000 then (Refused 400 ''encrypted_content must be 1-8000 characters'' None, [])
       else if t_down t then (dm_failure, [])
       else if \<not> friends t me other then (not_friends, [])
       else (Reply 201 (msg_id, ts),
         [(user_subject other, JObj [(''type'', JStr ''dm_received''), (''from_user_id'', JStr me), (''from_callsign'', JStr name)]),
          (user_subject other, dm_relay_json me m), (user_subject me, dm_relay_json other m), (dm_subject (convId me other), m)]))"

text \<open>\<open>since\<close> is \<^const>\<open>None\<close> when the body's is neither a string nor null.\<close>

definition requestDmSync :: "string option \<Rightarrow> string \<Rightarrow> string option option \<Rightarrow> 'a server_scheme \<Rightarrow> unit response \<times> (string \<times> jsval) list" where
  "requestDmSync user other since t =
    (if \<not> truthy user then (unauthorized, [])
     else let me = or_else user [] in
       if \<not> UUID_RE other then (Refused 400 ''Invalid userId'' None, [])
       else case since of None \<Rightarrow> (Refused 400 ''since must be a string or null'' None, [])
       | Some s \<Rightarrow>
         if t_down t then (dm_failure, [])
         else if \<not> friends t me other then (not_friends, [])
         else (Reply 202 (), [(user_subject other, JObj [(''type'', JStr ''dm_sync_request''), (''conversation_id'', JStr (convId me other)),
                (''requester_id'', JStr me), (''since'', nullable s)])]))"

definition dm_bundle_ok :: "string option \<Rightarrow> bool" where
  "dm_bundle_ok b \<longleftrightarrow> truthy b \<and> length (or_else b []) \<le> DM_SYNC_BUNDLE_MAX"

definition dm_count_ok :: "int option \<Rightarrow> bool" where
  "dm_count_ok n \<longleftrightarrow> (case n of None \<Rightarrow> True | Some k \<Rightarrow> 0 \<le> k \<and> k \<le> int DM_SYNC_MESSAGES_MAX)"

definition respondDmSync :: "string option \<Rightarrow> string \<Rightarrow> string option \<Rightarrow> int option \<Rightarrow> 'a server_scheme
    \<Rightarrow> unit response \<times> (string \<times> jsval) list" where
  "respondDmSync user requester bundle n t =
    (if \<not> truthy user then (unauthorized, [])
     else let me = or_else user [] in
       if \<not> UUID_RE requester then (Refused 400 ''Invalid userId'' None, [])
       else if requester = me then (Refused 400 ''Cannot answer your own sync request'' None, [])
       else if \<not> dm_bundle_ok bundle then (Refused 400 ''bundle must be a non-empty string of at most 95000 characters'' None, [])
       else if \<not> dm_count_ok n then (Refused 400 ''count must be an integer 0-200'' None, [])
       else if t_down t then (dm_failure, [])
       else if \<not> friends t me requester then (not_friends, [])
       else (Reply 202 (), [(user_subject requester, JObj [(''type'', JStr ''dm_sync_response''),
              (''conversation_id'', JStr (convId me requester)), (''relayed_by'', JStr me), (''bundle'', JStr (or_else bundle [])),
              (''count'', count_json n)])]))"

section \<open>The event stream\<close>

text \<open>A connection and the subjects it subscribed to when it was opened; one forwarder runs for each subscription.\<close>

record stream_conn =
  sc_user :: string
  sc_orgs :: "string list"
  sc_subjects :: "string list"

definition orgs_of :: "string \<Rightarrow> 'a server_scheme \<Rightarrow> string list" where
  "orgs_of user t = map fst (filter (\<lambda>p. snd p = user) (t_org_members t))"

definition channels_of :: "string \<Rightarrow> 'a server_scheme \<Rightarrow> string list" where
  "channels_of user t = concat (map (\<lambda>(c, r). map (\<lambda>_. c) (filter (\<lambda>p. snd p = user \<and> fst p = ch_org r) (t_org_members t))) (t_channels t))"

text \<open>Without NATS nothing is subscribed; a database that does not answer leaves the user's own subject.\<close>

definition eventStream :: "string option \<Rightarrow> bool \<Rightarrow> 'a server_scheme \<Rightarrow> (stream_conn \<times> jsval) response" where
  "eventStream user nats t = (case user of None \<Rightarrow> unauthorized
     | Some me \<Rightarrow> if me = [] then unauthorized
         else (let orgs = (if t_down t then [] else orgs_of me t);
                   subjects = (if \<not> nats then [] else user_subject me # map org_subject orgs
                     @ (if orgs = [] then [] else map channel_subject (channels_of me t)))
               in Reply 200 (\<lparr>sc_user = me, sc_orgs = orgs, sc_subjects = subjects\<rparr>,
                    JObj [(''type'', JStr ''connected''), (''orgIds'', JArr (map JStr orgs))])))"

text \<open>\<open>JSON.stringify({ subject: msg.subject, ...payload })\<close> of a published object.\<close>

definition envelope :: "string \<times> jsval \<Rightarrow> jsval" where
  "envelope ev = (case snd ev of JObj fs \<Rightarrow> JObj (spread fs [(''subject'', JStr (fst ev))])
     | _ \<Rightarrow> JObj [(''subject'', JStr (fst ev))])"

definition forward :: "stream_conn \<Rightarrow> (string \<times> jsval) list \<Rightarrow> string list" where
  "forward c evs = concat (map (\<lambda>ev. map (\<lambda>_. stringify (envelope ev)) (filter (\<lambda>s. s = fst ev) (sc_subjects c))) evs)"

end
