(* ===== verification/Relay_Props.thy ===== *)
theory Relay_Props
  imports Relay_Server Event_Contracts Chat_Engine_Props
begin

text \<open>
  What the relay promises: everything it publishes has the shape clients read, history is asked for and
  answered only inside a channel's audience, and a message reaches the history of every member
  whose stream is open.  And where it leaks: a stream is a snapshot of the channels of its
  organisations, whatever the audience of an event channel is by then.
\<close>

section \<open>Catch-up requests\<close>

definition may_sync :: "(string, string option) jsmap \<Rightarrow> (string \<Rightarrow> bool) \<Rightarrow> string \<Rightarrow> bool" where
  "may_sync rows can c \<longleftrightarrow> (case al_get rows c of None \<Rightarrow> False | Some ev \<Rightarrow> truthy ev \<longrightarrow> can c)"

text \<open>The elements of a list, each at its first occurrence.\<close>

fun firsts :: "'a list \<Rightarrow> 'a list" where
  "firsts [] = []"
| "firsts (x # xs) = x # filter (\<lambda>y. y \<noteq> x) (firsts xs)"

lemma firsts_set [simp]: "set (firsts xs) = set xs" "distinct (firsts xs)"
  by (induction xs) auto

lemma filter_seen_ids:
  "map fst (filterSyncChannels seen rows can req)
    = filter (\<lambda>c. c \<notin> set seen \<and> may_sync rows can c) (firsts (map fst req))"
proof (induction req arbitrary: seen)
  case (Cons r req)
  then show ?case
    by (cases r) (auto simp: may_sync_def split: option.split intro!: filter_cong [OF refl])
qed simp

lemma filter_since:
  "(c, since) \<in> set (filterSyncChannels seen rows can req) \<Longrightarrow> c \<notin> set seen \<and> map_of req c = Some since"
proof (induction req arbitrary: seen)
  case (Cons r req)
  show ?case using Cons.prems by (cases r) (auto split: if_splits option.splits dest!: Cons.IH)
qed simp

text \<open>An organisation-wide request asks for exactly the channels the caller may use: the requested ones of the organisation,
  an event channel only when the caller is in its audience, each once and in the order first requested, with the
  time given there.\<close>

lemma sync_request_is_filtered:
  "map fst (filterSyncChannels [] rows can req) = filter (may_sync rows can) (firsts (map fst req))
    \<and> (\<forall>(c, since) \<in> set (filterSyncChannels [] rows can req). map_of req c = Some since)"
  using filter_seen_ids [of "[]" rows can req] filter_since [of _ _ "[]" rows can req] by auto

section \<open>Who hears what\<close>

lemma gate_opens:
  "channel_gate org chan u t = None \<Longrightarrow> is_org_member t org u \<and> (\<exists>scope. getChannelScope t chan org = Some scope \<and> canUseChannel t scope u)"
  by (auto simp: channel_gate_def split: if_splits option.splits)

lemma not_denied:
  assumes "eventChannelDenial chan org users t = (None :: 'b response option)"
  shows "\<exists>scope. getChannelScope t chan org = Some scope \<and> (\<forall>u \<in> set users. canUseChannel t scope u)"
  using assms by (auto simp: eventChannelDenial_def canUseChannel_def split: option.splits channel_scope.splits if_splits)

text \<open>\<open>may_read t org chan u\<close>: the user is a member of the organisation and, for an event channel, of its audience.\<close>

definition may_read :: "'a server_scheme \<Rightarrow> string \<Rightarrow> string \<Rightarrow> string \<Rightarrow> bool" where
  "may_read t org chan u \<longleftrightarrow> is_member_uuid t org u \<and> can_event_channel org u t chan"

lemma same_uuid_refl [simp]: "same_uuid u u"
  by (simp add: same_uuid_def)

lemma member_is_uuid: "is_org_member t org u \<Longrightarrow> is_member_uuid t org u"
  by (auto simp: is_org_member_def is_member_uuid_def list_ex_iff intro!: bexI [of _ "(org, u)"])

text \<open>C22: history travels only inside a channel's audience: whoever answers a catch-up request, with a bundle or with the old
  batch of ciphertexts, and whoever the answer is addressed to may both use the channel, and the answer names the
  one who sent it.\<close>

theorem answers_stay_in_audience:
  assumes "(subj, ev) \<in> set (snd (respondOrgSync user org bun t)) \<union> set (snd (respondChannelSync user org chan' batch t))"
  shows "\<exists>me to' chan. user = Some me \<and> subj = user_subject to' \<and> member ev ''relayed_by'' = JStr me \<and> member ev ''channel_id'' = JStr chan
    \<and> may_read t org chan me \<and> may_read t org chan to'"
  using assms
proof (elim UnE)
  assume a: "(subj, ev) \<in> set (snd (respondOrgSync user org bun t))"
  then obtain me b where u: "user = Some me" "safeParse orgSyncResponseSchema bun = Some b"
    by (cases user; cases "safeParse orgSyncResponseSchema bun") (auto simp: respondOrgSync_def split: if_splits)
  then have f: "is_org_member t org me" "is_org_member t org (bb_to b)" "eventChannelDenial (bb_channel b) org [me, bb_to b] t = (None :: unit response option)"
      "subj = user_subject (bb_to b)" "member ev ''relayed_by'' = JStr me" "member ev ''channel_id'' = JStr (bb_channel b)"
    using a by (auto simp: respondOrgSync_def member_def split: option.splits if_splits)
  then have "may_read t org (bb_channel b) me" "may_read t org (bb_channel b) (bb_to b)"
    using not_denied [OF f(3)] member_is_uuid by (auto simp: may_read_def can_event_channel_def)
  then show ?thesis using u f by blast
next
  assume a: "(subj, ev) \<in> set (snd (respondChannelSync user org chan' batch t))"
  then obtain me to' ms where u: "user = Some me" "safeParse syncResponseSchema batch = Some (to', ms)"
    by (cases user; cases "safeParse syncResponseSchema batch") (auto simp: respondChannelSync_def split: if_splits)
  then have f: "is_org_member t org me" "is_member_uuid t org to'" "eventChannelDenial chan' org [me, to'] t = (None :: unit response option)"
      "subj = user_subject to'" "member ev ''relayed_by'' = JStr me" "member ev ''channel_id'' = JStr chan'"
    using a by (auto simp: respondChannelSync_def member_def split: option.splits if_splits)
  then have "may_read t org chan' me" "may_read t org chan' to'"
    using not_denied [OF f(3)] member_is_uuid by (auto simp: may_read_def can_event_channel_def)
  then show ?thesis using u f by blast
qed

section \<open>The shape of what is published\<close>

definition well_shaped :: "string \<times> jsval \<Rightarrow> bool" where
  "well_shaped ev \<longleftrightarrow> validateEvent (snd ev) (Some (fst ev)) = Some []"

lemma shaped_by:
  assumes "member (JObj fs) ''type'' = JStr ty" "al_get SSE_EVENTS ty = Some (shapes, hs)"
    and "sh \<in> set shapes" "subjectMatches (sh_subject sh) (Some subj)" "checkFields (sh_required sh) (sh_optional sh) (JObj fs) [] = []"
  shows "well_shaped (subj, JObj fs)"
proof -
  have "sh \<in> set (filter (\<lambda>sh. subjectMatches (sh_subject sh) (Some subj)) shapes)" using assms(3,4) by simp
  then show ?thesis using assms closest_conforms [of sh "filter (\<lambda>sh. subjectMatches (sh_subject sh) (Some subj)) shapes" "JObj fs" None]
    by (auto simp: well_shaped_def validateEvent_def Let_def filter_empty_conv)
qed

lemma org_subject_matches: "dotless o' \<Longrightarrow> subjectMatches ORG (Some (org_subject o'))"
  by (simp add: subject_tokens ORG_def org_subject_def dotless_def split_on_plain)

lemma nullable_field: "check_type ''string|null'' (nullable s) path = []"
  by (cases s) (simp_all add: nullable_def check_type_def starts_with_def split_on.simps)

lemma count_field: "check_type ''number|null'' (count_json n) path = []"
  by (cases n) (simp_all add: count_json_def check_type_def starts_with_def split_on.simps)

lemma nullable_there [simp]: "nullable s \<noteq> JUndef" "count_json n \<noteq> JUndef"
  by (simp_all add: nullable_def count_json_def split: option.split)

lemmas relay_checks = checkFields_def member_def string_field nullable_field count_field shape_def

lemma relay_shapes:
  "al_get SSE_EVENTS ''message_relay'' = Some ([
     shape CHANNEL (CHANNEL_MESSAGE @ [(''payload'', SObj CHANNEL_MESSAGE)]) [],
     shape USER [(''context'', STy ''literal:dm''), (''partner_id'', STy ''string''), (''message'', SObj [(''id'', STy ''string''), (''conversation_id'', STy ''string''), (''sender_id'', STy ''string''), (''encrypted_content'', STy ''string''), (''timestamp'', STy ''string'')])] []],
     [''WarRoom.jsx''])"
  "al_get SSE_EVENTS ''sync_request'' = Some ([shape CHANNEL (SYNC_REQUEST @ [(''payload'', SObj SYNC_REQUEST)]) []], [''WarRoom.jsx''])"
  by (simp_all add: SSE_EVENTS_def)

lemma channel_relay_shaped:
  assumes "dotless chan"
  shows "well_shaped (channel_subject chan, doubled ''message_relay'' (channel_message_fields i chan org me prof b ts))"
  unfolding doubled_def
  by (rule shaped_by [OF _ relay_shapes(1), where sh = "shape CHANNEL (CHANNEL_MESSAGE @ [(''payload'', SObj CHANNEL_MESSAGE)]) []"])
    (simp_all add: relay_checks channel_message_fields_def CHANNEL_MESSAGE_def channel_subject_matches [OF assms])

lemma relay_shapes_more:
  "al_get SSE_EVENTS ''sync_response'' = Some ([
     shape USER [(''org_id'', STy ''string''), (''channel_id'', STy ''string''), (''relayed_by'', STy ''string''), (''bundle'', STy ''string'')] [(''count'', STy ''number|null'')],
     shape USER [(''channel_id'', STy ''string''), (''messages'', SArr (SObj [(''id'', STy ''string''), (''sender_id'', STy ''string''), (''encrypted_content'', STy ''string''), (''timestamp'', STy ''string'')]))] [(''org_id'', STy ''string''), (''relayed_by'', STy ''string'')]],
     [''WarRoom.jsx''])"
  "al_get SSE_EVENTS ''org_sync_request'' = Some ([shape ORG [(''org_id'', STy ''string''), (''requester_id'', STy ''string''),
     (''channels'', SArr (SObj [(''channel_id'', STy ''string''), (''since'', STy ''string|null'')]))] []], [''WarRoom.jsx''])"
  "al_get SSE_EVENTS ''dm_received'' = Some ([shape USER [(''from_user_id'', STy ''string''), (''from_callsign'', STy ''string'')] []], [''WarRoom.jsx''])"
  "al_get SSE_EVENTS ''dm_sync_request'' = Some ([shape USER [(''conversation_id'', STy ''string''), (''requester_id'', STy ''string''),
     (''since'', STy ''string|null'')] []], [''WarRoom.jsx''])"
  "al_get SSE_EVENTS ''dm_sync_response'' = Some ([shape USER [(''conversation_id'', STy ''string''), (''relayed_by'', STy ''string''),
     (''bundle'', STy ''string'')] [(''count'', STy ''number|null'')]], [''WarRoom.jsx''])"
  by (simp_all add: SSE_EVENTS_def)

lemma sync_request_shaped:
  assumes "dotless chan"
  shows "well_shaped (channel_subject chan, doubled ''sync_request''
    [(''channel_id'', JStr chan), (''org_id'', JStr org), (''requester_id'', JStr me), (''since'', nullable since)])"
  unfolding doubled_def
  by (rule shaped_by [OF _ relay_shapes(2), where sh = "shape CHANNEL (SYNC_REQUEST @ [(''payload'', SObj SYNC_REQUEST)]) []"])
    (simp_all add: relay_checks SYNC_REQUEST_def channel_subject_matches [OF assms])

lemma bundle_shaped:
  assumes "dotless u"
  shows "well_shaped (user_subject u, JObj [(''type'', JStr ''sync_response''), (''org_id'', JStr org), (''channel_id'', JStr chan),
    (''relayed_by'', JStr me), (''bundle'', JStr b), (''count'', count_json n)])"
  by (rule shaped_by [OF _ relay_shapes_more(1), where sh = "shape USER [(''org_id'', STy ''string''), (''channel_id'', STy ''string''),
      (''relayed_by'', STy ''string''), (''bundle'', STy ''string'')] [(''count'', STy ''number|null'')]"])
    (simp_all add: relay_checks user_subject_matches [OF assms])

lemma array_field:
  assumes "\<And>el p. el \<in> set els \<Longrightarrow> checkValue sp el p = []"
  shows "checkValue (SArr sp) (JArr els) path = []"
proof -
  have "checkValue sp el p = []" if "(i, el) \<in> set (enumerate k els)" for i el k p
    using that assms by (auto simp: enumerate_eq_zip dest: set_zip_rightD)
  then show ?thesis by (auto simp: case_prod_beta)
qed

lemma batch_shaped:
  assumes "dotless u"
  shows "well_shaped (user_subject u, JObj [(''type'', JStr ''sync_response''), (''channel_id'', JStr chan), (''org_id'', JStr org),
    (''relayed_by'', JStr me), (''messages'', JArr (map legacy_json ms))])"
proof -
  have "checkValue (SArr (SObj [(''id'', STy ''string''), (''sender_id'', STy ''string''), (''encrypted_content'', STy ''string''),
      (''timestamp'', STy ''string'')])) (JArr (map legacy_json ms)) path = []" for path
    by (rule array_field) (auto simp: legacy_json_def relay_checks)
  then show ?thesis
    by (intro shaped_by [OF _ relay_shapes_more(1), where sh = "shape USER [(''channel_id'', STy ''string''),
        (''messages'', SArr (SObj [(''id'', STy ''string''), (''sender_id'', STy ''string''), (''encrypted_content'', STy ''string''),
          (''timestamp'', STy ''string'')]))] [(''org_id'', STy ''string''), (''relayed_by'', STy ''string'')]"])
      (simp_all add: relay_checks user_subject_matches [OF assms] del: checkValue.simps(2))
qed

lemma org_request_shaped:
  assumes "dotless org"
  shows "well_shaped (org_subject org, JObj [(''type'', JStr ''org_sync_request''), (''org_id'', JStr org), (''requester_id'', JStr me),
    (''channels'', JArr (map since_json cs))])"
proof -
  have "checkValue (SArr (SObj [(''channel_id'', STy ''string''), (''since'', STy ''string|null'')])) (JArr (map since_json cs)) path = []" for path
    by (rule array_field) (auto simp: since_json_def relay_checks)
  then show ?thesis
    by (intro shaped_by [OF _ relay_shapes_more(2), where sh = "shape ORG [(''org_id'', STy ''string''), (''requester_id'', STy ''string''),
        (''channels'', SArr (SObj [(''channel_id'', STy ''string''), (''since'', STy ''string|null'')]))] []"])
      (simp_all add: relay_checks org_subject_matches [OF assms] del: checkValue.simps(2))
qed

lemma dm_received_shaped:
  assumes "dotless u"
  shows "well_shaped (user_subject u, JObj [(''type'', JStr ''dm_received''), (''from_user_id'', JStr me), (''from_callsign'', JStr name)])"
  by (rule shaped_by [OF _ relay_shapes_more(3), where sh = "shape USER [(''from_user_id'', STy ''string''), (''from_callsign'', STy ''string'')] []"])
    (simp_all add: relay_checks user_subject_matches [OF assms])

lemma dm_relay_shaped:
  assumes "dotless u"
  shows "well_shaped (user_subject u, dm_relay_json partner (dm_message_json i me other name content ts))"
  unfolding dm_relay_json_def
  by (rule shaped_by [OF _ relay_shapes(1), where sh = "shape USER [(''context'', STy ''literal:dm''), (''partner_id'', STy ''string''),
      (''message'', SObj [(''id'', STy ''string''), (''conversation_id'', STy ''string''), (''sender_id'', STy ''string''),
        (''encrypted_content'', STy ''string''), (''timestamp'', STy ''string'')])] []"])
    (simp_all add: relay_checks dm_message_json_def check_type_def starts_with_def split_on.simps user_subject_matches [OF assms])

lemma dm_request_shaped:
  assumes "dotless u"
  shows "well_shaped (user_subject u, JObj [(''type'', JStr ''dm_sync_request''), (''conversation_id'', JStr conv), (''requester_id'', JStr me),
       (''since'', nullable since)])"
  by (rule shaped_by [OF _ relay_shapes_more(4), where sh = "shape USER [(''conversation_id'', STy ''string''), (''requester_id'', STy ''string''),
      (''since'', STy ''string|null'')] []"])
    (simp_all add: relay_checks user_subject_matches [OF assms])

lemma dm_bundle_shaped:
  assumes "dotless u"
  shows "well_shaped (user_subject u, JObj [(''type'', JStr ''dm_sync_response''), (''conversation_id'', JStr conv), (''relayed_by'', JStr me),
       (''bundle'', JStr b), (''count'', count_json n)])"
  by (rule shaped_by [OF _ relay_shapes_more(5), where sh = "shape USER [(''conversation_id'', STy ''string''), (''relayed_by'', STy ''string''),
      (''bundle'', STy ''string'')] [(''count'', STy ''number|null'')]"])
    (simp_all add: relay_checks user_subject_matches [OF assms])

lemma uuid_dotless:
  assumes "UUID_RE s"
  shows "dotless s"
  unfolding dotless_def
proof
  assume "CHR ''.'' \<in> set s"
  then obtain i where i: "i < length s" "s ! i = CHR ''.''" by (auto simp: in_set_conv_nth)
  then have "i \<in> set [0..<36]" using assms by (simp add: UUID_RE_def)
  then show False using assms i(2) unfolding UUID_RE_def list_all_iff by (auto simp: is_hex_def dest!: bspec [of _ _ i] split: if_splits)
qed

lemma dm_not_sse: "\<not> isSseSubject (Some (dm_subject c))"
  by (cases "split_on (CHR ''.'') c") (simp_all add: sse_tokens dm_subject_def)


section \<open>The stream\<close>

text \<open>What a window does with a line of the stream (\<open>web-portal/src/useEventStream.js\<close>): parse it and hand the object to the
  handler of its type.  The delivery engine reads the fields of a relay from it.\<close>

definition on_message :: "string \<Rightarrow> (string \<times> jsval) option" where
  "on_message text = (case json_parse text of None \<Rightarrow> None
     | Some v \<Rightarrow> (case member v ''type'' of JStr ty \<Rightarrow> Some (ty, v) | _ \<Rightarrow> None))"

definition text_field :: "jsval \<Rightarrow> string \<Rightarrow> string option" where
  "text_field v k = (case member v k of JStr s \<Rightarrow> Some s | _ \<Rightarrow> None)"

definition relay_msg_of :: "jsval \<Rightarrow> relay_msg option" where
  "relay_msg_of v = (case v of JObj _ \<Rightarrow> Some
       \<lparr>rm_id = text_field v ''id'', rm_conversation_id = text_field v ''conversation_id'', rm_sender_id = text_field v ''sender_id'',
        rm_to_user_id = text_field v ''to_user_id'', rm_callsign = text_field v ''callsign'',
        rm_encrypted_content = text_field v ''encrypted_content'', rm_timestamp = text_field v ''timestamp''\<rparr>
     | _ \<Rightarrow> None)"

definition relay_of :: "jsval \<Rightarrow> relay" where
  "relay_of v = \<lparr>rl_id = text_field v ''id'', rl_channel_id = text_field v ''channel_id'', rl_org_id = text_field v ''org_id'',
     rl_context = text_field v ''context'', rl_conversation_id = text_field v ''conversation_id'', rl_sender_id = text_field v ''sender_id'',
     rl_callsign = text_field v ''callsign'', rl_global_tag = text_field v ''global_tag'',
     rl_encrypted_content = text_field v ''encrypted_content'', rl_image_url = text_field v ''image_url'',
     rl_timestamp = text_field v ''timestamp'', rl_message = relay_msg_of (member v ''message'')\<rparr>"

lemma spread_get:
  "distinct (map fst fs) \<Longrightarrow> al_get (spread fs obj) k = (case al_get fs k of None \<Rightarrow> al_get obj k | Some v \<Rightarrow> Some v)"
proof (induction fs arbitrary: obj)
  case (Cons f fs)
  have "al_get fs (fst f) = None" using Cons.prems by (simp add: al_get_None)
  then show ?case using Cons.IH [of "al_set (fst f) (snd f) obj"] Cons.prems
    by (cases f) (auto simp: spread_def split: option.split)
qed (simp add: spread_def)

lemma spread_keys: "distinct (map fst obj) \<Longrightarrow> distinct (map fst (spread fs obj))"
  by (induction fs arbitrary: obj) (auto simp: spread_def)

lemma spread_values: "kv \<in> set (spread fs obj) \<Longrightarrow> kv \<in> set fs \<or> kv \<in> set obj"
proof (induction fs arbitrary: obj)
  case (Cons f fs)
  then show ?case using Cons.IH [of "al_set (fst f) (snd f) obj"] set_al_set [of kv "fst f" "snd f" obj]
    by (auto simp: spread_def case_prod_beta)
qed (simp add: spread_def)

lemma envelope_reads:
  assumes "jclean (JObj fs)" "member (JObj fs) ''type'' = JStr ty"
  shows "on_message (stringify (envelope (subj, JObj fs))) = Some (ty, envelope (subj, JObj fs))"
    "k \<noteq> ''subject'' \<Longrightarrow> member (envelope (subj, JObj fs)) k = member (JObj fs) k"
proof -
  have d: "distinct (map fst fs)" using assms(1) by simp
  show m: "k \<noteq> ''subject'' \<Longrightarrow> member (envelope (subj, JObj fs)) k = member (JObj fs) k" for k
    using spread_get [OF d] by (auto simp: envelope_def member_def split: option.split)
  have "jclean (envelope (subj, JObj fs))"
    using assms(1) spread_keys [of "[(''subject'', JStr subj)]" fs] spread_values [of _ fs "[(''subject'', JStr subj)]"]
    by (fastforce simp: envelope_def)
  then have "json_parse (stringify (envelope (subj, JObj fs))) = Some (envelope (subj, JObj fs))" by (rule json_roundtrip)
  then show "on_message (stringify (envelope (subj, JObj fs))) = Some (ty, envelope (subj, JObj fs))"
    using m [of "''type''"] assms(2) by (simp add: on_message_def)
qed

lemma message_fields_clean: "jclean (doubled ''message_relay'' (channel_message_fields i chan org me prof b ts))"
  by (simp add: doubled_def channel_message_fields_def nullable_def split: option.split)

definition sent_relay :: "string \<Rightarrow> string \<Rightarrow> string \<Rightarrow> string \<Rightarrow> string option \<times> string option \<Rightarrow> message_body \<Rightarrow> string \<Rightarrow> relay" where
  "sent_relay i chan org me prof b ts = \<lparr>rl_id = Some i, rl_channel_id = Some chan, rl_org_id = Some org, rl_context = None,
     rl_conversation_id = None, rl_sender_id = Some me, rl_callsign = fst prof, rl_global_tag = snd prof,
     rl_encrypted_content = Some (mb_content b), rl_image_url = mb_image b, rl_timestamp = Some ts, rl_message = None\<rparr>"

lemma nullable_text: "(case nullable s of JStr t \<Rightarrow> Some t | _ \<Rightarrow> None) = s"
  by (simp add: nullable_def split: option.split)

lemma forwarded_relay:
  assumes "channel_subject chan \<in> set (sc_subjects c)"
  shows "\<exists>text v. text \<in> set (forward c [(channel_subject chan, doubled ''message_relay'' (channel_message_fields i chan org me prof b ts))])
    \<and> on_message text = Some (''message_relay'', v) \<and> relay_of v = sent_relay i chan org me prof b ts"
proof -
  let ?fs = "channel_message_fields i chan org me prof b ts"
  let ?ev = "(channel_subject chan, doubled ''message_relay'' ?fs)"
  have clean: "jclean (JObj ((''type'', JStr ''message_relay'') # ?fs @ [(''payload'', JObj ?fs)]))"
    using message_fields_clean by (simp add: doubled_def)
  have ty: "member (JObj ((''type'', JStr ''message_relay'') # ?fs @ [(''payload'', JObj ?fs)])) ''type'' = JStr ''message_relay''"
    by (simp add: member_def)
  note r = envelope_reads [OF clean ty, where subj = "channel_subject chan"]
  have "relay_of (envelope ?ev) = sent_relay i chan org me prof b ts"
    unfolding relay_of_def text_field_def doubled_def sent_relay_def
    by (simp add: r(2)) (simp add: member_def channel_message_fields_def nullable_text relay_msg_of_def)
  moreover have "on_message (stringify (envelope ?ev)) = Some (''message_relay'', envelope ?ev)"
    using r(1) by (simp add: doubled_def)
  moreover have "stringify (envelope ?ev) \<in> set (forward c [?ev])" using assms by (auto simp: forward_def)
  ultimately show ?thesis by blast
qed

lemma stream_subscribes:
  assumes "eventStream (Some u) True t = Reply 200 (c, hello)" "\<not> t_down t" "(chan, r) \<in> set (t_channels t)"
    "(ch_org r, u) \<in> set (t_org_members t)"
  shows "channel_subject chan \<in> set (sc_subjects c)"
proof -
  have "chan \<in> (\<lambda>_. chan) ` {p \<in> set (t_org_members t). snd p = u \<and> fst p = ch_org r}" using assms(4) by (intro image_eqI) auto
  then have "chan \<in> set (channels_of u t)" unfolding channels_of_def using assms(3) by (auto intro!: bexI [of _ "(chan, r)"])
  moreover have "orgs_of u t \<noteq> []" using assms(4) by (auto simp: orgs_of_def filter_empty_conv intro!: bexI [of _ "(ch_org r, u)"])
  moreover have "c = \<lparr>sc_user = u, sc_orgs = orgs_of u t, sc_subjects = user_subject u # map org_subject (orgs_of u t)
      @ (if orgs_of u t = [] then [] else map channel_subject (channels_of u t))\<rparr>"
    using assms(1,2) by (auto simp: eventStream_def Let_def unauthorized_def split: if_splits)
  ultimately show ?thesis by simp
qed

lemma gate_refuses: "channel_gate org chan u t = Some r \<Longrightarrow> r \<noteq> Reply n y"
  by (auto simp: channel_gate_def internal_error_def split: if_splits option.splits)

lemma accepted_message:
  assumes "sendMessage url prof i ts (Some me) org chan (Some b) t = (Reply 201 x, evs)"
  shows "channel_gate org chan me t = (None :: (string \<times> string) response option) \<and> x = (i, ts)
    \<and> evs = [(channel_subject chan, doubled ''message_relay'' (channel_message_fields i chan org me (or_else (prof me) (None, None)) b ts))]"
proof -
  have "me \<noteq> [] \<and> sendMessageSchema url b" using assms by (auto simp: sendMessage_def unauthorized_def invalid_def safeParse_def split: if_splits)
  then show ?thesis using assms gate_refuses [of org chan me t _ 201 x]
    by (cases "channel_gate org chan me t :: (string \<times> string) response option") (auto simp: sendMessage_def safeParse_def)
qed

lemma sent_is_channel_relay: "i \<noteq> [] \<Longrightarrow> chan \<noteq> [] \<Longrightarrow> isChannelRelay (sent_relay i chan org me prof b ts)"
  by (simp add: isChannelRelay_def sent_relay_def)

text \<open>C20: from the sender's request to the reader's history: a message the service accepts is written to the open stream of
  every member who had the channel when the stream was opened; the window that parses that line queues the
  decryption for its account; and once the job has run the message is in the history, readable when it decrypted.\<close>

theorem message_reaches_member:
  assumes "eventStream (Some u) True t0 = Reply 200 (c, hello)" "\<not> t_down t0" "(chan, r) \<in> set (t_channels t0)"
      "(ch_org r, u) \<in> set (t_org_members t0)"
    and "sendMessage url prof i ts (Some me) org chan (Some b) t = (Reply 201 x, evs)" "i \<noteq> []" "ts \<noteq> []" "chan \<noteq> []" "u \<noteq> me"
    and "userId s0 = Some u" "userId s = Some u" "x_decrypt e Channel_kind u chan (Some (mb_content b)) False s = (res, s1)"
      "opens_to e s1 w st" "keyed (channel_messages (db_of w st))"
  shows "\<exists>text v row. text \<in> set (forward c evs) \<and> on_message text = Some (''message_relay'', v)
    \<and> decryptChain (handleRelay (relay_of v) s0) = decryptChain s0 @ [RelayJob u (relay_of v)]
    \<and> al_get (channel_messages (db_of w (history_store (run_job e (RelayJob u (relay_of v)) s)))) i = Some row
    \<and> (plain_of res = None \<or> plaintext row \<noteq> None)"
proof -
  let ?p = "sent_relay i chan org me (or_else (prof me) (None, None)) b ts"
  obtain l v where v: "l \<in> set (forward c evs)" "on_message l = Some (''message_relay'', v)" "relay_of v = ?p"
    using forwarded_relay [OF stream_subscribes [OF assms(1-4)]] accepted_message [OF assms(5)] by metis
  have chain: "decryptChain (handleRelay ?p s0) = decryptChain s0 @ [RelayJob u ?p]"
    using sent_is_channel_relay [OF assms(6,8)] assms(10) by (simp add: handleRelay_def Let_def)
  have p: "rl_channel_id ?p = Some chan" "rl_encrypted_content ?p = Some (mb_content b)" "rl_sender_id ?p = Some me" "rl_id ?p = Some i"
      "rl_timestamp ?p = Some ts" by (simp_all add: sent_relay_def)
  obtain row where "al_get (channel_messages (db_of w (history_store (run_relay e u ?p s)))) i = Some row" "plain_of res = None \<or> plaintext row \<noteq> None"
    using relay_kept [OF assms(11), of e ?p res s1 w st] assms(6,7,9,12-14) p by auto
  then show ?thesis using v chain by (auto simp: run_job_def)
qed

text \<open>C21: a stream is a snapshot of the organisations' channels, not of their audiences: as long as it is open it carries every
  accepted message of a channel that existed when it was opened, its ciphertext and its unencrypted image, whoever may
  use the channel and whoever is still a member by then.\<close>

theorem stream_ignores_audience:
  assumes "eventStream (Some u) True t0 = Reply 200 (c, hello)" "\<not> t_down t0" "(chan, r) \<in> set (t_channels t0)"
      "(ch_org r, u) \<in> set (t_org_members t0)"
    and "sendMessage url prof i ts (Some me) org chan (Some b) t = (Reply 201 x, evs)"
  shows "\<exists>text v. text \<in> set (forward c evs) \<and> on_message text = Some (''message_relay'', v)
    \<and> rl_encrypted_content (relay_of v) = Some (mb_content b) \<and> rl_image_url (relay_of v) = mb_image b
    \<and> rl_sender_id (relay_of v) = Some me"
proof -
  obtain l v where "l \<in> set (forward c evs)" "on_message l = Some (''message_relay'', v)"
      "relay_of v = sent_relay i chan org me (or_else (prof me) (None, None)) b ts"
    using forwarded_relay [OF stream_subscribes [OF assms(1-4)]] accepted_message [OF assms(5)] by metis
  then show ?thesis by (auto simp: sent_relay_def)
qed

section \<open>At concrete inputs\<close>

definition relay_toy :: server where
  "relay_toy = \<lparr>t_org_members = t_org_members toy_access, t_channels = t_channels toy_access, t_events = t_events toy_access,
     t_event_groups = t_event_groups toy_access, t_group_members = t_group_members toy_access, t_frequencies = [],
     t_frequency_roles = [], t_planners = [], t_friendships = [], t_groups = [], t_log = [], t_devices = [], t_published = [],
     t_down = False\<rparr>"

definition toy_body :: message_body where
  "toy_body = \<lparr>mb_content = ''ct'', mb_image = None\<rparr>"

definition toy_stream :: "string \<Rightarrow> stream_conn" where
  "toy_stream u = \<lparr>sc_user = u, sc_orgs = [''o1''], sc_subjects = [user_subject u, org_subject ''o1'', channel_subject ''c1'', channel_subject ''g1'']\<rparr>"

lemmas relay_toy_defs = relay_toy_def toy_access_def toy_body_def toy_stream_def

lemma toy_open: "u \<in> {''alice'', ''carol''} \<Longrightarrow> eventStream (Some u) True relay_toy
    = Reply 200 (toy_stream u, JObj [(''type'', JStr ''connected''), (''orgIds'', JArr [JStr ''o1''])])"
  by (auto simp: eventStream_def Let_def orgs_of_def channels_of_def relay_toy_defs)

lemma toy_send:
  "sendMessage (\<lambda>u. True) (\<lambda>u. None) ''m1'' ''t1'' (Some ''bob'') ''o1'' chan (Some toy_body) relay_toy
    = (Reply 201 (''m1'', ''t1''), [(channel_subject chan, doubled ''message_relay''
        (channel_message_fields ''m1'' chan ''o1'' ''bob'' (None, None) toy_body ''t1''))])" if "chan = ''c1'' \<or> chan = ''g1''"
  using that by (auto simp: sendMessage_def safeParse_def sendMessageSchema_def channel_gate_def is_org_member_def canUseChannel_def
      access_defs relay_toy_defs)

lemma message_reaches_member_witness:
  "\<exists>text v row. text \<in> set (forward (toy_stream ''alice'')
        [(channel_subject ''c1'', doubled ''message_relay'' (channel_message_fields ''m1'' ''c1'' ''o1'' ''bob'' (None, None) toy_body ''t1''))])
    \<and> on_message text = Some (''message_relay'', v)
    \<and> decryptChain (handleRelay (relay_of v) toy_engine) = decryptChain toy_engine @ [RelayJob ''alice'' (relay_of v)]
    \<and> al_get (channel_messages (db_of ''alice'' (history_store (run_job toy_chat (RelayJob ''alice'' (relay_of v)) toy_engine)))) ''m1'' = Some row
    \<and> (plain_of (Inr ''hello'' :: string + string) = None \<or> plaintext row \<noteq> None)"
  by (rule message_reaches_member [OF toy_open _ _ _ toy_send, where r = "\<lparr>ch_org = ''o1'', ch_event = None, ch_frequency = None\<rparr>"
        and st = "history_store toy_engine" and ?s1.0 = toy_engine])
    (simp_all only: toy_opens, simp_all add: relay_toy_defs toy_chat_defs db_of_def upgrade_def)

lemma stream_ignores_audience_witness:
  "\<not> may_read relay_toy ''o1'' ''g1'' ''carol'' \<and> (\<exists>text v. text \<in> set (forward (toy_stream ''carol'')
        [(channel_subject ''g1'', doubled ''message_relay'' (channel_message_fields ''m1'' ''g1'' ''o1'' ''bob'' (None, None) toy_body ''t1''))])
    \<and> on_message text = Some (''message_relay'', v) \<and> rl_encrypted_content (relay_of v) = Some (mb_content toy_body)
    \<and> rl_image_url (relay_of v) = mb_image toy_body \<and> rl_sender_id (relay_of v) = Some ''bob'')"
proof (intro conjI, goal_cases)
  case 1
  show ?case by (simp add: may_read_def can_event_channel_def canUseChannel_def access_defs relay_toy_defs)
next
  case 2
  show ?case
    by (rule stream_ignores_audience [OF toy_open _ _ _ toy_send, where r = "\<lparr>ch_org = ''o1'', ch_event = Some ''e1'', ch_frequency = Some False\<rparr>"])
      (simp_all add: relay_toy_defs)
qed

lemma sync_request_is_filtered_witness:
  "map fst (filterSyncChannels [] [(''c1'', None), (''g1'', Some ''e1'')] (\<lambda>c. False) [(''g1'', None), (''c1'', Some ''t''), (''c1'', None)]) = [''c1'']"
  using sync_request_is_filtered [of "[(''c1'', None), (''g1'', Some ''e1'')]" "\<lambda>c. False" "[(''g1'', None), (''c1'', Some ''t''), (''c1'', None)]"]
  by (simp add: may_sync_def)

definition ann_id :: string where "ann_id = ''aaaaaaaa-aaaa-4aaa-8aaa-aaaaaaaaaaaa''"
definition ben_id :: string where "ben_id = ''bbbbbbbb-bbbb-4bbb-8bbb-bbbbbbbbbbbb''"
definition room_id :: string where "room_id = ''cccccccc-cccc-4ccc-8ccc-cccccccccccc''"

definition uuid_toy :: server where
  "uuid_toy = relay_toy\<lparr>t_org_members := [(''o1'', ann_id), (''o1'', ben_id)],
     t_channels := [(room_id, \<lparr>ch_org = ''o1'', ch_event = None, ch_frequency = None\<rparr>)]\<rparr>"

definition toy_bundle :: bundle_body where
  "toy_bundle = \<lparr>bb_to = ben_id, bb_channel = room_id, bb_bundle = ''ct'', bb_count = Some 1\<rparr>"

lemma toy_uuids: "UUID_RE ann_id" "UUID_RE ben_id" "UUID_RE room_id"
  by (simp_all add: UUID_RE_def is_hex_def ann_id_def ben_id_def room_id_def upt_rec)

lemma toy_ids: "ann_id \<noteq> ben_id" "ann_id \<noteq> []" "dotless ann_id" "dotless room_id" "dotless ''o1''"
  by (simp_all add: ann_id_def ben_id_def room_id_def dotless_def)

definition toy_answer :: jsval where
  "toy_answer = JObj [(''type'', JStr ''sync_response''), (''org_id'', JStr ''o1''), (''channel_id'', JStr room_id),
     (''relayed_by'', JStr ann_id), (''bundle'', JStr ''ct''), (''count'', JNum 1)]"

lemma toy_answered: "snd (respondOrgSync (Some ann_id) ''o1'' (Some toy_bundle) uuid_toy) = [(user_subject ben_id, toy_answer)]"
proof -
  have "safeParse orgSyncResponseSchema (Some toy_bundle) = Some toy_bundle"
    by (simp add: safeParse_def orgSyncResponseSchema_def toy_bundle_def toy_uuids bundle_ok_def count_ok_def SYNC_BUNDLE_MAX_def SYNC_MESSAGES_MAX_def)
  moreover have "is_org_member uuid_toy ''o1'' ann_id" "is_org_member uuid_toy ''o1'' ben_id" "\<not> t_down uuid_toy"
    by (simp_all add: is_org_member_def uuid_toy_def relay_toy_def)
  moreover have "eventChannelDenial room_id ''o1'' [ann_id, ben_id] uuid_toy = (None :: unit response option)"
    by (simp add: eventChannelDenial_def getChannelScope_def uuid_toy_def relay_toy_def Let_def)
  ultimately show ?thesis using toy_ids by (simp add: respondOrgSync_def toy_bundle_def toy_answer_def count_json_def)
qed

lemma answers_stay_in_audience_witness:
  "\<exists>me to' chan. Some ann_id = Some me \<and> user_subject ben_id = user_subject to' \<and> member toy_answer ''relayed_by'' = JStr me
    \<and> member toy_answer ''channel_id'' = JStr chan \<and> may_read uuid_toy ''o1'' chan me \<and> may_read uuid_toy ''o1'' chan to'"
  by (rule answers_stay_in_audience [where user = "Some ann_id" and org = "''o1''" and bun = "Some toy_bundle" and t = uuid_toy
      and chan' = room_id and batch = None]) (simp add: toy_answered)


end
