(* ===== verification/Event_Signups.thy ===== *)
theory Event_Signups
  imports Relay_Server
begin

text \<open>
  Signing up for an operation (\<open>services/identity-node/src/controllers/eventsController.ts\<close>): the rows of
  \<open>event_group_members\<close>, the seats a hangar ship reserves on roles, the hulls of a group and their claims, and
  every handler that changes them.  A handler takes the tables to its answer, the events it publishes and the
  tables; what it reads before a refusal is rolled back with it.  \<open>joinEventRole\<close> is cut into the part that reads
  and decides and the part that writes, since two transactions may interleave there.

  Columns with a COALESCE are options where the code reads both cases; \<open>reserved_slots\<close>, \<open>seat_labels\<close> and
  \<open>auto_approve\<close> carry the value after it.  Identifiers of the database are not empty strings.
  The dash in the answer of a full role is written as a hyphen.
\<close>

section \<open>Tables\<close>

record signup =
  sg_group :: string
  sg_user :: string
  sg_role :: "string option"
  sg_status :: string
  sg_role_name :: "string option"
  sg_seat :: "string option"
  sg_ship :: "string option"
  sg_reserved_role :: "string option"
  sg_reserved_count :: int

record group_role =
  rl_group :: string
  rl_name :: string
  rl_mode :: string
  rl_max :: int
  rl_auto :: bool
  rl_reserved :: int
  rl_seats :: "string list"
  rl_priority :: "int option"
  rl_sort :: "int option"
  rl_commander :: bool

record op_group =
  gp_event :: string
  gp_name :: string
  gp_leader :: "string option"
  gp_parent :: "string option"
  gp_linked :: "string option"
  gp_max :: "int option"
  gp_channel :: "string option"

record op_event =
  oe_org :: string
  oe_name :: string
  oe_mode :: "string option"
  oe_creator :: "string option"
  oe_commander :: "string option"
  oe_command_channel :: "string option"
  oe_launched :: bool
  oe_ended :: bool

record frequency =
  fq_event :: string
  fq_name :: string
  fq_sort :: int
  fq_leadership :: bool
  fq_channel :: "string option"

text \<open>\<open>oc_open\<close> is \<open>type = 0\<close>, the kind of channel every event channel has.\<close>

record op_channel =
  oc_org :: string
  oc_event :: "string option"
  oc_name :: string
  oc_open :: bool
  oc_frequency :: bool
  oc_parent :: "string option"

record composition_row =
  sp_group :: string
  sp_slug :: string
  sp_quantity :: int

record ship_claim =
  sc_group :: string
  sc_slug :: string
  sc_slot :: int
  sc_user :: string
  sc_ship :: string
  sc_claimed :: string

record hangar_ship =
  hs_owner :: string
  hs_slug :: string
  hs_locked :: "string list"

record raw_seat =
  st_hardpoint :: string
  st_role :: string
  st_label :: string

text \<open>\<open>su_game_ships\<close> holds the rows of the game \<open>star_citizen\<close>: the role of the hull and its seats.  Tables are in the order
  of creation, \<open>su_serial\<close> counts the identifiers drawn so far, and a subscription is a user, an organisation and the channel.\<close>

record signups =
  su_owners :: "(string, string) jsmap"
  su_org_members :: "(string \<times> string) list"
  su_permissions :: "(string \<times> string \<times> string list) list"
  su_events :: "(string, op_event) jsmap"
  su_planners :: "(string \<times> string) list"
  su_groups :: "(string, op_group) jsmap"
  su_roles :: "(string, group_role) jsmap"
  su_members :: "signup list"
  su_ships :: "composition_row list"
  su_claims :: "ship_claim list"
  su_hangar :: "(string, hangar_ship) jsmap"
  su_game_ships :: "(string, string option \<times> raw_seat list) jsmap"
  su_frequencies :: "(string, frequency) jsmap"
  su_frequency_roles :: "(string \<times> string) list"
  su_channels :: "(string, op_channel) jsmap"
  su_subscriptions :: "(string \<times> string \<times> string) list"
  su_serial :: nat

datatype sign_answer = Denied nat string | Answered string

type_synonym outcome = "sign_answer \<times> (string \<times> jsval) list \<times> signups"

definition deny :: "nat \<Rightarrow> string \<Rightarrow> signups \<Rightarrow> outcome" where
  "deny code msg t = (Denied code msg, [], t)"

definition roster_event :: "string \<Rightarrow> string \<Rightarrow> string \<times> jsval" where
  "roster_event org ev = (org_subject org, JObj [(''type'', JStr ''event_roster_changed''), (''event_id'', JStr ev)])"

definition answer :: "string \<Rightarrow> string \<Rightarrow> string \<Rightarrow> signups \<Rightarrow> outcome" where
  "answer org ev msg t = (Answered msg, [roster_event org ev], t)"

definition with_user :: "string option \<Rightarrow> signups \<Rightarrow> (string \<Rightarrow> outcome) \<Rightarrow> outcome" where
  "with_user user t k = (if truthy user then k (or_else user []) else deny 401 ''Unauthorized'' t)"

section \<open>Rows\<close>

definition is_row :: "string \<Rightarrow> string \<Rightarrow> signup \<Rightarrow> bool" where
  "is_row g u m \<longleftrightarrow> sg_group m = g \<and> sg_user m = u"

definition new_row :: "string \<Rightarrow> string \<Rightarrow> string \<Rightarrow> signup" where
  "new_row g u status = \<lparr>sg_group = g, sg_user = u, sg_role = None, sg_status = status, sg_role_name = None, sg_seat = None,
     sg_ship = None, sg_reserved_role = None, sg_reserved_count = 0\<rparr>"

text \<open>\<open>INSERT ... ON CONFLICT (group_id, user_id) DO UPDATE SET ...\<close>\<close>

definition upsert :: "signup \<Rightarrow> (signup \<Rightarrow> signup) \<Rightarrow> signup list \<Rightarrow> signup list" where
  "upsert new upd ms = (if list_ex (is_row (sg_group new) (sg_user new)) ms
     then map (\<lambda>m. if is_row (sg_group new) (sg_user new) m then upd m else m) ms else ms @ [new])"

definition member_row_of :: "string \<Rightarrow> string \<Rightarrow> signups \<Rightarrow> signup option" where
  "member_row_of g u t = find (is_row g u) (su_members t)"

definition counts :: "signup \<Rightarrow> bool" where
  "counts m \<longleftrightarrow> sg_status m \<in> {''accepted'', ''pending''}"

definition update_role :: "string \<Rightarrow> (group_role \<Rightarrow> group_role) \<Rightarrow> signups \<Rightarrow> signups" where
  "update_role r f t = t\<lparr>su_roles := map (\<lambda>(i, x). (i, if i = r then f x else x)) (su_roles t)\<rparr>"

text \<open>\<open>UPDATE event_group_roles SET reserved_slots = GREATEST(0, reserved_slots - $1) WHERE id = $2\<close>, when the row holds
  a reservation.\<close>

definition release_seats :: "signup \<Rightarrow> signups \<Rightarrow> signups" where
  "release_seats m t = (case sg_reserved_role m of None \<Rightarrow> t
     | Some r \<Rightarrow> if 0 < sg_reserved_count m
         then update_role r (\<lambda>x. x\<lparr>rl_reserved := max 0 (rl_reserved x - sg_reserved_count m)\<rparr>) t else t)"

definition release_row :: "signup option \<Rightarrow> signups \<Rightarrow> signups" where
  "release_row m t = (case m of None \<Rightarrow> t | Some x \<Rightarrow> release_seats x t)"

definition delete_members :: "(signup \<Rightarrow> bool) \<Rightarrow> signups \<Rightarrow> signups" where
  "delete_members P t = t\<lparr>su_members := filter (\<lambda>m. \<not> P m) (su_members t)\<rparr>"

definition delete_claims :: "string \<Rightarrow> string \<Rightarrow> signups \<Rightarrow> signups" where
  "delete_claims g u t = t\<lparr>su_claims := filter (\<lambda>c. \<not> (sc_group c = g \<and> sc_user c = u)) (su_claims t)\<rparr>"

definition event_groups :: "string \<Rightarrow> signups \<Rightarrow> string list" where
  "event_groups ev t = map fst (filter (\<lambda>(g, r). gp_event r = ev) (su_groups t))"

definition in_event :: "string \<Rightarrow> signups \<Rightarrow> signup \<Rightarrow> bool" where
  "in_event ev t m \<longleftrightarrow> sg_group m \<in> set (event_groups ev t)"

section \<open>Who may\<close>

definition canManageEvents :: "string \<Rightarrow> string \<Rightarrow> signups \<Rightarrow> bool" where
  "canManageEvents u org t \<longleftrightarrow> al_get (su_owners t) org = Some u \<or>
     list_ex (\<lambda>(o', u', ps). o' = org \<and> u' = u \<and> (''can_create_events'' \<in> set ps \<or> ''can_manage_channels'' \<in> set ps))
       (su_permissions t)"

definition canManageThisEvent :: "string \<Rightarrow> string \<Rightarrow> string \<Rightarrow> signups \<Rightarrow> bool" where
  "canManageThisEvent u org ev t \<longleftrightarrow> canManageEvents u org t
     \<or> (case al_get (su_events t) ev of None \<Rightarrow> False
        | Some e \<Rightarrow> oe_org e = org \<and> (oe_creator e = Some u \<or> oe_commander e = Some u))
     \<or> (ev, u) \<in> set (su_planners t)"

definition RESTRICTED :: string where
  "RESTRICTED = ''This event is restricted. Only planners can assign members.''"

text \<open>The event must be in the organisation and open; \<^const>\<open>None\<close> when it is.\<close>

definition open_event_gate :: "string \<Rightarrow> string \<Rightarrow> string \<Rightarrow> signups \<Rightarrow> (nat \<times> string) option" where
  "open_event_gate restricted org ev t = (case al_get (su_events t) ev of None \<Rightarrow> Some (404, ''Event not found'')
     | Some e \<Rightarrow> if oe_org e \<noteq> org then Some (404, ''Event not found'')
         else if or_else (oe_mode e) ''open'' \<noteq> ''open'' then Some (403, restricted) else None)"

text \<open>The three checks that open every self-service handler but one.\<close>

definition self_service_gate :: "string \<Rightarrow> string \<Rightarrow> string \<Rightarrow> signups \<Rightarrow> (nat \<times> string) option" where
  "self_service_gate org ev u t = (case open_event_gate RESTRICTED org ev t of Some d \<Rightarrow> Some d
     | None \<Rightarrow> if (org, u) \<in> set (su_org_members t) then None else Some (403, ''Not a member''))"

section \<open>Groups\<close>

definition joinEventGroup :: "string \<Rightarrow> string \<Rightarrow> string \<Rightarrow> string option \<Rightarrow> signups \<Rightarrow> outcome" where
  "joinEventGroup org ev g user t = with_user user t (\<lambda>u.
     case self_service_gate org ev u t of Some (code, msg) \<Rightarrow> deny code msg t
     | None \<Rightarrow> if g \<notin> set (event_groups ev t) then deny 404 ''Group not found'' t
         else answer org ev ''Joined group''
           (t\<lparr>su_members := upsert (new_row g u ''accepted'') (\<lambda>m. m\<lparr>sg_status := ''accepted''\<rparr>) (su_members t)\<rparr>))"

definition leaveEventGroup :: "string \<Rightarrow> string \<Rightarrow> string \<Rightarrow> string option \<Rightarrow> signups \<Rightarrow> outcome" where
  "leaveEventGroup org ev g user t = with_user user t (\<lambda>u.
     answer org ev ''Left group'' (delete_members (is_row g u) (delete_claims g u (release_row (member_row_of g u t) t))))"

section \<open>Roles and hulls\<close>

definition PILOT_ROLE_NAMES :: "string list" where "PILOT_ROLE_NAMES = [''Pilot'', ''Captain'']"

definition filled_slots :: "string \<Rightarrow> string \<Rightarrow> signups \<Rightarrow> int" where
  "filled_slots r g t = int (length (filter (\<lambda>m. sg_role m = Some r \<and> sg_group m = g \<and> counts m) (su_members t)))"

definition role_in_group :: "string \<Rightarrow> string \<Rightarrow> signups \<Rightarrow> group_role option" where
  "role_in_group r g t = (case al_get (su_roles t) r of None \<Rightarrow> None | Some x \<Rightarrow> if rl_group x = g then Some x else None)"

definition composition :: "string \<Rightarrow> signups \<Rightarrow> string list" where
  "composition g t = map sp_slug (filter (\<lambda>s. sp_group s = g) (su_ships t))"

text \<open>The hull a seat belongs to: the only one of the group, or the only one whose seats carry the label.\<close>

definition required_slug :: "string list \<Rightarrow> string option \<Rightarrow> signups \<Rightarrow> string option" where
  "required_slug slugs label t = (if length slugs = 1 then Some (hd slugs)
     else case label of None \<Rightarrow> None
     | Some l \<Rightarrow> (case filter (\<lambda>(s, role, seats). s \<in> set slugs \<and> list_ex (\<lambda>x. st_label x = l) seats) (su_game_ships t) of
         [p] \<Rightarrow> Some (fst p) | _ \<Rightarrow> None))"

definition claimed_hull :: "string \<Rightarrow> string option \<Rightarrow> signups \<Rightarrow> bool" where
  "claimed_hull g slug t = list_ex (\<lambda>c. sc_group c = g \<and> (case slug of None \<Rightarrow> True | Some s \<Rightarrow> sc_slug c = s)) (su_claims t)"

text \<open>A group with hulls: its pilots come by claiming one, its crew once one is claimed.\<close>

definition ship_gate :: "string \<Rightarrow> group_role \<Rightarrow> string option \<Rightarrow> signups \<Rightarrow> (nat \<times> string) option" where
  "ship_gate g role seat t = (let slugs = composition g t in
     if slugs = [] then None
     else if rl_name role \<in> set PILOT_ROLE_NAMES then Some (403, ''Claim a ship for this group to join as Pilot/Captain.'')
     else (let label = (if truthy seat then seat else case rl_seats role of [] \<Rightarrow> None | s # _ \<Rightarrow> str_or_null (Some s));
               required = required_slug slugs label t
           in if claimed_hull g required t then None
              else Some (403, case required of Some s \<Rightarrow> ''No '' @ s @ '' has been claimed for this group yet.''
                | None \<Rightarrow> ''No ship has been claimed for this group yet.'')))"

subsection \<open>Names of seats (\<open>utils/scunpackedSync.ts\<close>)\<close>

definition is_lower :: "char \<Rightarrow> bool" where "is_lower c \<longleftrightarrow> CHR ''a'' \<le> c \<and> c \<le> CHR ''z''"
definition is_upper :: "char \<Rightarrow> bool" where "is_upper c \<longleftrightarrow> CHR ''A'' \<le> c \<and> c \<le> CHR ''Z''"
definition is_digit_char :: "char \<Rightarrow> bool" where "is_digit_char c \<longleftrightarrow> CHR ''0'' \<le> c \<and> c \<le> CHR ''9''"

definition to_lower :: "char \<Rightarrow> char" where
  "to_lower c = (if is_upper c then char_of (of_char c + 32 :: nat) else c)"
definition to_upper :: "char \<Rightarrow> char" where
  "to_upper c = (if is_lower c then char_of (of_char c - 32 :: nat) else c)"

text \<open>\<open>replace(/([a-z0-9])([A-Z])/g, '$1 $2')\<close>: a match never begins inside another.\<close>

fun split_camel :: "string \<Rightarrow> string" where
  "split_camel (a # b # s) = (if (is_lower a \<or> is_digit_char a) \<and> is_upper b then a # CHR '' '' # split_camel (b # s)
     else a # split_camel (b # s))"
| "split_camel s = s"

fun join_with :: "char \<Rightarrow> string list \<Rightarrow> string" where
  "join_with c [] = []"
| "join_with c [w] = w"
| "join_with c (w # ws) = w @ c # join_with c ws"

definition capitalise :: "string \<Rightarrow> string" where
  "capitalise w = (case w of [] \<Rightarrow> [] | c # s \<Rightarrow> to_upper c # map to_lower s)"

definition humanizeSegment :: "string \<Rightarrow> string" where
  "humanizeSegment seg = join_with CHR '' '' (map capitalise (filter (\<lambda>w. w \<noteq> [])
     (split_on CHR '' '' (split_camel (map (\<lambda>c. if c = CHR ''_'' then CHR '' '' else c) seg)))))"

definition ROLE_DISPLAY_NAMES :: "(string, string) jsmap" where
  "ROLE_DISPLAY_NAMES = [(''Captain'', ''Captain''), (''Helmsman'', ''Pilot''), (''CoHelmsman'', ''Co-Pilot''),
     (''Turret'', ''Turret Gunner''), (''Bridge'', ''Bridge Officer''), (''Operator'', ''Operator''), (''Gunner'', ''Gunner''),
     (''MiningOperator'', ''Mining Operator''), (''RemoteTurretOperator'', ''Remote Turret Operator''),
     (''TorpedoOperator'', ''Torpedo Operator''), (''Engineering'', ''Lead Engineer'')]"

definition roleDisplayName :: "string \<Rightarrow> string" where
  "roleDisplayName role = or_else (al_get ROLE_DISPLAY_NAMES role) (humanizeSegment role)"

subsection \<open>Joining a role\<close>

text \<open>What the reads decide: membership without a role, or the role with its seat and status.\<close>

datatype join_plan = Without_role | In_role "string option" string

text \<open>The group's own cap counts every member, the caller included.\<close>

definition group_full :: "string \<Rightarrow> signups \<Rightarrow> bool" where
  "group_full g t = (case al_get (su_groups t) g of None \<Rightarrow> False
     | Some grp \<Rightarrow> 0 < or_else (gp_max grp) 0
         \<and> or_else (gp_max grp) 0 \<le> int (length (filter (\<lambda>m. sg_group m = g \<and> counts m) (su_members t))))"

definition seat_taken :: "string \<Rightarrow> string \<Rightarrow> string \<Rightarrow> signups \<Rightarrow> bool" where
  "seat_taken r seat u t = list_ex (\<lambda>m. sg_role m = Some r \<and> sg_seat m = Some seat \<and> counts m \<and> sg_user m \<noteq> u) (su_members t)"

text \<open>A role with several named seats asks which one.\<close>

definition seat_choice :: "string \<Rightarrow> group_role \<Rightarrow> string option \<Rightarrow> string \<Rightarrow> signups \<Rightarrow> (nat \<times> string) + string option" where
  "seat_choice r role seat u t = (if length (rl_seats role) \<le> 1
       then Inr (case rl_seats role of [] \<Rightarrow> None | s # _ \<Rightarrow> str_or_null (Some s))
     else (case seat of None \<Rightarrow> Inl (400, ''Select a seat for this role.'')
       | Some s \<Rightarrow> if s \<notin> set (rl_seats role) then Inl (400, ''Invalid seat for this role.'')
           else if seat_taken r s u t then Inl (409, ''That seat is already taken.'')
           else Inr (Some s)))"

definition status_for :: "group_role \<Rightarrow> string" where
  "status_for role = (if rl_auto role then ''accepted'' else ''pending'')"

definition join_decide :: "string \<Rightarrow> string \<Rightarrow> string \<Rightarrow> string \<Rightarrow> string \<Rightarrow> string option \<Rightarrow> signups
    \<Rightarrow> (nat \<times> string) + (group_role \<times> join_plan)" where
  "join_decide org ev g r u seat t = (case self_service_gate org ev u t of Some d \<Rightarrow> Inl d
     | None \<Rightarrow> (case role_in_group r g t of None \<Rightarrow> Inl (404, ''Role not found'')
       | Some role \<Rightarrow> if rl_mode role \<noteq> ''open'' then Inl (403, ''This role requires direct assignment.'')
           else (case ship_gate g role seat t of Some d \<Rightarrow> Inl d
             | None \<Rightarrow> if filled_slots r g t + rl_reserved role < rl_max role
                 then (case seat_choice r role seat u t of Inl d \<Rightarrow> Inl d | Inr s \<Rightarrow> Inr (role, In_role s (status_for role)))
                 else if group_full g t then Inl (409, ''This group is full.'') else Inr (role, Without_role))))"

text \<open>Locked seats of the hull the caller brings, counted by the name of the role they belong to.\<close>

definition seat_counts :: "raw_seat list \<Rightarrow> string list \<Rightarrow> (string, int) jsmap" where
  "seat_counts raw lks = fold (\<lambda>hp m. case find (\<lambda>s. st_hardpoint s = hp) raw of None \<Rightarrow> m
     | Some s \<Rightarrow> al_set (roleDisplayName (st_role s)) (or_else (al_get m (roleDisplayName (st_role s))) 0 + 1) m) lks []"

definition roles_named :: "string \<Rightarrow> string \<Rightarrow> signups \<Rightarrow> string list" where
  "roles_named g name t = map fst (filter (\<lambda>(i, x). rl_group x = g \<and> rl_name x = name) (su_roles t))"

definition reserve :: "string \<Rightarrow> string \<Rightarrow> int \<Rightarrow> signups \<Rightarrow> signups" where
  "reserve g name n t = t\<lparr>su_roles := map (\<lambda>(i, x). (i, if rl_group x = g \<and> rl_name x = name
     then x\<lparr>rl_reserved := rl_reserved x + n\<rparr> else x)) (su_roles t)\<rparr>"

text \<open>Only the first role reserved on is kept on the member's row.\<close>

fun reserve_seats :: "string \<Rightarrow> (string \<times> int) list \<Rightarrow> (string \<times> int) option \<Rightarrow> signups \<Rightarrow> (string \<times> int) option \<times> signups" where
  "reserve_seats g [] kept t = (kept, t)"
| "reserve_seats g ((name, n) # rest) kept t = (case roles_named g name t of [] \<Rightarrow> reserve_seats g rest kept t
     | r # _ \<Rightarrow> reserve_seats g rest (case kept of None \<Rightarrow> Some (r, n) | Some k \<Rightarrow> Some k) (reserve g name n t))"

definition hull_reservation :: "string \<Rightarrow> string option \<Rightarrow> string \<Rightarrow> signups \<Rightarrow> (string \<times> int) list" where
  "hull_reservation g ship u t = (case str_or_null ship of None \<Rightarrow> []
     | Some s \<Rightarrow> (case al_get (su_hangar t) s of None \<Rightarrow> []
       | Some h \<Rightarrow> if hs_owner h \<noteq> u \<or> hs_locked h = [] \<or> hs_slug h \<notin> set (composition g t) then []
           else seat_counts (case al_get (su_game_ships t) (hs_slug h) of None \<Rightarrow> [] | Some gs \<Rightarrow> snd gs) (hs_locked h)))"

definition take_seat :: "string \<Rightarrow> string \<Rightarrow> string \<Rightarrow> group_role \<Rightarrow> string option \<Rightarrow> string \<Rightarrow> string option
    \<Rightarrow> (string \<times> int) option \<Rightarrow> signups \<Rightarrow> signups" where
  "take_seat g r u role seat status ship kept t = (let res = map_option fst kept; n = (case kept of None \<Rightarrow> 0 | Some k \<Rightarrow> snd k)
     in t\<lparr>su_members := upsert
          (new_row g u status\<lparr>sg_role := Some r, sg_role_name := Some (rl_name role), sg_ship := ship,
             sg_reserved_role := res, sg_reserved_count := n, sg_seat := seat\<rparr>)
          (\<lambda>m. m\<lparr>sg_role := Some r, sg_status := status, sg_role_name := Some (rl_name role), sg_ship := ship,
             sg_reserved_role := res, sg_reserved_count := n, sg_seat := seat\<rparr>)
          (su_members t)\<rparr>)"

definition join_without_role :: "string \<Rightarrow> string \<Rightarrow> signups \<Rightarrow> signups" where
  "join_without_role g u t = t\<lparr>su_members := upsert (new_row g u ''accepted'')
     (\<lambda>m. m\<lparr>sg_role := None, sg_status := ''accepted'', sg_role_name := None, sg_seat := None, sg_ship := None,
        sg_reserved_role := None, sg_reserved_count := 0\<rparr>) (su_members t)\<rparr>"

text \<open>The writes: the reservation of a previous membership is released first.\<close>

definition join_write :: "string \<Rightarrow> string \<Rightarrow> string \<Rightarrow> string option \<Rightarrow> group_role \<times> join_plan \<Rightarrow> signups \<Rightarrow> string \<times> signups" where
  "join_write g r u ship plan t = (let role = fst plan; t1 = release_row (member_row_of g u t) t in
     case snd plan of
       Without_role \<Rightarrow> ((if rl_name role = [] then ''That role'' else rl_name role)
           @ '' is full - joined the group without a specific role.'', join_without_role g u t1)
     | In_role seat status \<Rightarrow> (let (kept, t2) = reserve_seats g (hull_reservation g ship u t1) None t1 in
         (if status = ''accepted'' then ''Joined role'' else ''Join request pending approval'',
          take_seat g r u role seat status (if kept = None then None else str_or_null ship) kept t2)))"

definition seat_param :: "string option \<Rightarrow> string option" where
  "seat_param s = map_option (take 80) (str_or_null s)"

definition joinEventRole :: "string \<Rightarrow> string \<Rightarrow> string \<Rightarrow> string \<Rightarrow> string option \<Rightarrow> string option \<Rightarrow> string option
    \<Rightarrow> signups \<Rightarrow> outcome" where
  "joinEventRole org ev g r ship seat user t = with_user user t (\<lambda>u.
     case join_decide org ev g r u (seat_param seat) t of Inl (code, msg) \<Rightarrow> deny code msg t
     | Inr plan \<Rightarrow> (let (msg, t') = join_write g r u ship plan t in answer org ev msg t'))"

section \<open>Quick sign-up\<close>

text \<open>\<open>ORDER BY priority DESC, sort_order ASC, created_at ASC\<close>: the table keeps the order of creation.\<close>

definition role_before :: "string \<times> group_role \<Rightarrow> string \<times> group_role \<Rightarrow> bool" where
  "role_before a b = (let p = or_else (rl_priority (snd a)) 3; q = or_else (rl_priority (snd b)) 3 in
     q < p \<or> (p = q \<and> or_else (rl_sort (snd a)) 0 \<le> or_else (rl_sort (snd b)) 0))"

definition filled_anywhere :: "string \<Rightarrow> signups \<Rightarrow> int" where
  "filled_anywhere r t = int (length (filter (\<lambda>m. sg_role m = Some r \<and> counts m) (su_members t)))"

definition quick_role :: "string \<Rightarrow> signups \<Rightarrow> (string \<times> group_role) option" where
  "quick_role ev t = find (\<lambda>(i, x). filled_anywhere i t < rl_max x)
     (stable_sort role_before (filter (\<lambda>(i, x). rl_group x \<in> set (event_groups ev t) \<and> rl_mode x = ''open'') (su_roles t)))"

definition quick_group :: "string \<Rightarrow> signups \<Rightarrow> string option" where
  "quick_group ev t = find (\<lambda>g. case al_get (su_groups t) g of None \<Rightarrow> False
     | Some grp \<Rightarrow> or_else (gp_max grp) 0 = 0
         \<or> int (length (filter (\<lambda>m. sg_group m = g \<and> counts m) (su_members t))) < or_else (gp_max grp) 0) (event_groups ev t)"

definition quickJoinEvent :: "string \<Rightarrow> string \<Rightarrow> string option \<Rightarrow> signups \<Rightarrow> outcome" where
  "quickJoinEvent org ev user t = with_user user t (\<lambda>u.
     case open_event_gate ''This event is restricted. Wait for assignment approval.'' org ev t of Some (code, msg) \<Rightarrow> deny code msg t
     | None \<Rightarrow> if list_ex (\<lambda>m. sg_user m = u \<and> in_event ev t m) (su_members t) then (Answered ''Already signed up'', [], t)
         else (case quick_role ev t of
             Some (r, role) \<Rightarrow> answer org ev (if rl_auto role then ''Signed up'' else ''Signup request pending approval'')
               (t\<lparr>su_members := upsert
                  (new_row (rl_group role) u (status_for role)\<lparr>sg_role := Some r, sg_role_name := Some (rl_name role)\<rparr>)
                  (\<lambda>m. m\<lparr>sg_role := Some r, sg_status := status_for role, sg_role_name := Some (rl_name role)\<rparr>) (su_members t)\<rparr>)
           | None \<Rightarrow> (case quick_group ev t of None \<Rightarrow> deny 409 ''No open slots available right now.'' t
               | Some g \<Rightarrow> answer org ev ''Signed up''
                   (t\<lparr>su_members := upsert (new_row g u ''accepted'') (\<lambda>m. m\<lparr>sg_status := ''accepted''\<rparr>) (su_members t)\<rparr>))))"

section \<open>Leaving\<close>

definition leaveMyEventSignup :: "string \<Rightarrow> string \<Rightarrow> string option \<Rightarrow> signups \<Rightarrow> outcome" where
  "leaveMyEventSignup org ev user t = with_user user t (\<lambda>u.
     answer org ev ''Signup removed'' (delete_members (\<lambda>m. sg_user m = u \<and> in_event ev t m)
       (fold release_seats (filter (\<lambda>m. sg_user m = u \<and> in_event ev t m \<and> sg_reserved_role m \<noteq> None \<and> 0 < sg_reserved_count m)
         (su_members t)) t)))"

definition leaveEventRole :: "string \<Rightarrow> string \<Rightarrow> string \<Rightarrow> string \<Rightarrow> string option \<Rightarrow> signups \<Rightarrow> outcome" where
  "leaveEventRole org ev g r user t = with_user user t (\<lambda>u.
     answer org ev ''Left role'' (delete_members (\<lambda>m. is_row g u m \<and> sg_role m = Some r)
       (delete_claims g u (release_row (find (\<lambda>m. is_row g u m \<and> sg_role m = Some r) (su_members t)) t))))"

section \<open>Claiming a hull\<close>

text \<open>The same hull, or two whose role in the game's data is the same and known.\<close>

definition hull_role :: "string \<Rightarrow> signups \<Rightarrow> string option" where
  "hull_role s t = Option.bind (al_get (su_game_ships t) s) fst"

definition shipRolesMatch :: "string \<Rightarrow> string \<Rightarrow> signups \<Rightarrow> bool" where
  "shipRolesMatch a b t \<longleftrightarrow> a = b \<or> (truthy (hull_role a t) \<and> truthy (hull_role b t) \<and> hull_role a t = hull_role b t)"

definition claim_gate :: "string \<Rightarrow> string \<Rightarrow> string \<Rightarrow> string \<Rightarrow> string \<Rightarrow> int \<Rightarrow> string \<Rightarrow> signups \<Rightarrow> (nat \<times> string) + string" where
  "claim_gate org ev g slug ship slot u t = (case self_service_gate org ev u t of Some d \<Rightarrow> Inl d
     | None \<Rightarrow> (case al_get (su_hangar t) ship of None \<Rightarrow> Inl (404, ''Hangar ship not found'')
       | Some h \<Rightarrow> if hs_owner h \<noteq> u then Inl (404, ''Hangar ship not found'')
           else if \<not> shipRolesMatch (hs_slug h) slug t then Inl (400, ''That ship is not an approved match for this slot.'')
           else (case find (\<lambda>s. sp_group s = g \<and> sp_slug s = slug) (su_ships t) of
               None \<Rightarrow> Inl (400, ''Invalid slot for this composition.'')
             | Some s \<Rightarrow> if sp_quantity s \<le> slot then Inl (400, ''Invalid slot for this composition.'')
                 else Inr (hs_slug h))))"

definition slot_of :: "string \<Rightarrow> string \<Rightarrow> int \<Rightarrow> ship_claim \<Rightarrow> bool" where
  "slot_of g slug slot c \<longleftrightarrow> sc_group c = g \<and> sc_slug c = slug \<and> sc_slot c = slot"

definition pilot_role :: "string \<Rightarrow> signups \<Rightarrow> (string \<times> group_role) option" where
  "pilot_role g t = (let rows = filter (\<lambda>(i, x). rl_group x = g \<and> rl_name x \<in> set PILOT_ROLE_NAMES) (su_roles t) in
     case find (\<lambda>(i, x). rl_name x = ''Captain'') rows of Some p \<Rightarrow> Some p
     | None \<Rightarrow> find (\<lambda>(i, x). rl_name x = ''Pilot'') rows)"

text \<open>The seat of the pilot, when there is one: the claim stands without it.\<close>

definition join_pilot :: "string \<Rightarrow> string \<Rightarrow> string \<Rightarrow> signups \<Rightarrow> signups" where
  "join_pilot g u ship t = (case pilot_role g t of None \<Rightarrow> t
     | Some (r, role) \<Rightarrow> if filled_slots r g t < rl_max role
         then take_seat g r u role (case rl_seats role of [] \<Rightarrow> None | s # _ \<Rightarrow> str_or_null (Some s)) (status_for role)
           (Some ship) None t
         else t)"

definition claimShipSlot :: "string \<Rightarrow> string \<Rightarrow> string \<Rightarrow> string \<Rightarrow> string option \<Rightarrow> int option \<Rightarrow> string option \<Rightarrow> signups \<Rightarrow> outcome" where
  "claimShipSlot org ev g slug ship slot user t = with_user user t (\<lambda>u.
     case slot of None \<Rightarrow> deny 400 ''Missing or invalid user_ship_id/slot_index'' t
     | Some i \<Rightarrow> if \<not> truthy ship \<or> i < 0 then deny 400 ''Missing or invalid user_ship_id/slot_index'' t
         else (case claim_gate org ev g slug (or_else ship []) i u t of Inl (code, msg) \<Rightarrow> deny code msg t
           | Inr owned \<Rightarrow> (let t1 = delete_claims g u t in
               if list_ex (slot_of g slug i) (su_claims t1) then deny 409 ''That slot was just claimed.'' t
               else (let t2 = t1\<lparr>su_claims := su_claims t1 @ [\<lparr>sc_group = g, sc_slug = slug, sc_slot = i, sc_user = u,
                         sc_ship = or_else ship [], sc_claimed = owned\<rparr>]\<rparr>;
                       t3 = release_row (member_row_of g u t2) t2
                     in answer org ev ''Ship slot claimed'' (join_pilot g u (or_else ship []) t3)))))"

definition releaseShipSlot :: "string \<Rightarrow> string \<Rightarrow> string \<Rightarrow> string option \<Rightarrow> signups \<Rightarrow> outcome" where
  "releaseShipSlot org ev g user t = with_user user t (\<lambda>u.
     if \<not> list_ex (\<lambda>c. sc_group c = g \<and> sc_user c = u) (su_claims t) then deny 404 ''No claim to release'' t
     else answer org ev ''Ship slot released''
       (delete_members (\<lambda>m. is_row g u m \<and> (case sg_role m of None \<Rightarrow> False
          | Some r \<Rightarrow> (case role_in_group r g t of None \<Rightarrow> False | Some x \<Rightarrow> rl_name x \<in> set PILOT_ROLE_NAMES)))
        (delete_claims g u t)))"

section \<open>The planner's side\<close>

definition set_status :: "(signup \<Rightarrow> bool) \<Rightarrow> string \<Rightarrow> signups \<Rightarrow> signups" where
  "set_status P status t = t\<lparr>su_members := map (\<lambda>m. if P m then m\<lparr>sg_status := status\<rparr> else m) (su_members t)\<rparr>"

definition approveGroupMember :: "string \<Rightarrow> string \<Rightarrow> string \<Rightarrow> string \<Rightarrow> string option \<Rightarrow> signups \<Rightarrow> outcome" where
  "approveGroupMember org ev g u requester t = with_user requester t (\<lambda>me.
     if \<not> canManageThisEvent me org ev t then deny 403 ''Forbidden'' t
     else if \<not> list_ex (is_row g u) (su_members t) then deny 404 ''Member not found'' t
     else answer org ev ''Approved'' (set_status (is_row g u) ''accepted'' t))"

definition approveAllGroupMembers :: "string \<Rightarrow> string \<Rightarrow> string \<Rightarrow> string option \<Rightarrow> signups \<Rightarrow> outcome" where
  "approveAllGroupMembers org ev g requester t = with_user requester t (\<lambda>me.
     if \<not> canManageThisEvent me org ev t then deny 403 ''Forbidden'' t
     else answer org ev ''Approved pending members''
       (set_status (\<lambda>m. sg_group m = g \<and> sg_status m = ''pending'') ''accepted'' t))"

definition removeGroupMember :: "string \<Rightarrow> string \<Rightarrow> string \<Rightarrow> string \<Rightarrow> string option \<Rightarrow> signups \<Rightarrow> outcome" where
  "removeGroupMember org ev g u requester t = with_user requester t (\<lambda>me.
     if \<not> canManageThisEvent me org ev t then deny 403 ''Forbidden'' t
     else answer org ev ''Removed'' (delete_members (is_row g u) (release_row (member_row_of g u t) t)))"

text \<open>\<open>UPDATE ... RETURNING *\<close>: the rows as they are after the update.\<close>

definition respondEventAssignment :: "string \<Rightarrow> string \<Rightarrow> bool \<Rightarrow> string option \<Rightarrow> signups \<Rightarrow> outcome" where
  "respondEventAssignment org ev accept user t = with_user user t (\<lambda>u.
     let mine = (\<lambda>m. sg_user m = u \<and> in_event ev t m); status = (if accept then ''accepted'' else ''declined'');
         t1 = set_status mine status t
     in if \<not> list_ex mine (su_members t) then deny 404 ''No assignment found for this event'' t
        else answer org ev (''Assignment '' @ status) (if accept then t1 else fold release_seats (filter mine (su_members t1)) t1))"

section \<open>Every operation\<close>

datatype sign_op =
    Join_group string string string "string option"
  | Leave_group string string string "string option"
  | Join_role string string string string "string option" "string option" "string option"
  | Quick_join string string "string option"
  | Leave_event string string "string option"
  | Leave_role string string string string "string option"
  | Claim_slot string string string string "string option" "int option" "string option"
  | Release_slot string string string "string option"
  | Approve string string string string "string option"
  | Approve_all string string string "string option"
  | Remove_member string string string string "string option"
  | Respond string string bool "string option"

fun sign_step :: "sign_op \<Rightarrow> signups \<Rightarrow> outcome" where
  "sign_step (Join_group org ev g user) = joinEventGroup org ev g user"
| "sign_step (Leave_group org ev g user) = leaveEventGroup org ev g user"
| "sign_step (Join_role org ev g r ship seat user) = joinEventRole org ev g r ship seat user"
| "sign_step (Quick_join org ev user) = quickJoinEvent org ev user"
| "sign_step (Leave_event org ev user) = leaveMyEventSignup org ev user"
| "sign_step (Leave_role org ev g r user) = leaveEventRole org ev g r user"
| "sign_step (Claim_slot org ev g slug ship slot user) = claimShipSlot org ev g slug ship slot user"
| "sign_step (Release_slot org ev g user) = releaseShipSlot org ev g user"
| "sign_step (Approve org ev g u user) = approveGroupMember org ev g u user"
| "sign_step (Approve_all org ev g user) = approveAllGroupMembers org ev g user"
| "sign_step (Remove_member org ev g u user) = removeGroupMember org ev g u user"
| "sign_step (Respond org ev accept user) = respondEventAssignment org ev accept user"

fun sign_run :: "sign_op list \<Rightarrow> signups \<Rightarrow> signups" where
  "sign_run [] t = t"
| "sign_run (x # xs) t = sign_run xs (snd (snd (sign_step x t)))"

text \<open>The same tables as the audience rules read them (\<^theory_text>\<open>Event_Access\<close>).\<close>

definition audience_tables :: "signups \<Rightarrow> 'a access_tables_scheme \<Rightarrow> 'a access_tables_scheme" where
  "audience_tables s t = t\<lparr>t_org_members := su_org_members s, t_planners := su_planners s,
     t_events := map (\<lambda>(i, e). (i, \<lparr>ev_org = oe_org e, ev_commander = oe_commander e, ev_creator = oe_creator e,
       ev_command_channel = oe_command_channel e\<rparr>)) (su_events s),
     t_event_groups := map (\<lambda>(i, g). (i, \<lparr>eg_event = gp_event g, eg_channel = gp_channel g\<rparr>)) (su_groups s),
     t_channels := map (\<lambda>(i, c). (i, \<lparr>ch_org = oc_org c, ch_event = oc_event c, ch_frequency = Some (oc_frequency c)\<rparr>)) (su_channels s),
     t_frequencies := map (\<lambda>(i, f). (i, fq_channel f)) (su_frequencies s), t_frequency_roles := su_frequency_roles s,
     t_group_members := map (\<lambda>m. \<lparr>gm_group = sg_group m, gm_user = Some (sg_user m), gm_role = sg_role m,
       gm_status = sg_status m\<rparr>) (su_members s)\<rparr>"

end
