(* ===== verification/Event_Roster.thy ===== *)
theory Event_Roster
  imports Event_Signups Relay_Props
begin

text \<open>
  The rows of a roster under every operation of \<^theory_text>\<open>Event_Signups\<close>: which tables an operation touches, that a refusal
  touches none, and that members and claims stay unique.
\<close>

section \<open>Rows and frames\<close>

definition row_key :: "signup \<Rightarrow> string \<times> string" where
  "row_key m = (sg_group m, sg_user m)"

lemma is_row_key: "is_row g u m \<longleftrightarrow> row_key m = (g, u)"
  by (auto simp: is_row_def row_key_def)

lemma new_row_simps [simp]:
  "sg_group (new_row g u s) = g" "sg_user (new_row g u s) = u" "sg_status (new_row g u s) = s" "sg_role (new_row g u s) = None"
  "sg_seat (new_row g u s) = None" "sg_reserved_role (new_row g u s) = None" "sg_reserved_count (new_row g u s) = 0"
  by (simp_all add: new_row_def)

lemma update_role_frame [simp]:
  "su_members (update_role r f t) = su_members t" "su_claims (update_role r f t) = su_claims t"
  "su_ships (update_role r f t) = su_ships t" "su_hangar (update_role r f t) = su_hangar t"
  "su_game_ships (update_role r f t) = su_game_ships t" "su_groups (update_role r f t) = su_groups t"
  "su_events (update_role r f t) = su_events t" "su_org_members (update_role r f t) = su_org_members t"
  by (simp_all add: update_role_def)

lemma release_frame [simp]:
  "su_members (release_seats m t) = su_members t" "su_claims (release_seats m t) = su_claims t"
  "su_ships (release_seats m t) = su_ships t" "su_hangar (release_seats m t) = su_hangar t"
  "su_game_ships (release_seats m t) = su_game_ships t" "su_groups (release_seats m t) = su_groups t"
  "su_events (release_seats m t) = su_events t" "su_org_members (release_seats m t) = su_org_members t"
  by (simp_all add: release_seats_def split: option.split)

lemma release_row_frame [simp]:
  "su_members (release_row m t) = su_members t" "su_claims (release_row m t) = su_claims t"
  "su_ships (release_row m t) = su_ships t" "su_hangar (release_row m t) = su_hangar t"
  "su_game_ships (release_row m t) = su_game_ships t" "su_groups (release_row m t) = su_groups t"
  "su_events (release_row m t) = su_events t" "su_org_members (release_row m t) = su_org_members t"
  by (simp_all add: release_row_def split: option.split)

lemma release_all_frame [simp]:
  "su_members (fold release_seats ms t) = su_members t" "su_claims (fold release_seats ms t) = su_claims t"
  "su_ships (fold release_seats ms t) = su_ships t" "su_hangar (fold release_seats ms t) = su_hangar t"
  "su_game_ships (fold release_seats ms t) = su_game_ships t" "su_groups (fold release_seats ms t) = su_groups t"
  "su_events (fold release_seats ms t) = su_events t" "su_org_members (fold release_seats ms t) = su_org_members t"
  by (induction ms arbitrary: t) simp_all

lemma reserve_frame [simp]:
  "su_members (reserve g n k t) = su_members t" "su_claims (reserve g n k t) = su_claims t"
  "su_ships (reserve g n k t) = su_ships t" "su_hangar (reserve g n k t) = su_hangar t"
  "su_game_ships (reserve g n k t) = su_game_ships t" "su_groups (reserve g n k t) = su_groups t"
  "su_events (reserve g n k t) = su_events t" "su_org_members (reserve g n k t) = su_org_members t"
  by (simp_all add: reserve_def)

lemma reserve_seats_frame [simp]:
  "su_members (snd (reserve_seats g ns k t)) = su_members t" "su_claims (snd (reserve_seats g ns k t)) = su_claims t"
  "su_ships (snd (reserve_seats g ns k t)) = su_ships t" "su_hangar (snd (reserve_seats g ns k t)) = su_hangar t"
  "su_game_ships (snd (reserve_seats g ns k t)) = su_game_ships t" "su_groups (snd (reserve_seats g ns k t)) = su_groups t"
  "su_events (snd (reserve_seats g ns k t)) = su_events t" "su_org_members (snd (reserve_seats g ns k t)) = su_org_members t"
  by (induction g ns k t rule: reserve_seats.induct) (simp_all split: list.split option.split)

lemma delete_frame [simp]:
  "su_claims (delete_members P t) = su_claims t" "su_ships (delete_members P t) = su_ships t"
  "su_hangar (delete_members P t) = su_hangar t" "su_game_ships (delete_members P t) = su_game_ships t"
  "su_groups (delete_members P t) = su_groups t" "su_roles (delete_members P t) = su_roles t"
  "su_members (delete_claims g u t) = su_members t" "su_ships (delete_claims g u t) = su_ships t"
  "su_hangar (delete_claims g u t) = su_hangar t" "su_game_ships (delete_claims g u t) = su_game_ships t"
  "su_groups (delete_claims g u t) = su_groups t" "su_roles (delete_claims g u t) = su_roles t"
  "su_members (delete_members P t) = filter (\<lambda>m. \<not> P m) (su_members t)"
  "su_claims (delete_claims g u t) = filter (\<lambda>c. \<not> (sc_group c = g \<and> sc_user c = u)) (su_claims t)"
  by (simp_all add: delete_members_def delete_claims_def)

lemma set_status_frame [simp]:
  "su_claims (set_status P s t) = su_claims t" "su_ships (set_status P s t) = su_ships t"
  "su_hangar (set_status P s t) = su_hangar t" "su_game_ships (set_status P s t) = su_game_ships t"
  "su_groups (set_status P s t) = su_groups t" "su_roles (set_status P s t) = su_roles t"
  "su_members (set_status P s t) = map (\<lambda>m. if P m then m\<lparr>sg_status := s\<rparr> else m) (su_members t)"
  by (simp_all add: set_status_def)

lemma take_seat_frame [simp]:
  "su_claims (take_seat g r u role seat st ship k t) = su_claims t" "su_ships (take_seat g r u role seat st ship k t) = su_ships t"
  "su_hangar (take_seat g r u role seat st ship k t) = su_hangar t" "su_game_ships (take_seat g r u role seat st ship k t) = su_game_ships t"
  "su_groups (take_seat g r u role seat st ship k t) = su_groups t" "su_roles (take_seat g r u role seat st ship k t) = su_roles t"
  by (simp_all add: take_seat_def Let_def)

lemma join_without_role_frame [simp]:
  "su_claims (join_without_role g u t) = su_claims t" "su_ships (join_without_role g u t) = su_ships t"
  "su_hangar (join_without_role g u t) = su_hangar t" "su_game_ships (join_without_role g u t) = su_game_ships t"
  "su_groups (join_without_role g u t) = su_groups t" "su_roles (join_without_role g u t) = su_roles t"
  by (simp_all add: join_without_role_def)

text \<open>An upsert touches the row of its key only.\<close>

lemma upsert_keys:
  assumes "\<And>m. row_key (upd m) = row_key m"
  shows "map row_key (upsert new upd ms) = (if row_key new \<in> set (map row_key ms) then map row_key ms else map row_key ms @ [row_key new])"
proof -
  have "list_ex (is_row (sg_group new) (sg_user new)) ms \<longleftrightarrow> row_key new \<in> set (map row_key ms)"
    by (auto simp: list_ex_iff is_row_key row_key_def image_iff) metis+
  moreover have "map row_key (map (\<lambda>m. if P m then upd m else m) ms) = map row_key ms" for P
    by (simp add: assms cong: if_cong)
  ultimately show ?thesis by (simp add: upsert_def)
qed

lemma upsert_distinct:
  assumes "distinct (map row_key ms)" "\<And>m. row_key (upd m) = row_key m"
  shows "distinct (map row_key (upsert new upd ms))"
  using assms(1) unfolding upsert_keys [OF assms(2)] by simp

lemma take_seat_distinct:
  "distinct (map row_key (su_members t)) \<Longrightarrow> distinct (map row_key (su_members (take_seat g r u role seat st ship k t)))"
  by (simp add: take_seat_def Let_def) (rule upsert_distinct, simp_all add: row_key_def)

lemma join_without_role_distinct:
  "distinct (map row_key (su_members t)) \<Longrightarrow> distinct (map row_key (su_members (join_without_role g u t)))"
  by (simp add: join_without_role_def) (rule upsert_distinct, simp_all add: row_key_def)

lemma join_pilot_frame [simp]:
  "su_claims (join_pilot g u ship t) = su_claims t" "su_ships (join_pilot g u ship t) = su_ships t"
  "su_hangar (join_pilot g u ship t) = su_hangar t" "su_game_ships (join_pilot g u ship t) = su_game_ships t"
  by (simp_all add: join_pilot_def split: option.split prod.split)

lemma join_pilot_distinct:
  "distinct (map row_key (su_members t)) \<Longrightarrow> distinct (map row_key (su_members (join_pilot g u ship t)))"
  by (simp add: join_pilot_def take_seat_distinct split: option.split prod.split)

lemma join_write_forms [simp]:
  "snd (join_write g r u ship (role, Without_role) t) = join_without_role g u (release_row (member_row_of g u t) t)"
  "snd (join_write g r u ship (role, In_role seat st) t) =
     (let t1 = release_row (member_row_of g u t) t; res = reserve_seats g (hull_reservation g ship u t1) None t1
      in take_seat g r u role seat st (if fst res = None then None else str_or_null ship) (fst res) (snd res))"
  by (simp_all add: join_write_def Let_def case_prod_beta)

lemma join_write_frame [simp]:
  "su_claims (snd (join_write g r u ship plan t)) = su_claims t" "su_ships (snd (join_write g r u ship plan t)) = su_ships t"
  "su_hangar (snd (join_write g r u ship plan t)) = su_hangar t"
  "su_game_ships (snd (join_write g r u ship plan t)) = su_game_ships t"
  by (cases plan; cases "snd plan"; simp add: Let_def)+

lemma join_write_distinct:
  assumes "distinct (map row_key (su_members t))"
  shows "distinct (map row_key (su_members (snd (join_write g r u ship plan t))))"
  using assms by (cases plan; cases "snd plan") (simp_all add: Let_def take_seat_distinct join_without_role_distinct)

section \<open>Refusals\<close>

text \<open>The organisation and the event an operation is addressed to.\<close>

fun op_target :: "sign_op \<Rightarrow> string \<times> string" where
  "op_target (Join_group org ev g user) = (org, ev)"
| "op_target (Leave_group org ev g user) = (org, ev)"
| "op_target (Join_role org ev g r ship seat user) = (org, ev)"
| "op_target (Quick_join org ev user) = (org, ev)"
| "op_target (Leave_event org ev user) = (org, ev)"
| "op_target (Leave_role org ev g r user) = (org, ev)"
| "op_target (Claim_slot org ev g slug ship slot user) = (org, ev)"
| "op_target (Release_slot org ev g user) = (org, ev)"
| "op_target (Approve org ev g u user) = (org, ev)"
| "op_target (Approve_all org ev g user) = (org, ev)"
| "op_target (Remove_member org ev g u user) = (org, ev)"
| "op_target (Respond org ev accept user) = (org, ev)"

definition clean :: "string \<Rightarrow> string \<Rightarrow> signups \<Rightarrow> outcome \<Rightarrow> bool" where
  "clean org ev t out = (case out of (Denied code msg, evs, t') \<Rightarrow> evs = [] \<and> t' = t
     | (Answered msg, evs, t') \<Rightarrow> evs = [roster_event org ev] \<or> evs = [] \<and> t' = t)"

lemma clean_intros:
  "clean org ev t (deny code msg t)" "clean org ev t (answer org ev msg t')" "clean org ev t (Answered msg, [], t)"
  by (simp_all add: clean_def deny_def answer_def)

lemma clean_signed_in: "(\<And>u. clean org ev t (k u)) \<Longrightarrow> clean org ev t (with_user user t k)"
  by (simp add: with_user_def clean_intros)

lemmas handler_defs = joinEventGroup_def leaveEventGroup_def joinEventRole_def quickJoinEvent_def leaveMyEventSignup_def
  leaveEventRole_def claimShipSlot_def releaseShipSlot_def approveGroupMember_def approveAllGroupMembers_def removeGroupMember_def
  respondEventAssignment_def

lemma step_clean: "clean (fst (op_target x)) (snd (op_target x)) t (sign_step x t)"
  by (cases x) (auto simp: handler_defs Let_def intro!: clean_signed_in clean_intros
    split: option.split sum.split prod.split if_splits)


section \<open>One row, one hull\<close>

definition claim_fits :: "signups \<Rightarrow> ship_claim \<Rightarrow> bool" where
  "claim_fits t c \<longleftrightarrow> 0 \<le> sc_slot c
     \<and> list_ex (\<lambda>s. sp_group s = sc_group c \<and> sp_slug s = sc_slug c \<and> sc_slot c < sp_quantity s) (su_ships t)
     \<and> (case al_get (su_hangar t) (sc_ship c) of None \<Rightarrow> False
        | Some h \<Rightarrow> hs_owner h = sc_user c \<and> hs_slug h = sc_claimed c)
     \<and> shipRolesMatch (sc_claimed c) (sc_slug c) t"

text \<open>The rows of a roster: one per member and group, one claim per physical hull, one hull per claimant, each claim within the
  composition and made with an own ship that matches.\<close>

definition roster_ok :: "signups \<Rightarrow> bool" where
  "roster_ok t \<longleftrightarrow> distinct (map row_key (su_members t))
     \<and> distinct (map (\<lambda>c. (sc_group c, sc_slug c, sc_slot c)) (su_claims t))
     \<and> distinct (map (\<lambda>c. (sc_group c, sc_user c)) (su_claims t))
     \<and> list_all (claim_fits t) (su_claims t)"

definition same_hulls :: "signups \<Rightarrow> signups \<Rightarrow> bool" where
  "same_hulls t t' \<longleftrightarrow> su_ships t' = su_ships t \<and> su_hangar t' = su_hangar t \<and> su_game_ships t' = su_game_ships t"

lemma same_hulls_fits: "same_hulls t t' \<Longrightarrow> claim_fits t' c = claim_fits t c"
  by (simp add: same_hulls_def claim_fits_def shipRolesMatch_def hull_role_def)

lemma roster_ok_filter:
  assumes "roster_ok t" "same_hulls t t'" "su_claims t' = filter P (su_claims t)" "distinct (map row_key (su_members t'))"
  shows "roster_ok t'"
  using assms by (auto simp: roster_ok_def same_hulls_fits [OF assms(2)] list_all_iff intro: distinct_map_filter)

lemma roster_ok_members:
  assumes "roster_ok t" "same_hulls t t'" "su_claims t' = su_claims t" "distinct (map row_key (su_members t'))"
  shows "roster_ok t'"
  using roster_ok_filter [OF assms(1,2) _ assms(4), of "\<lambda>c. True"] assms(3) by simp

lemma roster_ok_claim:
  assumes "roster_ok t" "same_hulls t t'" "claim_fits t c" "distinct (map row_key (su_members t'))"
    and "\<not> list_ex (slot_of (sc_group c) (sc_slug c) (sc_slot c)) (filter (\<lambda>c'. \<not> (sc_group c' = sc_group c \<and> sc_user c' = sc_user c)) (su_claims t))"
    and "su_claims t' = filter (\<lambda>c'. \<not> (sc_group c' = sc_group c \<and> sc_user c' = sc_user c)) (su_claims t) @ [c]"
  shows "roster_ok t'"
proof -
  let ?cs = "filter (\<lambda>c'. \<not> (sc_group c' = sc_group c \<and> sc_user c' = sc_user c)) (su_claims t)"
  have "(sc_group c, sc_slug c, sc_slot c) \<notin> set (map (\<lambda>c. (sc_group c, sc_slug c, sc_slot c)) ?cs)"
    using assms(5) by (auto simp: list_ex_iff slot_of_def)
  moreover have "(sc_group c, sc_user c) \<notin> set (map (\<lambda>c. (sc_group c, sc_user c)) ?cs)" by auto
  ultimately show ?thesis using assms(1,3,4) unfolding roster_ok_def assms(6) map_append distinct_append
    by (auto simp: same_hulls_fits [OF assms(2)] list_all_iff intro: distinct_map_filter)
qed

lemma same_hulls_refl: "same_hulls t t"
  by (simp add: same_hulls_def)

lemma find_SomeD: "find P xs = Some x \<Longrightarrow> x \<in> set xs \<and> P x"
  by (induction xs) (auto split: if_splits)

lemma claim_gate_fits:
  assumes "claim_gate org ev g slug ship slot u t = Inr owned" "0 \<le> slot"
  shows "claim_fits t \<lparr>sc_group = g, sc_slug = slug, sc_slot = slot, sc_user = u, sc_ship = ship, sc_claimed = owned\<rparr>"
proof -
  obtain h s where h: "al_get (su_hangar t) ship = Some h" "hs_owner h = u" "hs_slug h = owned" "shipRolesMatch owned slug t"
      and s: "find (\<lambda>s. sp_group s = g \<and> sp_slug s = slug) (su_ships t) = Some s" "slot < sp_quantity s"
    using assms(1) by (auto simp: claim_gate_def split: option.splits if_splits)
  show ?thesis using h s(2) assms(2) find_SomeD [OF s(1)] by (auto simp: claim_fits_def list_ex_iff)
qed

lemma distinct_deleted:
  "distinct (map row_key (su_members t)) \<Longrightarrow> distinct (map row_key (su_members (delete_members P t)))"
  by (simp add: distinct_map_filter)

lemma distinct_statuses:
  "distinct (map row_key (su_members t)) \<Longrightarrow> distinct (map row_key (su_members (set_status P s t)))"
proof -
  have "map row_key (su_members (set_status P s t)) = map row_key (su_members t)" by (simp add: row_key_def)
  then show "distinct (map row_key (su_members t)) \<Longrightarrow> ?thesis" by metis
qed

definition roster_out :: "signups \<Rightarrow> outcome \<Rightarrow> bool" where
  "roster_out t out \<longleftrightarrow> roster_ok (snd (snd out))"

lemma roster_out_intros:
  "roster_ok t \<Longrightarrow> roster_out t (deny code msg t)" "roster_ok t' \<Longrightarrow> roster_out t (answer org ev msg t')"
  "roster_ok t \<Longrightarrow> roster_out t (Answered msg, [], t)"
  by (simp_all add: roster_out_def deny_def answer_def)

lemma roster_signed_in: "roster_ok t \<Longrightarrow> (\<And>u. roster_out t (k u)) \<Longrightarrow> roster_out t (with_user user t k)"
  by (simp add: with_user_def roster_out_intros)

lemma roster_ok_distinct: "roster_ok t \<Longrightarrow> distinct (map row_key (su_members t))"
  by (simp add: roster_ok_def)

lemma upsert_roster:
  assumes "roster_ok t" "\<And>m. row_key (upd m) = row_key m"
  shows "roster_ok (t\<lparr>su_members := upsert new upd (su_members t)\<rparr>)"
  using assms by (intro roster_ok_members [OF assms(1)]) (simp_all add: same_hulls_def upsert_distinct roster_ok_distinct)

lemma leave_roster:
  assumes "roster_ok t" "same_hulls t t'" "su_members t' = su_members t" "su_claims t' = su_claims t"
  shows "roster_ok (delete_members P (delete_claims g u t'))" "roster_ok (delete_members P t')"
proof -
  have "distinct (map row_key (filter (\<lambda>m. \<not> P m) (su_members t)))"
    using roster_ok_distinct [OF assms(1)] by (rule distinct_map_filter)
  then show "roster_ok (delete_members P (delete_claims g u t'))" "roster_ok (delete_members P t')"
    using assms by (auto intro: roster_ok_filter [OF assms(1), of "delete_members P (delete_claims g u t')"]
      roster_ok_members [OF assms(1)] simp: same_hulls_def)
qed

lemma status_roster: "roster_ok t \<Longrightarrow> roster_ok (set_status P s t)"
  by (rule roster_ok_members) (simp_all add: same_hulls_def distinct_statuses roster_ok_distinct del: set_status_frame(7))

lemma claim_roster:
  assumes "roster_ok t"
  shows "roster_out t (claimShipSlot org ev g slug ship slot user t)"
proof (unfold claimShipSlot_def, rule roster_signed_in [OF assms])
  fix u
  show "roster_out t (case slot of None \<Rightarrow> deny 400 ''Missing or invalid user_ship_id/slot_index'' t
     | Some i \<Rightarrow> if \<not> truthy ship \<or> i < 0 then deny 400 ''Missing or invalid user_ship_id/slot_index'' t
         else (case claim_gate org ev g slug (or_else ship []) i u t of Inl (code, msg) \<Rightarrow> deny code msg t
           | Inr owned \<Rightarrow> (let t1 = delete_claims g u t in
               if list_ex (slot_of g slug i) (su_claims t1) then deny 409 ''That slot was just claimed.'' t
               else (let t2 = t1\<lparr>su_claims := su_claims t1 @ [\<lparr>sc_group = g, sc_slug = slug, sc_slot = i, sc_user = u,
                         sc_ship = or_else ship [], sc_claimed = owned\<rparr>]\<rparr>;
                       t3 = release_row (member_row_of g u t2) t2
                     in answer org ev ''Ship slot claimed'' (join_pilot g u (or_else ship []) t3)))))"
    using assms by (auto simp: Let_def same_hulls_def intro!: roster_out_intros join_pilot_distinct
        roster_ok_claim [OF assms _ claim_gate_fits] intro: roster_ok_distinct split: option.split sum.split)
qed

lemma join_role_roster:
  assumes "roster_ok t"
  shows "roster_out t (joinEventRole org ev g r ship seat user t)"
proof -
  have "roster_ok (snd (join_write g r u ship plan t))" for u plan
    by (rule roster_ok_members [OF assms]) (simp_all add: same_hulls_def join_write_distinct roster_ok_distinct assms)
  then show ?thesis unfolding joinEventRole_def
    by (auto simp: case_prod_beta intro!: roster_signed_in roster_out_intros assms split: sum.split)
qed

lemma leaving_roster:
  assumes "roster_ok t"
  shows "roster_out t (leaveEventGroup org ev g user t)" "roster_out t (leaveEventRole org ev g r user t)"
    "roster_out t (releaseShipSlot org ev g user t)"
    "roster_out t (leaveMyEventSignup org ev user t)" "roster_out t (removeGroupMember org ev g u user t)"
  unfolding handler_defs
  subgoal by (intro roster_signed_in roster_out_intros leave_roster(1) [OF assms] assms) (simp_all add: same_hulls_def)
  subgoal by (intro roster_signed_in roster_out_intros leave_roster(1) [OF assms] assms) (simp_all add: same_hulls_def)
  subgoal by (auto intro!: roster_signed_in roster_out_intros leave_roster(1) [OF assms same_hulls_refl] assms)
  subgoal by (intro roster_signed_in roster_out_intros leave_roster(2) [OF assms] assms) (simp_all add: same_hulls_def)
  subgoal by (auto intro!: roster_signed_in roster_out_intros leave_roster(2) [OF assms] assms simp: same_hulls_def)
  done

lemma responding_roster:
  assumes "roster_ok t"
  shows "roster_out t (respondEventAssignment org ev accept user t)"
proof -
  have "roster_ok (fold release_seats ms (set_status P s t))" for ms P s
    by (rule roster_ok_members [OF status_roster [OF assms]])
      (simp_all add: same_hulls_def distinct_statuses roster_ok_distinct assms del: set_status_frame(7))
  then show ?thesis unfolding respondEventAssignment_def Let_def
    by (auto intro!: roster_signed_in roster_out_intros status_roster assms)
qed

lemma joining_roster:
  assumes "roster_ok t"
  shows "roster_out t (joinEventGroup org ev g user t)" "roster_out t (quickJoinEvent org ev user t)"
    "roster_out t (approveGroupMember org ev g u user t)" "roster_out t (approveAllGroupMembers org ev g user t)"
  unfolding handler_defs
  by (auto intro!: roster_signed_in roster_out_intros upsert_roster status_roster assms simp: row_key_def split: option.split)

lemma step_roster:
  assumes "roster_ok t"
  shows "roster_ok (snd (snd (sign_step x t)))"
proof -
  have "roster_out t (sign_step x t)" using assms
    by (cases x) (simp_all add: claim_roster join_role_roster leaving_roster responding_roster joining_roster)
  then show ?thesis by (simp add: roster_out_def)
qed

text \<open>C25: whatever members, claimants and planners do and in whatever order, a roster keeps one row per member and group, one
  claim per physical hull of a composition and one hull per claimant, and every claim stays within the composition
  and is made with a ship of the claimant's own hangar that is an approved match.\<close>

theorem roster_stays_exclusive:
  assumes "roster_ok t"
  shows "roster_ok (sign_run ops t)"
  using assms by (induction ops arbitrary: t) (simp_all add: step_roster)

end
