(* ===== verification/Event_Reservations.thy ===== *)
theory Event_Reservations
  imports Event_Roster
begin

text \<open>
  The seats that hangar ships reserve on the roles of a group: \<open>reserved_slots\<close> against what the members' rows hold,
  along any history of operations.
\<close>

section \<open>Reserved seats\<close>

text \<open>What a row holds on a role, and the seats a list of rows holds.\<close>

definition holds_on :: "string \<Rightarrow> signup \<Rightarrow> int" where
  "holds_on r m = (if sg_reserved_role m = Some r \<and> 0 < sg_reserved_count m then sg_reserved_count m else 0)"

definition reserved_on :: "string \<Rightarrow> signup list \<Rightarrow> int" where
  "reserved_on r ms = sum_list (map (holds_on r) ms)"

lemma holds_on_nonneg [simp]: "0 \<le> holds_on r m"
  by (simp add: holds_on_def)

lemma reserved_on_simps [simp]:
  "reserved_on r [] = 0" "reserved_on r (m # ms) = holds_on r m + reserved_on r ms"
  "reserved_on r (ms @ ns) = reserved_on r ms + reserved_on r ns"
  by (simp_all add: reserved_on_def)

lemma reserved_on_nonneg [simp]: "0 \<le> reserved_on r ms"
  by (induction ms) simp_all

lemma reserved_on_filter: "reserved_on r (filter (\<lambda>m. \<not> P m) ms) = reserved_on r ms - reserved_on r (filter P ms)"
  by (induction ms) simp_all

lemma reserved_on_cong: "(\<And>m. m \<in> set ms \<Longrightarrow> holds_on r (f m) = holds_on r m) \<Longrightarrow> reserved_on r (map f ms) = reserved_on r ms"
  by (induction ms) simp_all

text \<open>The books: each role's \<open>reserved_slots\<close> is what the rows hold on it.\<close>

definition balanced :: "signups \<Rightarrow> bool" where
  "balanced t \<longleftrightarrow> list_all (\<lambda>(i, x). rl_reserved x = reserved_on i (su_members t)) (su_roles t)"

lemma release_roles:
  "su_roles (release_seats m t) = map (\<lambda>(i, x). (i, if 0 < holds_on i m then x\<lparr>rl_reserved := max 0 (rl_reserved x - holds_on i m)\<rparr> else x))
     (su_roles t)"
  by (auto simp: release_seats_def update_role_def holds_on_def intro!: map_idI [symmetric] split: option.split)

lemma release_all_roles:
  assumes "\<And>i x. (i, x) \<in> set (su_roles t) \<Longrightarrow> reserved_on i ms \<le> rl_reserved x"
  shows "su_roles (fold release_seats ms t) = map (\<lambda>(i, x). (i, x\<lparr>rl_reserved := rl_reserved x - reserved_on i ms\<rparr>)) (su_roles t)"
  using assms
proof (induction ms arbitrary: t)
  case (Cons m ms)
  have le: "holds_on i m + reserved_on i ms \<le> rl_reserved x" if "(i, x) \<in> set (su_roles t)" for i x
    using Cons.prems [OF that] by simp
  have roles: "su_roles (release_seats m t) = map (\<lambda>(i, x). (i, x\<lparr>rl_reserved := rl_reserved x - holds_on i m\<rparr>)) (su_roles t)"
    unfolding release_roles
  proof (intro map_cong refl, clarsimp, intro conjI impI)
    fix i x assume ix: "(i, x) \<in> set (su_roles t)"
    show "x\<lparr>rl_reserved := max 0 (rl_reserved x - holds_on i m)\<rparr> = x\<lparr>rl_reserved := rl_reserved x - holds_on i m\<rparr>"
    proof -
      have "0 \<le> rl_reserved x - holds_on i m" using le [OF ix] reserved_on_nonneg [of i ms] by linarith
      then show ?thesis by (simp add: max_absorb2)
    qed
    assume "\<not> 0 < holds_on i m"
    then have "holds_on i m = 0" using holds_on_nonneg [of i m] by linarith
    then show "x = x\<lparr>rl_reserved := rl_reserved x - holds_on i m\<rparr>" by simp
  qed
  have "su_roles (fold release_seats ms (release_seats m t)) =
      map (\<lambda>(i, x). (i, x\<lparr>rl_reserved := rl_reserved x - reserved_on i ms\<rparr>)) (su_roles (release_seats m t))"
    by (rule Cons.IH) (use le in \<open>fastforce simp: roles\<close>)
  then show ?case by (simp add: roles case_prod_beta o_def diff_diff_add)
qed (simp add: case_prod_beta)

lemma balanced_reserved: "balanced t \<Longrightarrow> (i, x) \<in> set (su_roles t) \<Longrightarrow> rl_reserved x = reserved_on i (su_members t)"
  by (auto simp: balanced_def list_all_iff)

lemma reserved_on_part: "reserved_on i (filter P ms) \<le> reserved_on i ms"
  by (induction ms) (simp_all add: add_increasing)

text \<open>Releasing some of the rows: the rest is what the books hold.\<close>

lemma release_part:
  assumes "balanced t" "(i, x) \<in> set (su_roles (fold release_seats (filter P (su_members t)) t))"
  shows "rl_reserved x = reserved_on i (filter (\<lambda>m. \<not> P m) (su_members t))"
  using assms(2) balanced_reserved [OF assms(1)] reserved_on_filter [of i P "su_members t"]
  by (subst (asm) release_all_roles) (auto simp: balanced_reserved [OF assms(1)] reserved_on_part)

lemma find_key:
  assumes "distinct (map row_key ms)" "\<And>m. P m \<Longrightarrow> is_row g u m"
  shows "filter P ms = (case find P ms of None \<Rightarrow> [] | Some m \<Rightarrow> [m])"
  using assms(1)
proof (induction ms)
  case (Cons m ms)
  show ?case
  proof (cases "P m")
    case True
    then have "filter P ms = []" using Cons.prems assms(2) by (fastforce simp: is_row_key filter_empty_conv image_iff)
    then show ?thesis using True by simp
  qed (use Cons in simp)
qed simp

lemma release_row_all: "release_row (find P ms) t = fold release_seats (case find P ms of None \<Rightarrow> [] | Some m \<Rightarrow> [m]) t"
  by (simp add: release_row_def split: option.split)

lemma release_own:
  assumes "distinct (map row_key (su_members t))"
  shows "release_row (member_row_of g u t) t = fold release_seats (filter (is_row g u) (su_members t)) t"
  unfolding member_row_of_def release_row_all by (subst find_key [OF assms, of "is_row g u"]) simp_all

lemma upsert_same:
  assumes "\<And>m. holds_on i (upd m) = holds_on i m" "holds_on i new = 0"
  shows "reserved_on i (upsert new upd ms) = reserved_on i ms"
  using assms by (simp add: upsert_def reserved_on_cong)

lemma upsert_replaces:
  assumes "distinct (map row_key ms)" "\<And>m. holds_on i (upd m) = h" "holds_on i new = h"
  shows "reserved_on i (upsert new upd ms) = reserved_on i (filter (\<lambda>m. \<not> is_row (sg_group new) (sg_user new) m) ms) + h"
proof (cases "list_ex (is_row (sg_group new) (sg_user new)) ms")
  case True
  let ?P = "is_row (sg_group new) (sg_user new)"
  have "reserved_on i (map (\<lambda>m. if ?P m then upd m else m) ms) = reserved_on i (filter (\<lambda>m. \<not> ?P m) ms) + h"
    using True assms(1)
  proof (induction ms)
    case (Cons m ms)
    show ?case
    proof (cases "?P m")
      case True
      then have "\<not> list_ex ?P ms" using Cons.prems by (auto simp: is_row_key list_ex_iff image_iff)
      then have "map (\<lambda>m. if ?P m then upd m else m) ms = ms" "filter (\<lambda>m. \<not> ?P m) ms = ms"
        by (auto simp: list_ex_iff intro!: map_idI)
      then show ?thesis using True assms(2) by simp
    qed (use Cons in simp)
  qed simp
  then show ?thesis using True by (simp add: upsert_def)
next
  case False
  then have "filter (\<lambda>m. \<not> is_row (sg_group new) (sg_user new) m) ms = ms" by (auto simp: list_ex_iff filter_id_conv)
  then show ?thesis using False assms(3) by (simp add: upsert_def)
qed

text \<open>What never changes about the roles.\<close>

definition role_names :: "signups \<Rightarrow> (string, string \<times> string) jsmap" where
  "role_names t = map (\<lambda>(i, x). (i, rl_group x, rl_name x)) (su_roles t)"

lemma role_names_release [simp]: "role_names (release_seats m t) = role_names t"
  by (auto simp: role_names_def release_roles)

lemma role_names_simps [simp]:
  "role_names (fold release_seats ms t) = role_names t" "role_names (release_row mo t) = role_names t"
  "role_names (reserve g n k t) = role_names t"
  subgoal by (induction ms arbitrary: t) simp_all
  subgoal by (cases mo) (simp_all add: release_row_def)
  subgoal by (auto simp: reserve_def role_names_def)
  done

lemma role_names_reserve_all [simp]: "role_names (snd (reserve_seats g ns k t)) = role_names t"
  by (induction g ns k t rule: reserve_seats.induct) (simp_all split: list.split)

lemma role_names_same: "su_roles t' = su_roles t \<Longrightarrow> role_names t' = role_names t"
  by (simp add: role_names_def)

lemma role_in_group_names: "role_in_group r g t = Some x \<Longrightarrow> al_get (role_names t) r = Some (g, rl_name x)"
proof -
  have "al_get (map (\<lambda>(i, x). (i, rl_group x, rl_name x)) rs) r = map_option (\<lambda>x. (rl_group x, rl_name x)) (al_get rs r)"
    for rs :: "(string \<times> group_role) list" by (induction rs) auto
  then show "role_in_group r g t = Some x \<Longrightarrow> ?thesis"
    by (auto simp: role_in_group_def role_names_def split: option.splits if_splits)
qed

definition holds :: "signup \<Rightarrow> bool" where
  "holds m \<longleftrightarrow> sg_reserved_role m \<noteq> None \<and> 0 < sg_reserved_count m"

lemma holds_on_none: "\<not> holds m \<Longrightarrow> holds_on i m = 0"
  by (auto simp: holds_def holds_on_def)

definition pilot_name :: "(string, string \<times> string) jsmap \<Rightarrow> signup \<Rightarrow> bool" where
  "pilot_name names m \<longleftrightarrow> (case sg_role m of None \<Rightarrow> False
     | Some r \<Rightarrow> (case al_get names r of None \<Rightarrow> False | Some (g, n) \<Rightarrow> g = sg_group m \<and> n \<in> set PILOT_ROLE_NAMES))"

text \<open>The books with what keeps them: one row per key, one row per role, and no reservation on a pilot's row.\<close>

definition books_ok :: "signups \<Rightarrow> bool" where
  "books_ok t \<longleftrightarrow> balanced t \<and> distinct (map row_key (su_members t)) \<and> distinct (map fst (su_roles t))
     \<and> list_all (\<lambda>m. holds m \<longrightarrow> \<not> pilot_name (role_names t) m) (su_members t)"

lemma names_distinct: "distinct (map fst (role_names t)) = distinct (map fst (su_roles t))"
  by (simp add: role_names_def o_def case_prod_beta)

lemma books_by:
  assumes "books_ok t" "\<And>i x. (i, x) \<in> set (su_roles t') \<Longrightarrow> rl_reserved x = reserved_on i (su_members t')"
    and "distinct (map row_key (su_members t'))" "role_names t' = role_names t"
    and "\<And>m. m \<in> set (su_members t') \<Longrightarrow> holds m \<Longrightarrow> \<not> pilot_name (role_names t) m"
  shows "books_ok t'"
  using assms names_distinct [of t] names_distinct [of t'] by (auto simp: books_ok_def balanced_def list_all_iff)

lemma booksD:
  assumes "books_ok t"
  shows "balanced t" "distinct (map row_key (su_members t))" "distinct (map fst (su_roles t))"
    "\<And>m. m \<in> set (su_members t) \<Longrightarrow> holds m \<Longrightarrow> \<not> pilot_name (role_names t) m"
    "\<And>i x. (i, x) \<in> set (su_roles t) \<Longrightarrow> rl_reserved x = reserved_on i (su_members t)"
  using assms balanced_reserved by (auto simp: books_ok_def list_all_iff)

lemma pilot_name_same: "sg_role m' = sg_role m \<Longrightarrow> sg_group m' = sg_group m \<Longrightarrow> pilot_name names m' = pilot_name names m"
  by (simp add: pilot_name_def split: option.split)

lemma pilot_name_status [simp]: "pilot_name names (m\<lparr>sg_status := s\<rparr>) = pilot_name names m"
  by (rule pilot_name_same) simp_all

lemma books_status: "books_ok t \<Longrightarrow> books_ok (set_status P s t)"
proof (rule books_by)
  assume b: "books_ok t"
  show "rl_reserved x = reserved_on i (su_members (set_status P s t))" if "(i, x) \<in> set (su_roles (set_status P s t))" for i x
    using that booksD(5) [OF b] by (simp add: holds_on_def reserved_on_cong)
  show "distinct (map row_key (su_members (set_status P s t)))" by (rule distinct_statuses [OF booksD(2) [OF b]])
  show "\<not> pilot_name (role_names t) m" if mm: "m \<in> set (su_members (set_status P s t))" "holds m" for m
  proof -
    obtain n where n: "n \<in> set (su_members t)" "m = (if P n then n\<lparr>sg_status := s\<rparr> else n)" using mm(1) by auto
    then have "holds n" "pilot_name (role_names t) m = pilot_name (role_names t) n"
      using mm(2) by (auto simp: holds_def split: if_splits)
    then show ?thesis using booksD(4) [OF b n(1)] by simp
  qed
qed (auto intro: role_names_same)

text \<open>Rows that hold nothing come and go freely.\<close>

lemma reserved_on_none: "(\<And>m. m \<in> set ms \<Longrightarrow> \<not> holds m) \<Longrightarrow> reserved_on i ms = 0"
  by (induction ms) (simp_all add: holds_on_none)

lemma books_leave:
  assumes b: "books_ok t" and "su_roles t' = su_roles (fold release_seats (filter P (su_members t)) t)"
    and "su_members t' = filter (\<lambda>m. \<not> Q m) (su_members t)" "\<And>m. P m \<Longrightarrow> Q m"
    and "\<And>m. m \<in> set (su_members t) \<Longrightarrow> Q m \<Longrightarrow> \<not> P m \<Longrightarrow> \<not> holds m"
  shows "books_ok t'"
proof (rule books_by [OF b])
  have same: "reserved_on i (filter (\<lambda>m. \<not> P m) ms) = reserved_on i (filter (\<lambda>m. \<not> Q m) ms)"
    if "set ms \<subseteq> set (su_members t)" for i ms
    using that by (induction ms) (use assms(4,5) in \<open>auto simp: holds_on_none\<close>)
  show "rl_reserved x = reserved_on i (su_members t')" if "(i, x) \<in> set (su_roles t')" for i x
    using release_part [OF booksD(1) [OF b], of i x P] that assms(2,3) same by simp
  show "distinct (map row_key (su_members t'))" unfolding assms(3) by (rule distinct_map_filter [OF booksD(2) [OF b]])
  show "role_names t' = role_names t" using role_names_same [OF assms(2)] by simp
  show "\<not> pilot_name (role_names t) m" if "m \<in> set (su_members t')" "holds m" for m
    using that assms(3) booksD(4) [OF b] by simp
qed

text \<open>One row replaced, its old reservation released and a new one taken on a role of its own.\<close>

lemma books_replace:
  assumes b: "books_ok t"
    and "su_members t' = upsert new upd (su_members t)" "is_row g u new" "\<And>m. row_key (upd m) = row_key m"
    and "\<And>m i. holds_on i (upd m) = h i" "\<And>i. holds_on i new = h i" "role_names t' = role_names t"
    and "su_roles t' = map (\<lambda>(i, x). (i, x\<lparr>rl_reserved := rl_reserved x + h i\<rparr>))
      (su_roles (release_row (member_row_of g u t) t))"
    and "\<And>m. holds (upd m) \<Longrightarrow> is_row g u m \<Longrightarrow> \<not> pilot_name (role_names t) (upd m)" "holds new \<Longrightarrow> \<not> pilot_name (role_names t) new"
  shows "books_ok t'"
proof (rule books_by [OF b])
  have gu: "sg_group new = g" "sg_user new = u" using assms(3) by (simp_all add: is_row_def)
  show "rl_reserved x = reserved_on i (su_members t')" if ix: "(i, x) \<in> set (su_roles t')" for i x
  proof -
    obtain y where y: "(i, y) \<in> set (su_roles (release_row (member_row_of g u t) t))" "rl_reserved x = rl_reserved y + h i"
      using ix unfolding assms(8) by auto
    have "rl_reserved y = reserved_on i (filter (\<lambda>m. \<not> is_row g u m) (su_members t))"
      using release_part [OF booksD(1) [OF b]] y(1) unfolding release_own [OF booksD(2) [OF b]] by blast
    then show ?thesis
      using upsert_replaces [OF booksD(2) [OF b] assms(5,6), of i] y(2) unfolding assms(2) gu by simp
  qed
  show "distinct (map row_key (su_members t'))" unfolding assms(2) by (rule upsert_distinct [OF booksD(2) [OF b] assms(4)])
  show "\<not> pilot_name (role_names t) m" if "m \<in> set (su_members t')" "holds m" for m
    using that booksD(4) [OF b] assms(9,10) unfolding assms(2) by (auto simp: upsert_def gu split: if_splits)
qed (rule assms(7))

lemma seat_counts_positive: "(n, c) \<in> set (seat_counts raw lks) \<Longrightarrow> 0 < c"
proof -
  have "(\<And>n c. (n, c) \<in> set m \<Longrightarrow> 0 < c) \<Longrightarrow> (n, c) \<in> set (fold (\<lambda>hp m. case find (\<lambda>s. st_hardpoint s = hp) raw of None \<Rightarrow> m
     | Some s \<Rightarrow> al_set (roleDisplayName (st_role s)) (or_else (al_get m (roleDisplayName (st_role s))) 0 + 1) m) lks m) \<Longrightarrow> 0 < c"
    for m :: "(string \<times> int) list" and n c
  proof (induction lks arbitrary: m)
    case (Cons hp lks)
    show ?case
    proof (rule Cons.IH [OF _ Cons.prems(2) [unfolded fold_Cons comp_apply]])
      fix k d
      assume "(k, d) \<in> set (case find (\<lambda>s. st_hardpoint s = hp) raw of None \<Rightarrow> m
        | Some s \<Rightarrow> al_set (roleDisplayName (st_role s)) (or_else (al_get m (roleDisplayName (st_role s))) 0 + 1) m)"
      moreover have "0 < or_else (al_get m x) 0 + (1::int)" for x
        using Cons.prems(1) al_get_in_set [of m x] by (cases "al_get m x") fastforce+
      ultimately show "0 < d" using Cons.prems(1) by (auto split: option.splits dest!: set_al_set)
    qed
  qed auto
  from this [of "[]" n c] show "(n, c) \<in> set (seat_counts raw lks) \<Longrightarrow> 0 < c" by (simp add: seat_counts_def)
qed

lemma hull_reservation_positive: "(n, c) \<in> set (hull_reservation g ship u t) \<Longrightarrow> 0 < c"
  by (auto simp: hull_reservation_def split: option.splits if_splits intro: seat_counts_positive)

lemma hull_reservation_ships: "hull_reservation g ship u t \<noteq> [] \<Longrightarrow> composition g t \<noteq> []"
  by (auto simp: hull_reservation_def split: option.splits if_splits)

lemma hull_reservation_same:
  assumes "su_hangar t' = su_hangar t" "su_ships t' = su_ships t" "su_game_ships t' = su_game_ships t"
  shows "hull_reservation g ship u t' = hull_reservation g ship u t"
  unfolding hull_reservation_def composition_def assms ..

lemma roles_named_names: "roles_named g n t = map fst (filter (\<lambda>(i, g', n'). g' = g \<and> n' = n) (role_names t))"
proof -
  have "map fst (filter (\<lambda>(i, x). rl_group x = g \<and> rl_name x = n) rs) =
      map fst (filter (\<lambda>(i, g', n'). g' = g \<and> n' = n) (map (\<lambda>(i, x). (i, rl_group x, rl_name x)) rs))"
    for rs :: "(string \<times> group_role) list" by (induction rs) auto
  then show ?thesis by (simp add: roles_named_def role_names_def)
qed

lemma roles_named_same: "role_names t' = role_names t \<Longrightarrow> roles_named g n t' = roles_named g n t"
  by (simp add: roles_named_names)

text \<open>The roles a hull's locked seats fall on, when the caller brings it.\<close>

definition reserved_roles :: "string \<Rightarrow> string option \<Rightarrow> string \<Rightarrow> signups \<Rightarrow> string list" where
  "reserved_roles g ship u t = concat (map (\<lambda>(n, c). roles_named g n t) (hull_reservation g ship u t))"

lemma reserve_none: "concat (map (\<lambda>(n, c). roles_named g n t) ns) = [] \<Longrightarrow> reserve_seats g ns k t = (k, t)"
  by (induction ns) auto

lemma reserve_single:
  assumes "length (concat (map (\<lambda>(n, c). roles_named g n t) ns)) \<le> 1"
  shows "reserve_seats g ns None t = (None, t) \<or> (\<exists>n c r. (n, c) \<in> set ns \<and> roles_named g n t = [r]
    \<and> reserve_seats g ns None t = (Some (r, c), reserve g n c t))"
  using assms
proof (induction ns)
  case (Cons p ns)
  obtain n c where p: "p = (n, c)" by fastforce
  show ?case
  proof (cases "roles_named g n t")
    case Nil
    then show ?thesis using Cons p by fastforce
  next
    case (Cons r rs)
    then have "rs = []" "concat (map (\<lambda>(n, c). roles_named g n t) ns) = []" using Cons.prems p by auto
    moreover have "roles_named g m (reserve g n c t) = roles_named g m t" for m by (rule roles_named_same) simp
    ultimately show ?thesis using Cons p by (simp add: reserve_none cong: map_cong) blast
  qed
qed simp

lemma reserve_roles:
  assumes "roles_named g n t = [r]" "distinct (map fst (su_roles t))"
  shows "su_roles (reserve g n c t) = map (\<lambda>(i, x). (i, x\<lparr>rl_reserved := rl_reserved x + (if i = r then c else 0)\<rparr>)) (su_roles t)"
proof -
  have "(rl_group x = g \<and> rl_name x = n) = (i = r)" if ix: "(i, x) \<in> set (su_roles t)" for i x
  proof
    assume "rl_group x = g \<and> rl_name x = n"
    then have "i \<in> set (roles_named g n t)" using ix by (force simp: roles_named_def)
    then show "i = r" using assms(1) by simp
  next
    assume i: "i = r"
    have "r \<in> set (roles_named g n t)" using assms(1) by simp
    then obtain y where "(r, y) \<in> set (su_roles t)" "rl_group y = g" "rl_name y = n" by (auto simp: roles_named_def)
    then show "rl_group x = g \<and> rl_name x = n" using ix i assms(2) by (metis eq_key_imp_eq_value)
  qed
  then show ?thesis by (auto simp: reserve_def)
qed

text \<open>Joining: with at most one role reserved on, the books stay.\<close>

lemma join_decide_role:
  assumes "join_decide org ev g r u seat t = Inr (role, plan)"
  shows "role_in_group r g t = Some role" "ship_gate g role seat t = None" "self_service_gate org ev u t = None"
    "rl_mode role = ''open''"
    "plan = Without_role \<or> (\<exists>s. seat_choice r role seat u t = Inr s \<and> plan = In_role s (status_for role)
      \<and> filled_slots r g t + rl_reserved role < rl_max role)"
  using assms by (auto simp: join_decide_def split: option.splits sum.splits if_splits)

lemma holds_seat:
  "holds_on i (m\<lparr>sg_role := Some r, sg_status := st, sg_role_name := n, sg_ship := ship, sg_reserved_role := map_option fst k,
     sg_reserved_count := (case k of None \<Rightarrow> 0 | Some p \<Rightarrow> snd p), sg_seat := seat\<rparr>)
    = (case k of None \<Rightarrow> 0 | Some p \<Rightarrow> if i = fst p \<and> 0 < snd p then snd p else 0)"
  by (auto simp: holds_on_def split: option.split)

lemma books_seat:
  assumes b: "books_ok t" and t2: "su_members t2 = su_members t" "role_names t2 = role_names t"
    and "su_roles t2 = map (\<lambda>(i, x). (i, x\<lparr>rl_reserved := rl_reserved x +
        (case k of None \<Rightarrow> 0 | Some p \<Rightarrow> if i = fst p then snd p else 0)\<rparr>)) (su_roles (release_row (member_row_of g u t) t))"
    and "case k of None \<Rightarrow> True | Some p \<Rightarrow> 0 < snd p \<and> al_get (role_names t) r = Some (g, nm) \<and> nm \<notin> set PILOT_ROLE_NAMES"
  shows "books_ok (take_seat g r u role seat st ship k t2)"
proof (rule books_replace [OF b, where g = g and u = u
      and h = "\<lambda>i. case k of None \<Rightarrow> 0 | Some p \<Rightarrow> if i = fst p \<and> 0 < snd p then snd p else 0"])
  show "su_members (take_seat g r u role seat st ship k t2) = upsert
      (new_row g u st\<lparr>sg_role := Some r, sg_status := st, sg_role_name := Some (rl_name role), sg_ship := ship,
        sg_reserved_role := map_option fst k, sg_reserved_count := (case k of None \<Rightarrow> 0 | Some p \<Rightarrow> snd p), sg_seat := seat\<rparr>)
      (\<lambda>m. m\<lparr>sg_role := Some r, sg_status := st, sg_role_name := Some (rl_name role), sg_ship := ship,
        sg_reserved_role := map_option fst k, sg_reserved_count := (case k of None \<Rightarrow> 0 | Some p \<Rightarrow> snd p), sg_seat := seat\<rparr>)
      (su_members t)"
    by (simp add: take_seat_def t2 new_row_def Let_def)
  show "su_roles (take_seat g r u role seat st ship k t2) = map (\<lambda>(i, x). (i, x\<lparr>rl_reserved := rl_reserved x +
        (case k of None \<Rightarrow> 0 | Some p \<Rightarrow> if i = fst p \<and> 0 < snd p then snd p else 0)\<rparr>)) (su_roles (release_row (member_row_of g u t) t))"
    using assms(4,5) by (auto split: option.splits)
  show "role_names (take_seat g r u role seat st ship k t2) = role_names t"
    using role_names_same [of "take_seat g r u role seat st ship k t2" t2] t2 by simp
qed (use assms(5) in \<open>auto simp: is_row_def row_key_def holds_seat holds_def pilot_name_def split: option.splits\<close>)

lemma books_without_role: "books_ok t \<Longrightarrow> books_ok (join_without_role g u (release_row (member_row_of g u t) t))"
proof (rule books_replace [where g = g and u = u and h = "\<lambda>i. 0"])
  show "su_members (join_without_role g u (release_row (member_row_of g u t) t)) = upsert (new_row g u ''accepted'')
     (\<lambda>m. m\<lparr>sg_role := None, sg_status := ''accepted'', sg_role_name := None, sg_seat := None, sg_ship := None,
        sg_reserved_role := None, sg_reserved_count := 0\<rparr>) (su_members t)"
    by (simp add: join_without_role_def)
  show "role_names (join_without_role g u (release_row (member_row_of g u t) t)) = role_names t"
    using role_names_same [of "join_without_role g u (release_row (member_row_of g u t) t)"] by simp
qed (auto simp: is_row_def row_key_def holds_on_def holds_def)

lemma books_join_role:
  assumes b: "books_ok t" and d: "join_decide org ev g r u seat t = Inr (role, plan)"
    and one: "length (reserved_roles g ship u t) \<le> 1"
  shows "books_ok (snd (join_write g r u ship (role, plan) t))"
proof (cases plan)
  case Without_role
  then show ?thesis by (simp add: books_without_role b)
next
  case (In_role sl st)
  let ?t1 = "release_row (member_row_of g u t) t"
  have hr: "hull_reservation g ship u ?t1 = hull_reservation g ship u t" by (rule hull_reservation_same) simp_all
  have rn: "roles_named g n ?t1 = roles_named g n t" for n by (rule roles_named_same) simp
  have dist: "distinct (map fst (su_roles ?t1))" using names_distinct [of ?t1] names_distinct [of t] booksD(3) [OF b] by simp
  have "length (concat (map (\<lambda>(n, c). roles_named g n ?t1) (hull_reservation g ship u t))) \<le> 1"
    using one by (simp add: reserved_roles_def rn)
  from reserve_single [OF this] obtain k where
      k: "fst (reserve_seats g (hull_reservation g ship u t) None ?t1) = k"
         "su_roles (snd (reserve_seats g (hull_reservation g ship u t) None ?t1)) = map (\<lambda>(i, x). (i, x\<lparr>rl_reserved := rl_reserved x +
        (case k of None \<Rightarrow> 0 | Some p \<Rightarrow> if i = fst p then snd p else 0)\<rparr>)) (su_roles ?t1)"
         "k \<noteq> None \<Longrightarrow> 0 < snd (the k) \<and> hull_reservation g ship u t \<noteq> []"
  proof (elim disjE exE conjE)
    fix n c q
    assume a: "(n, c) \<in> set (hull_reservation g ship u t)" "roles_named g n ?t1 = [q]"
      "reserve_seats g (hull_reservation g ship u t) None ?t1 = (Some (q, c), reserve g n c ?t1)"
    show thesis
      by (rule that [of "Some (q, c)"])
        (use a hull_reservation_positive [OF a(1)] in \<open>auto simp: reserve_roles [OF a(2) dist]\<close>)
  qed (auto intro!: that [of None] simp: case_prod_beta)
  have pilot: "al_get (role_names t) r = Some (g, rl_name role) \<and> rl_name role \<notin> set PILOT_ROLE_NAMES" if "k \<noteq> None"
    using hull_reservation_ships [of g ship u t] k(3) [OF that] join_decide_role(1,2) [OF d] role_in_group_names
    by (auto simp: ship_gate_def Let_def split: if_splits)
  show ?thesis
    unfolding In_role join_write_forms Let_def hr k(1)
    by (rule books_seat [OF b, where nm = "rl_name role"]) (use k(2,3) pilot in \<open>auto split: option.splits\<close>)
qed

text \<open>Where the code lets the books slip: a hull whose locked seats fall on several roles, a decline by a member who holds
  seats, and a claim by one when no pilot's seat is free.\<close>

definition pilot_seat_free :: "string \<Rightarrow> signups \<Rightarrow> bool" where
  "pilot_seat_free g t \<longleftrightarrow> (case pilot_role g t of None \<Rightarrow> False | Some (r, role) \<Rightarrow> filled_slots r g t < rl_max role)"

fun accountable :: "sign_op \<Rightarrow> signups \<Rightarrow> bool" where
  "accountable (Join_role org ev g r ship seat user) t \<longleftrightarrow> length (reserved_roles g ship (or_else user []) t) \<le> 1"
| "accountable (Respond org ev accept user) t \<longleftrightarrow> accept \<or>
     list_all (\<lambda>m. sg_user m = or_else user [] \<and> in_event ev t m \<longrightarrow> \<not> holds m) (su_members t)"
| "accountable (Claim_slot org ev g slug ship slot user) t \<longleftrightarrow> pilot_seat_free g t \<or>
     (case member_row_of g (or_else user []) t of None \<Rightarrow> True | Some m \<Rightarrow> \<not> holds m)"
| "accountable _ t \<longleftrightarrow> True"

fun accountable_run :: "sign_op list \<Rightarrow> signups \<Rightarrow> bool" where
  "accountable_run [] t \<longleftrightarrow> True"
| "accountable_run (x # xs) t \<longleftrightarrow> accountable x t \<and> accountable_run xs (snd (snd (sign_step x t)))"

definition books_out :: "outcome \<Rightarrow> bool" where
  "books_out out \<longleftrightarrow> books_ok (snd (snd out))"

lemma books_out_intros:
  "books_ok t \<Longrightarrow> books_out (deny code msg t)" "books_ok t \<Longrightarrow> books_out (answer org ev msg t)"
  "books_ok t \<Longrightarrow> books_out (Answered msg, [], t)"
  by (simp_all add: books_out_def deny_def answer_def)

lemma books_signed_in:
  "books_ok t \<Longrightarrow> (truthy user \<Longrightarrow> books_out (k (or_else user []))) \<Longrightarrow> books_out (with_user user t k)"
  by (simp add: with_user_def books_out_intros)

lemma books_upsert:
  assumes b: "books_ok t" and "\<And>m. row_key (upd m) = row_key m" "\<And>m i. holds_on i (upd m) = holds_on i m"
    and "\<And>m. holds (upd m) = holds m" "\<And>m. pilot_name (role_names t) (upd m) = pilot_name (role_names t) m" "\<not> holds new"
  shows "books_ok (t\<lparr>su_members := upsert new upd (su_members t)\<rparr>)"
proof (rule books_by [OF b])
  show "rl_reserved x = reserved_on i (su_members (t\<lparr>su_members := upsert new upd (su_members t)\<rparr>))"
    if "(i, x) \<in> set (su_roles (t\<lparr>su_members := upsert new upd (su_members t)\<rparr>))" for i x
    using that booksD(5) [OF b] upsert_same [of i upd new] assms(3,6) by (simp add: holds_on_none)
  show "distinct (map row_key (su_members (t\<lparr>su_members := upsert new upd (su_members t)\<rparr>)))"
    using upsert_distinct [OF booksD(2) [OF b] assms(2)] by simp
  show "\<not> pilot_name (role_names t) m" if "m \<in> set (su_members (t\<lparr>su_members := upsert new upd (su_members t)\<rparr>))" "holds m" for m
    using that assms(4-6) booksD(4) [OF b] by (auto simp: upsert_def split: if_splits)
qed (simp add: role_names_def)

lemma books_same: "books_ok t \<Longrightarrow> su_roles t' = su_roles t \<Longrightarrow> su_members t' = su_members t \<Longrightarrow> books_ok t'"
  by (simp add: books_ok_def balanced_def role_names_def)

lemma release_find:
  assumes "distinct (map row_key (su_members t))" "\<And>m. P m \<Longrightarrow> is_row g u m"
  shows "release_row (find P (su_members t)) t = fold release_seats (filter P (su_members t)) t"
  unfolding release_row_all by (subst find_key [of _ P, OF assms]) simp_all

lemma books_removed:
  assumes b: "books_ok t" and "\<And>m. P m \<Longrightarrow> is_row g u m"
  shows "books_ok (delete_members P (delete_claims g' u' (release_row (find P (su_members t)) t)))"
    "books_ok (delete_members P (release_row (find P (su_members t)) t))"
  by (rule books_leave [OF b, where P = P and Q = P]; simp add: release_find [OF booksD(2) [OF b] assms(2)])+

lemma in_event_row: "in_event ev t m \<longleftrightarrow> (\<exists>r. (sg_group m, r) \<in> set (su_groups t) \<and> gp_event r = ev)"
  by (auto simp: in_event_def event_groups_def image_iff)

lemma find_map_roles:
  assumes "\<And>i x. P (i, f i x) = P (i, x)"
  shows "find P (map (\<lambda>(i, x). (i, f i x)) rs) = map_option (\<lambda>(i, x). (i, f i x)) (find P rs)"
  by (induction rs) (auto simp: assms)

lemma filter_map_roles:
  assumes "\<And>i x. P (i, f i x) = P (i, x)"
  shows "filter P (map (\<lambda>(i, x). (i, f i x)) rs) = map (\<lambda>(i, x). (i, f i x)) (filter P rs)"
  by (induction rs) (auto simp: assms)

lemma release_row_roles: "su_roles t' = su_roles t \<Longrightarrow> su_roles (release_row mo t') = su_roles (release_row mo t)"
  by (simp add: release_row_def release_roles split: option.split)

lemma release_row_map:
  "\<exists>f. su_roles (release_row mo t) = map (\<lambda>(i, x). (i, f i x)) (su_roles t)
    \<and> (\<forall>i x. rl_group (f i x) = rl_group x \<and> rl_name (f i x) = rl_name x \<and> rl_max (f i x) = rl_max x)"
proof (cases mo)
  case None
  then show ?thesis by (intro exI [of _ "\<lambda>i x. x"]) (simp add: release_row_def)
next
  case (Some m)
  then show ?thesis
    by (intro exI [of _ "\<lambda>i x. if 0 < holds_on i m then x\<lparr>rl_reserved := max 0 (rl_reserved x - holds_on i m)\<rparr> else x"])
      (simp add: release_row_def release_roles)
qed

lemma pilot_seat_release:
  assumes "su_members t' = su_members t" "su_roles t' = su_roles (release_row mo t)"
  shows "pilot_seat_free g t' = pilot_seat_free g t"
proof -
  obtain f where f: "su_roles t' = map (\<lambda>(i, x). (i, f i x)) (su_roles t)"
      "\<And>i x. rl_group (f i x) = rl_group x \<and> rl_name (f i x) = rl_name x \<and> rl_max (f i x) = rl_max x"
    using release_row_map [of mo t] assms(2) by auto
  have "pilot_role g t' = map_option (\<lambda>(i, x). (i, f i x)) (pilot_role g t)"
    by (simp add: pilot_role_def Let_def f filter_map_roles find_map_roles split: option.split) 
  then show ?thesis using f(2) by (simp add: pilot_seat_free_def filled_slots_def assms(1) split: option.split prod.split)
qed

lemma not_holding_release: "\<not> holds m \<Longrightarrow> release_seats m t = t"
  by (auto simp: release_seats_def holds_def split: option.split)

lemma books_claim:
  assumes b: "books_ok t" and free: "pilot_seat_free g t \<or> (case member_row_of g u t of None \<Rightarrow> True | Some m \<Rightarrow> \<not> holds m)"
    and t2: "su_members t2 = su_members t" "su_roles t2 = su_roles t"
  shows "books_ok (join_pilot g u ship (release_row (member_row_of g u t2) t2))"
proof -
  let ?t3 = "release_row (member_row_of g u t2) t2"
  have own: "member_row_of g u t2 = member_row_of g u t" by (simp add: member_row_of_def t2(1))
  have roles: "su_roles ?t3 = su_roles (release_row (member_row_of g u t) t)" unfolding own by (rule release_row_roles [OF t2(2)])
  have m: "su_members ?t3 = su_members t" using t2(1) by simp
  show ?thesis
  proof (cases "pilot_seat_free g ?t3")
    case True
    then obtain r role where r: "pilot_role g ?t3 = Some (r, role)" "filled_slots r g ?t3 < rl_max role"
      by (auto simp: pilot_seat_free_def split: option.splits)
    have "role_names ?t3 = role_names t" using role_names_same [OF roles] by simp
    then have "books_ok (take_seat g r u role seat st (Some ship) None ?t3)" for seat st
      by (intro books_seat [OF b m]) (simp_all add: roles case_prod_beta)
    then show ?thesis using r by (simp add: join_pilot_def)
  next
    case False
    then have empty_hand: "case member_row_of g u t of None \<Rightarrow> True | Some m \<Rightarrow> \<not> holds m"
      using free pilot_seat_release [OF m roles] by simp
    have "su_roles (release_row (member_row_of g u t) t) = su_roles t"
    proof (cases "member_row_of g u t")
      case (Some a)
      then have "\<not> holds a" using empty_hand by simp
      then show ?thesis using Some by (simp add: release_row_def not_holding_release)
    qed (simp add: release_row_def)
    then have "books_ok ?t3" using books_same [OF b] roles m by simp
    then show ?thesis using False by (auto simp: join_pilot_def pilot_seat_free_def split: option.splits)
  qed
qed

lemma books_pilot_rows:
  assumes b: "books_ok t" and "\<And>m. m \<in> set (su_members t) \<Longrightarrow> P m \<Longrightarrow> \<not> holds m"
  shows "books_ok (delete_members P t)"
  by (rule books_leave [OF b, where P = "\<lambda>m. False" and Q = P]) (use assms(2) in auto)

lemma release_all_not_holding: "list_all (\<lambda>m. \<not> holds m) ms \<Longrightarrow> fold release_seats ms t = t"
  by (induction ms arbitrary: t) (simp_all add: not_holding_release)

lemma books_respond:
  assumes b: "books_ok t" and "accountable (Respond org ev accept user) t"
  shows "books_out (respondEventAssignment org ev accept user t)"
proof (unfold respondEventAssignment_def, rule books_signed_in [OF b])
  let ?u = "or_else user []"
  let ?mine = "\<lambda>m. sg_user m = ?u \<and> in_event ev t m"
  let ?t1 = "set_status ?mine (if accept then ''accepted'' else ''declined'') t"
  have "books_ok (if accept then ?t1 else fold release_seats (filter ?mine (su_members ?t1)) ?t1)"
  proof (cases accept)
    case False
    then have "list_all (\<lambda>m. \<not> holds m) (filter ?mine (su_members ?t1))"
      using assms(2) by (auto simp: list_all_iff holds_def)
    then show ?thesis using False by (simp add: release_all_not_holding books_status b)
  qed (simp add: books_status b)
  then show "books_out (let mine = ?mine; status = (if accept then ''accepted'' else ''declined''); t1 = set_status mine status t
     in if \<not> list_ex mine (su_members t) then deny 404 ''No assignment found for this event'' t
        else answer org ev (''Assignment '' @ status) (if accept then t1 else fold release_seats (filter mine (su_members t1)) t1))"
    by (auto simp: Let_def intro!: books_out_intros b)
qed

lemma books_leave_event:
  assumes b: "books_ok t"
  shows "books_out (leaveMyEventSignup org ev user t)"
  unfolding leaveMyEventSignup_def
proof (intro books_signed_in [OF b] books_out_intros)
  let ?u = "or_else user []"
  show "books_ok (delete_members (\<lambda>m. sg_user m = ?u \<and> in_event ev t m)
       (fold release_seats (filter (\<lambda>m. sg_user m = ?u \<and> in_event ev t m \<and> sg_reserved_role m \<noteq> None \<and> 0 < sg_reserved_count m)
         (su_members t)) t))"
    by (rule books_leave [OF b, where Q = "\<lambda>m. sg_user m = ?u \<and> in_event ev t m"
        and P = "\<lambda>m. sg_user m = ?u \<and> in_event ev t m \<and> sg_reserved_role m \<noteq> None \<and> 0 < sg_reserved_count m"])
      (auto simp: holds_def)
qed

lemma books_quick:
  assumes b: "books_ok t"
  shows "books_out (quickJoinEvent org ev user t)"
  unfolding quickJoinEvent_def
proof (rule books_signed_in [OF b])
  let ?u = "or_else user []"
  have new: "books_ok (t\<lparr>su_members := upsert new upd (su_members t)\<rparr>)"
    if out: "\<not> list_ex (\<lambda>m. sg_user m = ?u \<and> in_event ev t m) (su_members t)" and "sg_user new = ?u" "sg_group new \<in> set (event_groups ev t)"
      "\<not> holds new" for new upd
  proof -
    have "upsert new upd (su_members t) = upsert new (\<lambda>m. m) (su_members t)"
      using that by (auto simp: upsert_def list_ex_iff is_row_def in_event_def)
    then show ?thesis using books_upsert [OF b, of "\<lambda>m. m" new] that(4) by simp
  qed
  have role: "rl_group role \<in> set (event_groups ev t)" if "quick_role ev t = Some (r, role)" for r role
    using find_SomeD [OF that [unfolded quick_role_def]] by (auto simp: set_stable_sort)
  have group: "g \<in> set (event_groups ev t)" if "quick_group ev t = Some g" for g
    using find_SomeD [OF that [unfolded quick_group_def]] by simp
  show "books_out (case open_event_gate ''This event is restricted. Wait for assignment approval.'' org ev t of Some (code, msg) \<Rightarrow> deny code msg t
     | None \<Rightarrow> if list_ex (\<lambda>m. sg_user m = ?u \<and> in_event ev t m) (su_members t) then (Answered ''Already signed up'', [], t)
         else (case quick_role ev t of
             Some (r, role) \<Rightarrow> answer org ev (if rl_auto role then ''Signed up'' else ''Signup request pending approval'')
               (t\<lparr>su_members := upsert
                  (new_row (rl_group role) ?u (status_for role)\<lparr>sg_role := Some r, sg_role_name := Some (rl_name role)\<rparr>)
                  (\<lambda>m. m\<lparr>sg_role := Some r, sg_status := status_for role, sg_role_name := Some (rl_name role)\<rparr>) (su_members t)\<rparr>)
           | None \<Rightarrow> (case quick_group ev t of None \<Rightarrow> deny 409 ''No open slots available right now.'' t
               | Some g \<Rightarrow> answer org ev ''Signed up''
                   (t\<lparr>su_members := upsert (new_row g ?u ''accepted'') (\<lambda>m. m\<lparr>sg_status := ''accepted''\<rparr>) (su_members t)\<rparr>))))"
    by (auto intro!: books_out_intros b new dest: role group simp: holds_def split: option.split)
qed

lemma books_release_slot:
  assumes b: "books_ok t"
  shows "books_out (releaseShipSlot org ev g user t)"
proof -
  have "books_ok (delete_members (\<lambda>m. is_row g u m \<and> (case sg_role m of None \<Rightarrow> False
          | Some r \<Rightarrow> (case role_in_group r g t of None \<Rightarrow> False | Some x \<Rightarrow> rl_name x \<in> set PILOT_ROLE_NAMES)))
        (delete_claims g u t))" for u
  proof (rule books_pilot_rows [OF books_same [OF b]])
    fix m
    assume m: "m \<in> set (su_members (delete_claims g u t))" "is_row g u m \<and> (case sg_role m of None \<Rightarrow> False
          | Some r \<Rightarrow> (case role_in_group r g t of None \<Rightarrow> False | Some x \<Rightarrow> rl_name x \<in> set PILOT_ROLE_NAMES))"
    then obtain r x where "sg_role m = Some r" "role_in_group r g t = Some x" "rl_name x \<in> set PILOT_ROLE_NAMES" "sg_group m = g"
      by (auto simp: is_row_def split: option.splits)
    then have "pilot_name (role_names t) m" using role_in_group_names [of r g t x] by (simp add: pilot_name_def)
    then show "\<not> holds m" using booksD(4) [OF b] m(1) by auto
  qed simp_all
  then show ?thesis unfolding releaseShipSlot_def by (auto intro!: books_signed_in books_out_intros b)
qed

lemma books_leaving:
  assumes b: "books_ok t"
  shows "books_out (leaveEventGroup org ev g user t)" "books_out (leaveEventRole org ev g r user t)"
    "books_out (removeGroupMember org ev g u user t)"
proof -
  show "books_out (leaveEventGroup org ev g user t)" unfolding leaveEventGroup_def member_row_of_def
    by (intro books_signed_in books_out_intros b books_removed(1) [OF b])
  show "books_out (leaveEventRole org ev g r user t)" unfolding leaveEventRole_def
    by (intro books_signed_in books_out_intros b books_removed(1) [OF b, where g = g and u = "or_else user []"]) simp
  show "books_out (removeGroupMember org ev g u user t)" unfolding removeGroupMember_def member_row_of_def
    by (auto intro!: books_signed_in books_out_intros b books_removed(2) [OF b])
qed

lemma books_joining:
  assumes b: "books_ok t"
  shows "books_out (joinEventGroup org ev g user t)" "books_out (approveGroupMember org ev g u user t)"
    "books_out (approveAllGroupMembers org ev g user t)"
  unfolding handler_defs
  by (auto intro!: books_signed_in books_out_intros books_upsert books_status b simp: row_key_def holds_on_def holds_def
    split: option.split)

lemma books_join:
  assumes b: "books_ok t" and "accountable (Join_role org ev g r ship seat user) t"
  shows "books_out (joinEventRole org ev g r ship seat user t)"
  unfolding joinEventRole_def
  using books_join_role [OF b _ assms(2) [unfolded accountable.simps]]
  by (auto intro!: books_signed_in books_out_intros b simp: case_prod_beta split: sum.split)

lemma books_claim_slot:
  assumes b: "books_ok t" and "accountable (Claim_slot org ev g slug ship slot user) t"
  shows "books_out (claimShipSlot org ev g slug ship slot user t)"
  unfolding claimShipSlot_def
  by (auto intro!: books_signed_in books_out_intros b books_claim [OF b assms(2) [unfolded accountable.simps]]
    simp: Let_def split: option.split sum.split)

lemma step_books:
  assumes "books_ok t" "accountable x t"
  shows "books_ok (snd (snd (sign_step x t)))"
proof -
  have "books_out (sign_step x t)"
    using assms by (cases x) (simp_all only: sign_step.simps books_joining books_leaving books_release_slot books_quick
      books_leave_event books_respond books_join books_claim_slot)
  then show ?thesis by (simp add: books_out_def)
qed


end
