(* ===== verification/Event_Signups_Props.thy ===== *)
theory Event_Signups_Props
  imports Event_Reservations
begin

text \<open>
  What signing up for an operation guarantees beyond its tables: capacity, and whom the delivery service lets in; where the
  service gives away what it guards; and an example on which the properties are applied.
\<close>

section \<open>Capacity\<close>

lemma upsert_count:
  assumes "distinct (map row_key ms)"
  shows "length (filter P (upsert new upd ms)) \<le> Suc (length (filter (\<lambda>m. \<not> is_row (sg_group new) (sg_user new) m \<and> P m) ms))"
proof (cases "list_ex (is_row (sg_group new) (sg_user new)) ms")
  case True
  let ?K = "is_row (sg_group new) (sg_user new)"
  have "length (filter P (map (\<lambda>m. if ?K m then upd m else m) ms)) \<le> Suc (length (filter (\<lambda>m. \<not> ?K m \<and> P m) ms))"
    using assms
  proof (induction ms)
    case (Cons m ms)
    show ?case
    proof (cases "?K m")
      case True
      then have "\<not> list_ex ?K ms" using Cons.prems by (auto simp: is_row_key list_ex_iff image_iff)
      then have "map (\<lambda>m. if ?K m then upd m else m) ms = ms" "filter (\<lambda>m. \<not> ?K m \<and> P m) ms = filter P ms"
        by (auto simp: list_ex_iff intro!: map_idI filter_cong)
      then show ?thesis using True by simp
    qed (use Cons in auto)
  qed simp
  then show ?thesis using True by (simp add: upsert_def)
next
  case False
  then have "filter (\<lambda>m. \<not> is_row (sg_group new) (sg_user new) m \<and> P m) ms = filter P ms"
    by (auto simp: list_ex_iff intro!: filter_cong)
  then show ?thesis using False by (simp add: upsert_def)
qed

lemma filter_le: "(\<And>m. Q m \<Longrightarrow> P m) \<Longrightarrow> length (filter Q ms) \<le> length (filter P ms)"
  by (induction ms) auto

lemma seat_filled:
  assumes "distinct (map row_key (su_members t))"
  shows "filled_slots r g (take_seat g r' u role seat st ship k t) \<le> filled_slots r g t + 1"
proof -
  obtain new upd where n: "su_members (take_seat g r' u role seat st ship k t) = upsert new upd (su_members t)"
    by (simp add: take_seat_def Let_def)
  have "length (filter (\<lambda>m. sg_role m = Some r \<and> sg_group m = g \<and> counts m) (upsert new upd (su_members t)))
      \<le> Suc (length (filter (\<lambda>m. sg_role m = Some r \<and> sg_group m = g \<and> counts m) (su_members t)))"
    using upsert_count [OF assms, of "\<lambda>m. sg_role m = Some r \<and> sg_group m = g \<and> counts m" new upd]
      filter_le [of "\<lambda>m. \<not> is_row (sg_group new) (sg_user new) m \<and> sg_role m = Some r \<and> sg_group m = g \<and> counts m"
        "\<lambda>m. sg_role m = Some r \<and> sg_group m = g \<and> counts m" "su_members t"]
    by (auto intro: le_trans)
  then show ?thesis unfolding filled_slots_def n by simp
qed

lemma al_get_map: "al_get (map (\<lambda>(i, x). (i, f i x)) rs) r = map_option (f r) (al_get rs r)"
  by (induction rs) auto

lemma reserve_other:
  assumes "r \<notin> set (concat (map (\<lambda>(n, c). roles_named g n t) ns))"
  shows "al_get (su_roles (snd (reserve_seats g ns k t))) r = al_get (su_roles t) r"
  using assms
proof (induction g ns k t rule: reserve_seats.induct)
  case (2 g n c rest kept t)
  have "roles_named g m (reserve g n c t) = roles_named g m t" for m by (rule roles_named_same) simp
  moreover have "al_get (su_roles (reserve g n c t)) r = al_get (su_roles t) r"
  proof (cases "al_get (su_roles t) r")
    case (Some x)
    then have "(r, x) \<in> set (su_roles t)" by (rule al_get_in_set)
    moreover have "r \<notin> set (roles_named g n t)" using "2.prems" by simp
    ultimately have "\<not> (rl_group x = g \<and> rl_name x = n)" unfolding roles_named_def by force
    then show ?thesis using Some by (auto simp: reserve_def al_get_map)
  qed (simp add: reserve_def al_get_map)
  ultimately show ?case using 2 by (auto split: list.split simp del: concat_eq_Nil_conv)
qed simp

lemma release_lowers:
  assumes "al_get (su_roles t) r = Some x" "0 \<le> rl_reserved x"
  obtains y where "al_get (su_roles (release_row mo t)) r = Some y" "rl_reserved y \<le> rl_reserved x" "rl_max y = rl_max x"
proof (cases mo)
  case (Some m)
  show thesis
    by (rule that [of "if 0 < holds_on r m then x\<lparr>rl_reserved := max 0 (rl_reserved x - holds_on r m)\<rparr> else x"])
      (use assms in \<open>auto simp: Some release_row_def release_roles al_get_map max_def\<close>)
qed (use assms that in \<open>simp add: release_row_def\<close>)

text \<open>What an answer of \<open>joinEventRole\<close> says about how it came about.\<close>

lemma join_answered:
  assumes "joinEventRole org ev g r ship seat (Some u) t = (Answered msg, evs, t')"
  obtains role plan where "u \<noteq> []" "join_decide org ev g r u (seat_param seat) t = Inr (role, plan)"
    "join_write g r u ship (role, plan) t = (msg, t')"
proof -
  obtain role plan where "u \<noteq> []" "join_decide org ev g r u (seat_param seat) t = Inr (role, plan)"
      "fst (join_write g r u ship (role, plan) t) = msg" "snd (join_write g r u ship (role, plan) t) = t'"
    using assms by (auto simp: joinEventRole_def with_user_def deny_def answer_def case_prod_beta split: if_splits sum.splits)
  then show thesis using that by (metis prod.collapse)
qed

lemma join_seated:
  assumes "join_write g r u ship (role, plan) t = (msg, t')" "msg = ''Joined role'' \<or> msg = ''Join request pending approval''"
  obtains s st where "plan = In_role s st"
proof (cases plan)
  case Without_role
  then obtain n where "msg = n @ '' is full - joined the group without a specific role.''"
    using assms(1) by (auto simp: join_write_def)
  then have "last msg = CHR ''.''" by simp
  then show thesis using assms(2) by auto
qed (use that in blast)


section \<open>Who the event reaches\<close>

lemma al_get_image: "al_get (map (\<lambda>(i, x). (i, f x)) rs) r = map_option f (al_get rs r)"
  by (induction rs) auto

definition staff :: "string \<Rightarrow> string \<Rightarrow> signups \<Rightarrow> bool" where
  "staff u ev t \<longleftrightarrow> (ev, u) \<in> set (su_planners t)
     \<or> (case al_get (su_events t) ev of None \<Rightarrow> False | Some e \<Rightarrow> oe_commander e = Some u \<or> oe_creator e = Some u)"

definition seated :: "string \<Rightarrow> string \<Rightarrow> signups \<Rightarrow> bool" where
  "seated u ev t \<longleftrightarrow> list_ex (\<lambda>m. sg_user m = u \<and> in_event ev t m \<and> sg_status m = ''accepted'') (su_members t)"

lemma group_of_audience: "group_of_event (audience_tables t b) ev g \<longleftrightarrow> g \<in> set (event_groups ev t)"
  by (force simp: group_of_event_def audience_tables_def event_groups_def list_ex_iff)

text \<open>The roster is the audience: the accepted rows and the staff.\<close>

lemma audience_is_roster:
  assumes "u \<noteq> []"
  shows "u \<in> set (eventCascadeMemberUserIds (audience_tables t b) ev) \<longleftrightarrow> seated u ev t \<or> staff u ev t"
proof -
  have ev: "al_get (t_events (audience_tables t b)) ev = map_option (\<lambda>e. \<lparr>ev_org = oe_org e, ev_commander = oe_commander e,
      ev_creator = oe_creator e, ev_command_channel = oe_command_channel e\<rparr>) (al_get (su_events t) ev)"
    by (simp add: audience_tables_def al_get_image)
  have "Some u \<in> set (participant_rows (audience_tables t b) ev) \<longleftrightarrow> seated u ev t"
    unfolding participant_rows_def group_of_audience seated_def in_event_def
    by (auto simp: audience_tables_def accepted_def list_ex_iff image_iff)
  moreover have "Some u \<in> set (staff_rows (audience_tables t b) ev) \<longleftrightarrow> staff u ev t"
  proof -
    have "Some u \<in> (\<lambda>x. Some (snd x)) ` {x \<in> set (su_planners t). fst x = ev} \<longleftrightarrow> (ev, u) \<in> set (su_planners t)" by force
    then show ?thesis unfolding staff_rows_def staff_def ev
      by (cases "al_get (su_events t) ev") (auto simp: audience_tables_def)
  qed
  ultimately show ?thesis using assms by (simp add: eventCascadeMemberUserIds_def set_user_set)
qed

lemma event_in_audience:
  "event_in_org (audience_tables t b) ev org \<longleftrightarrow> (case al_get (su_events t) ev of None \<Rightarrow> False | Some e \<Rightarrow> oe_org e = org)"
  by (simp add: event_in_org_def audience_tables_def al_get_image split: option.split)

lemma down_audience [simp]: "t_down (audience_tables t b) = t_down b"
  by (simp add: audience_tables_def)

lemma release_all_events [simp]: "su_planners (fold release_seats ms t) = su_planners t"
proof -
  have "su_planners (release_seats m t) = su_planners t" for m t
    by (simp add: release_seats_def update_role_def split: option.split)
  then show ?thesis by (induction ms arbitrary: t) simp_all
qed

lemma left_rows:
  assumes "truthy user"
  shows "su_members (snd (snd (leaveMyEventSignup org ev user t)))
      = filter (\<lambda>m. \<not> (sg_user m = or_else user [] \<and> in_event ev t m)) (su_members t)"
    "su_events (snd (snd (leaveMyEventSignup org ev user t))) = su_events t"
    "su_planners (snd (snd (leaveMyEventSignup org ev user t))) = su_planners t"
    "su_groups (snd (snd (leaveMyEventSignup org ev user t))) = su_groups t"
    "su_claims (snd (snd (leaveMyEventSignup org ev user t))) = su_claims t"
  using assms by (simp_all add: leaveMyEventSignup_def with_user_def answer_def delete_members_def)

text \<open>C30: who leaves an event is out of it at once: whatever rows, roles and claims a member held in it, after
  \<open>leaveMyEventSignup\<close> the delivery service refuses the device of anyone who is not the event's staff the event's key group, its
  commits and its catch-up.\<close>

theorem leaver_is_shut_out:
  assumes "user = Some u" "u \<noteq> []" "\<not> staff u ev t" "al_get (su_events t) ev = Some e" "oe_org e = org" "\<not> t_down b"
  shows "resolveEventGroup user org ev (audience_tables (snd (snd (leaveMyEventSignup org ev user t))) b)
      = Inl (Refused 403 ''Not a participant of this event'' None)"
proof -
  let ?t = "snd (snd (leaveMyEventSignup org ev user t))"
  have user: "truthy user" "or_else user [] = u" using assms by simp_all
  note left = left_rows [OF user(1)]
  have "\<not> seated u ev ?t"
    by (auto simp: seated_def left user(2) in_event_def event_groups_def list_ex_iff)
  moreover have "\<not> staff u ev ?t" using assms(3) by (simp add: staff_def left)
  moreover have "event_in_org (audience_tables ?t b) ev org" using assms(4,5) by (simp add: event_in_audience left)
  ultimately show ?thesis using assms(1,2,6) audience_is_roster [OF assms(2), of ?t b ev] by (simp add: resolveEventGroup_def)
qed

text \<open>C31: the quick sign-up never asks whether the caller belongs to the organisation, as every other way in does: any account that
  knows an open event's address and finds a role with a free slot becomes an accepted participant, and the
  delivery service then serves it the event's key group.\<close>

theorem outsider_enters_event_group:
  assumes "(org, u) \<notin> set (su_org_members t)" "u \<noteq> []" "al_get (su_events t) ev = Some e" "oe_org e = org"
    and "or_else (oe_mode e) ''open'' = ''open''" "\<not> list_ex (\<lambda>m. sg_user m = u \<and> in_event ev t m) (su_members t)"
    and "quick_role ev t = Some (r, role)" "rl_auto role" "\<not> t_down b"
  shows "\<exists>t' access. quickJoinEvent org ev (Some u) t = (Answered ''Signed up'', [roster_event org ev], t')
    \<and> (org, u) \<notin> set (su_org_members t')
    \<and> resolveEventGroup (Some u) org ev (audience_tables t' b) = Inr access \<and> ga_group access = ev"
proof -
  let ?new = "new_row (rl_group role) u ''accepted''\<lparr>sg_role := Some r, sg_role_name := Some (rl_name role)\<rparr>"
  let ?upd = "\<lambda>m. m\<lparr>sg_role := Some r, sg_status := ''accepted'', sg_role_name := Some (rl_name role)\<rparr>"
  let ?t = "t\<lparr>su_members := upsert ?new ?upd (su_members t)\<rparr>"
  have q: "quickJoinEvent org ev (Some u) t = (Answered ''Signed up'', [roster_event org ev], ?t)"
    using assms by (simp add: quickJoinEvent_def with_user_def open_event_gate_def answer_def status_for_def)
  have "rl_group role \<in> set (event_groups ev t)"
    using find_SomeD [OF assms(7) [unfolded quick_role_def]] by auto
  moreover from this have "\<not> list_ex (is_row (rl_group role) u) (su_members t)"
    using assms(6) by (auto simp: list_ex_iff is_row_def in_event_def)
  ultimately have "seated u ev ?t" by (auto simp: seated_def upsert_def in_event_def event_groups_def)
  then have "u \<in> set (eventCascadeMemberUserIds (audience_tables ?t b) ev)" using audience_is_roster [OF assms(2)] by blast
  moreover have "event_in_org (audience_tables ?t b) ev org" using assms(3,4) by (simp add: event_in_audience)
  ultimately show ?thesis using q assms(1,2,9) by (simp add: resolveEventGroup_def)
qed

section \<open>Approval\<close>

lemma upsert_has:
  assumes "\<And>m. row_key (upd m) = row_key m" "\<And>m. Q (upd m)" "Q new" "row_key new = k"
  shows "\<exists>m\<in>set (upsert new upd ms). row_key m = k \<and> Q m"
proof (cases "list_ex (is_row (sg_group new) (sg_user new)) ms")
  case True
  then obtain m where m: "m \<in> set ms" "is_row (sg_group new) (sg_user new) m" by (auto simp: list_ex_iff)
  then have "upd m \<in> set (upsert new upd ms)" using True by (force simp: upsert_def)
  then show ?thesis using assms m(2) by (intro bexI [of _ "upd m"]) (simp_all add: is_row_key row_key_def)
qed (use assms(3,4) in \<open>simp add: upsert_def\<close>)

lemma take_seat_row:
  "\<exists>m\<in>set (su_members (take_seat g r u role seat st ship k t)). row_key m = (g, u) \<and> sg_role m = Some r \<and> sg_status m = st \<and> sg_seat m = seat"
proof -
  obtain new upd where "su_members (take_seat g r u role seat st ship k t) = upsert new upd (su_members t)"
      "row_key new = (g, u)" "sg_role new = Some r \<and> sg_status new = st \<and> sg_seat new = seat"
      "\<And>m. row_key (upd m) = row_key m" "\<And>m. sg_role (upd m) = Some r \<and> sg_status (upd m) = st \<and> sg_seat (upd m) = seat"
    by (rule that [of "new_row g u st\<lparr>sg_role := Some r, sg_role_name := Some (rl_name role), sg_ship := ship,
        sg_reserved_role := map_option fst k, sg_reserved_count := (case k of None \<Rightarrow> 0 | Some p \<Rightarrow> snd p), sg_seat := seat\<rparr>"
      "\<lambda>m. m\<lparr>sg_role := Some r, sg_status := st, sg_role_name := Some (rl_name role), sg_ship := ship,
        sg_reserved_role := map_option fst k, sg_reserved_count := (case k of None \<Rightarrow> 0 | Some p \<Rightarrow> snd p), sg_seat := seat\<rparr>"])
      (simp_all add: take_seat_def Let_def row_key_def)
  then show ?thesis by (simp only: upsert_has)
qed

text \<open>C32: a role that requires approval does not get it: a member whose request was answered with "pending approval" needs no
  planner, since \<open>respondEventAssignment\<close> does not ask whether the row is an assignment or a request; by accepting,
  the member makes the request accepted, in the role and seat asked for.\<close>

theorem request_approves_itself:
  assumes "joinEventRole org ev g r ship seat (Some u) t = (Answered ''Join request pending approval'', evs, t')"
    and "g \<in> set (event_groups ev t)"
  shows "\<exists>t'' m. respondEventAssignment org ev True (Some u) t' = (Answered ''Assignment accepted'', [roster_event org ev], t'')
    \<and> m \<in> set (su_members t'') \<and> is_row g u m \<and> sg_role m = Some r \<and> sg_status m = ''accepted''"
proof -
  obtain role plan where u: "u \<noteq> []" and w: "join_write g r u ship (role, plan) t = (''Join request pending approval'', t')"
    using join_answered [OF assms(1)] .
  obtain s st where plan: "plan = In_role s st" using join_seated [OF w] by auto
  define t1 where "t1 = release_row (member_row_of g u t) t"
  define res where "res = reserve_seats g (hull_reservation g ship u t1) None t1"
  have t': "t' = take_seat g r u role s st (if fst res = None then None else str_or_null ship) (fst res) (snd res)"
    using w unfolding plan by (auto simp: join_write_def Let_def case_prod_beta t1_def res_def)
  have groups: "su_groups t' = su_groups t" by (simp add: t' res_def t1_def)
  have "\<exists>m\<in>set (su_members t'). row_key m = (g, u) \<and> sg_role m = Some r"
    unfolding t' using take_seat_row by blast
  then obtain m where m: "m \<in> set (su_members t')" "is_row g u m" "sg_role m = Some r" by (auto simp: is_row_key)
  have mine: "sg_user m = u \<and> in_event ev t' m" using m(2) assms(2) groups by (simp add: is_row_def in_event_def event_groups_def)
  show ?thesis
    by (intro exI [of _ "set_status (\<lambda>m. sg_user m = u \<and> in_event ev t' m) ''accepted'' t'"] exI [of _ "m\<lparr>sg_status := ''accepted''\<rparr>"])
      (use m mine u in \<open>auto simp: respondEventAssignment_def with_user_def answer_def Let_def list_ex_iff is_row_def image_iff
        intro!: bexI [of _ m]\<close>)
qed

section \<open>An example\<close>

definition toy_role :: "string \<Rightarrow> string \<Rightarrow> int \<Rightarrow> bool \<Rightarrow> string list \<Rightarrow> group_role" where
  "toy_role g n mx auto seats = \<lparr>rl_group = g, rl_name = n, rl_mode = ''open'', rl_max = mx, rl_auto = auto, rl_reserved = 0,
     rl_seats = seats, rl_priority = None, rl_sort = None, rl_commander = False\<rparr>"

definition toy_event :: op_event where
  "toy_event = \<lparr>oe_org = ''o1'', oe_name = ''raid'', oe_mode = None, oe_creator = Some ''boss'', oe_commander = None,
     oe_command_channel = None, oe_launched = False, oe_ended = False\<rparr>"

definition toy_group :: "string \<Rightarrow> string \<Rightarrow> string option \<Rightarrow> op_group" where
  "toy_group ev n parent = \<lparr>gp_event = ev, gp_name = n, gp_leader = None, gp_parent = parent, gp_linked = None, gp_max = None, gp_channel = None\<rparr>"

definition toy_ops :: signups where
  "toy_ops = \<lparr>su_owners = [(''o1'', ''boss'')], su_org_members = [(''o1'', ''ann''), (''o1'', ''ben'')], su_permissions = [],
     su_events = [(''e1'', toy_event),
                  (''e2'', toy_event\<lparr>oe_mode := Some ''restricted''\<rparr>)],
     su_planners = [], su_groups = [(''g1'', toy_group ''e1'' ''Alpha'' None),
       (''g2'', toy_group ''e1'' ''Bravo'' (Some ''g1'')), (''g3'', toy_group ''e2'' ''Scouts'' None)],
     su_roles = [(''r1'', toy_role ''g1'' ''Gunner'' 2 True [''left'', ''right'']), (''r2'', toy_role ''g1'' ''Medic'' 1 False []),
       (''r3'', toy_role ''g2'' ''Pilot'' 1 True []), (''r4'', toy_role ''g2'' ''Turret Gunner'' 6 True []),
       (''r5'', toy_role ''g3'' ''Scout'' 1 True [])],
     su_members = [], su_ships = [\<lparr>sp_group = ''g2'', sp_slug = ''lark'', sp_quantity = 1\<rparr>], su_claims = [],
     su_hangar = [(''s1'', \<lparr>hs_owner = ''ann'', hs_slug = ''lark'', hs_locked = [''hp1'']\<rparr>),
       (''s2'', \<lparr>hs_owner = ''ben'', hs_slug = ''lark'', hs_locked = [''hp1'']\<rparr>)],
     su_game_ships = [(''lark'', Some ''Gunship'', [\<lparr>st_hardpoint = ''hp1'', st_role = ''Turret'', st_label = ''Upper''\<rparr>])],
     su_frequencies = [], su_frequency_roles = [], su_channels = [], su_subscriptions = [], su_serial = 0\<rparr>"

lemma toy_ops_ok: "roster_ok toy_ops" "books_ok toy_ops"
  by code_simp+

definition crewed :: signups where
  "crewed = sign_run [Claim_slot ''o1'' ''e1'' ''g2'' ''lark'' (Some ''s2'') (Some 0) (Some ''ben''),
     Join_role ''o1'' ''e1'' ''g2'' ''r4'' (Some ''s2'') None (Some ''ben''),
     Join_role ''o1'' ''e1'' ''g2'' ''r4'' (Some ''s1'') None (Some ''ann'')] toy_ops"

text \<open>A member who declines keeps the reservation on the row: declining again releases the seat another member holds.\<close>

lemma decline_releases_twice:
  "balanced crewed"
  "map_option rl_reserved (al_get (su_roles (sign_run [Respond ''o1'' ''e1'' False (Some ''ann''), Respond ''o1'' ''e1'' False (Some ''ann'')]
      crewed)) ''r4'') = Some 0"
  "reserved_on ''r4'' (filter (\<lambda>m. sg_user m = ''ben'') (su_members crewed)) = 1"
  by code_simp+

text \<open>A declined member's seat is given to another; accepting afterwards puts both in it.\<close>

lemma declined_seat_is_shared:
  "map (\<lambda>m. (sg_user m, sg_status m, sg_role m, sg_seat m)) (su_members (sign_run
      [Join_role ''o1'' ''e1'' ''g1'' ''r1'' None (Some ''left'') (Some ''ann''), Respond ''o1'' ''e1'' False (Some ''ann''),
       Join_role ''o1'' ''e1'' ''g1'' ''r1'' None (Some ''left'') (Some ''ben''), Respond ''o1'' ''e1'' True (Some ''ann'')] toy_ops))
    = [(''ann'', ''accepted'', Some ''r1'', Some ''left''), (''ben'', ''accepted'', Some ''r1'', Some ''left'')]"
  by code_simp

text \<open>Leaving the event, or being removed, leaves the claim behind: the hull stays taken by nobody.\<close>

lemma left_claim_blocks_hull:
  "fst (claimShipSlot ''o1'' ''e1'' ''g2'' ''lark'' (Some ''s2'') (Some 0) (Some ''ben'') (sign_run
      [Claim_slot ''o1'' ''e1'' ''g2'' ''lark'' (Some ''s1'') (Some 0) (Some ''ann''), Leave_event ''o1'' ''e1'' (Some ''ann'')] toy_ops))
    = Denied 409 ''That slot was just claimed.''"
  "fst (claimShipSlot ''o1'' ''e1'' ''g2'' ''lark'' (Some ''s2'') (Some 0) (Some ''ben'') (sign_run
      [Claim_slot ''o1'' ''e1'' ''g2'' ''lark'' (Some ''s1'') (Some 0) (Some ''ann''), Leave_group ''o1'' ''e1'' ''g2'' (Some ''ann'')] toy_ops))
    = Answered ''Ship slot claimed''"
  by code_simp+

text \<open>The group's event is not compared with the event in the path: through an open event a member joins a role of a restricted one.\<close>

lemma restricted_event_joined_through_open_one:
  "event_groups ''e2'' toy_ops = [''g3'']"
  "fst (joinEventRole ''o1'' ''e2'' ''g3'' ''r5'' None None (Some ''ann'') toy_ops) = Denied 403 RESTRICTED"
  "fst (joinEventRole ''o1'' ''e1'' ''g3'' ''r5'' None None (Some ''ann'') toy_ops) = Answered ''Joined role''"
  by code_simp+

text \<open>Two transactions that both read before either writes: the last place of a role is given twice.\<close>

lemma last_place_given_twice:
  "\<exists>a b. join_decide ''o1'' ''e1'' ''g1'' ''r2'' ''ann'' None toy_ops = Inr a \<and> join_decide ''o1'' ''e1'' ''g1'' ''r2'' ''ben'' None toy_ops = Inr b
     \<and> filled_slots ''r2'' ''g1'' (snd (join_write ''g1'' ''r2'' ''ben'' None b (snd (join_write ''g1'' ''r2'' ''ann'' None a toy_ops)))) = 2
     \<and> map_option rl_max (al_get (su_roles toy_ops) ''r2'') = Some 1"
proof -
  let ?p = "(toy_role ''g1'' ''Medic'' 1 False [], In_role None ''pending'')"
  have "join_decide ''o1'' ''e1'' ''g1'' ''r2'' ''ann'' None toy_ops = Inr ?p" "join_decide ''o1'' ''e1'' ''g1'' ''r2'' ''ben'' None toy_ops = Inr ?p"
    "filled_slots ''r2'' ''g1'' (snd (join_write ''g1'' ''r2'' ''ben'' None ?p (snd (join_write ''g1'' ''r2'' ''ann'' None ?p toy_ops)))) = 2"
    "map_option rl_max (al_get (su_roles toy_ops) ''r2'') = Some 1"
    by code_simp+
  then show ?thesis by blast
qed

section \<open>Witnesses\<close>

lemma roster_stays_exclusive_witness:
  "roster_ok (sign_run [Claim_slot ''o1'' ''e1'' ''g2'' ''lark'' (Some ''s2'') (Some 0) (Some ''ben''), Quick_join ''o1'' ''e1'' (Some ''ann'')] toy_ops)"
  by (rule roster_stays_exclusive [OF toy_ops_ok(1)])

definition toy_history :: "sign_op list" where
  "toy_history = [Claim_slot ''o1'' ''e1'' ''g2'' ''lark'' (Some ''s2'') (Some 0) (Some ''ben''),
     Join_role ''o1'' ''e1'' ''g2'' ''r4'' (Some ''s1'') None (Some ''ann''), Release_slot ''o1'' ''e1'' ''g2'' (Some ''ben''),
     Remove_member ''o1'' ''e1'' ''g2'' ''ann'' (Some ''boss'')]"

lemma toy_history_accountable: "accountable_run toy_history toy_ops"
  by code_simp


definition ann_joins :: outcome where
  "ann_joins = joinEventRole ''o1'' ''e1'' ''g1'' ''r1'' None (Some ''left'') (Some ''ann'') toy_ops"

lemma toy_seated: "fst ann_joins = Answered ''Joined role''" "distinct (map row_key (su_members toy_ops))"
  "''r1'' \<notin> set (reserved_roles ''g1'' None ''ann'' toy_ops)"
  "al_get (su_roles toy_ops) ''r1'' = Some (toy_role ''g1'' ''Gunner'' 2 True [''left'', ''right''])"
  by code_simp+


definition ann_asks :: outcome where
  "ann_asks = joinEventRole ''o1'' ''e1'' ''g1'' ''r2'' None None (Some ''ann'') toy_ops"

lemma toy_asks: "fst ann_asks = Answered ''Join request pending approval''" "''g1'' \<in> set (event_groups ''e1'' toy_ops)"
  by code_simp+

lemma request_approves_itself_witness:
  "\<exists>t'' m. respondEventAssignment ''o1'' ''e1'' True (Some ''ann'') (snd (snd ann_asks))
      = (Answered ''Assignment accepted'', [roster_event ''o1'' ''e1''], t'')
    \<and> m \<in> set (su_members t'') \<and> is_row ''g1'' ''ann'' m \<and> sg_role m = Some ''r2'' \<and> sg_status m = ''accepted''"
proof -
  have "joinEventRole ''o1'' ''e1'' ''g1'' ''r2'' None None (Some ''ann'') toy_ops
      = (Answered ''Join request pending approval'', fst (snd ann_asks), snd (snd ann_asks))"
    using toy_asks(1) unfolding ann_asks_def by (metis prod.collapse)
  from request_approves_itself [OF this toy_asks(2)] show ?thesis .
qed

definition toy_service :: server where
  "toy_service = \<lparr>t_org_members = [], t_channels = [], t_events = [], t_event_groups = [], t_group_members = [], t_frequencies = [],
     t_frequency_roles = [], t_planners = [], t_friendships = [], t_groups = [], t_log = [], t_devices = [], t_published = [], t_down = False\<rparr>"

lemma toy_open_event: "al_get (su_events toy_ops) ''e1'' = Some toy_event" "oe_org toy_event = ''o1''" "or_else (oe_mode toy_event) ''open'' = ''open''"
  by (simp_all add: toy_ops_def toy_event_def)

lemma toy_staff: "\<not> staff ''ann'' ''e1'' toy_ops" "(''o1'', ''eve'') \<notin> set (su_org_members toy_ops)"
  "\<not> list_ex (\<lambda>m. sg_user m = ''eve'' \<and> in_event ''e1'' toy_ops m) (su_members toy_ops)"
  "quick_role ''e1'' toy_ops = Some (''r1'', toy_role ''g1'' ''Gunner'' 2 True [''left'', ''right''])" "\<not> t_down toy_service"
  by code_simp+

lemma leaver_is_shut_out_witness:
  "resolveEventGroup (Some ''ann'') ''o1'' ''e1'' (audience_tables (snd (snd (leaveMyEventSignup ''o1'' ''e1'' (Some ''ann'') toy_ops))) toy_service)
      = Inl (Refused 403 ''Not a participant of this event'' None)"
  by (rule leaver_is_shut_out [OF refl _ toy_staff(1) toy_open_event(1,2)]) (simp_all add: toy_service_def)

lemma outsider_enters_event_group_witness:
  "\<exists>t' access. quickJoinEvent ''o1'' ''e1'' (Some ''eve'') toy_ops = (Answered ''Signed up'', [roster_event ''o1'' ''e1''], t')
    \<and> (''o1'', ''eve'') \<notin> set (su_org_members t')
    \<and> resolveEventGroup (Some ''eve'') ''o1'' ''e1'' (audience_tables t' toy_service) = Inr access \<and> ga_group access = ''e1''"
  by (rule outsider_enters_event_group [OF toy_staff(2) _ toy_open_event toy_staff(3,4)]) (simp_all add: toy_service_def toy_role_def)

end
