(* ===== verification/Event_Launch.thy ===== *)
theory Event_Launch
  imports Event_Signups_Props
begin

text \<open>
  Launching and ending an operation (\<open>eventsController.ts\<close>: \<open>launchEvent\<close>, \<open>getEventChannelTree\<close>, \<open>endOperation\<close>; \<open>bulkMoveUsers\<close>
  of \<open>channelController.ts\<close>).  Identifiers come from the database: \<open>fresh\<close> is an argument, and \<open>su_serial\<close> counts the draws.  A
  recursion that never returns exhausts the stack, which the handler's catch turns into a 500; the model recurses with fuel,
  one more than there are groups, and \<^const>\<open>None\<close> is the overflow.  The dash in a channel name is a hyphen.  The
  cleanup timers are a list of delays and channels; what the schema does to other tables when a channel is deleted
  is not in the source and left out.
\<close>

section \<open>Channels\<close>

definition insert_channel :: "(nat \<Rightarrow> string) \<Rightarrow> op_channel \<Rightarrow> signups \<Rightarrow> string \<times> signups" where
  "insert_channel fresh c t = (fresh (su_serial t),
     t\<lparr>su_channels := su_channels t @ [(fresh (su_serial t), c)], su_serial := Suc (su_serial t)\<rparr>)"

definition event_channel :: "string \<Rightarrow> string \<Rightarrow> string \<Rightarrow> bool \<Rightarrow> string option \<Rightarrow> op_channel" where
  "event_channel org ev n freq parent = \<lparr>oc_org = org, oc_event = Some ev, oc_name = n, oc_open = True, oc_frequency = freq, oc_parent = parent\<rparr>"

definition update_group :: "string \<Rightarrow> (op_group \<Rightarrow> op_group) \<Rightarrow> signups \<Rightarrow> signups" where
  "update_group i f t = t\<lparr>su_groups := map (\<lambda>(j, g). (j, if j = i then f g else g)) (su_groups t)\<rparr>"

definition update_event :: "string \<Rightarrow> (op_event \<Rightarrow> op_event) \<Rightarrow> signups \<Rightarrow> signups" where
  "update_event i f t = t\<lparr>su_events := map (\<lambda>(j, e). (j, if j = i then f e else e)) (su_events t)\<rparr>"

definition update_frequency :: "string \<Rightarrow> (frequency \<Rightarrow> frequency) \<Rightarrow> signups \<Rightarrow> signups" where
  "update_frequency i f t = t\<lparr>su_frequencies := map (\<lambda>(j, x). (j, if j = i then f x else x)) (su_frequencies t)\<rparr>"

section \<open>Launch\<close>

text \<open>\<open>visit\<close>: a group after its parent.  A group is marked when it is pushed, so a cycle of parents recurses for ever.\<close>

fun sort_visit :: "nat \<Rightarrow> (string, op_group) jsmap \<Rightarrow> string \<times> op_group \<Rightarrow> (string \<times> op_group) list \<Rightarrow> (string \<times> op_group) list option" where
  "sort_visit 0 rows g pushed = None"
| "sort_visit (Suc n) rows (i, g) pushed =
    (if i \<in> fst ` set pushed then Some pushed
     else (case (case gp_parent g of None \<Rightarrow> Some pushed
         | Some p \<Rightarrow> (case al_get rows p of None \<Rightarrow> Some pushed
           | Some pg \<Rightarrow> if p \<in> fst ` set pushed then Some pushed else sort_visit n rows (p, pg) pushed)) of
         None \<Rightarrow> None | Some before \<Rightarrow> Some (before @ [(i, g)])))"

fun sort_groups :: "nat \<Rightarrow> (string, op_group) jsmap \<Rightarrow> (string \<times> op_group) list \<Rightarrow> (string \<times> op_group) list \<Rightarrow> (string \<times> op_group) list option" where
  "sort_groups n rows [] pushed = Some pushed"
| "sort_groups n rows (g # gs) pushed = (case sort_visit n rows g pushed of None \<Rightarrow> None | Some s \<Rightarrow> sort_groups n rows gs s)"

fun computeTier :: "nat \<Rightarrow> (string, op_group) jsmap \<Rightarrow> string \<Rightarrow> int option" where
  "computeTier 0 rows i = None"
| "computeTier (Suc n) rows i = (case al_get rows i of None \<Rightarrow> Some 1
     | Some g \<Rightarrow> (case gp_parent g of None \<Rightarrow> Some 1 | Some p \<Rightarrow> map_option (\<lambda>k. k + 1) (computeTier n rows p)))"

definition parent_channel :: "string \<Rightarrow> (string, string) jsmap \<Rightarrow> op_group \<Rightarrow> string" where
  "parent_channel cmd m g = (case gp_parent g of None \<Rightarrow> cmd | Some p \<Rightarrow> or_else (al_get m p) cmd)"

text \<open>One channel per group, in the order of the sort; \<open>groupToChannel\<close> and the tables.\<close>

fun group_channels :: "(nat \<Rightarrow> string) \<Rightarrow> string \<Rightarrow> string \<Rightarrow> string \<Rightarrow> (string \<times> op_group) list
    \<Rightarrow> (string, string) jsmap \<times> signups \<Rightarrow> (string, string) jsmap \<times> signups" where
  "group_channels fresh org ev cmd [] s = s"
| "group_channels fresh org ev cmd ((i, g) # gs) (m, t) =
    (let (c, t1) = insert_channel fresh (event_channel org ev (gp_name g) False (Some (parent_channel cmd m g))) t
     in group_channels fresh org ev cmd gs (al_set i c m, update_group i (\<lambda>x. x\<lparr>gp_channel := Some c\<rparr>) t1))"

fun frequency_channels :: "(nat \<Rightarrow> string) \<Rightarrow> string \<Rightarrow> string \<Rightarrow> string \<Rightarrow> (string \<times> frequency) list
    \<Rightarrow> string list \<times> signups \<Rightarrow> string list \<times> signups" where
  "frequency_channels fresh org ev cmd [] s = s"
| "frequency_channels fresh org ev cmd ((i, f) # fs) (cs, t) =
    (let (c, t1) = insert_channel fresh (event_channel org ev (fq_name f) True (Some cmd)) t
     in frequency_channels fresh org ev cmd fs (cs @ [c], update_frequency i (\<lambda>x. x\<lparr>fq_channel := Some c\<rparr>) t1))"

definition event_frequencies :: "string \<Rightarrow> signups \<Rightarrow> (string \<times> frequency) list" where
  "event_frequencies ev t = stable_sort (\<lambda>a b. fq_sort (snd a) \<le> fq_sort (snd b)) (filter (\<lambda>(i, f). fq_event f = ev) (su_frequencies t))"

text \<open>The tree published for the media service.\<close>

record tree_entry =
  te_id :: string
  te_parent :: "string option"
  te_tier :: int
  te_leader :: "string option"
  te_frequency :: bool

definition entry_json :: "tree_entry \<Rightarrow> jsval" where
  "entry_json e = JObj ([(''id'', JStr (te_id e)), (''parent_id'', nullable (te_parent e)), (''tier'', JNum (te_tier e)),
     (''leader_user_id'', nullable (te_leader e))] @ (if te_frequency e then [(''is_frequency'', JBool True)] else []))"

definition group_entry :: "nat \<Rightarrow> (string, op_group) jsmap \<Rightarrow> string \<Rightarrow> (string, string) jsmap \<Rightarrow> string \<times> op_group \<Rightarrow> tree_entry option" where
  "group_entry n rows cmd m ig = map_option (\<lambda>tier. \<lparr>te_id = or_else (al_get m (fst ig)) [], te_parent = Some (parent_channel cmd m (snd ig)),
     te_tier = tier, te_leader = str_or_null (gp_leader (snd ig)), te_frequency = False\<rparr>) (computeTier n rows (fst ig))"

definition channel_tree :: "nat \<Rightarrow> (string, op_group) jsmap \<Rightarrow> string \<Rightarrow> (string, string) jsmap \<Rightarrow> (string \<times> op_group) list
    \<Rightarrow> string list \<Rightarrow> tree_entry list option" where
  "channel_tree n rows cmd m pushed freqs = map_option (\<lambda>es.
     \<lparr>te_id = cmd, te_parent = None, te_tier = 0, te_leader = None, te_frequency = False\<rparr> # es
     @ map (\<lambda>c. \<lparr>te_id = c, te_parent = Some cmd, te_tier = 99, te_leader = None, te_frequency = True\<rparr>) freqs)
     (those (map (group_entry n rows cmd m) pushed))"

definition tree_subject :: "string \<Rightarrow> string" where
  "tree_subject org = ''specter.event.tree.'' @ org"

definition launch_events :: "string \<Rightarrow> string \<Rightarrow> tree_entry list \<Rightarrow> (string \<times> jsval) list" where
  "launch_events org ev tree = [(org_subject org, JObj [(''type'', JStr ''channel_created'')]),
     (org_subject org, JObj [(''type'', JStr ''event_launched''), (''eventId'', JStr ev)]),
     (tree_subject org, JObj [(''type'', JStr ''event_tree''), (''event_id'', JStr ev), (''channels'', JArr (map entry_json tree))])]"

definition event_rows :: "string \<Rightarrow> signups \<Rightarrow> (string, op_group) jsmap" where
  "event_rows ev t = filter (\<lambda>(i, g). gp_event g = ev) (su_groups t)"

text \<open>The transaction, with the map from groups to channels, the frequencies' channels and the command channel.\<close>

definition launch_write :: "(nat \<Rightarrow> string) \<Rightarrow> string \<Rightarrow> string \<Rightarrow> string \<Rightarrow> (string \<times> op_group) list \<Rightarrow> signups
    \<Rightarrow> string \<times> (string, string) jsmap \<times> string list \<times> signups" where
  "launch_write fresh org ev n pushed t =
    (let (cmd, t1) = insert_channel fresh (event_channel org ev (n @ '' - COMMAND'') False None) t;
         (m, t2) = group_channels fresh org ev cmd pushed ([], t1);
         (freqs, t3) = frequency_channels fresh org ev cmd (event_frequencies ev t2) ([], t2)
     in (cmd, m, freqs, update_event ev (\<lambda>e. e\<lparr>oe_launched := True, oe_command_channel := Some cmd\<rparr>) t3))"

definition SERVER_ERROR :: sign_answer where "SERVER_ERROR = Denied 500 ''Server error''"

definition launchEvent :: "(nat \<Rightarrow> string) \<Rightarrow> string \<Rightarrow> string \<Rightarrow> string option \<Rightarrow> signups \<Rightarrow> outcome" where
  "launchEvent fresh org ev user t = with_user user t (\<lambda>u.
     if \<not> canManageThisEvent u org ev t then deny 403 ''Forbidden'' t
     else (case al_get (su_events t) ev of None \<Rightarrow> deny 404 ''Event not found'' t
       | Some e \<Rightarrow> if oe_org e \<noteq> org then deny 404 ''Event not found'' t
           else if oe_launched e then deny 409 ''Event already launched'' t
           else (let rows = event_rows ev t; n = Suc (length rows) in
             case sort_groups n rows rows [] of None \<Rightarrow> (SERVER_ERROR, [], t)
             | Some pushed \<Rightarrow> (let (cmd, m, freqs, t') = launch_write fresh org ev (oe_name e) pushed t in
                 case channel_tree n rows cmd m pushed freqs of None \<Rightarrow> (SERVER_ERROR, [], t')
                 | Some tree \<Rightarrow> (Answered ''Operation launched'', launch_events org ev tree, t')))))"

section \<open>The tree as it is served\<close>

fun channelTier :: "nat \<Rightarrow> (string, string option) jsmap \<Rightarrow> string \<Rightarrow> int option" where
  "channelTier 0 parents c = None"
| "channelTier (Suc n) parents c = (case al_get parents c of Some (Some p) \<Rightarrow> map_option (\<lambda>k. k + 1) (channelTier n parents p) | _ \<Rightarrow> Some 0)"

definition parent_map :: "string \<Rightarrow> signups \<Rightarrow> (string, string option) jsmap" where
  "parent_map ev t = map (\<lambda>(i, c). (i, oc_parent c)) (filter (\<lambda>(i, c). oc_event c = Some ev) (su_channels t))"

text \<open>The channels with their tiers and whether each is the command channel; the status and message of a refusal.\<close>

definition getEventChannelTree :: "string \<Rightarrow> string \<Rightarrow> string option \<Rightarrow> signups
    \<Rightarrow> (nat \<times> string) + (string option \<times> (string \<times> string \<times> int \<times> bool) list)" where
  "getEventChannelTree org ev user t = (if \<not> truthy user then Inl (401, ''Unauthorized'')
     else case al_get (su_events t) ev of None \<Rightarrow> Inl (404, ''Event not found'')
     | Some e \<Rightarrow> if oe_org e \<noteq> org then Inl (404, ''Event not found'')
         else if \<not> oe_launched e then Inl (400, ''Event not launched yet'')
         else (let parents = parent_map ev t in
           case those (map (\<lambda>(i, c). map_option (\<lambda>tier. (i, oc_name c, tier, Some i = oe_command_channel e))
               (channelTier (Suc (length parents)) parents i)) (filter (\<lambda>(i, c). oc_event c = Some ev) (su_channels t))) of
             None \<Rightarrow> Inl (500, ''Server error'') | Some rows \<Rightarrow> Inr (oe_command_channel e, rows)))"

section \<open>The end\<close>

type_synonym presence = "(string, (string, string) jsmap) jsmap"

definition occupants :: "string \<Rightarrow> presence \<Rightarrow> string list" where
  "occupants c p = (case al_get p c of None \<Rightarrow> [] | Some m \<Rightarrow> map snd m)"

definition presence_event :: "string \<Rightarrow> string \<Rightarrow> presence \<Rightarrow> string \<times> jsval" where
  "presence_event org c p = (org_subject org, JObj [(''type'', JStr ''channel_presence_changed''), (''channelId'', JStr c),
     (''occupants'', JArr (map JStr (occupants c p)))])"

text \<open>One user out of the old channel's map, an empty map with it, and into the new one.\<close>

definition move_presence :: "string \<Rightarrow> string \<times> string \<times> string \<Rightarrow> presence \<Rightarrow> presence" where
  "move_presence to' row p = (case row of (u, old, nm) \<Rightarrow>
     (let p1 = (case al_get p old of None \<Rightarrow> p
         | Some m \<Rightarrow> (let m' = al_del u m in if m' = [] then al_del old p else al_set old m' p));
         p2 = (if al_has p1 to' then p1 else al_set to' [] p1)
      in al_set to' (al_set u nm (or_else (al_get p2 to') [])) p2))"

text \<open>\<open>ON CONFLICT (user_id, org_id) DO UPDATE SET channel_id\<close>.\<close>

definition subscribe :: "string \<Rightarrow> string \<Rightarrow> string \<Rightarrow> (string \<times> string \<times> string) list \<Rightarrow> (string \<times> string \<times> string) list" where
  "subscribe org to' u subs = (if list_ex (\<lambda>(v, o', c). v = u \<and> o' = org) subs
     then map (\<lambda>(v, o', c). (v, o', if v = u \<and> o' = org then to' else c)) subs else subs @ [(u, org, to')])"

definition bulkMoveUsers :: "(string \<Rightarrow> string) \<Rightarrow> string \<Rightarrow> string list \<Rightarrow> string \<Rightarrow> presence \<times> signups
    \<Rightarrow> (string \<times> jsval) list \<times> presence \<times> signups" where
  "bulkMoveUsers names org from' to' s = (let (p, t) = s;
       moved = map (\<lambda>(u, o', c). (u, c, names u)) (filter (\<lambda>(u, o', c). c \<in> set from') (su_subscriptions t))
     in if from' = [] \<or> moved = [] then ([], p, t)
        else (let t' = t\<lparr>su_subscriptions := fold (\<lambda>(u, _, _). subscribe org to' u) moved (su_subscriptions t)\<rparr>;
                  p' = fold (move_presence to') moved p
              in (presence_event org to' p' # map (\<lambda>c. presence_event org c p') (rev (remdups (rev (map (\<lambda>(u, c, n). c) moved)))), p', t')))"

definition lobby :: "string \<Rightarrow> signups \<Rightarrow> (string \<times> op_channel) option" where
  "lobby org t = find (\<lambda>(i, c). oc_org c = org \<and> oc_event c = None \<and> oc_open c) (su_channels t)"

definition event_channel_ids :: "string \<Rightarrow> signups \<Rightarrow> string list" where
  "event_channel_ids ev t = map fst (filter (\<lambda>(i, c). oc_event c = Some ev) (su_channels t))"

definition delete_channels :: "string list \<Rightarrow> signups \<Rightarrow> signups" where
  "delete_channels ids t = t\<lparr>su_channels := filter (\<lambda>(i, c). i \<notin> set ids) (su_channels t)\<rparr>"

text \<open>The destination: a new debrief channel, or the first public channel of the organisation, if it has one.\<close>

definition end_target :: "(nat \<Rightarrow> string) \<Rightarrow> string \<Rightarrow> string \<Rightarrow> string \<Rightarrow> bool \<Rightarrow> signups \<Rightarrow> (string \<times> string) option \<times> (string \<times> jsval) list \<times> signups" where
  "end_target fresh org ev n debrief t = (if debrief
     then (let title = take 32 (''DEBRIEF: '' @ n); (c, t1) = insert_channel fresh (event_channel org ev title False None) t
       in (Some (c, title), [(org_subject org, JObj [(''type'', JStr ''channel_created''),
             (''channel'', JObj [(''id'', JStr c), (''name'', JStr title)])])], t1))
     else (map_option (\<lambda>(i, c). (i, oc_name c)) (lobby org t), [], t))"

definition ended_event :: "string \<Rightarrow> string \<Rightarrow> bool \<Rightarrow> (string \<times> string) option \<Rightarrow> string \<times> jsval" where
  "ended_event org ev debrief target = (org_subject org, JObj [(''type'', JStr ''operation_ended''), (''eventId'', JStr ev),
     (''mode'', JStr (if debrief then ''debrief'' else ''lobby'')), (''target_channel_id'', nullable (map_option fst target)),
     (''target_channel_name'', JStr (case target of None \<Rightarrow> [] | Some (c, title) \<Rightarrow> title))])"

text \<open>A timer: its delay, the channels it deletes and the one its message names.\<close>

type_synonym cleanup_timer = "int \<times> string list \<times> string option"

definition cleanup :: "string \<Rightarrow> cleanup_timer \<Rightarrow> signups \<Rightarrow> (string \<times> jsval) list \<times> signups" where
  "cleanup org timer t = (case timer of (ms, ids, named) \<Rightarrow> ([(org_subject org, JObj ((''type'', JStr ''channel_deleted'')
       # (case named of None \<Rightarrow> [] | Some c \<Rightarrow> [(''channelId'', JStr c)])))], delete_channels ids t))"

text \<open>The answer, the events, the timers that are set and the state.\<close>

definition endOperation :: "(nat \<Rightarrow> string) \<Rightarrow> (string \<Rightarrow> string) \<Rightarrow> string \<Rightarrow> string \<Rightarrow> string \<Rightarrow> string option \<Rightarrow> presence \<times> signups
    \<Rightarrow> sign_answer \<times> (string \<times> jsval) list \<times> cleanup_timer list \<times> presence \<times> signups" where
  "endOperation fresh names org ev mode user s = (let (p, t) = s; debrief = (mode = ''debrief'') in
     if \<not> truthy user then (Denied 401 ''Unauthorized'', [], [], p, t)
     else if \<not> canManageThisEvent (or_else user []) org ev t then (Denied 403 ''Forbidden'', [], [], p, t)
     else (case al_get (su_events t) ev of None \<Rightarrow> (Denied 404 ''Event not found'', [], [], p, t)
       | Some e \<Rightarrow> if oe_org e \<noteq> org then (Denied 404 ''Event not found'', [], [], p, t)
           else if \<not> oe_launched e then (Denied 409 ''Event is not currently launched'', [], [], p, t)
           else (let ids = event_channel_ids ev t; (target, evs1, t1) = end_target fresh org ev (oe_name e) debrief t;
               (evs2, p2, t2) = (case target of None \<Rightarrow> ([], p, t1)
                 | Some (c, title) \<Rightarrow> if ids = [] then ([], p, t1) else bulkMoveUsers names org ids c (p, t1));
               t3 = update_event ev (\<lambda>x. x\<lparr>oe_launched := False, oe_ended := True\<rparr>) t2;
               timers = (if ids = [] then [] else [(8000, ids, None)])
                 @ (if debrief then (case target of None \<Rightarrow> [] | Some (c, title) \<Rightarrow> [(45 * 60000, [c], Some c)]) else [])
             in (Answered ''Operation ended'', evs1 @ evs2 @ [ended_event org ev debrief target], timers, p2, t3))))"

end
