(* ===== verification/Event_Launch_Props.thy ===== *)
theory Event_Launch_Props
  imports Event_Launch
begin

text \<open>
  A launch turns the plan of an operation into channels: the sort puts parents first and returns on a forest, the published
  tree is well-formed and mirrors both the plan and the channel rows.
\<close>

section \<open>The sort\<close>

text \<open>The groups of an event form a forest: a rank that falls from a group to its parent.\<close>

definition ranked :: "(string \<Rightarrow> nat) \<Rightarrow> (string, op_group) jsmap \<Rightarrow> bool" where
  "ranked rank rows \<longleftrightarrow> distinct (map fst rows)
     \<and> list_all (\<lambda>(i, g). case gp_parent g of None \<Rightarrow> True | Some p \<Rightarrow> p \<in> fst ` set rows \<and> rank p < rank i) rows"

lemma ranked_parent:
  "ranked rank rows \<Longrightarrow> (i, g) \<in> set rows \<Longrightarrow> gp_parent g = Some p \<Longrightarrow> p \<in> fst ` set rows \<and> rank p < rank i"
  by (force simp: ranked_def list_all_iff)

lemma distinct_get: "distinct (map fst rows) \<Longrightarrow> al_get rows i = Some g \<longleftrightarrow> (i, g) \<in> set rows"
  by (simp add: al_get_eq_map_of)

text \<open>Each group after its parent, and once.\<close>

fun after :: "string set \<Rightarrow> (string \<times> op_group) list \<Rightarrow> bool" where
  "after seen [] \<longleftrightarrow> True"
| "after seen ((i, g) # gs) \<longleftrightarrow> i \<notin> seen \<and> (case gp_parent g of None \<Rightarrow> True | Some p \<Rightarrow> p \<in> seen) \<and> after (insert i seen) gs"

lemma after_snoc:
  "after seen (gs @ [(i, g)]) \<longleftrightarrow> after seen gs \<and> i \<notin> seen \<union> fst ` set gs
     \<and> (case gp_parent g of None \<Rightarrow> True | Some p \<Rightarrow> p \<in> seen \<union> fst ` set gs)"
  by (induction seen gs rule: after.induct) (auto split: option.splits)

lemma after_distinct: "after seen gs \<Longrightarrow> distinct (map fst gs) \<and> seen \<inter> fst ` set gs = {}"
  by (induction seen gs rule: after.induct) auto

definition below :: "(string \<Rightarrow> nat) \<Rightarrow> (string, op_group) jsmap \<Rightarrow> string \<Rightarrow> string set" where
  "below rank rows i = {j \<in> fst ` set rows. rank j < rank i}"

lemma below_parent:
  assumes "ranked rank rows" "(i, g) \<in> set rows" "gp_parent g = Some p"
  shows "card (below rank rows p) < card (below rank rows i)"
proof (rule psubset_card_mono)
  show "finite (below rank rows i)" by (simp add: below_def)
  show "below rank rows p \<subset> below rank rows i" using ranked_parent [OF assms] by (auto simp: below_def)
qed

lemma below_length: "card (below rank rows i) \<le> length rows"
proof -
  have "card (below rank rows i) \<le> card (fst ` set rows)" by (rule card_mono) (auto simp: below_def)
  also have "\<dots> \<le> length rows" using card_length [of "map fst rows"] by simp
  finally show ?thesis .
qed

lemma visit_sorts:
  assumes "ranked rank rows" "(i, g) \<in> set rows" "card (below rank rows i) < n" "after {} pushed" "set pushed \<subseteq> set rows"
  shows "\<exists>more. sort_visit n rows (i, g) pushed = Some (pushed @ more) \<and> after {} (pushed @ more) \<and> set more \<subseteq> set rows
    \<and> i \<in> fst ` set (pushed @ more) \<and> (\<forall>j\<in>fst ` set more. rank j \<le> rank i)"
  using assms
proof (induction n arbitrary: i g)
  case (Suc n)
  show ?case
  proof (cases "i \<in> fst ` set pushed")
    case True
    then show ?thesis using Suc.prems by (intro exI [of _ "[]"]) auto
  next
    case new: False
    show ?thesis
    proof (cases "gp_parent g")
      case None
      then show ?thesis using Suc.prems new by (intro exI [of _ "[(i, g)]"]) (auto simp: after_snoc)
    next
      case (Some p)
      obtain pg where pg: "(p, pg) \<in> set rows" "al_get rows p = Some pg" "p \<noteq> i"
        using ranked_parent [OF Suc.prems(1,2) Some] Suc.prems(1) distinct_get by (fastforce simp: ranked_def)
      show ?thesis
      proof (cases "p \<in> fst ` set pushed")
        case True
        then show ?thesis using Suc.prems new Some pg by (intro exI [of _ "[(i, g)]"]) (auto simp: after_snoc)
      next
        case False
        have "card (below rank rows p) < n" using below_parent [OF Suc.prems(1,2) Some] Suc.prems(3) by simp
        then obtain more where more: "sort_visit n rows (p, pg) pushed = Some (pushed @ more)" "after {} (pushed @ more)"
            "set more \<subseteq> set rows" "p \<in> fst ` set (pushed @ more)" "\<forall>j\<in>fst ` set more. rank j \<le> rank p"
          using Suc.IH [OF Suc.prems(1) pg(1) _ Suc.prems(4,5)] by blast
        have up: "rank p < rank i" using ranked_parent [OF Suc.prems(1,2) Some] by simp
        then have fresh: "i \<notin> fst ` set more" using more(5) by fastforce
        have "after {} ((pushed @ more) @ [(i, g)])" unfolding after_snoc using more(2,4) new fresh Some by auto
        then show ?thesis using more new False Some pg Suc.prems(2) up by (intro exI [of _ "more @ [(i, g)]"]) fastforce
      qed
    qed
  qed
qed simp

lemma sort_groups_sorts:
  assumes "ranked rank rows" "set gs \<subseteq> set rows" "length rows < n" "after {} pushed" "set pushed \<subseteq> set rows"
  shows "\<exists>more. sort_groups n rows gs pushed = Some (pushed @ more) \<and> after {} (pushed @ more) \<and> set more \<subseteq> set rows
    \<and> fst ` set gs \<subseteq> fst ` set (pushed @ more)"
  using assms(2,4,5)
proof (induction gs arbitrary: pushed)
  case (Cons ig gs)
  obtain i g where ig: "ig = (i, g)" by fastforce
  have "card (below rank rows i) < n" using below_length [of rank rows i] assms(3) by simp
  then obtain more where more: "sort_visit n rows ig pushed = Some (pushed @ more)" "after {} (pushed @ more)" "set more \<subseteq> set rows"
      "i \<in> fst ` set (pushed @ more)"
    using visit_sorts [OF assms(1), of i g n pushed] Cons.prems ig by auto
  have "\<exists>more'. sort_groups n rows gs (pushed @ more) = Some ((pushed @ more) @ more') \<and> after {} ((pushed @ more) @ more')
      \<and> set more' \<subseteq> set rows \<and> fst ` set gs \<subseteq> fst ` set ((pushed @ more) @ more')"
    by (rule Cons.IH) (use Cons.prems more in auto)
  then show ?case using more ig by (elim exE) (rule_tac x = "more @ more'" in exI, auto)
qed (auto intro: exI [of _ "[]"])

text \<open>The sort returns every group once, parents first.\<close>

lemma launch_sort:
  assumes "ranked rank rows"
  obtains pushed where "sort_groups (Suc (length rows)) rows rows [] = Some pushed" "after {} pushed" "set pushed = set rows"
    "distinct (map fst pushed)" "length pushed = length rows"
proof -
  obtain pushed where v: "sort_groups (Suc (length rows)) rows rows [] = Some pushed" "after {} pushed" "set pushed \<subseteq> set rows"
      "fst ` set rows \<subseteq> fst ` set pushed"
    using sort_groups_sorts [OF assms, of rows "Suc (length rows)" "[]"] by auto
  have d: "distinct (map fst pushed)" using after_distinct [OF v(2)] by simp
  have "set rows \<subseteq> set pushed"
  proof
    fix ig assume ig: "ig \<in> set rows"
    then obtain g' where "(fst ig, g') \<in> set pushed" using v(4) by force
    then show "ig \<in> set pushed"
      using v(3) ig assms by (cases ig) (auto simp: ranked_def dest: eq_key_imp_eq_value)
  qed
  then have eq: "set pushed = set rows" using v(3) by blast
  have "length pushed = length rows"
    using distinct_card [OF d] distinct_card [of "map fst rows"] assms eq by (simp add: ranked_def)
  then show thesis using that v(1,2) d eq by blast
qed

section \<open>Tiers\<close>

lemma computeTier_mono: "computeTier n rows i = Some d \<Longrightarrow> computeTier (Suc n) rows i = Some d"
proof (induction n arbitrary: i d)
  case (Suc n)
  note step = computeTier.simps(2) [of "Suc n" rows i] computeTier.simps(2) [of n rows i]
  show ?case using Suc.prems Suc.IH unfolding step by (auto simp del: computeTier.simps split: option.splits)
qed simp

lemma ranked_get: "ranked rank rows \<Longrightarrow> (i, g) \<in> set rows \<Longrightarrow> al_get rows i = Some g"
  by (simp add: ranked_def distinct_get)

lemma computeTier_returns:
  assumes "ranked rank rows" "(i, g) \<in> set rows" "card (below rank rows i) < n"
  shows "\<exists>d. computeTier n rows i = Some d \<and> 1 \<le> d"
  using assms
proof (induction n arbitrary: i g)
  case (Suc n)
  have get: "al_get rows i = Some g" using Suc.prems(1,2) by (rule ranked_get)
  show ?case
  proof (cases "gp_parent g")
    case (Some p)
    then obtain pg where "(p, pg) \<in> set rows" using ranked_parent [OF Suc.prems(1,2)] by force
    moreover have "card (below rank rows p) < n" using below_parent [OF Suc.prems(1,2) Some] Suc.prems(3) by simp
    ultimately obtain d where "computeTier n rows p = Some d" "1 \<le> d" using Suc.IH [OF Suc.prems(1)] by blast
    then show ?thesis using get Some by simp
  qed (simp add: get)
qed simp

definition tier_of :: "(string, op_group) jsmap \<Rightarrow> string \<Rightarrow> int" where
  "tier_of rows i = or_else (computeTier (Suc (length rows)) rows i) 0"

lemma tier_of:
  assumes "ranked rank rows" "(i, g) \<in> set rows"
  shows "computeTier (Suc (length rows)) rows i = Some (tier_of rows i)"
    and "tier_of rows i = (case gp_parent g of None \<Rightarrow> 1 | Some p \<Rightarrow> tier_of rows p + 1)"
proof -
  have small: "card (below rank rows i) < Suc (length rows)" using below_length [of rank rows i] by simp
  obtain d where d: "computeTier (Suc (length rows)) rows i = Some d" using computeTier_returns [OF assms small] by blast
  then show "computeTier (Suc (length rows)) rows i = Some (tier_of rows i)" by (simp add: tier_of_def)
  have get: "al_get rows i = Some g" using assms by (rule ranked_get)
  show "tier_of rows i = (case gp_parent g of None \<Rightarrow> 1 | Some p \<Rightarrow> tier_of rows p + 1)"
  proof (cases "gp_parent g")
    case (Some p)
    then obtain e where e: "computeTier (length rows) rows p = Some e" "d = e + 1" using d get by auto
    then have "tier_of rows p = e" using computeTier_mono [OF e(1)] by (simp add: tier_of_def del: computeTier.simps)
    then show ?thesis using Some d e(2) by (simp add: tier_of_def del: computeTier.simps)
  qed (use d get in \<open>simp add: tier_of_def\<close>)
qed

section \<open>The rows of a launch\<close>

definition draws :: "(nat \<Rightarrow> string) \<Rightarrow> nat \<Rightarrow> nat \<Rightarrow> string list" where
  "draws fresh s n = map fresh [s..<s + n]"

lemma draws_Suc: "draws fresh s (Suc n) = fresh s # draws fresh (Suc s) n"
  by (simp add: draws_def upt_rec)

lemma draws_0 [simp]: "draws fresh s 0 = []"
  by (simp add: draws_def)

lemma length_draws [simp]: "length (draws fresh s n) = n"
  by (simp add: draws_def)

lemma al_set_new: "k \<notin> fst ` set m \<Longrightarrow> al_set k v m = m @ [(k, v)]"
  by (induction m) auto

lemma al_get_append: "al_get (m @ m') k = (case al_get m k of None \<Rightarrow> al_get m' k | Some v \<Rightarrow> Some v)"
  by (induction m) auto

lemma al_get_key: "k \<in> fst ` set m \<Longrightarrow> al_get (m @ m') k = al_get m k"
  by (auto simp: al_get_append al_get_None [symmetric] split: option.split) (metis al_get_None image_eqI fst_conv)

lemma insert_channel_frame [simp]:
  "fst (insert_channel fresh c t) = fresh (su_serial t)"
  "su_serial (snd (insert_channel fresh c t)) = Suc (su_serial t)"
  "su_channels (snd (insert_channel fresh c t)) = su_channels t @ [(fresh (su_serial t), c)]"
  "su_groups (snd (insert_channel fresh c t)) = su_groups t" "su_events (snd (insert_channel fresh c t)) = su_events t"
  "su_frequencies (snd (insert_channel fresh c t)) = su_frequencies t"
  "su_subscriptions (snd (insert_channel fresh c t)) = su_subscriptions t"
  by (simp_all add: insert_channel_def)

lemma update_group_frame [simp]:
  "su_serial (update_group i f t) = su_serial t" "su_channels (update_group i f t) = su_channels t"
  "su_events (update_group i f t) = su_events t" "su_frequencies (update_group i f t) = su_frequencies t"
  "al_get (su_groups (update_group i f t)) j = map_option (\<lambda>g. if j = i then f g else g) (al_get (su_groups t) j)"
  by (simp_all add: update_group_def al_get_map)

lemma update_frequency_frame [simp]:
  "su_serial (update_frequency i f t) = su_serial t" "su_channels (update_frequency i f t) = su_channels t"
  "su_events (update_frequency i f t) = su_events t" "su_groups (update_frequency i f t) = su_groups t"
  by (simp_all add: update_frequency_def)

lemma group_channels_step:
  "group_channels fresh org ev cmd ((i, g) # gs) (m, t) = group_channels fresh org ev cmd gs (al_set i (fresh (su_serial t)) m,
     update_group i (\<lambda>x. x\<lparr>gp_channel := Some (fresh (su_serial t))\<rparr>)
       (snd (insert_channel fresh (event_channel org ev (gp_name g) False (Some (parent_channel cmd m g))) t)))"
  by (simp add: case_prod_beta Let_def)

lemma group_channels_all:
  assumes "distinct (map fst gs)" "fst ` set m \<inter> fst ` set gs = {}"
  shows "fst (group_channels fresh org ev cmd gs (m, t)) = m @ zip (map fst gs) (draws fresh (su_serial t) (length gs))
    \<and> su_serial (snd (group_channels fresh org ev cmd gs (m, t))) = su_serial t + length gs
    \<and> su_frequencies (snd (group_channels fresh org ev cmd gs (m, t))) = su_frequencies t
    \<and> su_events (snd (group_channels fresh org ev cmd gs (m, t))) = su_events t"
  using assms
proof (induction gs arbitrary: m t)
  case (Cons ig gs)
  obtain i g where ig: "ig = (i, g)" by fastforce
  have m: "al_set i (fresh (su_serial t)) m = m @ [(i, fresh (su_serial t))]" using Cons.prems ig by (intro al_set_new) auto
  have "distinct (map fst gs)" "fst ` set (m @ [(i, fresh (su_serial t))]) \<inter> fst ` set gs = {}" using Cons.prems ig by auto
  from Cons.IH [OF this] show ?case unfolding ig group_channels_step m by (simp add: draws_Suc)
qed simp

lemmas group_channels_map = group_channels_all [THEN conjunct1] group_channels_all [THEN conjunct2, THEN conjunct1]
  group_channels_all [THEN conjunct2, THEN conjunct2, THEN conjunct1] group_channels_all [THEN conjunct2, THEN conjunct2, THEN conjunct2]

lemma parent_channel_append:
  "(\<And>p. gp_parent g = Some p \<Longrightarrow> p \<in> fst ` set m) \<Longrightarrow> parent_channel cmd (m @ m') g = parent_channel cmd m g"
  by (auto simp: parent_channel_def al_get_key split: option.split)

lemma group_channels_rows:
  assumes "after (fst ` set m) gs"
  shows "su_channels (snd (group_channels fresh org ev cmd gs (m, t))) = su_channels t
      @ map (\<lambda>((i, g), c). (c, event_channel org ev (gp_name g) False (Some (parent_channel cmd (fst (group_channels fresh org ev cmd gs (m, t))) g))))
          (zip gs (draws fresh (su_serial t) (length gs)))"
  using assms
proof (induction gs arbitrary: m t)
  case (Cons ig gs)
  obtain i g where ig: "ig = (i, g)" by fastforce
  have a: "i \<notin> fst ` set m" "after (insert i (fst ` set m)) gs" "gp_parent g = Some p \<Longrightarrow> p \<in> fst ` set m" for p
    using Cons.prems ig by auto
  let ?c = "fresh (su_serial t)"
  let ?t = "update_group i (\<lambda>x. x\<lparr>gp_channel := Some ?c\<rparr>)
       (snd (insert_channel fresh (event_channel org ev (gp_name g) False (Some (parent_channel cmd m g))) t))"
  have m: "al_set i ?c m = m @ [(i, ?c)]" by (rule al_set_new [OF a(1)])
  have d: "distinct (map fst gs)" "fst ` set (m @ [(i, ?c)]) \<inter> fst ` set gs = {}" using after_distinct [OF a(2)] by auto
  have M: "fst (group_channels fresh org ev cmd gs (m @ [(i, ?c)], ?t))
      = m @ ((i, ?c) # zip (map fst gs) (draws fresh (su_serial ?t) (length gs)))"
    unfolding group_channels_map(1) [OF d] by simp
  have "parent_channel cmd (fst (group_channels fresh org ev cmd gs (m @ [(i, ?c)], ?t))) g = parent_channel cmd m g"
    unfolding M by (rule parent_channel_append) (rule a(3))
  moreover have "after (fst ` set (m @ [(i, ?c)])) gs" using a(2) by simp
  ultimately show ?case using Cons.IH [of "m @ [(i, ?c)]" ?t]
    unfolding ig group_channels_step m by (simp add: draws_Suc)
qed simp

lemma group_channels_groups:
  assumes "distinct (map fst gs)" "fst ` set m \<inter> fst ` set gs = {}"
  shows "al_get (su_groups (snd (group_channels fresh org ev cmd gs (m, t)))) j = map_option
      (\<lambda>g. if j \<in> fst ` set gs then g\<lparr>gp_channel := al_get (zip (map fst gs) (draws fresh (su_serial t) (length gs))) j\<rparr> else g)
      (al_get (su_groups t) j)"
  using assms
proof (induction gs arbitrary: m t)
  case (Cons ig gs)
  obtain i g where ig: "ig = (i, g)" by fastforce
  let ?c = "fresh (su_serial t)"
  have m: "al_set i ?c m = m @ [(i, ?c)]" using Cons.prems ig by (intro al_set_new) auto
  have d: "distinct (map fst gs)" "fst ` set (m @ [(i, ?c)]) \<inter> fst ` set gs = {}" "i \<notin> fst ` set gs" using Cons.prems ig by auto
  show ?case unfolding ig group_channels_step m Cons.IH [OF d(1,2)] using d(3)
    by (cases "al_get (su_groups t) j") (auto simp: draws_Suc)
qed (simp add: option.map_id0 [unfolded id_def])

lemma frequency_channels_rows:
  "fst (frequency_channels fresh org ev cmd fs (cs, t)) = cs @ draws fresh (su_serial t) (length fs)"
  "su_channels (snd (frequency_channels fresh org ev cmd fs (cs, t))) = su_channels t
     @ map (\<lambda>((i, f), c). (c, event_channel org ev (fq_name f) True (Some cmd))) (zip fs (draws fresh (su_serial t) (length fs)))"
  "su_groups (snd (frequency_channels fresh org ev cmd fs (cs, t))) = su_groups t"
  "su_events (snd (frequency_channels fresh org ev cmd fs (cs, t))) = su_events t"
  by (induction fs arbitrary: cs t) (auto simp: case_prod_beta Let_def draws_Suc)

section \<open>The published tree\<close>

text \<open>Well-formed: the command channel alone has no parent, every other entry follows its parent, one tier below it unless it is a
  frequency, and no identifier appears twice.  The list holds what came before.\<close>

fun tree_ok :: "(string, int) jsmap \<Rightarrow> tree_entry list \<Rightarrow> bool" where
  "tree_ok seen [] \<longleftrightarrow> True"
| "tree_ok seen (e # es) \<longleftrightarrow> te_id e \<notin> fst ` set seen
     \<and> (case te_parent e of None \<Rightarrow> seen = [] \<and> te_tier e = 0
        | Some p \<Rightarrow> (case al_get seen p of None \<Rightarrow> False | Some k \<Rightarrow> te_frequency e \<or> te_tier e = k + 1))
     \<and> tree_ok (seen @ [(te_id e, te_tier e)]) es"

lemma those_map: "(\<And>x. x \<in> set xs \<Longrightarrow> f x = Some (g x)) \<Longrightarrow> those (map f xs) = Some (map g xs)"
  by (induction xs) auto

lemma al_get_inj:
  "inj_on chan (fst ` set pre) \<Longrightarrow> p \<in> fst ` set pre \<Longrightarrow> al_get (map (\<lambda>(i, g). (chan i, f i)) pre) (chan p) = Some (f p)"
proof (induction pre)
  case (Cons ig pre)
  obtain i g where ig: "ig = (i, g)" by fastforce
  show ?case
  proof (cases "chan i = chan p")
    case True
    then have "i = p" using Cons.prems ig by (auto dest: inj_onD)
    then show ?thesis using ig by simp
  qed (use Cons ig in \<open>auto simp: inj_on_def\<close>)
qed simp

definition entry_of :: "(string, op_group) jsmap \<Rightarrow> string \<Rightarrow> (string, string) jsmap \<Rightarrow> string \<times> op_group \<Rightarrow> tree_entry" where
  "entry_of rows cmd m ig = \<lparr>te_id = or_else (al_get m (fst ig)) [], te_parent = Some (parent_channel cmd m (snd ig)),
     te_tier = tier_of rows (fst ig), te_leader = str_or_null (gp_leader (snd ig)), te_frequency = False\<rparr>"

definition frequency_entry :: "string \<Rightarrow> string \<Rightarrow> tree_entry" where
  "frequency_entry cmd c = \<lparr>te_id = c, te_parent = Some cmd, te_tier = 99, te_leader = None, te_frequency = True\<rparr>"

lemma tree_groups:
  assumes "after (fst ` set pre) post" "inj_on chan (fst ` set (pre @ post))" "cmd \<notin> chan ` fst ` set (pre @ post)"
    and "\<And>i. i \<in> fst ` set (pre @ post) \<Longrightarrow> al_get m i = Some (chan i)"
    and "\<And>i g. (i, g) \<in> set post \<Longrightarrow> tier_of rows i = (case gp_parent g of None \<Rightarrow> 1 | Some p \<Rightarrow> tier_of rows p + 1)"
    and "tree_ok ((cmd, 0) # map (\<lambda>(i, g). (chan i, tier_of rows i)) (pre @ post)) rest"
  shows "tree_ok ((cmd, 0) # map (\<lambda>(i, g). (chan i, tier_of rows i)) pre) (map (entry_of rows cmd m) post @ rest)"
  using assms
proof (induction post arbitrary: pre)
  case (Cons ig post)
  obtain i g where ig: "ig = (i, g)" by fastforce
  have a: "i \<notin> fst ` set pre" "after (fst ` set (pre @ [ig])) post" using Cons.prems(1) ig by auto
  have id: "te_id (entry_of rows cmd m ig) = chan i" using Cons.prems(4) [of i] ig by (simp add: entry_of_def)
  have new: "chan i \<noteq> cmd" "chan i \<notin> chan ` fst ` set pre"
    using Cons.prems(2,3) a(1) ig by (auto simp: inj_on_def)
  have rest: "tree_ok ((cmd, 0) # map (\<lambda>(i, g). (chan i, tier_of rows i)) (pre @ [ig])) (map (entry_of rows cmd m) post @ rest)"
    by (rule Cons.IH [OF a(2)]) (use Cons.prems in auto)
  have par: "case al_get ((cmd, 0) # map (\<lambda>(i, g). (chan i, tier_of rows i)) pre) (parent_channel cmd m g) of None \<Rightarrow> False
      | Some k \<Rightarrow> tier_of rows i = k + 1"
  proof (cases "gp_parent g")
    case (Some p)
    then have p: "p \<in> fst ` set pre" using Cons.prems(1) ig by simp
    then have "p \<in> fst ` set (pre @ ig # post)" by auto
    then have "parent_channel cmd m g = chan p" using Cons.prems(4) [of p] Some by (simp add: parent_channel_def)
    moreover have "inj_on chan (fst ` set pre)" using Cons.prems(2) by (rule inj_on_subset) auto
    moreover have "chan p \<noteq> cmd" using Cons.prems(3) p by auto
    ultimately show ?thesis using Cons.prems(5) [of i g] ig Some al_get_inj [OF _ p, of chan "tier_of rows"] by simp
  qed (use Cons.prems(5) [of i g] ig in \<open>simp add: parent_channel_def\<close>)
  have "chan i \<notin> fst ` set ((cmd, 0) # map (\<lambda>(i, g). (chan i, tier_of rows i)) pre)" using new by force
  moreover have "te_parent (entry_of rows cmd m ig) = Some (parent_channel cmd m g)" "te_tier (entry_of rows cmd m ig) = tier_of rows i"
    using ig by (simp_all add: entry_of_def)
  moreover obtain k where "al_get ((cmd, 0) # map (\<lambda>(i, g). (chan i, tier_of rows i)) pre) (parent_channel cmd m g) = Some k"
      "tier_of rows i = k + 1"
    using par by (auto simp del: al_get.simps split: option.splits)
  ultimately show ?case using rest id ig by (simp del: al_get.simps)
qed simp

lemma tree_frequencies:
  "distinct cs \<Longrightarrow> set cs \<inter> fst ` set seen = {} \<Longrightarrow> cmd \<in> fst ` set seen \<Longrightarrow> tree_ok seen (map (frequency_entry cmd) cs)"
proof (induction cs arbitrary: seen)
  case (Cons c cs)
  have "al_get seen cmd \<noteq> None" using Cons.prems(3) al_get_None by metis
  moreover have "tree_ok (seen @ [(c, 99)]) (map (frequency_entry cmd) cs)" using Cons.prems by (intro Cons.IH) auto
  moreover have "te_id (frequency_entry cmd c) = c" "te_parent (frequency_entry cmd c) = Some cmd" "te_frequency (frequency_entry cmd c)"
      "te_tier (frequency_entry cmd c) = 99"
    by (simp_all add: frequency_entry_def)
  ultimately show ?case using Cons.prems(2) by (auto split: option.split)
qed simp

lemma inj_draws: "inj fresh \<Longrightarrow> distinct (draws fresh s n)"
  by (auto simp: draws_def distinct_map intro: inj_on_subset)

lemma set_draws: "set (draws fresh s n) = fresh ` {s..<s + n}"
  by (simp add: draws_def)

lemma zip_gets: "k \<in> set ks \<Longrightarrow> length ks = length vs \<Longrightarrow> \<exists>v\<in>set vs. al_get (zip ks vs) k = Some v"
  by (induction ks vs rule: list_induct2') auto

lemma zip_inj:
  "distinct ks \<Longrightarrow> distinct vs \<Longrightarrow> length ks = length vs \<Longrightarrow> inj_on (\<lambda>k. or_else (al_get (zip ks vs) k) []) (set ks)"
proof (induction ks vs rule: list_induct2')
  case (4 k ks v vs)
  have "or_else (al_get (zip ks vs) j) [] \<noteq> v" if "j \<in> set ks" for j
    using zip_gets [OF that, of vs] 4(3,4) by auto
  then show ?case using 4 by (auto simp: inj_on_def)
qed simp_all

text \<open>What a launch writes, in closed form.\<close>

lemma launch_write_form:
  assumes "after {} pushed" and s_def: "s = su_serial t"
    and m_def: "m = zip (map fst pushed) (draws fresh (Suc s) (length pushed))"
  obtains freqs t' where "launch_write fresh org ev n pushed t = (fresh s, m, freqs, t')"
    "freqs = draws fresh (Suc s + length pushed) (length (event_frequencies ev t))"
    "su_channels t' = su_channels t @ [(fresh s, event_channel org ev (n @ '' - COMMAND'') False None)]
       @ map (\<lambda>((i, g), c). (c, event_channel org ev (gp_name g) False (Some (parent_channel (fresh s) m g)))) (zip pushed (draws fresh (Suc s) (length pushed)))
       @ map (\<lambda>((i, f), c). (c, event_channel org ev (fq_name f) True (Some (fresh s)))) (zip (event_frequencies ev t) freqs)"
    "\<And>j. al_get (su_groups t') j = map_option (\<lambda>g. if j \<in> fst ` set pushed then g\<lparr>gp_channel := al_get m j\<rparr> else g) (al_get (su_groups t) j)"
    "\<And>j. al_get (su_events t') j = map_option (\<lambda>e. if j = ev then e\<lparr>oe_launched := True, oe_command_channel := Some (fresh s)\<rparr> else e)
       (al_get (su_events t) j)"
proof -
  let ?t1 = "snd (insert_channel fresh (event_channel org ev (n @ '' - COMMAND'') False None) t)"
  let ?r = "group_channels fresh org ev (fresh s) pushed ([], ?t1)"
  let ?fs = "event_frequencies ev t"
  let ?q = "frequency_channels fresh org ev (fresh s) ?fs ([], snd ?r)"
  have d: "distinct (map fst pushed)" "fst ` set [] \<inter> fst ` set pushed = {}" using after_distinct [OF assms(1)] by simp_all
  note g = group_channels_map [OF d, of fresh org ev "fresh s" ?t1]
  have fs: "event_frequencies ev (snd ?r) = ?fs" using g(3) by (simp add: event_frequencies_def)
  have w: "launch_write fresh org ev n pushed t = (fresh s, fst ?r, fst ?q,
      update_event ev (\<lambda>e. e\<lparr>oe_launched := True, oe_command_channel := Some (fresh s)\<rparr>) (snd ?q))"
    by (simp add: launch_write_def Let_def case_prod_beta s_def fs [unfolded s_def])
  have m: "fst ?r = m" using g(1) by (simp add: m_def s_def)
  have serial: "su_serial (snd ?r) = Suc s + length pushed" using g(2) by (simp add: s_def)
  have ev: "su_events (snd ?q) = su_events t" using g(4) by (simp add: frequency_channels_rows)
  have rows: "su_channels (snd ?r) = su_channels ?t1 @ map (\<lambda>((i, g), c). (c, event_channel org ev (gp_name g) False
      (Some (parent_channel (fresh s) m g)))) (zip pushed (draws fresh (Suc s) (length pushed)))"
    using group_channels_rows [of "[]" pushed fresh org ev "fresh s" ?t1] assms(1) unfolding m by (simp add: s_def)
  show thesis
  proof (rule that [OF w [unfolded m]])
    show "fst ?q = draws fresh (Suc s + length pushed) (length ?fs)" by (simp add: frequency_channels_rows serial)
    then show "su_channels (update_event ev (\<lambda>e. e\<lparr>oe_launched := True, oe_command_channel := Some (fresh s)\<rparr>) (snd ?q)) =
       su_channels t @ [(fresh s, event_channel org ev (n @ '' - COMMAND'') False None)]
       @ map (\<lambda>((i, g), c). (c, event_channel org ev (gp_name g) False (Some (parent_channel (fresh s) m g)))) (zip pushed (draws fresh (Suc s) (length pushed)))
       @ map (\<lambda>((i, f), c). (c, event_channel org ev (fq_name f) True (Some (fresh s)))) (zip ?fs (fst ?q))"
      by (simp add: update_event_def frequency_channels_rows serial [unfolded s_def] rows [unfolded s_def] s_def)
    show "al_get (su_groups (update_event ev (\<lambda>e. e\<lparr>oe_launched := True, oe_command_channel := Some (fresh s)\<rparr>) (snd ?q))) j
        = map_option (\<lambda>g. if j \<in> fst ` set pushed then g\<lparr>gp_channel := al_get m j\<rparr> else g) (al_get (su_groups t) j)" for j
    proof -
      have m: "zip (map fst pushed) (draws fresh (su_serial ?t1) (length pushed)) = m" by (simp add: m_def s_def)
      show ?thesis using group_channels_groups [OF d, of fresh org ev "fresh s" ?t1 j] unfolding m
        by (simp add: update_event_def frequency_channels_rows)
    qed
    show "al_get (su_events (update_event ev (\<lambda>e. e\<lparr>oe_launched := True, oe_command_channel := Some (fresh s)\<rparr>) (snd ?q))) j
        = map_option (\<lambda>e. if j = ev then e\<lparr>oe_launched := True, oe_command_channel := Some (fresh s)\<rparr> else e) (al_get (su_events t) j)" for j
      by (simp add: update_event_def al_get_map ev)
  qed
qed

definition mirrors :: "string \<Rightarrow> signups \<Rightarrow> string \<times> op_group \<Rightarrow> tree_entry \<Rightarrow> bool" where
  "mirrors ev t' ig en \<longleftrightarrow> (case ig of (i, g) \<Rightarrow> al_get (su_groups t') i = Some (g\<lparr>gp_channel := Some (te_id en)\<rparr>)
     \<and> \<not> te_frequency en \<and> te_leader en = str_or_null (gp_leader g)
     \<and> te_parent en = (case gp_parent g of None \<Rightarrow> Option.bind (al_get (su_events t') ev) oe_command_channel
        | Some p \<Rightarrow> Option.bind (al_get (su_groups t') p) gp_channel))"

definition channel_view :: "string \<times> op_channel \<Rightarrow> string \<times> string option \<times> bool" where
  "channel_view ic = (fst ic, oc_parent (snd ic), oc_frequency (snd ic))"

definition entry_view :: "tree_entry \<Rightarrow> string \<times> string option \<times> bool" where
  "entry_view en = (te_id en, te_parent en, te_frequency en)"

lemma zip_get_nth: "distinct ks \<Longrightarrow> length ks = length vs \<Longrightarrow> k < length ks \<Longrightarrow> al_get (zip ks vs) (ks ! k) = Some (vs ! k)"
  by (induction ks vs arbitrary: k rule: list_induct2') (auto simp: nth_Cons' nth_mem split: if_splits)

lemma launched_views:
  assumes "distinct (map fst pushed)" "m = zip (map fst pushed) cs" "length cs = length pushed"
  shows "map channel_view (map (\<lambda>((i, g), c). (c, event_channel org ev (gp_name g) False (Some (parent_channel cmd m g)))) (zip pushed cs))
    = map entry_view (map (entry_of rows cmd m) pushed)"
proof -
  have "al_get m (fst (pushed ! k)) = Some (cs ! k)" if "k < length pushed" for k
    using that assms zip_get_nth [of "map fst pushed" cs k] by simp
  then show ?thesis using assms(3)
    by (intro nth_equalityI) (auto simp: channel_view_def entry_view_def entry_of_def event_channel_def case_prod_beta)
qed

lemma frequency_views:
  "length cs = length fs \<Longrightarrow> map channel_view (map (\<lambda>((i, f), c). (c, event_channel org ev (fq_name f) True (Some cmd))) (zip fs cs))
    = map entry_view (map (frequency_entry cmd) cs)"
  by (intro nth_equalityI) (auto simp: channel_view_def entry_view_def frequency_entry_def event_channel_def case_prod_beta)

definition launched_tree :: "(string, op_group) jsmap \<Rightarrow> string \<Rightarrow> (string, string) jsmap \<Rightarrow> (string \<times> op_group) list \<Rightarrow> string list \<Rightarrow> tree_entry list" where
  "launched_tree rows cmd m pushed freqs = \<lparr>te_id = cmd, te_parent = None, te_tier = 0, te_leader = None, te_frequency = False\<rparr>
     # map (entry_of rows cmd m) pushed @ map (frequency_entry cmd) freqs"

lemma published_tree:
  assumes "ranked rank rows" "set pushed = set rows"
  shows "channel_tree (Suc (length rows)) rows cmd m pushed freqs = Some (launched_tree rows cmd m pushed freqs)"
proof -
  have "group_entry (Suc (length rows)) rows cmd m ig = Some (entry_of rows cmd m ig)" if "ig \<in> set pushed" for ig
    using that tier_of(1) [OF assms(1), of "fst ig" "snd ig"] assms(2) by (simp add: group_entry_def entry_of_def del: computeTier.simps)
  then have "those (map (group_entry (Suc (length rows)) rows cmd m) pushed) = Some (map (entry_of rows cmd m) pushed)"
    by (rule those_map)
  then show ?thesis by (simp add: channel_tree_def launched_tree_def frequency_entry_def [abs_def])
qed

lemma zip_channel:
  assumes "m = zip (map fst pushed) cs" "length cs = length pushed" "i \<in> fst ` set pushed"
  shows "al_get m i = Some (or_else (al_get m i) [])" "or_else (al_get m i) [] \<in> set cs"
  using zip_gets [of i "map fst pushed" cs] assms by auto

lemma launched_tree_ok:
  assumes "ranked rank rows" "after {} pushed" "set pushed = set rows" "m = zip (map fst pushed) cs" "length cs = length pushed"
    and "distinct cs" "cmd \<notin> set cs" "distinct freqs" "set freqs \<inter> insert cmd (set cs) = {}"
  shows "tree_ok [] (launched_tree rows cmd m pushed freqs)"
proof -
  define chan where "chan = (\<lambda>i. or_else (al_get m i) [])"
  let ?seen = "(cmd, 0) # map (\<lambda>(i, g). (chan i, tier_of rows i)) pushed"
  have chan: "al_get m i = Some (chan i)" "chan i \<in> set cs" if "i \<in> fst ` set pushed" for i
    using zip_channel [OF assms(4,5) that] by (simp_all add: chan_def)
  have inj: "inj_on chan (fst ` set pushed)"
    using zip_inj [of "map fst pushed" cs] after_distinct [OF assms(2)] assms(4-6) by (simp add: chan_def)
  have away: "cmd \<notin> chan ` fst ` set pushed"
  proof
    assume "cmd \<in> chan ` fst ` set pushed"
    then obtain i where "i \<in> fst ` set pushed" "cmd = chan i" by (rule imageE)
    then show False using chan(2) [of i] assms(7) by simp
  qed
  have "fst ` set ?seen \<subseteq> insert cmd (set cs)" using chan(2) by force
  then have "set freqs \<inter> fst ` set ?seen = {}" using assms(9) by blast
  then have "tree_ok ?seen (map (frequency_entry cmd) freqs)" by (rule tree_frequencies [OF assms(8)]) simp
  then have rest: "tree_ok ((cmd, 0) # map (\<lambda>(i, g). (chan i, tier_of rows i)) ([] @ pushed)) (map (frequency_entry cmd) freqs)"
    by simp
  have "tree_ok ((cmd, 0) # map (\<lambda>(i, g). (chan i, tier_of rows i)) ([] :: (string \<times> op_group) list))
      (map (entry_of rows cmd m) pushed @ map (frequency_entry cmd) freqs)"
    by (rule tree_groups [where pre = "[]" and chan = chan, OF _ _ _ _ _ rest])
      (use assms(2,3) inj chan(1) away tier_of(2) [OF assms(1)] in auto)
  then show ?thesis by (simp add: launched_tree_def)
qed

lemma command_view:
  "channel_view (cmd, event_channel org ev n False None)
     = entry_view \<lparr>te_id = cmd, te_parent = None, te_tier = 0, te_leader = None, te_frequency = False\<rparr>"
  by (simp add: channel_view_def entry_view_def event_channel_def)

lemma launched_mirrors:
  assumes "ranked rank (event_rows ev t)" "distinct (map fst (su_groups t))" "set pushed = set (event_rows ev t)"
    and m: "m = zip (map fst pushed) cs" "length cs = length pushed"
    and groups: "\<And>j. al_get (su_groups t') j = map_option (\<lambda>g. if j \<in> fst ` set pushed then g\<lparr>gp_channel := al_get m j\<rparr> else g) (al_get (su_groups t) j)"
    and command: "Option.bind (al_get (su_events t') ev) oe_command_channel = Some cmd"
    and ig: "(i, g) \<in> set (event_rows ev t)"
  shows "mirrors ev t' (i, g) (entry_of (event_rows ev t) cmd m (i, g))"
proof -
  have row: "al_get (su_groups t) j = Some h" "j \<in> fst ` set pushed" if "(j, h) \<in> set (event_rows ev t)" for j h
    using that assms(2,3) by (auto simp: distinct_get event_rows_def image_iff)
  note i = row [OF ig] and c = zip_channel(1) [OF m]
  show ?thesis
  proof (cases "gp_parent g")
    case None
    then show ?thesis using i c [OF i(2)] command by (simp add: mirrors_def entry_of_def groups parent_channel_def)
  next
    case (Some p)
    then obtain h where h: "(p, h) \<in> set (event_rows ev t)" using ranked_parent [OF assms(1) ig] by force
    obtain d where "al_get m p = Some d" using c [OF row(2) [OF h]] by (rule that)
    then show ?thesis using i row [OF h] c [OF i(2)] Some
      by (simp add: mirrors_def entry_of_def groups parent_channel_def)
  qed
qed

text \<open>C28: a launch turns the plan of an operation into channels: when the groups form a forest the sort returns, the transaction runs,
  and the tree published for the media service is well-formed (parents first, each one tier above its children, no
  identifier twice), is row by row what was written to the channel table, and has for every group one entry that
  carries its leader and hangs under its parent's channel, or under the command channel.\<close>

theorem launched_tree_mirrors_plan:
  assumes "inj fresh" "ranked rank (event_rows ev t)" "distinct (map fst (su_groups t))"
    and "u \<noteq> []" "canManageThisEvent u org ev t" "al_get (su_events t) ev = Some e" "oe_org e = org" "\<not> oe_launched e"
  shows "\<exists>tree t'. launchEvent fresh org ev (Some u) t = (Answered ''Operation launched'', launch_events org ev tree, t')
    \<and> tree_ok [] tree
    \<and> map channel_view (drop (length (su_channels t)) (su_channels t')) = map entry_view tree
    \<and> list_all (\<lambda>ig. list_ex (mirrors ev t' ig) tree) (event_rows ev t)"
proof -
  let ?rows = "event_rows ev t" and ?s = "su_serial t" and ?cmd = "fresh (su_serial t)"
  obtain pushed where v: "sort_groups (Suc (length ?rows)) ?rows ?rows [] = Some pushed" "after {} pushed" "set pushed = set ?rows"
      "distinct (map fst pushed)"
    using launch_sort [OF assms(2)] .
  define cs where "cs = draws fresh (Suc ?s) (length pushed)"
  define m where "m = zip (map fst pushed) cs"
  obtain freqs t' where w: "launch_write fresh org ev (oe_name e) pushed t = (?cmd, m, freqs, t')"
      "freqs = draws fresh (Suc ?s + length pushed) (length (event_frequencies ev t))"
      "su_channels t' = su_channels t @ [(?cmd, event_channel org ev (oe_name e @ '' - COMMAND'') False None)]
       @ map (\<lambda>((i, g), c). (c, event_channel org ev (gp_name g) False (Some (parent_channel ?cmd m g)))) (zip pushed cs)
       @ map (\<lambda>((i, f), c). (c, event_channel org ev (fq_name f) True (Some ?cmd))) (zip (event_frequencies ev t) freqs)"
      "\<And>j. al_get (su_groups t') j = map_option (\<lambda>g. if j \<in> fst ` set pushed then g\<lparr>gp_channel := al_get m j\<rparr> else g) (al_get (su_groups t) j)"
      "\<And>j. al_get (su_events t') j = map_option (\<lambda>e. if j = ev then e\<lparr>oe_launched := True, oe_command_channel := Some ?cmd\<rparr> else e)
       (al_get (su_events t) j)"
    using launch_write_form [where org = org and ev = ev and n = "oe_name e" and t = t, OF v(2) refl m_def [unfolded cs_def], folded cs_def]
    by blast
  let ?tree = "launched_tree ?rows ?cmd m pushed freqs"
  have answer: "launchEvent fresh org ev (Some u) t = (Answered ''Operation launched'', launch_events org ev ?tree, t')"
    using assms(4-8) v(1) w(1) published_tree [OF assms(2) v(3)]
    by (simp add: launchEvent_def with_user_def Let_def del: sort_groups.simps)
  have cs: "length cs = length pushed" "distinct cs" "?cmd \<notin> set cs" "distinct freqs" "set freqs \<inter> insert ?cmd (set cs) = {}"
    using inj_draws [OF assms(1)] assms(1) by (auto simp: cs_def w(2) set_draws dest!: injD [OF assms(1)])
  have len: "length freqs = length (event_frequencies ev t)" by (simp add: w(2))
  have "map channel_view (drop (length (su_channels t)) (su_channels t')) = map entry_view ?tree"
    by (simp add: w(3) launched_tree_def command_view launched_views [OF v(4) m_def cs(1), where rows = ?rows] frequency_views [OF len]
      del: map_map)
  moreover have "list_ex (mirrors ev t' (i, g)) ?tree" if "(i, g) \<in> set ?rows" for i g
    using launched_mirrors [OF assms(2,3) v(3) m_def cs(1) w(4) _ that, of ?cmd] w(5) [of ev] assms(6) that v(3)
    by (auto simp: list_ex_iff launched_tree_def)
  ultimately show ?thesis using answer launched_tree_ok [OF assms(2) v(2,3) m_def cs] by (auto simp: list_all_iff)
qed

lemma launched_tree_mirrors_plan_witness:
  "\<exists>tree t'. launchEvent (\<lambda>n. replicate n CHR ''x'') ''o1'' ''e1'' (Some ''boss'') toy_ops
      = (Answered ''Operation launched'', launch_events ''o1'' ''e1'' tree, t')
    \<and> tree_ok [] tree
    \<and> map channel_view (drop (length (su_channels toy_ops)) (su_channels t')) = map entry_view tree
    \<and> list_all (\<lambda>ig. list_ex (mirrors ''e1'' t' ig) tree) (event_rows ''e1'' toy_ops)"
proof (rule launched_tree_mirrors_plan)
  show "inj (\<lambda>n. replicate n CHR ''x'')" by (rule injI) (metis length_replicate)
  show "ranked (\<lambda>i. if i = ''g2'' then 1 else 0) (event_rows ''e1'' toy_ops)" by code_simp
  show "distinct (map fst (su_groups toy_ops))" by code_simp
  show "canManageThisEvent ''boss'' ''o1'' ''e1'' toy_ops" by code_simp
  show "al_get (su_events toy_ops) ''e1'' = Some toy_event" "oe_org toy_event = ''o1''" by (rule toy_open_event)+
  show "\<not> oe_launched toy_event" by code_simp
qed simp

end
