(* ===== verification/Event_End_Props.thy ===== *)
theory Event_End_Props
  imports Event_Launch_Props
begin

text \<open>
  The end of an operation: whoever was in one of its channels is in the destination afterwards, in the table of subscriptions
  and in the presence map, nobody else moved, and eight seconds later its channels are gone.
\<close>

section \<open>Subscriptions\<close>

definition subscribed :: "string \<Rightarrow> string \<Rightarrow> (string \<times> string \<times> string) list \<Rightarrow> bool" where
  "subscribed org v subs \<longleftrightarrow> (v, org) \<in> (\<lambda>(v, o', c). (v, o')) ` set subs"

lemma subscribe_moves:
  "subscribed org u subs \<Longrightarrow> subscribe org to' u subs = map (\<lambda>(v, o', c). (v, o', if v = u \<and> o' = org then to' else c)) subs"
  by (force simp: subscribe_def subscribed_def list_ex_iff)

lemma subscribed_map: "subscribed org v (map (\<lambda>(v, o', c). (v, o', f v o' c)) subs) \<longleftrightarrow> subscribed org v subs"
  by (force simp: subscribed_def)

lemma subscribe_all:
  assumes "list_all (\<lambda>(u, c, n). subscribed org u subs) rows"
  shows "fold (\<lambda>(u, _, _). subscribe org to' u) rows subs
    = map (\<lambda>(v, o', c). (v, o', if o' = org \<and> v \<in> fst ` set rows then to' else c)) subs"
  using assms
proof (induction rows arbitrary: subs)
  case (Cons row rows)
  obtain u c n where row: "row = (u, c, n)" by (metis prod.exhaust)
  let ?subs = "map (\<lambda>(v, o', c). (v, o', if v = u \<and> o' = org then to' else c)) subs"
  have "list_all (\<lambda>(u, c, n). subscribed org u ?subs) rows"
    using Cons.prems subscribed_map [of org _ "\<lambda>v o' c. if v = u \<and> o' = org then to' else c" subs] by (auto simp: list_all_iff)
  from Cons.IH [OF this] show ?case using Cons.prems row by (auto simp: subscribe_moves list_all_iff)
qed (simp add: case_prod_beta)

section \<open>Presence\<close>

definition present :: "string \<Rightarrow> string \<Rightarrow> presence \<Rightarrow> bool" where
  "present v c p \<longleftrightarrow> (case al_get p c of None \<Rightarrow> False | Some m \<Rightarrow> v \<in> fst ` set m)"

lemma present_move:
  assumes "old \<noteq> to'"
  shows "present v c (move_presence to' (u, old, n) p) \<longleftrightarrow> v = u \<and> c = to' \<or> present v c p \<and> \<not> (v = u \<and> c = old)"
proof -
  define p1 where "p1 = (case al_get p old of None \<Rightarrow> p
     | Some m \<Rightarrow> (let m' = al_del u m in if m' = [] then al_del old p else al_set old m' p))"
  define p2 where "p2 = (if al_has p1 to' then p1 else al_set to' [] p1)"
  have move: "move_presence to' (u, old, n) p = al_set to' (al_set u n (or_else (al_get p2 to') [])) p2"
    by (simp add: move_presence_def p1_def p2_def Let_def)
  have "present v c p1 \<longleftrightarrow> present v c p \<and> \<not> (v = u \<and> c = old)"
  proof (cases "al_get p old")
    case (Some m)
    have "al_del u m = [] \<longleftrightarrow> fst ` set m - {u} = {}" using keys_al_del [of u m] by fastforce
    then show ?thesis using Some by (auto simp: p1_def present_def Let_def keys_al_del)
  qed (auto simp: p1_def present_def)
  moreover have "present v c p2 \<longleftrightarrow> present v c p1"
    by (auto simp: p2_def present_def al_has_def)
  moreover have "present v c (al_set to' (al_set u n (or_else (al_get p2 to') [])) p2) \<longleftrightarrow> v = u \<and> c = to' \<or> present v c p2"
    by (cases "al_get p2 to'") (auto simp: present_def keys_al_set)
  ultimately show ?thesis using assms unfolding move by auto
qed

lemma present_moves:
  "to' \<notin> (\<lambda>(u, c, n). c) ` set rows \<Longrightarrow> present v c (fold (move_presence to') rows p)
     \<longleftrightarrow> c = to' \<and> v \<in> fst ` set rows \<or> present v c p \<and> (v, c) \<notin> (\<lambda>(u, c, n). (u, c)) ` set rows"
proof (induction rows arbitrary: p)
  case (Cons row rows)
  obtain u old n where row: "row = (u, old, n)" by (metis prod.exhaust)
  have "old \<noteq> to'" "to' \<notin> (\<lambda>(u, c, n). c) ` set rows" using Cons.prems row by auto
  moreover from this(2) have "(x, to', b) \<notin> set rows" for x b by force
  ultimately show ?case using Cons.IH [of "move_presence to' row p"] present_move [of old to'] unfolding row by auto
qed simp

section \<open>The move\<close>

text \<open>Rows of \<open>channel_subscriptions\<close>: one per user and organisation, and a channel's subscribers are of its organisation.\<close>

definition subscriptions_ok :: "string \<Rightarrow> string list \<Rightarrow> (string \<times> string \<times> string) list \<Rightarrow> bool" where
  "subscriptions_ok org ids subs \<longleftrightarrow> distinct (map (\<lambda>(v, o', c). (v, o')) subs) \<and> list_all (\<lambda>(v, o', c). c \<in> set ids \<longrightarrow> o' = org) subs"

definition relocated :: "string list \<Rightarrow> string \<Rightarrow> (string \<times> string \<times> string) list \<Rightarrow> (string \<times> string \<times> string) list" where
  "relocated ids to' subs = map (\<lambda>(v, o', c). (v, o', if c \<in> set ids then to' else c)) subs"

definition in_channels :: "string list \<Rightarrow> string \<Rightarrow> (string \<times> string \<times> string) list \<Rightarrow> bool" where
  "in_channels ids v subs \<longleftrightarrow> list_ex (\<lambda>(u, o', c). u = v \<and> c \<in> set ids) subs"

lemma subscriptions_key:
  assumes "subscriptions_ok org ids subs" "(v, o', c) \<in> set subs" "(v, o', c') \<in> set subs"
  shows "c = c'"
proof -
  have "inj_on (\<lambda>(v, o', c). (v, o')) (set subs)" using assms(1) by (simp add: subscriptions_ok_def distinct_map)
  from inj_onD [OF this, of "(v, o', c)" "(v, o', c')"] show ?thesis using assms(2,3) by simp
qed

lemma bulkMoveUsers_effect:
  assumes "subscriptions_ok org ids (su_subscriptions t)" "to' \<notin> set ids"
    and "bulkMoveUsers names org ids to' (p, t) = (evs, p', t')"
  shows "t' = t\<lparr>su_subscriptions := relocated ids to' (su_subscriptions t)\<rparr>"
    and "present v c p' \<longleftrightarrow> c = to' \<and> in_channels ids v (su_subscriptions t)
      \<or> present v c p \<and> \<not> (c \<in> set ids \<and> (v, org, c) \<in> set (su_subscriptions t))"
proof -
  let ?subs = "su_subscriptions t"
  let ?rows = "map (\<lambda>(u, o', c). (u, c, names u)) (filter (\<lambda>(u, o', c). c \<in> set ids) ?subs)"
  have mine: "o' = org" if "(v, o', c) \<in> set ?subs" "c \<in> set ids" for v o' c
    using assms(1) that by (auto simp: subscriptions_ok_def list_all_iff)
  have users: "v \<in> fst ` set ?rows \<longleftrightarrow> in_channels ids v ?subs" for v
    by (force simp: in_channels_def list_ex_iff)
  have moved: "(v, c) \<in> (\<lambda>(u, c, n). (u, c)) ` set ?rows \<longleftrightarrow> c \<in> set ids \<and> (v, org, c) \<in> set ?subs" for v c
  proof -
    have "(v, c) \<in> (\<lambda>(u, c, n). (u, c)) ` set ?rows \<longleftrightarrow> c \<in> set ids \<and> (\<exists>o'. (v, o', c) \<in> set ?subs)" by force
    then show ?thesis using mine [of v _ c] by auto
  qed
  have "list_all (\<lambda>(u, c, n). subscribed org u ?subs) ?rows"
    unfolding list_all_iff subscribed_def
  proof (intro ballI, clarsimp)
    fix u o' c assume "(u, o', c) \<in> set ?subs" "c \<in> set ids"
    moreover from this have "o' = org" by (rule mine)
    ultimately show "(u, org) \<in> (\<lambda>(v, o', c). (v, o')) ` set ?subs" by force
  qed
  note all = subscribe_all [OF this, of to']
  have "(if o' = org \<and> v \<in> fst ` set ?rows then to' else c) = (if c \<in> set ids then to' else c)" if "(v, o', c) \<in> set ?subs" for v o' c
  proof -
    have "o' = org \<and> in_channels ids v ?subs \<longleftrightarrow> c \<in> set ids"
    proof
      assume here: "o' = org \<and> in_channels ids v ?subs"
      then obtain o2 c2 where two: "(v, o2, c2) \<in> set ?subs" "c2 \<in> set ids" by (auto simp: in_channels_def list_ex_iff)
      moreover have "o2 = o'" using mine [OF two] here by simp
      ultimately show "c \<in> set ids" using subscriptions_key [OF assms(1) that, of c2] by simp
    next
      assume "c \<in> set ids"
      then show "o' = org \<and> in_channels ids v ?subs" using mine [OF that] that by (auto simp: in_channels_def list_ex_iff)
    qed
    then show ?thesis unfolding users by simp
  qed
  then have relocate: "fold (\<lambda>(u, _, _). subscribe org to' u) ?rows ?subs = relocated ids to' ?subs"
    unfolding all relocated_def by (auto intro!: map_cong)
  have same: "relocated ids to' ?subs = ?subs" if "?rows = []"
    using that unfolding relocated_def by (intro map_idI) (auto simp: filter_empty_conv)
  show "t' = t\<lparr>su_subscriptions := relocated ids to' ?subs\<rparr>"
    using assms(3) relocate same by (auto simp: bulkMoveUsers_def Let_def split: if_splits)
  have "to' \<notin> (\<lambda>(u, c, n). c) ` set ?rows" using assms(2) by auto
  from present_moves [OF this, of v c p]
  have "present v c (fold (move_presence to') ?rows p) \<longleftrightarrow> c = to' \<and> in_channels ids v ?subs
      \<or> present v c p \<and> \<not> (c \<in> set ids \<and> (v, org, c) \<in> set ?subs)" unfolding users moved .
  moreover have "p' = fold (move_presence to') ?rows p"
    using assms(3) by (auto simp: bulkMoveUsers_def Let_def split: if_splits)
  ultimately show "present v c p' \<longleftrightarrow> c = to' \<and> in_channels ids v ?subs
      \<or> present v c p \<and> \<not> (c \<in> set ids \<and> (v, org, c) \<in> set ?subs)" by simp
qed

section \<open>What the end does\<close>

lemma end_target_channel:
  assumes "end_target fresh org ev n debrief t = (target, evs, t1)" "debrief \<or> lobby org t \<noteq> None"
    and "distinct (map fst (su_channels t))" "fresh (su_serial t) \<notin> fst ` set (su_channels t)"
  obtains c title where "target = Some (c, title)" "c \<notin> set (event_channel_ids ev t)"
    "event_channel_ids ev t1 = event_channel_ids ev t @ (if debrief then [c] else [])" "al_get (su_channels t1) c \<noteq> None"
    "su_subscriptions t1 = su_subscriptions t" "su_events t1 = su_events t"
proof (cases debrief)
  case True
  let ?c = "fresh (su_serial t)"
  have "?c \<notin> set (event_channel_ids ev t)" using assms(4) by (auto simp: event_channel_ids_def image_iff)
  moreover have "al_get (su_channels t @ [(?c, x)]) ?c = Some x" for x
    using assms(4) unfolding al_get_None [symmetric] by (simp add: al_get_append)
  ultimately show thesis using True assms(1)
    by (intro that [of ?c "take 32 (''DEBRIEF: '' @ n)"])
      (auto simp: end_target_def Let_def case_prod_beta event_channel_ids_def event_channel_def)
next
  case False
  then obtain c x where l: "lobby org t = Some (c, x)" using assms(2) by force
  then have x: "(c, x) \<in> set (su_channels t)" "oc_event x = None"
    unfolding lobby_def by (auto dest: find_SomeD)
  have "c \<notin> set (event_channel_ids ev t)"
    using x assms(3) by (auto simp: event_channel_ids_def dest: eq_key_imp_eq_value)
  moreover have "al_get (su_channels t) c \<noteq> None" using x(1) assms(3) by (auto simp: distinct_get)
  ultimately show thesis using False assms(1) l by (intro that [of c "oc_name x"]) (auto simp: end_target_def)
qed

text \<open>What the timers that are due within a delay have deleted.\<close>

definition elapsed :: "int \<Rightarrow> string \<Rightarrow> cleanup_timer list \<Rightarrow> signups \<Rightarrow> signups" where
  "elapsed ms org due t = fold (\<lambda>x s. if fst x \<le> ms then snd (cleanup org x s) else s) due t"

lemma bulkMove_none: "bulkMoveUsers names org [] to' s = ([], s)"
  by (simp add: bulkMoveUsers_def Let_def case_prod_beta)

lemma endOperation_form:
  assumes "endOperation fresh names org ev mode (Some u) (p, t) = (Answered msg, evs, due, p', t')"
  obtains e :: op_event and target evs1 t1 where "end_target fresh org ev (oe_name e) (mode = ''debrief'') t = (target, evs1, t1)"
    "\<forall>c title. target = Some (c, title) \<longrightarrow> (\<exists>evs2 t2. bulkMoveUsers names org (event_channel_ids ev t) c (p, t1) = (evs2, p', t2)
       \<and> t' = update_event ev (\<lambda>x. x\<lparr>oe_launched := False, oe_ended := True\<rparr>) t2
       \<and> due = (if event_channel_ids ev t = [] then [] else [(8000, event_channel_ids ev t, None)])
          @ (if mode = ''debrief'' then [(45 * 60000, [c], Some c)] else []))"
    "ended_event org ev (mode = ''debrief'') target \<in> set evs"
proof -
  obtain e where e: "al_get (su_events t) ev = Some e"
    using assms by (auto simp: endOperation_def Let_def split: if_splits option.splits)
  obtain target evs1 t1 where target: "end_target fresh org ev (oe_name e) (mode = ''debrief'') t = (target, evs1, t1)"
    by (metis prod.exhaust)
  show thesis
  proof (rule that [OF target], intro allI impI)
    fix c title assume "target = Some (c, title)"
    then show "\<exists>evs2 t2. bulkMoveUsers names org (event_channel_ids ev t) c (p, t1) = (evs2, p', t2)
       \<and> t' = update_event ev (\<lambda>x. x\<lparr>oe_launched := False, oe_ended := True\<rparr>) t2
       \<and> due = (if event_channel_ids ev t = [] then [] else [(8000, event_channel_ids ev t, None)])
          @ (if mode = ''debrief'' then [(45 * 60000, [c], Some c)] else [])"
      using assms e target by (cases "bulkMoveUsers names org (event_channel_ids ev t) c (p, t1)")
        (auto simp: endOperation_def Let_def bulkMove_none split: if_splits prod.splits)
  next
    show "ended_event org ev (mode = ''debrief'') target \<in> set evs"
      using assms e target by (auto simp: endOperation_def Let_def split: if_splits prod.splits)
  qed
qed

lemma update_event_channels [simp]:
  "su_channels (update_event ev f t) = su_channels t" "su_subscriptions (update_event ev f t) = su_subscriptions t"
  by (simp_all add: update_event_def)

lemma al_get_filter_key: "i \<notin> set ids \<Longrightarrow> al_get (filter (\<lambda>(i, c). i \<notin> set ids) cs) i = al_get cs i"
  by (induction cs) (auto split: if_splits)

lemma delete_channels_ids:
  "event_channel_ids ev (delete_channels ids t) = filter (\<lambda>i. i \<notin> set ids) (event_channel_ids ev t)"
  "i \<notin> set ids \<Longrightarrow> al_get (su_channels (delete_channels ids t)) i = al_get (su_channels t) i"
proof -
  show "event_channel_ids ev (delete_channels ids t) = filter (\<lambda>i. i \<notin> set ids) (event_channel_ids ev t)"
    by (auto simp: event_channel_ids_def delete_channels_def filter_map comp_def case_prod_beta conj_commute)
  show "al_get (su_channels (delete_channels ids t)) i = al_get (su_channels t) i" if "i \<notin> set ids"
    using that al_get_filter_key [of i ids "su_channels t"] by (simp add: delete_channels_def)
qed

lemma elapsed_cleanup:
  "elapsed 8000 org ((if ids = [] then [] else [(8000, ids, None)]) @ (if debrief then [(45 * 60000, [c], Some c)] else [])) t
     = delete_channels ids t"
  by (simp add: elapsed_def cleanup_def delete_channels_def)

text \<open>C29: the end of an operation moves everyone out of its channels and nobody else: with a destination, each member subscribed to one of
  the operation's channels is subscribed to the announced destination afterwards, and is in its presence map
  and in no old channel's; all others stay where they are.  Once the timers of the grace period ran the operation has no channel left but
  a debrief's, and the destination still exists.\<close>

theorem end_moves_everyone:
  assumes "endOperation fresh names org ev mode (Some u) (p, t) = (Answered msg, evs, due, p', t')"
    and "mode = ''debrief'' \<or> lobby org t \<noteq> None" "subscriptions_ok org (event_channel_ids ev t) (su_subscriptions t)"
    and "distinct (map fst (su_channels t))" "fresh (su_serial t) \<notin> fst ` set (su_channels t)"
  shows "\<exists>c title. ended_event org ev (mode = ''debrief'') (Some (c, title)) \<in> set evs \<and> c \<notin> set (event_channel_ids ev t)
    \<and> su_subscriptions t' = relocated (event_channel_ids ev t) c (su_subscriptions t)
    \<and> (\<forall>v d. present v d p' \<longleftrightarrow> d = c \<and> in_channels (event_channel_ids ev t) v (su_subscriptions t)
         \<or> present v d p \<and> \<not> (d \<in> set (event_channel_ids ev t) \<and> (v, org, d) \<in> set (su_subscriptions t)))
    \<and> event_channel_ids ev (elapsed 8000 org due t') = (if mode = ''debrief'' then [c] else [])
    \<and> al_get (su_channels (elapsed 8000 org due t')) c \<noteq> None"
proof -
  let ?ids = "event_channel_ids ev t" and ?debrief = "mode = ''debrief''"
  obtain e :: op_event and target evs1 t1 where end_form: "end_target fresh org ev (oe_name e) ?debrief t = (target, evs1, t1)"
      "\<forall>c title. target = Some (c, title) \<longrightarrow> (\<exists>evs2 t2. bulkMoveUsers names org ?ids c (p, t1) = (evs2, p', t2)
       \<and> t' = update_event ev (\<lambda>x. x\<lparr>oe_launched := False, oe_ended := True\<rparr>) t2
       \<and> due = (if ?ids = [] then [] else [(8000, ?ids, None)]) @ (if ?debrief then [(45 * 60000, [c], Some c)] else []))"
      "ended_event org ev ?debrief target \<in> set evs"
    using assms(1) by (rule endOperation_form)
  obtain c title where c: "target = Some (c, title)" "c \<notin> set ?ids"
      "event_channel_ids ev t1 = ?ids @ (if ?debrief then [c] else [])" "al_get (su_channels t1) c \<noteq> None"
      "su_subscriptions t1 = su_subscriptions t"
    using end_target_channel [OF end_form(1) assms(2,4,5)] by metis
  obtain evs2 t2 where move: "bulkMoveUsers names org ?ids c (p, t1) = (evs2, p', t2)"
      and t': "t' = update_event ev (\<lambda>x. x\<lparr>oe_launched := False, oe_ended := True\<rparr>) t2"
      and due: "elapsed 8000 org due t' = delete_channels ?ids t'"
    using end_form(2) [rule_format, OF c(1)] elapsed_cleanup by metis
  note effect = bulkMoveUsers_effect [OF assms(3) [folded c(5)] c(2) move, unfolded c(5)]
  have chans: "su_channels t' = su_channels t1" by (simp add: t' effect(1))
  have "event_channel_ids ev t' = ?ids @ (if ?debrief then [c] else [])"
    using c(3) chans by (simp add: event_channel_ids_def)
  then have "event_channel_ids ev (elapsed 8000 org due t') = (if ?debrief then [c] else [])"
    using c(2) by (simp add: due delete_channels_ids(1))
  moreover have "al_get (su_channels (elapsed 8000 org due t')) c \<noteq> None"
    using c(2,4) by (simp add: due delete_channels_ids(2) chans)
  ultimately show ?thesis
    using end_form(3) c(1,2) effect by (intro exI [of _ c] exI [of _ title]) (simp add: t')
qed

definition toy_over :: signups where
  "toy_over = snd (snd (launchEvent (\<lambda>n. replicate n CHR ''x'') ''o1'' ''e1'' (Some ''boss'')
      (toy_ops\<lparr>su_serial := 1\<rparr>)))\<lparr>su_subscriptions := [(''ann'', ''o1'', ''xx''), (''ben'', ''o1'', ''other'')]\<rparr>"

lemma toy_over_facts:
  "event_channel_ids ''e1'' toy_over = [''x'', ''xx'', ''xxx'']"
  "su_subscriptions toy_over = [(''ann'', ''o1'', ''xx''), (''ben'', ''o1'', ''other'')]"
  "distinct (map fst (su_channels toy_over))" "replicate (su_serial toy_over) CHR ''x'' \<notin> fst ` set (su_channels toy_over)"
  by code_simp+

definition toy_end :: "sign_answer \<times> (string \<times> jsval) list \<times> cleanup_timer list \<times> presence \<times> signups" where
  "toy_end = endOperation (\<lambda>n. replicate n CHR ''x'') id ''o1'' ''e1'' ''debrief'' (Some ''boss'')
     ([(''xx'', [(''ann'', ''Ann'')])], toy_over)"

lemma toy_end_answer: "fst toy_end = Answered ''Operation ended''"
  by code_simp

lemma end_moves_everyone_witness:
  "\<exists>c title. ended_event ''o1'' ''e1'' True (Some (c, title)) \<in> set (fst (snd toy_end)) \<and> c \<notin> {''x'', ''xx'', ''xxx''}
    \<and> su_subscriptions (snd (snd (snd (snd toy_end)))) = [(''ann'', ''o1'', c), (''ben'', ''o1'', ''other'')]
    \<and> event_channel_ids ''e1'' (elapsed 8000 ''o1'' (fst (snd (snd toy_end))) (snd (snd (snd (snd toy_end))))) = [c]"
proof -
  have form: "endOperation (\<lambda>n. replicate n CHR ''x'') id ''o1'' ''e1'' ''debrief'' (Some ''boss'')
      ([(''xx'', [(''ann'', ''Ann'')])], toy_over)
      = (Answered ''Operation ended'', fst (snd toy_end), fst (snd (snd toy_end)), fst (snd (snd (snd toy_end))), snd (snd (snd (snd toy_end))))"
    using toy_end_answer unfolding toy_end_def by (metis prod.collapse)
  have ok: "subscriptions_ok ''o1'' (event_channel_ids ''e1'' toy_over) (su_subscriptions toy_over)"
    by (simp add: toy_over_facts subscriptions_ok_def)
  from end_moves_everyone [OF form disjI1 [OF refl] ok toy_over_facts(3,4)]
  show ?thesis by (auto simp: toy_over_facts relocated_def)
qed

text \<open>\<open>launched\<close> is read before the transaction: two launches that read it before either writes both make a tree, and the groups
  are linked to the second only.\<close>

definition toy_write :: "signups \<Rightarrow> signups" where
  "toy_write t = snd (snd (snd (launch_write (\<lambda>n. replicate n CHR ''x'') ''o1'' ''e1'' ''raid''
     (or_else (sort_groups 3 (event_rows ''e1'' toy_ops) (event_rows ''e1'' toy_ops) []) []) t)))"

lemma launched_twice:
  "event_channel_ids ''e1'' (toy_write (toy_write (toy_ops\<lparr>su_serial := 1\<rparr>))) = [''x'', ''xx'', ''xxx'', ''xxxx'', ''xxxxx'', ''xxxxxx'']"
  "map (\<lambda>(i, g). gp_channel g) (event_rows ''e1'' (toy_write (toy_write (toy_ops\<lparr>su_serial := 1\<rparr>)))) = [Some ''xxxxx'', Some ''xxxxxx'']"
  by code_simp+

text \<open>A group that is its own ancestor stops the launch: the sort never returns.\<close>

definition toy_cycle :: signups where
  "toy_cycle = toy_ops\<lparr>su_groups := [(''g1'', toy_group ''e1'' ''Alpha'' (Some ''g1''))]\<rparr>"

lemma parent_cycle_blocks_launch:
  "fst (launchEvent (\<lambda>n. replicate n CHR ''x'') ''o1'' ''e1'' (Some ''boss'') toy_cycle) = Denied 500 ''Server error''"
  "su_channels (snd (snd (launchEvent (\<lambda>n. replicate n CHR ''x'') ''o1'' ''e1'' (Some ''boss'') toy_cycle))) = []"
  by code_simp+

end
