(* ===== verification/Spec2Isabelle.thy ===== *)
theory Spec2Isabelle
  imports Message_Store Mls_Message_Props Chat_Engine_Props Mls_Server_Props Relay_Audio_Props Event_Contracts Event_Groups_Props Auth_Device_Service Billing_Props Relay_Props Event_End_Props
begin

text \<open>
  SpecterComs: the core of an end-to-end encrypted voice and chat system.

  The program.  A client (\<open>src/web-portal/src\<close>, run in a browser or inside the desktop shell
  \<open>src/web-portal/src-tauri\<close>) keeps one MLS device per account, encrypts every chat message and
  every voice frame with the group state of its channel, and stores the readable history
  locally.  The identity service (\<open>src/services/identity-node/src\<close>) owns accounts, organisations,
  events and their channels, orders the commits of each MLS group, relays ciphertext over an event
  stream and takes money.  It never sees a plaintext: what a device needs to read a message it gets from
  its own state, from the service's commit log, or from another member's backfill.

  How the parts interact.  A message is encrypted by the MLS session (\<open>mlsSession.js\<close>), posted to the
  service, relayed, decrypted by the receiver's MLS session on the chain of the delivery engine
  (\<open>useChannelChat.js\<close>), merged by the rules of the chat core (\<open>chatSyncCore.js\<close>) and saved by the message
  store (\<open>messageStore.js\<close>).  A device that is behind fetches the commit log of the delivery service
  (\<open>mlsGroupController.ts\<close>) and replays it; a message it missed is asked for from its peers and arrives as a
  JSON bundle.  The sessions of accounts (\<open>authController.ts\<close>, \<open>session.rs\<close>, \<open>tokenStore.js\<close>, \<open>session.js\<close>,
  \<open>api.js\<close>) carry all of it.

  The theories, with the code each models:

  \<^item> \<open>SC_Prelude\<close>: the JavaScript notions shared by all (nullish values as \<open>option\<close>, insertion-ordered
    maps as association lists, the stable sort with a comparator, string helpers) and the facts about them.
    \<open>Js_Json\<close>: JavaScript values, \<open>JSON.stringify\<close> and \<open>JSON.parse\<close> with their round trip.
  \<^item> \<open>Chat_Sync\<close>: \<open>engine/chatSyncCore.js\<close>.  \<open>Message_Store\<close>: \<open>messageStore.js\<close>, one table per account and kind.
    The locale \<open>row_merge\<close> is the contract of a merge rule (a readable row is final, the id is kept), interpreted
    for channel and direct messages; \<open>row_store\<close> extends it to whole tables.
  \<^item> \<open>Mls_State\<close>: the device state, its lock, its writer and the durability promises of \<open>mlsSession.js\<close>.
    \<open>Mls_Concurrency\<close>: all interleavings of them as a step relation.  \<open>Mls_Env\<close>: the actions of an \<open>async\<close>
    function, the module \<open>mls-crypto\<close> and the routes as an environment; identity.  \<open>Mls_Groups\<close>: own commits, catch-up,
    joining.  \<open>Mls_Messages\<close>: encryption, decryption, recall of own messages, healing, live handlers.
    \<open>Mls_Group_Props\<close> and \<open>Mls_Message_Props\<close>: what they guarantee.
  \<^item> \<open>Chat_Engine\<close>, \<open>Chat_Engine_Props\<close>: \<open>engine/useChannelChat.js\<close> as jobs of its decrypt, answer and startup chains.
  \<^item> \<open>Event_Access\<close>: \<open>utils/eventChannelAccess.ts\<close>, who may use an event's channel.  \<open>Mls_Server\<close>,
    \<open>Mls_Server_Props\<close>: \<open>controllers/mlsGroupController.ts\<close>, epochs, commit log, catch-up, GroupInfo, devices.
  \<^item> \<open>Relay_Audio\<close>, \<open>Relay_Audio_Props\<close>: \<open>voiceRelayAudio.js\<close>, the audio frame on 32-bit words, the receive keys, lanes and ducking.
  \<^item> \<open>Event_Schema\<close>, \<open>Event_Contracts\<close>: \<open>shared/events/schema.js\<close>, the contract of every pushed event.
  \<^item> \<open>Event_Groups\<close>, \<open>Event_Groups_Props\<close>: \<open>utils/eventGroups.js\<close>, the plan of an operation as an indexed forest.
  \<^item> \<open>Auth_Server\<close>, \<open>Auth_Server_Props\<close>: \<open>authController.ts\<close>, \<open>rateLimit.ts\<close>, \<open>authMiddleware.ts\<close>, \<open>jwtSecret.ts\<close>.
    \<open>Auth_Desktop\<close>: \<open>session.rs\<close>, cut at its awaits.  \<open>Token_Store\<close>: \<open>tokenStore.js\<close>.  \<open>Auth_Session\<close>: \<open>session.js\<close> and
    \<open>fetchWithAuth\<close>.  \<open>Auth_Props\<close>: the locale \<open>token_store\<close> with both stores as interpretations.
    \<open>Auth_Device_Service\<close>: the desktop against the service.
  \<^item> \<open>Calendar\<close>, \<open>Fee_Math\<close>: date arithmetic on months, and the card fee in 53-bit doubles (\<open>utils/feeMath.ts\<close>).
    \<open>Billing\<close>, \<open>Billing_Props\<close>: \<open>billingController.ts\<close>, \<open>utils/billingCredit.ts\<close>, \<open>utils/billingConsumer.ts\<close>,
    \<open>utils/orgTiers.ts\<close>, \<open>routes/stripeWebhook.ts\<close>, \<open>payments/\<close> and the invoices of \<open>adminController.ts\<close>.
    The locale \<open>first_wins\<close> is the contract of a value that the first event decides, interpreted on the webhook.
  \<^item> \<open>Relay_Server\<close>, \<open>Relay_Props\<close>: \<open>messageController.ts\<close>, \<open>dmController.ts\<close>, \<open>sseController.ts\<close> and how
    \<open>useEventStream.js\<close> reads the stream: what is accepted, published, forwarded to whom and read by the client.
  \<^item> \<open>Event_Signups\<close>: \<open>eventsController.ts\<close>, joining and leaving an operation: members, roles, reserved seats, claimed
    hulls, who may manage, with the role names of \<open>scunpackedSync.ts\<close>.  \<open>Event_Roster\<close>, \<open>Event_Reservations\<close>: the invariants
    of the roster and of the reserved seats.  \<open>Event_Signups_Props\<close>: capacity, and what the sign-ups mean for \<open>Event_Access\<close>.
  \<^item> \<open>Event_Launch\<close>: launching an operation, its channel tree and its end (\<open>launchEvent\<close>, \<open>getEventChannelTree\<close>,
    \<open>endOperation\<close>, and \<open>bulkMoveUsers\<close> of \<open>channelController.ts\<close>).  \<open>Event_Launch_Props\<close>, \<open>Event_End_Props\<close>: what they do.

  State and operations.  Each component's module variables are one record (\<open>session\<close> for \<open>mlsSession.js\<close>, \<open>server\<close>
  for the delivery service, \<open>auth_db\<close> for accounts, ...), and each function of the code is a definition of the
  same name that takes and returns it.  A handler of a request is a function from the tables to an answer and the
  tables; a database transaction is one step.  An \<open>await\<close> is a place where other work runs: where a claim
  depends on it the code is cut there, into the steps of a relation or into the parts before and after,
  with any state in between; where the code holds a lock the parts are one action of the environment monad.
  Errors are values (\<open>Inl\<close>) with the code's messages and HTTP statuses.  \<open>null\<close> and \<open>undefined\<close> are both
  \<open>None\<close> except where the code tells them apart.  Strings are lists of UTF-16 code units up to 255;
  numbers are \<open>int\<close> where the code's values stay below 2 to the 53 and 32-bit words in the audio frame.

  Arguments of the model.  The WASM module, hashes, ciphers and signatures, the JWT library, the clock, random
  identifiers, the collation of \<open>localeCompare\<close> and the network are arguments.  What is relied on is a named
  hypothesis of the theorem (for instance \<open>commit_chain\<close>: applying the commit of an epoch leads from its state to
  the next), and a witness instantiates it with a concrete function.

  What the lemmas show.  The MLS group: own commits are adopted exactly when accepted, the lock is fair, no update
  is lost, durability promises are kept and settle, the log has one commit per epoch, and a device that was offline
  reaches the service's epoch.  Messages: ciphertext only after the ratchet is durable, a readable row is
  final, a backfill bundle is read as it was written and within its byte budget.  Sessions: one live token per login,
  the response to theft, the replay of a lost answer, and a device that survives any losses within the window.
  Money: pool, ledger and credited contributions agree along any run, a charge is the least that nets the amount, a
  status shows the current cycle, and what a declined attempt and a start between two milliseconds break.
  Audio: fail-closed playing, keys freed once, the frame's round trip.  Plans: the forest, and the save's order.
  Relay: a message reaches the members' streams, a backfill stays in the channel's audience, and what is published conforms to the
  contract.  Operations: refused sign-ups leave no trace, the roster has one row per member and one claim per hull, seats
  stay within capacity, a launch mirrors the plan, and its end moves everyone out.
  The properties of kind \<open>error\<close> describe what the code does where it fails, some of them a defect of it: these
  are the findings of the manifest.

  Bounds and fuel.  \<open>Js_Json\<close> parses with fuel, and the length of the text is shown to be enough for everything that
  \<open>stringify\<close> wrote.  The depth of a group (\<open>computeDepth\<close>) recurses to its parent with fuel; on a forest the number of
  groups is enough (\<open>depth_returns\<close>).  The sort and the tiers of a launch recurse to the parent too, with one more than the number of
  groups, which a forest never uses up (\<open>launch_sort\<close>, \<open>tier_of\<close>); running out stands for the overflow of the stack.  A catch-up request splits its channels into batches of 500 with their number as
  fuel.  A
  decryption catches up at most as often as the code's counter says.  The frame decoder is a partial function, since it can
  fail to return, and its total behaviour on encoded frames is proved.  The retry window of a
  refresh is the code's 60 seconds, in the milliseconds of the clock.

  Not modelled.  React components (\<open>*.jsx\<close> and the hooks that only hold their state) draw and forward: their
  decisions live in the modules above.  The media service (\<open>services/media-rust\<close>) and the desktop shell outside
  \<open>session.rs\<close> are Rust around sockets and the operating system.  \<open>proto.js\<close>, \<open>proto.cjs\<close> and \<open>mls-crypto/pkg\<close>
  are generated.  Controllers that read and write one table row for a form (friends, hangar, game data, push,
  reports, administration, the forms, presets and map layouts of events) have no state of their own beyond the database's.  Log lines, timers that only
  repaint and the text of e-mails are left out.
\<close>

section \<open>The device and the delivery service together\<close>

text \<open>C7: a device that was offline catches up with the delivery service: whatever interleaving of requests produced the log,
  a device whose copy of the group is at some earlier epoch walks the served log to the service's
  current epoch and is not reported as diverged.\<close>

theorem device_reaches_service:
  assumes "server_run buf ops t" "commit_chain e gid state commit n0 (nat (gr_epoch (group_of t g)))"
    and "w_group_exists e (state n0) gid = Inr True" "int n0 \<le> gr_epoch (group_of t g)"
    and "list_all (\<lambda>(n, c). buf c = toB64 (commit (nat n))) (commits_of g ops)"
  shows "catchup_walk e gid (fetchGroupCatchUp g u t t) (state n0)
      = Inr (state (nat (gr_epoch (group_of t g))), int n0 < gr_epoch (group_of t g), Some (gr_epoch (group_of t g)))
    \<and> \<not> cs_diverged (catchup_status (fetchGroupCatchUp g u t t) (Some (gr_epoch (group_of t g))))"
proof -
  let ?n = "gr_epoch (group_of t g)"
  let ?data = "fetchGroupCatchUp g u t t"
  have ok: "service_ok buf ops t g" by (rule run_service_ok [OF assms(1)])
  then have n: "?n \<ge> 0" "map fst (commits_of g ops) = [1..?n]" by (simp_all add: service_ok_def)
  have "cu_commits ?data = map (\<lambda>(m, c). (m, buf c)) (commits_of g ops)" by (rule served_log [OF assms(1)])
  also have "\<dots> = map (\<lambda>(m, c). (m, toB64 (commit (nat m)))) (commits_of g ops)"
    using assms(5) by (auto simp: list_all_iff)
  also have "\<dots> = map (\<lambda>m. (m, toB64 (commit (nat m)))) (map fst (commits_of g ops))"
    by (simp add: case_prod_beta)
  finally have c: "cu_commits ?data = map (\<lambda>m. (m, toB64 (commit (nat m)))) [1..?n]" unfolding n(2) .
  have "distinct (cu_commits ?data)" unfolding c by (simp add: distinct_map inj_on_def)
  moreover have "set (cu_commits ?data) = logged commit ` set [Suc 0..<Suc (nat ?n)]"
  proof -
    have "{1..?n} = int ` {Suc 0..<Suc (nat ?n)}"
    proof (intro set_eqI iffI)
      fix m assume "m \<in> {1..?n}"
      then show "m \<in> int ` {Suc 0..<Suc (nat ?n)}" by (intro image_eqI [of _ _ "nat m"]) auto
    qed auto
    then show ?thesis unfolding c by (simp add: image_image logged_def del: upt_Suc)
  qed
  ultimately show ?thesis
    using walk_reaches_server [OF assms(2,3), of 0 ?data] assms(4) served_log(2) [OF assms(1), of g u t] n(1)
    by (simp add: nat_le_iff zless_nat_eq_int_zless)
qed

lemma toy_epoch: "gr_epoch (group_of toy_served ''c1'') = 1"
  by (simp add: group_of_def)

lemma toy_commit: "toB64 [char_of (Suc 0)] = ''AQ==''"
  by (simp add: toB64_def b64_char_def b64_alphabet_def)

lemma device_reaches_service_witness:
  "catchup_walk toy_env ''c1'' (fetchGroupCatchUp ''c1'' ''bob'' toy_served toy_served) (toy_at 0)
      = Inr (toy_at (nat (gr_epoch (group_of toy_served ''c1''))), int 0 < gr_epoch (group_of toy_served ''c1''),
             Some (gr_epoch (group_of toy_served ''c1'')))
    \<and> \<not> cs_diverged (catchup_status (fetchGroupCatchUp ''c1'' ''bob'' toy_served toy_served) (Some (gr_epoch (group_of toy_served ''c1''))))"
proof (rule device_reaches_service [OF toy_run])
  show "commit_chain toy_env ''c1'' toy_at (\<lambda>k. [char_of k]) 0 (nat (gr_epoch (group_of toy_served ''c1'')))"
    by (simp add: toy_epoch commit_chain_def toy_at_def toy_defs upt_rec)
  show "w_group_exists toy_env (toy_at 0) ''c1'' = Inr True" by (simp add: toy_at_def toy_defs al_has_def)
  show "int 0 \<le> gr_epoch (group_of toy_served ''c1'')" by (simp add: toy_epoch)
  show "list_all (\<lambda>(n, c). id c = toB64 [char_of (nat n)]) (commits_of ''c1'' [Commit_op ''c1'' 1 ''AQ=='' (Some ''aQ=='')])"
    by (simp add: toy_commit)
qed

end
